(* ===== verification/Elysia_Prelude.thy ===== *)
theory Elysia_Prelude
  imports Main "HOL-Library.Sublist"
begin

text \<open>
  Shared material of the development: the exceptions the backend throws, the state and
  exception monad its handlers are written in, a Hoare calculus for it, and the string
  functions of the JavaScript library the code uses.

  A handler of the source is an asynchronous method that reads and writes the database,
  calls the daemon of a node, and may throw. Here it is a function from a state to an
  exception or a result, with the state after it: the writes made before an exception
  persist, as they do in the source outside a transaction.
\<close>

named_theorems keeps_intros "rules that show that a program keeps an invariant"
named_theorems hoare_intros "rules for Hoare triples"
named_theorems prog_simps "evaluation of the program combinators"

subsection \<open>Exceptions\<close>

text \<open>
  The exception classes of NestJS the code throws, each with its message, the known
  request errors of the database client with their code (P2002 unique constraint, P2003
  foreign key, P2025 record not found), and any other JavaScript error with its message.
  The messages of the source are in French; they are written here without accents, since
  a character of HOL is a byte.
\<close>

datatype exn =
    BadRequestException string
  | UnauthorizedException string
  | ForbiddenException string
  | NotFoundException string
  | ConflictException string
  | PrismaError string
  | JsError string

fun exn_message :: "exn \<Rightarrow> string" where
  "exn_message (BadRequestException m) = m"
| "exn_message (UnauthorizedException m) = m"
| "exn_message (ForbiddenException m) = m"
| "exn_message (NotFoundException m) = m"
| "exn_message (ConflictException m) = m"
| "exn_message (PrismaError m) = m"
| "exn_message (JsError m) = m"

abbreviation P2002 :: exn where "P2002 \<equiv> PrismaError ''P2002''"
abbreviation P2003 :: exn where "P2003 \<equiv> PrismaError ''P2003''"
abbreviation P2025 :: exn where "P2025 \<equiv> PrismaError ''P2025''"

subsection \<open>The program monad\<close>

type_synonym ('s, 'a) prog = "'s \<Rightarrow> (exn + 'a) \<times> 's"

definition ret :: "'a \<Rightarrow> ('s, 'a) prog" where
  "ret x = (\<lambda>s. (Inr x, s))"

definition throw :: "exn \<Rightarrow> ('s, 'a) prog" where
  "throw e = (\<lambda>s. (Inl e, s))"

definition bnd :: "('s, 'a) prog \<Rightarrow> ('a \<Rightarrow> ('s, 'b) prog) \<Rightarrow> ('s, 'b) prog" where
  "bnd m f = (\<lambda>s. case m s of (Inl e, t) \<Rightarrow> (Inl e, t) | (Inr x, t) \<Rightarrow> f x t)"

definition andThen :: "('s, 'a) prog \<Rightarrow> ('s, 'b) prog \<Rightarrow> ('s, 'b) prog" where
  "andThen m k = bnd m (\<lambda>_. k)"

definition gets :: "('s \<Rightarrow> 'a) \<Rightarrow> ('s, 'a) prog" where
  "gets f = (\<lambda>s. (Inr (f s), s))"

definition modify :: "('s \<Rightarrow> 's) \<Rightarrow> ('s, unit) prog" where
  "modify f = (\<lambda>s. (Inr (), f s))"

text \<open>The guard \<open>if (c) throw e\<close>.\<close>

definition throwIf :: "bool \<Rightarrow> exn \<Rightarrow> ('s, unit) prog" where
  "throwIf c e = (if c then throw e else ret ())"

text \<open>\<open>try m catch (e) h\<close> and \<open>try m finally f\<close>: an exception of the
  \<open>finally\<close> block replaces the outcome of the body.\<close>

definition tryCatch :: "('s, 'a) prog \<Rightarrow> (exn \<Rightarrow> ('s, 'a) prog) \<Rightarrow> ('s, 'a) prog" where
  "tryCatch m h = (\<lambda>s. case m s of (Inl e, t) \<Rightarrow> h e t | (Inr x, t) \<Rightarrow> (Inr x, t))"

definition tryFinally :: "('s, 'a) prog \<Rightarrow> ('s, unit) prog \<Rightarrow> ('s, 'a) prog" where
  "tryFinally m f = (\<lambda>s. case m s of (r, t) \<Rightarrow>
     (case f t of (Inl e, u) \<Rightarrow> (Inl e, u) | (Inr _, u) \<Rightarrow> (r, u)))"

text \<open>\<open>for (const x of xs) body(x)\<close>.\<close>

primrec forEach :: "'a list \<Rightarrow> ('a \<Rightarrow> ('s, unit) prog) \<Rightarrow> ('s, unit) prog" where
  "forEach [] body = ret ()"
| "forEach (x # xs) body = andThen (body x) (forEach xs body)"

text \<open>A loop that carries a local variable.\<close>

primrec foldEach :: "'a list \<Rightarrow> 'b \<Rightarrow> ('a \<Rightarrow> 'b \<Rightarrow> ('s, 'b) prog) \<Rightarrow> ('s, 'b) prog" where
  "foldEach [] acc body = ret acc"
| "foldEach (x # xs) acc body = bnd (body x acc) (\<lambda>acc'. foldEach xs acc' body)"

lemma ret_apply [prog_simps]: "ret x s = (Inr x, s)"
  by (simp add: ret_def)

lemma throw_apply [prog_simps]: "throw e s = (Inl e, s)"
  by (simp add: throw_def)

lemma gets_apply [prog_simps]: "gets f s = (Inr (f s), s)"
  by (simp add: gets_def)

lemma modify_apply [prog_simps]: "modify f s = (Inr (), f s)"
  by (simp add: modify_def)

lemma bnd_apply [prog_simps]:
  "bnd m f s = (case m s of (Inl e, t) \<Rightarrow> (Inl e, t) | (Inr x, t) \<Rightarrow> f x t)"
  by (simp add: bnd_def)

lemma andThen_apply [prog_simps]:
  "andThen m k s = (case m s of (Inl e, t) \<Rightarrow> (Inl e, t) | (Inr x, t) \<Rightarrow> k t)"
  by (simp add: andThen_def bnd_def)

lemma throwIf_apply [prog_simps]:
  "throwIf c e s = (if c then (Inl e, s) else (Inr (), s))"
  by (simp add: throwIf_def throw_def ret_def)

lemma tryCatch_apply [prog_simps]:
  "tryCatch m h s = (case m s of (Inl e, t) \<Rightarrow> h e t | (Inr x, t) \<Rightarrow> (Inr x, t))"
  by (simp add: tryCatch_def)

lemma tryFinally_apply [prog_simps]:
  "tryFinally m f s = (case m s of (r, t) \<Rightarrow>
     (case f t of (Inl e, u) \<Rightarrow> (Inl e, u) | (Inr _, u) \<Rightarrow> (r, u)))"
  by (simp add: tryFinally_def)

lemma bnd_Inr:
  "bnd m f s = (Inr y, u) \<longleftrightarrow> (\<exists>x t. m s = (Inr x, t) \<and> f x t = (Inr y, u))"
  by (auto simp: bnd_def split: prod.splits sum.splits)

lemma bnd_Inl:
  "bnd m f s = (Inl e, u) \<longleftrightarrow>
     m s = (Inl e, u) \<or> (\<exists>x t. m s = (Inr x, t) \<and> f x t = (Inl e, u))"
  by (auto simp: bnd_def split: prod.splits sum.splits)

lemma andThen_Inr:
  "andThen m k s = (Inr y, u) \<longleftrightarrow> (\<exists>x t. m s = (Inr x, t) \<and> k t = (Inr y, u))"
  by (simp add: andThen_def bnd_Inr)

lemma throwIf_Inr: "throwIf c e s = (Inr x, t) \<longleftrightarrow> \<not> c \<and> t = s"
  by (auto simp: throwIf_apply)

lemma bnd_assoc: "bnd (bnd m f) g = bnd m (\<lambda>x. bnd (f x) g)"
  by (auto simp: bnd_def fun_eq_iff split: prod.splits sum.splits)

subsection \<open>Hoare triples\<close>

text \<open>
  \<open>triple P m Q E\<close>: started in a state of \<open>P\<close>, a run of \<open>m\<close> that returns \<open>x\<close> ends in
  \<open>Q x\<close>, and one that throws \<open>e\<close> ends in \<open>E e\<close>. Programs are total, so this is total
  correctness. \<open>keeps J m\<close> is the triple of an invariant, whatever the outcome.
\<close>

definition triple ::
  "('s \<Rightarrow> bool) \<Rightarrow> ('s, 'a) prog \<Rightarrow> ('a \<Rightarrow> 's \<Rightarrow> bool) \<Rightarrow> (exn \<Rightarrow> 's \<Rightarrow> bool) \<Rightarrow> bool" where
  "triple P m Q E \<longleftrightarrow>
     (\<forall>s. P s \<longrightarrow> (case m s of (Inr x, t) \<Rightarrow> Q x t | (Inl e, t) \<Rightarrow> E e t))"

definition keeps :: "('s \<Rightarrow> bool) \<Rightarrow> ('s, 'a) prog \<Rightarrow> bool" where
  "keeps J m \<longleftrightarrow> (\<forall>s. J s \<longrightarrow> J (snd (m s)))"

lemma tripleI:
  "(\<And>s x t. P s \<Longrightarrow> m s = (Inr x, t) \<Longrightarrow> Q x t) \<Longrightarrow>
   (\<And>s e t. P s \<Longrightarrow> m s = (Inl e, t) \<Longrightarrow> E e t) \<Longrightarrow> triple P m Q E"
  by (auto simp: triple_def split: prod.splits sum.splits)

lemma tripleD: "triple P m Q E \<Longrightarrow> P s \<Longrightarrow> m s = (Inr x, t) \<Longrightarrow> Q x t"
  by (auto simp: triple_def split: prod.splits sum.splits)

lemma tripleD_exn: "triple P m Q E \<Longrightarrow> P s \<Longrightarrow> m s = (Inl e, t) \<Longrightarrow> E e t"
  by (auto simp: triple_def split: prod.splits sum.splits)

lemma keeps_iff_triple: "keeps J m \<longleftrightarrow> triple J m (\<lambda>_. J) (\<lambda>_. J)"
  by (simp add: keeps_def triple_def split_beta)

lemma keepsI: "(\<And>s. J s \<Longrightarrow> J (snd (m s))) \<Longrightarrow> keeps J m"
  by (simp add: keeps_def)

lemma keepsD: "keeps J m \<Longrightarrow> J s \<Longrightarrow> m s = (r, t) \<Longrightarrow> J t"
  by (metis keeps_def snd_conv)

lemma triple_keeps: "triple J m (\<lambda>_. J) (\<lambda>_. J) \<Longrightarrow> keeps J m"
  by (simp add: keeps_iff_triple)

lemma triple_pre: "triple P' m Q E \<Longrightarrow> (\<And>s. P s \<Longrightarrow> P' s) \<Longrightarrow> triple P m Q E"
  by (simp add: triple_def)

lemma triple_bnd:
  "triple P m R E \<Longrightarrow> (\<And>x. triple (R x) (f x) Q E) \<Longrightarrow> triple P (bnd m f) Q E"
  by (fastforce simp: triple_def bnd_def split: prod.splits sum.splits)

lemma triple_ret: "(\<And>s. P s \<Longrightarrow> Q x s) \<Longrightarrow> triple P (ret x) Q E"
  by (simp add: triple_def ret_def)

lemma triple_throw: "(\<And>s. P s \<Longrightarrow> E e s) \<Longrightarrow> triple P (throw e) Q E"
  by (simp add: triple_def throw_def)

lemma triple_throwIf:
  "(\<And>s. P s \<Longrightarrow> \<not> c \<Longrightarrow> Q () s) \<Longrightarrow> (\<And>s. P s \<Longrightarrow> c \<Longrightarrow> E e s) \<Longrightarrow>
   triple P (throwIf c e) Q E"
  by (simp add: triple_def throwIf_apply)

lemma keeps_ret [keeps_intros]: "keeps J (ret x)"
  by (simp add: keeps_def ret_def)

lemma keeps_throw [keeps_intros]: "keeps J (throw e)"
  by (simp add: keeps_def throw_def)

lemma keeps_gets [keeps_intros]: "keeps J (gets f)"
  by (simp add: keeps_def gets_def)

lemma keeps_throwIf [keeps_intros]: "keeps J (throwIf c e)"
  by (simp add: keeps_def throwIf_apply)

lemma keeps_bnd [keeps_intros]:
  "keeps J m \<Longrightarrow> (\<And>x. keeps J (f x)) \<Longrightarrow> keeps J (bnd m f)"
  by (fastforce simp: keeps_def bnd_def split: prod.splits sum.splits)

lemma keeps_andThen [keeps_intros]: "keeps J m \<Longrightarrow> keeps J k \<Longrightarrow> keeps J (andThen m k)"
  by (simp add: andThen_def keeps_bnd)

lemma keeps_tryCatch [keeps_intros]:
  "keeps J m \<Longrightarrow> (\<And>e. keeps J (h e)) \<Longrightarrow> keeps J (tryCatch m h)"
  by (fastforce simp: keeps_def tryCatch_def split: prod.splits sum.splits)

lemma keeps_tryFinally [keeps_intros]:
  assumes "keeps J m" and "keeps J f"
  shows "keeps J (tryFinally m f)"
proof (rule keepsI)
  fix s assume J: "J s"
  obtain r t where m: "m s = (r, t)" by (cases "m s")
  obtain q u where f: "f t = (q, u)" by (cases "f t")
  have "J u" using keepsD [OF assms(2) keepsD [OF assms(1) J m] f] .
  then show "J (snd (tryFinally m f s))"
    by (cases q) (simp_all add: tryFinally_apply m f)
qed

lemma keeps_if [keeps_intros]:
  "(c \<Longrightarrow> keeps J m) \<Longrightarrow> (\<not> c \<Longrightarrow> keeps J k) \<Longrightarrow> keeps J (if c then m else k)"
  by simp

lemma keeps_case_option [keeps_intros]:
  "(x = None \<Longrightarrow> keeps J m) \<Longrightarrow> (\<And>y. x = Some y \<Longrightarrow> keeps J (f y)) \<Longrightarrow>
   keeps J (case x of None \<Rightarrow> m | Some y \<Rightarrow> f y)"
  by (cases x) auto

lemma keeps_case_prod [keeps_intros]:
  "(\<And>a b. p = (a, b) \<Longrightarrow> keeps J (f a b)) \<Longrightarrow> keeps J (case p of (a, b) \<Rightarrow> f a b)"
  by (cases p) auto

lemma keeps_case_list [keeps_intros]:
  "(xs = [] \<Longrightarrow> keeps J m) \<Longrightarrow> (\<And>y ys. xs = y # ys \<Longrightarrow> keeps J (f y ys)) \<Longrightarrow>
   keeps J (case xs of [] \<Rightarrow> m | y # ys \<Rightarrow> f y ys)"
  by (cases xs) auto

lemma keeps_case_sum [keeps_intros]:
  "(\<And>a. x = Inl a \<Longrightarrow> keeps J (f a)) \<Longrightarrow> (\<And>b. x = Inr b \<Longrightarrow> keeps J (g b)) \<Longrightarrow>
   keeps J (case x of Inl a \<Rightarrow> f a | Inr b \<Rightarrow> g b)"
  by (cases x) auto

lemma keeps_Let [keeps_intros]: "(\<And>y. y = x \<Longrightarrow> keeps J (f y)) \<Longrightarrow> keeps J (Let x f)"
  by simp

lemma keeps_forEach [keeps_intros]:
  "(\<And>x. x \<in> set xs \<Longrightarrow> keeps J (body x)) \<Longrightarrow> keeps J (forEach xs body)"
  by (induction xs) (auto intro!: keeps_intros)

lemma keeps_foldEach [keeps_intros]:
  "(\<And>x a. x \<in> set xs \<Longrightarrow> keeps J (body x a)) \<Longrightarrow> keeps J (foldEach xs acc body)"
  by (induction xs arbitrary: acc) (auto intro!: keeps_intros)

subsection \<open>Strings of the JavaScript library\<close>

text \<open>\<open>s.startsWith(p)\<close> and \<open>s.endsWith(p)\<close> are \<^const>\<open>prefix\<close> and
  \<^const>\<open>suffix\<close> of the library; \<open>s.slice(0, n)\<close> is \<^const>\<open>take\<close>.\<close>

abbreviation startsWith :: "string \<Rightarrow> string \<Rightarrow> bool" where
  "startsWith s p \<equiv> prefix p s"

abbreviation endsWith :: "string \<Rightarrow> string \<Rightarrow> bool" where
  "endsWith s p \<equiv> suffix p s"

text \<open>\<open>s.split(c)\<close> for a one-character separator: never the empty list.\<close>

fun splitOn :: "char \<Rightarrow> string \<Rightarrow> string list" where
  "splitOn c [] = [[]]"
| "splitOn c (x # xs) =
     (if x = c then [] # splitOn c xs
      else (case splitOn c xs of [] \<Rightarrow> [[x]] | w # ws \<Rightarrow> (x # w) # ws))"

fun joinWith :: "string \<Rightarrow> string list \<Rightarrow> string" where
  "joinWith sep [] = []"
| "joinWith sep [w] = w"
| "joinWith sep (w # ws) = w @ sep @ joinWith sep ws"

lemma splitOn_nonempty: "splitOn c s \<noteq> []"
  by (induction s) (auto split: list.splits)

lemma joinWith_splitOn: "joinWith [c] (splitOn c s) = s"
proof (induction s)
  case Nil
  then show ?case by simp
next
  case (Cons x xs)
  obtain w ws where w: "splitOn c xs = w # ws"
    using splitOn_nonempty [of c xs] by (cases "splitOn c xs") auto
  with Cons show ?case by (cases ws) auto
qed

text \<open>\<open>s.lastIndexOf(c)\<close>: \<open>None\<close> stands for -1.\<close>

fun lastIndexOf :: "char \<Rightarrow> string \<Rightarrow> nat option" where
  "lastIndexOf c [] = None"
| "lastIndexOf c (x # xs) =
     (case lastIndexOf c xs of
        Some i \<Rightarrow> Some (Suc i)
      | None \<Rightarrow> if x = c then Some 0 else None)"

lemma lastIndexOf_Some:
  "lastIndexOf c s = Some i \<Longrightarrow>
     i < length s \<and> s = take i s @ c # drop (Suc i) s \<and> c \<notin> set (drop (Suc i) s)"
proof (induction s arbitrary: i)
  case Nil
  then show ?case by simp
next
  case (Cons x xs)
  have none: "lastIndexOf c ys = None \<Longrightarrow> c \<notin> set ys" for ys
    by (induction ys) (auto split: option.splits if_splits)
  show ?case
  proof (cases "lastIndexOf c xs")
    case None
    with Cons.prems none [of xs] show ?thesis by (auto split: if_splits)
  next
    case (Some j)
    with Cons.prems Cons.IH [OF Some] show ?thesis by auto
  qed
qed

text \<open>\<open>n.toString()\<close> of a natural number and \<open>s.padStart(n, c)\<close>.\<close>

definition digit_char :: "nat \<Rightarrow> char" where
  "digit_char d = char_of (48 + d)"

fun show_nat :: "nat \<Rightarrow> string" where
  "show_nat n = (if n < 10 then [digit_char n] else show_nat (n div 10) @ [digit_char (n mod 10)])"

declare show_nat.simps [simp del]

definition show_int :: "int \<Rightarrow> string" where
  "show_int i = (if i < 0 then CHR ''-'' # show_nat (nat (- i)) else show_nat (nat i))"

definition padStart :: "nat \<Rightarrow> char \<Rightarrow> string \<Rightarrow> string" where
  "padStart n c s = replicate (n - length s) c @ s"

definition is_digit :: "char \<Rightarrow> bool" where
  "is_digit c \<longleftrightarrow> 48 \<le> (of_char c :: nat) \<and> (of_char c :: nat) \<le> 57"

definition digit_val :: "char \<Rightarrow> nat" where
  "digit_val c = of_char c - 48"

text \<open>\<open>parseInt(s, 10)\<close> on a string of digits.\<close>

definition parse_nat :: "string \<Rightarrow> nat" where
  "parse_nat s = foldl (\<lambda>n c. 10 * n + digit_val c) 0 s"

lemma of_char_digit_char: "d < 10 \<Longrightarrow> (of_char (digit_char d) :: nat) = 48 + d"
  by (simp add: digit_char_def)

lemma digit_char_is_digit: "d < 10 \<Longrightarrow> is_digit (digit_char d)"
  by (simp add: is_digit_def of_char_digit_char)

lemma digit_val_digit_char: "d < 10 \<Longrightarrow> digit_val (digit_char d) = d"
  by (simp add: digit_val_def of_char_digit_char)

lemma show_nat_digits: "list_all is_digit (show_nat n)"
proof (induction n rule: show_nat.induct)
  case (1 n)
  show ?case
  proof (cases "n < 10")
    case True
    then show ?thesis by (subst show_nat.simps) (simp add: digit_char_is_digit)
  next
    case False
    with "1.IH" show ?thesis
      by (subst show_nat.simps) (simp add: digit_char_is_digit)
  qed
qed

lemma show_nat_nonempty: "show_nat n \<noteq> []"
  by (subst show_nat.simps) simp

lemma parse_nat_append_digit: "parse_nat (s @ [c]) = 10 * parse_nat s + digit_val c"
  by (simp add: parse_nat_def)

lemma parse_show_nat: "parse_nat (show_nat n) = n"
proof (induction n rule: show_nat.induct)
  case (1 n)
  show ?case
  proof (cases "n < 10")
    case True
    then show ?thesis
      by (subst show_nat.simps) (simp add: parse_nat_def digit_val_digit_char)
  next
    case False
    with "1.IH" show ?thesis
      by (subst show_nat.simps) (simp add: parse_nat_append_digit digit_val_digit_char)
  qed
qed

lemma parse_nat_zeros: "parse_nat (replicate k (CHR ''0'') @ s) = parse_nat s"
  by (induction k) (simp_all add: parse_nat_def digit_val_def)

lemma padStart_zero_inj:
  "padStart k (CHR ''0'') (show_nat m) = padStart k (CHR ''0'') (show_nat n) \<Longrightarrow> m = n"
  by (metis padStart_def parse_nat_zeros parse_show_nat)

lemma length_padStart: "length (padStart n c s) = max n (length s)"
  by (simp add: padStart_def)

text \<open>\<open>parseInt(s, 10)\<close>: leading blanks, a sign, then the longest run of digits;
  \<open>None\<close> stands for NaN.\<close>

definition parseInt :: "string \<Rightarrow> int option" where
  "parseInt s =
     (let t = dropWhile (\<lambda>c. c = CHR '' '' \<or> c = CHR 0x09 \<or> c = CHR 0x0A \<or> c = CHR 0x0D) s;
          neg = (case t of [] \<Rightarrow> False | c # _ \<Rightarrow> c = CHR ''-'');
          u = (case t of [] \<Rightarrow> [] | c # r \<Rightarrow> if c = CHR ''-'' \<or> c = CHR ''+'' then r else t);
          ds = takeWhile is_digit u
      in if ds = [] then None
         else Some (if neg then - int (parse_nat ds) else int (parse_nat ds)))"

lemma takeWhile_digits: "list_all is_digit s \<Longrightarrow> takeWhile is_digit s = s"
  by (simp add: list_all_iff takeWhile_eq_all_conv)

subsection \<open>Optional values\<close>

text \<open>\<open>a ?? b\<close>.\<close>

definition orElse :: "'a option \<Rightarrow> 'a \<Rightarrow> 'a" where
  "orElse a b = (case a of None \<Rightarrow> b | Some x \<Rightarrow> x)"

lemma orElse_simps [simp]: "orElse None b = b" "orElse (Some x) b = x"
  by (simp_all add: orElse_def)

text \<open>A string used as a condition: \<open>undefined\<close>, \<open>null\<close> and the empty string are false.\<close>

definition truthy :: "string option \<Rightarrow> bool" where
  "truthy s = (case s of None \<Rightarrow> False | Some x \<Rightarrow> x \<noteq> [])"

lemma truthy_simps [simp]: "\<not> truthy None" "truthy (Some x) \<longleftrightarrow> x \<noteq> []"
  by (simp_all add: truthy_def)

end
