(* ===== verification/Schema.thy ===== *)
theory Schema
  imports Elysia_Prelude
begin

text \<open>
  The data of the backend: the enumerations and the tables of
  \<^verbatim>\<open>backend/prisma/schema.prisma\<close> (one \<^theory_text>\<open>record\<close> per model, the field names prefixed by the
  table), the database as a record of tables, the configuration, the user attached to a
  request, and the messages exchanged with the daemon of a node.

  Conventions. An identifier is a string. A table is the list of its rows. A time is an
  \<^typ>\<open>int\<close> of milliseconds. A \<open>Json\<close> column is a \<open>json\<close> value, or an association list
  where the code uses it as a dictionary of strings. The columns \<open>updatedAt\<close> that no
  query reads are left out, as are columns no code reads or writes
  (\<open>Server.auditTargetId\<close>, \<open>User.impersonatedById\<close>, \<open>Node.mtlsFingerprint\<close>,
  \<open>Node.dockerNetworkName\<close>, \<open>InstalledMod.iconUrl\<close>, \<open>Product.gameType\<close>).
\<close>

type_synonym id = string
type_synonym time = int

datatype json = JNull | JStr string | JNum int | JBool bool | JArr "json list"
  | JObj "(string \<times> json) list"

subsection \<open>Enumerations\<close>

datatype UserStatus = ACTIVE | SUSPENDED | BANNED

datatype AuditSeverity = INFO | WARNING | CRITICAL

datatype NodeStatus = NODE_ONLINE | NODE_OFFLINE | NODE_MAINTENANCE | NODE_DEGRADED

datatype GameType = MINECRAFT_JAVA | MINECRAFT_BEDROCK | DISCORD_BOT | GENERIC_DOCKER
  | WEB_HOSTING | VPS | FIVEM | RUST | TERRARIA | ARK | CS2 | PALWORLD

datatype ServerStatus = SRV_INSTALLING | SRV_INSTALL_FAILED | SRV_OFFLINE | SRV_STARTING
  | SRV_RUNNING | SRV_STOPPING | SRV_CRASHED | SRV_SUSPENDED | SRV_TRANSFERRING | SRV_RESTORING

datatype ScheduledTaskAction = POWER_START | POWER_STOP | POWER_RESTART | BACKUP_CREATE
  | COMMAND_SEND

datatype BackupDriver = LOCAL | S3 | CLOUDFLARE_R2 | BACKBLAZE_B2 | MINIO | SFTP | FTP

datatype BackupStatus = BK_PENDING | BK_IN_PROGRESS | BK_COMPLETED | BK_FAILED | BK_RESTORING

datatype ModSource = MODRINTH | CURSEFORGE | FTB | TECHNIC | ATLAUNCHER | MULTIMC_EXPORT | MANUAL

datatype BillingCycle = HOURLY | DAILY | WEEKLY | MONTHLY | QUARTERLY | YEARLY | ONE_TIME

datatype SubscriptionStatus = SUB_ACTIVE | SUB_PAST_DUE | SUB_CANCELED | SUB_TRIALING | SUB_EXPIRED

datatype InvoiceStatus = INV_DRAFT | INV_OPEN | INV_PAID | INV_VOID | INV_UNCOLLECTIBLE

datatype PaymentProvider = STRIPE | PAYPAL | CRYPTO_BTC | CRYPTO_SOL | PAY_MANUAL

datatype TicketStatus = TK_OPEN | TK_PENDING | TK_RESOLVED | TK_CLOSED

datatype MarketplaceItemType = PLUGIN | THEME | TEMPLATE | DOCKER_IMAGE | EXTENSION

subsection \<open>Identity and access\<close>

record user =
  u_id :: id
  u_email :: string
  u_username :: string
  u_passwordHash :: "string option"
  u_status :: UserStatus
  u_suspendedReason :: "string option"
  u_bannedReason :: "string option"
  u_twoFactorEnabled :: bool
  u_twoFactorSecret :: "string option"
  u_twoFactorRecoveryCodes :: "string list"
  u_discordId :: "string option"
  u_googleId :: "string option"
  u_githubId :: "string option"
  u_roleId :: "id option"
  u_createdAt :: time

record role =
  r_id :: id
  r_name :: string
  r_description :: "string option"
  r_isSystem :: bool

record permission =
  p_id :: id
  p_key :: string
  p_group :: string

record rolePermission =
  rp_roleId :: id
  rp_permissionId :: id

record refreshToken =
  rt_id :: id
  rt_userId :: id
  rt_tokenHash :: string
  rt_userAgent :: "string option"
  rt_ip :: "string option"
  rt_revoked :: bool
  rt_expiresAt :: time

record apiKey =
  k_id :: id
  k_userId :: id
  k_name :: string
  k_keyPrefix :: string
  k_keyHash :: string
  k_scopes :: "string list"
  k_lastUsedAt :: "time option"
  k_expiresAt :: "time option"
  k_createdAt :: time

record auditLog =
  a_id :: id
  a_actorId :: "id option"
  a_action :: string
  a_targetType :: "string option"
  a_targetId :: "id option"
  a_severity :: AuditSeverity
  a_metadata :: json
  a_ip :: "string option"
  a_userAgent :: "string option"
  a_createdAt :: time

subsection \<open>Infrastructure and servers\<close>

record node =
  n_id :: id
  n_name :: string
  n_fqdn :: string
  n_region :: "string option"
  n_status :: NodeStatus
  n_maintenanceMode :: bool
  n_grpcHost :: string
  n_grpcPort :: int
  n_cpuCores :: int
  n_memoryMb :: int
  n_diskMb :: int
  n_cpuAllocatedPct :: int
  n_memoryAllocatedMb :: int
  n_diskAllocatedMb :: int
  n_overallocateCpuPct :: int
  n_overallocateMemPct :: int
  n_overallocateDiskPct :: int
  n_dockerNetworkSubnet :: string
  n_lastHeartbeatAt :: "time option"

record networkAllocation =
  al_id :: id
  al_nodeId :: id
  al_ip :: string
  al_port :: int
  al_serverId :: "id option"
  al_isPrimary :: bool

record serverTemplate =
  tp_id :: id
  tp_name :: string
  tp_gameType :: GameType
  tp_description :: "string option"
  tp_dockerImage :: string
  tp_startupCommand :: string
  tp_installScript :: "string option"
  tp_minMemoryMb :: int
  tp_isPublic :: bool

record server =
  s_id :: id
  s_uuid :: id
  s_name :: string
  s_description :: "string option"
  s_ownerId :: id
  s_nodeId :: id
  s_templateId :: id
  s_gameType :: GameType
  s_dockerImage :: string
  s_status :: ServerStatus
  s_suspended :: bool
  s_suspendedReason :: "string option"
  s_cpuLimitPct :: int
  s_memoryLimitMb :: int
  s_diskLimitMb :: int
  s_swapLimitMb :: int
  s_ioWeight :: int
  s_environment :: "(string \<times> string) list"
  s_startupCommand :: string
  s_dataPath :: string
  s_createdAt :: time

record serverSubUser =
  su_id :: id
  su_serverId :: id
  su_userId :: id
  su_permissions :: "string list"

record scheduledTask =
  st_id :: id
  st_serverId :: id
  st_name :: string
  st_cronExpr :: string
  st_action :: ScheduledTaskAction
  st_payload :: "(string \<times> string) list option"
  st_enabled :: bool
  st_lastRunAt :: "time option"
  st_nextRunAt :: "time option"
  st_createdAt :: time

record backup =
  b_id :: id
  b_serverId :: id
  b_name :: string
  b_driver :: BackupDriver
  b_status :: BackupStatus
  b_sizeBytes :: "int option"
  b_checksum :: "string option"
  b_remotePath :: "string option"
  b_failReason :: "string option"
  b_createdAt :: time
  b_completedAt :: "time option"

record installedMod =
  m_id :: id
  m_serverId :: id
  m_source :: ModSource
  m_projectId :: string
  m_versionId :: string
  m_fileName :: string
  m_name :: string
  m_dependencies :: json
  m_installedAt :: time

subsection \<open>Billing, support, marketplace\<close>

record product =
  pr_id :: id
  pr_name :: string
  pr_description :: "string option"
  pr_active :: bool

record plan =
  pl_id :: id
  pl_productId :: id
  pl_name :: string
  pl_priceCents :: int
  pl_currency :: string
  pl_billingCycle :: BillingCycle
  pl_cpuLimitPct :: int
  pl_memoryLimitMb :: int
  pl_diskLimitMb :: int
  pl_active :: bool

record subscription =
  sb_id :: id
  sb_userId :: id
  sb_planId :: id
  sb_status :: SubscriptionStatus
  sb_stripeSubscriptionId :: "string option"

record invoice =
  i_id :: id
  i_userId :: id
  i_subscriptionId :: "id option"
  i_number :: string
  i_status :: InvoiceStatus
  i_subtotalCents :: int
  i_taxCents :: int
  i_totalCents :: int
  i_currency :: string
  i_provider :: "PaymentProvider option"
  i_providerRef :: "string option"
  i_paidAt :: "time option"
  i_createdAt :: time

record coupon =
  c_id :: id
  c_code :: string
  c_percentOff :: "int option"
  c_amountOffCents :: "int option"
  c_maxRedemptions :: "int option"
  c_timesRedeemed :: int
  c_expiresAt :: "time option"
  c_active :: bool

record supportTicket =
  tk_id :: id
  tk_userId :: id
  tk_subject :: string
  tk_status :: TicketStatus
  tk_updatedAt :: time

record ticketMessage =
  tm_id :: id
  tm_ticketId :: id
  tm_authorId :: id
  tm_body :: string
  tm_isStaff :: bool
  tm_createdAt :: time

record marketplaceItem =
  mi_id :: id
  mi_type :: MarketplaceItemType
  mi_name :: string
  mi_slug :: string
  mi_description :: "string option"
  mi_authorName :: string
  mi_priceCents :: int
  mi_version :: string
  mi_downloadUrl :: "string option"
  mi_repoUrl :: "string option"
  mi_verified :: bool
  mi_downloads :: int

subsection \<open>The database\<close>

record db =
  t_users :: "user list"
  t_roles :: "role list"
  t_permissions :: "permission list"
  t_rolePermissions :: "rolePermission list"
  t_refreshTokens :: "refreshToken list"
  t_apiKeys :: "apiKey list"
  t_auditLogs :: "auditLog list"
  t_nodes :: "node list"
  t_allocations :: "networkAllocation list"
  t_templates :: "serverTemplate list"
  t_servers :: "server list"
  t_subUsers :: "serverSubUser list"
  t_tasks :: "scheduledTask list"
  t_backups :: "backup list"
  t_mods :: "installedMod list"
  t_products :: "product list"
  t_plans :: "plan list"
  t_subscriptions :: "subscription list"
  t_invoices :: "invoice list"
  t_coupons :: "coupon list"
  t_tickets :: "supportTicket list"
  t_messages :: "ticketMessage list"
  t_items :: "marketplaceItem list"

definition empty_db :: db where
  "empty_db = \<lparr>t_users = [], t_roles = [], t_permissions = [], t_rolePermissions = [],
     t_refreshTokens = [], t_apiKeys = [], t_auditLogs = [], t_nodes = [], t_allocations = [],
     t_templates = [], t_servers = [], t_subUsers = [], t_tasks = [], t_backups = [],
     t_mods = [], t_products = [], t_plans = [], t_subscriptions = [], t_invoices = [],
     t_coupons = [], t_tickets = [], t_messages = [], t_items = []\<rparr>"

subsection \<open>The user of a request\<close>

text \<open>\<open>AuthenticatedUser\<close> of \<^verbatim>\<open>auth/types/authenticated-user.ts\<close>.\<close>

record authUser =
  au_id :: id
  au_email :: string
  au_username :: string
  au_roleId :: "id option"
  au_permissions :: "string list"
  au_twoFactorEnabled :: bool
  au_impersonatedBy :: "id option"

text \<open>\<open>user.permissions.includes(p)\<close>.\<close>

definition has_perm :: "authUser \<Rightarrow> string \<Rightarrow> bool" where
  "has_perm u p \<longleftrightarrow> p \<in> set (au_permissions u)"

text \<open>\<open>SYSTEM_USER_ID\<close> of \<^verbatim>\<open>common/constants.ts\<close>.\<close>

definition SYSTEM_USER_ID :: id where
  "SYSTEM_USER_ID = ''00000000-0000-0000-0000-000000000001''"

subsection \<open>Messages of the daemon\<close>

text \<open>
  The request messages of \<^verbatim>\<open>api/openapi/elysia.proto\<close> the backend sends. \<open>CreateServer\<close>
  and \<open>ReinstallServer\<close> share one, as do the calls that carry only the identifier of
  a server; the requests to restore and to delete a backup have the same fields.
\<close>

record portMapping =
  pm_ip :: string
  pm_port :: int
  pm_protocol :: string

record createServerRequest =
  cr_server_uuid :: id
  cr_docker_image :: string
  cr_startup_command :: string
  cr_cpu_limit_pct :: int
  cr_memory_limit_mb :: int
  cr_disk_limit_mb :: int
  cr_swap_limit_mb :: int
  cr_io_weight :: int
  cr_environment :: "(string \<times> string) list"
  cr_ports :: "portMapping list"
  cr_install_script :: string

datatype grpcRequest =
    PingRequest string
  | CreateServerRequest createServerRequest
  | ServerIdRequest id
  | SendCommandRequest id string
  | FileRequest id string
  | WriteFileRequest id string string
  | RenameFileRequest id string string
  | CreateBackupRequest id id string "(string \<times> string) list"
  | BackupIdRequest id id string BackupDriver "(string \<times> string) list"

text \<open>\<open>ServerActionResponse\<close> and \<open>FileActionResponse\<close>; \<open>BackupActionResponse\<close>; one
  entry of \<open>ListFilesResponse\<close>; \<open>PingResponse\<close>.\<close>

record actionResponse =
  ar_success :: bool
  ar_message :: string

record backupResponse =
  br_success :: bool
  br_message :: string
  br_size_bytes :: string
  br_checksum :: string

record fileEntry =
  fe_name :: string
  fe_is_directory :: bool
  fe_size_bytes :: string
  fe_modified_at_ms :: string
  fe_mode :: string

record pingResponse =
  pg_nonce :: string
  pg_node_version :: string

text \<open>A client of a daemon: the address it was created with and whether its channel has
  credentials. A call as it leaves the backend.\<close>

record grpcClient =
  cl_host :: string
  cl_port :: int
  cl_secure :: bool

record grpcCall =
  gc_node :: id
  gc_client :: grpcClient
  gc_method :: string
  gc_request :: grpcRequest

subsection \<open>Configuration\<close>

text \<open>The object returned by \<^verbatim>\<open>config/configuration.ts\<close>; a port that
  \<open>parseInt\<close> reads as NaN is \<open>None\<close>.\<close>

record s3Config =
  s3_endpoint :: "string option"
  s3_bucket :: "string option"
  s3_accessKey :: "string option"
  s3_secretKey :: "string option"
  s3_useSsl :: bool

record oauthConfig =
  oa_clientId :: "string option"
  oa_clientSecret :: "string option"
  oa_callbackUrl :: "string option"

record config =
  cf_env :: string
  cf_httpPort :: "int option"
  cf_wsPort :: "int option"
  cf_accessSecret :: string
  cf_refreshSecret :: string
  cf_accessTtl :: string
  cf_refreshTtl :: string
  cf_redisHost :: string
  cf_redisPort :: "int option"
  cf_redisPassword :: "string option"
  cf_discord :: oauthConfig
  cf_google :: oauthConfig
  cf_github :: oauthConfig
  cf_stripeSecretKey :: "string option"
  cf_stripeWebhookSecret :: "string option"
  cf_modrinthApiUrl :: string
  cf_curseforgeApiUrl :: string
  cf_curseforgeApiKey :: "string option"
  cf_nodeSecret :: string
  cf_backupDriver :: string
  cf_s3 :: s3Config

end
