(* ===== verification/World.thy ===== *)
theory World
  imports Schema
begin

text \<open>
  The state the handlers run in and the primitives they are written with.

  \<^item> \<open>env\<close> holds what is not code of the repository, as functions: the clock, the
    generators of identifiers and random bytes, bcrypt, SHA-256, TOTP, JSON web tokens,
    the cron parser, the URL parser, the files of the host, and the answers of the daemon of a node. A function
    whose answer varies from call to call takes the number of the call as its first
    argument.
  \<^item> \<open>world\<close> holds the database, the number of external calls so far, the trace of the
    calls sent to the daemons, the cache of daemon clients, the jobs started but not
    awaited, and the trace of the URLs fetched.
  \<^item> The database primitives follow the documented behaviour of the client the code
    calls: \<open>update\<close> and \<open>delete\<close> of a missing row throw P2025, a unique constraint of
    the schema P2002, a foreign key P2003; a transaction that throws leaves the database
    as it was.
\<close>

record jwtClaims =
  jc_sub :: id
  jc_impersonatedBy :: "id option"

record url =
  url_protocol :: string
  url_hostname :: string
  url_pathname :: string

record env =
  now :: "nat \<Rightarrow> time"
  newUuid :: "nat \<Rightarrow> id"
  randomHex :: "nat \<Rightarrow> nat \<Rightarrow> string"
  bcryptHash :: "nat \<Rightarrow> string \<Rightarrow> string"
  bcryptCompare :: "string \<Rightarrow> string \<Rightarrow> bool"
  sha256Hex :: "string \<Rightarrow> string"
  totpVerify :: "nat \<Rightarrow> string \<Rightarrow> string \<Rightarrow> bool"
  totpGenerate :: "nat \<Rightarrow> string \<Rightarrow> string \<times> string"
  qrDataUrl :: "string \<Rightarrow> string"
  jwtSign :: "nat \<Rightarrow> string \<Rightarrow> string \<Rightarrow> jwtClaims \<Rightarrow> string"
  jwtVerify :: "nat \<Rightarrow> string \<Rightarrow> string \<Rightarrow> jwtClaims option"
  passportBearer :: "string option \<Rightarrow> string option"
  cronNext :: "nat \<Rightarrow> string \<Rightarrow> string + time"
  parseUrl :: "string \<Rightarrow> url option"
  fileExists :: "nat \<Rightarrow> string \<Rightarrow> bool"
  readFile :: "nat \<Rightarrow> string \<Rightarrow> string + string"
  grpcAction :: "nat \<Rightarrow> grpcCall \<Rightarrow> string + actionResponse"
  grpcBackup :: "nat \<Rightarrow> grpcCall \<Rightarrow> string + backupResponse"
  grpcFiles :: "nat \<Rightarrow> grpcCall \<Rightarrow> string + fileEntry list option"
  grpcContent :: "nat \<Rightarrow> grpcCall \<Rightarrow> string + string"
  grpcPing :: "nat \<Rightarrow> grpcCall \<Rightarrow> string + pingResponse"
  cfg :: config

datatype job =
    ProvisionJob id id string int
  | BackupJob id id id string int

record world =
  w_db :: db
  w_tick :: nat
  w_calls :: "grpcCall list"
  w_protoLoaded :: bool
  w_clients :: "(id \<times> grpcClient) list"
  w_jobs :: "job list"
  w_fetches :: "string list"

type_synonym 'a io = "(world, 'a) prog"

definition empty_world :: world where
  "empty_world = \<lparr>w_db = empty_db, w_tick = 0, w_calls = [], w_protoLoaded = False, w_clients = [], w_jobs = [],
     w_fetches = []\<rparr>"

subsection \<open>External values\<close>

definition tick :: "nat io" where
  "tick = (\<lambda>w. (Inr (w_tick w), w\<lparr>w_tick := Suc (w_tick w)\<rparr>))"

definition external :: "(nat \<Rightarrow> 'a) \<Rightarrow> 'a io" where
  "external f = bnd tick (\<lambda>n. ret (f n))"

text \<open>An external call that fails with a message throws a JavaScript error.\<close>

definition externalCall :: "(nat \<Rightarrow> string + 'a) \<Rightarrow> 'a io" where
  "externalCall f = bnd tick (\<lambda>n. case f n of Inl m \<Rightarrow> throw (JsError m) | Inr x \<Rightarrow> ret x)"

text \<open>A promise that is started but not awaited, whose rejection is handled or ignored.\<close>

definition detach :: "'a io \<Rightarrow> unit io" where
  "detach m = (\<lambda>w. (Inr (), snd (m w)))"

definition startJob :: "job \<Rightarrow> unit io" where
  "startJob j = modify (\<lambda>w. w\<lparr>w_jobs := w_jobs w @ [j]\<rparr>)"

lemma tick_apply [prog_simps]: "tick w = (Inr (w_tick w), w\<lparr>w_tick := Suc (w_tick w)\<rparr>)"
  by (simp add: tick_def)

lemma external_apply [prog_simps]:
  "external f w = (Inr (f (w_tick w)), w\<lparr>w_tick := Suc (w_tick w)\<rparr>)"
  by (simp add: external_def prog_simps)

lemma externalCall_apply [prog_simps]:
  "externalCall f w = (case f (w_tick w) of
     Inl m \<Rightarrow> (Inl (JsError m), w\<lparr>w_tick := Suc (w_tick w)\<rparr>)
   | Inr x \<Rightarrow> (Inr x, w\<lparr>w_tick := Suc (w_tick w)\<rparr>))"
  by (simp add: externalCall_def prog_simps split: sum.splits)

lemma detach_apply [prog_simps]: "detach m w = (Inr (), snd (m w))"
  by (simp add: detach_def)

lemma startJob_apply [prog_simps]:
  "startJob j w = (Inr (), w\<lparr>w_jobs := w_jobs w @ [j]\<rparr>)"
  by (simp add: startJob_def prog_simps)

subsection \<open>Queries\<close>

definition dbFind :: "(db \<Rightarrow> 'r list) \<Rightarrow> ('r \<Rightarrow> bool) \<Rightarrow> 'r option io" where
  "dbFind tbl p = gets (\<lambda>w. List.find p (tbl (w_db w)))"

definition dbFindOrThrow :: "(db \<Rightarrow> 'r list) \<Rightarrow> ('r \<Rightarrow> bool) \<Rightarrow> 'r io" where
  "dbFindOrThrow tbl p =
     bnd (dbFind tbl p) (\<lambda>r. case r of None \<Rightarrow> throw P2025 | Some x \<Rightarrow> ret x)"

definition dbFindMany :: "(db \<Rightarrow> 'r list) \<Rightarrow> ('r \<Rightarrow> bool) \<Rightarrow> 'r list io" where
  "dbFindMany tbl p = gets (\<lambda>w. filter p (tbl (w_db w)))"

definition dbCount :: "(db \<Rightarrow> 'r list) \<Rightarrow> ('r \<Rightarrow> bool) \<Rightarrow> nat io" where
  "dbCount tbl p = gets (\<lambda>w. length (filter p (tbl (w_db w))))"

text \<open>\<open>orderBy\<close>: ascending and descending by a key; rows with the same key keep their
  order. \<open>skip\<close> and \<open>take\<close> of a page: a negative \<open>skip\<close> is refused, a negative \<open>take\<close>
  counts from the end.\<close>

definition orderAsc :: "('r \<Rightarrow> 'k::linorder) \<Rightarrow> 'r list \<Rightarrow> 'r list" where
  "orderAsc k = sort_key k"

definition orderDesc :: "('r \<Rightarrow> int) \<Rightarrow> 'r list \<Rightarrow> 'r list" where
  "orderDesc k = sort_key (\<lambda>r. - k r)"

definition page :: "int \<Rightarrow> int \<Rightarrow> 'r list \<Rightarrow> 'r list io" where
  "page skip n rows =
     (if skip < 0 then throw (PrismaError ''skip'')
      else if 0 \<le> n then ret (take (nat n) (drop (nat skip) rows))
      else ret (rev (take (nat (- n)) (drop (nat skip) (rev rows)))))"

subsection \<open>Writes\<close>

definition dbUpdate ::
  "(db \<Rightarrow> 'r list) \<Rightarrow> (('r list \<Rightarrow> 'r list) \<Rightarrow> db \<Rightarrow> db) \<Rightarrow> ('r \<Rightarrow> bool) \<Rightarrow> ('r \<Rightarrow> 'r) \<Rightarrow> 'r io"
where
  "dbUpdate tbl upd p f = (\<lambda>w. case List.find p (tbl (w_db w)) of
       None \<Rightarrow> (Inl P2025, w)
     | Some r \<Rightarrow> (Inr (f r), w\<lparr>w_db := upd (map (\<lambda>x. if p x then f x else x)) (w_db w)\<rparr>))"

definition dbUpdateMany ::
  "(('r list \<Rightarrow> 'r list) \<Rightarrow> db \<Rightarrow> db) \<Rightarrow> ('r \<Rightarrow> bool) \<Rightarrow> ('r \<Rightarrow> 'r) \<Rightarrow> unit io"
where
  "dbUpdateMany upd p f =
     modify (\<lambda>w. w\<lparr>w_db := upd (map (\<lambda>x. if p x then f x else x)) (w_db w)\<rparr>)"

text \<open>\<open>create\<close>: \<open>conflict row\<close> says which rows a unique constraint forbids beside the
  new one, \<open>fk\<close> that the rows it refers to exist.\<close>

definition dbCreate ::
  "(db \<Rightarrow> 'r list) \<Rightarrow> (('r list \<Rightarrow> 'r list) \<Rightarrow> db \<Rightarrow> db) \<Rightarrow> ('r \<Rightarrow> 'r \<Rightarrow> bool) \<Rightarrow>
   (db \<Rightarrow> 'r \<Rightarrow> bool) \<Rightarrow> 'r \<Rightarrow> 'r io"
where
  "dbCreate tbl upd conflict fk row = (\<lambda>w.
     if list_ex (conflict row) (tbl (w_db w)) then (Inl P2002, w)
     else if \<not> fk (w_db w) row then (Inl P2003, w)
     else (Inr row, w\<lparr>w_db := upd (\<lambda>t. t @ [row]) (w_db w)\<rparr>))"

text \<open>\<open>delete\<close> of a row that no constraint restricts, and \<open>deleteMany\<close>.\<close>

definition dbDelete ::
  "(db \<Rightarrow> 'r list) \<Rightarrow> (('r list \<Rightarrow> 'r list) \<Rightarrow> db \<Rightarrow> db) \<Rightarrow> ('r \<Rightarrow> bool) \<Rightarrow> unit io"
where
  "dbDelete tbl upd p = (\<lambda>w. if list_ex p (tbl (w_db w))
     then (Inr (), w\<lparr>w_db := upd (filter (\<lambda>x. \<not> p x)) (w_db w)\<rparr>)
     else (Inl P2025, w))"

definition dbDeleteMany ::
  "(('r list \<Rightarrow> 'r list) \<Rightarrow> db \<Rightarrow> db) \<Rightarrow> ('r \<Rightarrow> bool) \<Rightarrow> unit io"
where
  "dbDeleteMany upd p = modify (\<lambda>w. w\<lparr>w_db := upd (filter (\<lambda>x. \<not> p x)) (w_db w)\<rparr>)"

text \<open>\<open>$transaction\<close>.\<close>

definition transaction :: "'a io \<Rightarrow> 'a io" where
  "transaction m = (\<lambda>w. case m w of
     (Inl e, w') \<Rightarrow> (Inl e, w'\<lparr>w_db := w_db w\<rparr>) | (Inr x, w') \<Rightarrow> (Inr x, w'))"

text \<open>The range of an \<open>Int\<close> column.\<close>

definition int4 :: "int \<Rightarrow> bool" where
  "int4 i \<longleftrightarrow> - (2 ^ 31) \<le> i \<and> i < 2 ^ 31"

abbreviation OutOfRange :: exn where "OutOfRange \<equiv> PrismaError ''22003''"

lemma dbFind_apply [prog_simps]: "dbFind tbl p w = (Inr (List.find p (tbl (w_db w))), w)"
  by (simp add: dbFind_def prog_simps)

lemma page_length: "page skip n rows w = (Inr ps, w') \<Longrightarrow>
  w' = w \<and> length ps \<le> nat \<bar>n\<bar> \<and> set ps \<subseteq> set rows"
  by (auto simp: page_def prog_simps split: if_splits
      dest!: in_set_takeD in_set_dropD)

lemma dbFindOrThrow_apply [prog_simps]:
  "dbFindOrThrow tbl p w = (case List.find p (tbl (w_db w)) of
     None \<Rightarrow> (Inl P2025, w) | Some r \<Rightarrow> (Inr r, w))"
  by (simp add: dbFindOrThrow_def prog_simps split: option.splits)

lemma dbFindMany_apply [prog_simps]:
  "dbFindMany tbl p w = (Inr (filter p (tbl (w_db w))), w)"
  by (simp add: dbFindMany_def prog_simps)

lemma dbCount_apply [prog_simps]:
  "dbCount tbl p w = (Inr (length (filter p (tbl (w_db w)))), w)"
  by (simp add: dbCount_def prog_simps)

lemma dbUpdate_apply [prog_simps]:
  "dbUpdate tbl upd p f w = (case List.find p (tbl (w_db w)) of
       None \<Rightarrow> (Inl P2025, w)
     | Some r \<Rightarrow> (Inr (f r), w\<lparr>w_db := upd (map (\<lambda>x. if p x then f x else x)) (w_db w)\<rparr>))"
  by (simp add: dbUpdate_def)

lemma dbUpdateMany_apply [prog_simps]:
  "dbUpdateMany upd p f w =
     (Inr (), w\<lparr>w_db := upd (map (\<lambda>x. if p x then f x else x)) (w_db w)\<rparr>)"
  by (simp add: dbUpdateMany_def prog_simps)

lemma dbCreate_apply [prog_simps]:
  "dbCreate tbl upd conflict fk row w =
     (if list_ex (conflict row) (tbl (w_db w)) then (Inl P2002, w)
      else if \<not> fk (w_db w) row then (Inl P2003, w)
      else (Inr row, w\<lparr>w_db := upd (\<lambda>t. t @ [row]) (w_db w)\<rparr>))"
  by (simp add: dbCreate_def)

lemma dbDelete_apply [prog_simps]:
  "dbDelete tbl upd p w = (if list_ex p (tbl (w_db w))
     then (Inr (), w\<lparr>w_db := upd (filter (\<lambda>x. \<not> p x)) (w_db w)\<rparr>)
     else (Inl P2025, w))"
  by (simp add: dbDelete_def)

lemma dbDeleteMany_apply [prog_simps]:
  "dbDeleteMany upd p w = (Inr (), w\<lparr>w_db := upd (filter (\<lambda>x. \<not> p x)) (w_db w)\<rparr>)"
  by (simp add: dbDeleteMany_def prog_simps)

lemma transaction_apply [prog_simps]:
  "transaction m w = (case m w of
     (Inl e, w') \<Rightarrow> (Inl e, w'\<lparr>w_db := w_db w\<rparr>) | (Inr x, w') \<Rightarrow> (Inr x, w'))"
  by (simp add: transaction_def)

lemma transaction_Inl: "transaction m w = (Inl e, w') \<Longrightarrow> w_db w' = w_db w"
  by (auto simp: transaction_def split: prod.splits sum.splits)

lemma transaction_Inr: "transaction m w = (Inr x, w') \<longleftrightarrow> m w = (Inr x, w')"
  by (auto simp: transaction_def split: prod.splits sum.splits)

text \<open>The runs that return, one step at a time.\<close>

named_theorems run_Inr "runs of a program that return"

lemmas [run_Inr] = bnd_Inr andThen_Inr throwIf_Inr transaction_Inr

lemma ret_Inr [run_Inr]: "ret x w = (Inr y, w') \<longleftrightarrow> y = x \<and> w' = w"
  by (auto simp: ret_def)

lemma throw_Inr [run_Inr]: "throw e w = (Inr y, w') \<longleftrightarrow> False"
  by (simp add: throw_def)

lemma gets_Inr [run_Inr]: "gets f w = (Inr y, w') \<longleftrightarrow> y = f w \<and> w' = w"
  by (auto simp: gets_def)

lemma modify_Inr [run_Inr]: "modify f w = (Inr y, w') \<longleftrightarrow> w' = f w"
  by (auto simp: modify_def)

lemma detach_Inr [run_Inr]: "detach m w = (Inr y, w') \<longleftrightarrow> w' = snd (m w)"
  by (auto simp: detach_def)

lemma external_Inr [run_Inr]:
  "external f w = (Inr y, w') \<longleftrightarrow> y = f (w_tick w) \<and> w' = w\<lparr>w_tick := Suc (w_tick w)\<rparr>"
  by (auto simp: external_apply)

lemma externalCall_Inr [run_Inr]:
  "externalCall f w = (Inr y, w') \<longleftrightarrow>
     f (w_tick w) = Inr y \<and> w' = w\<lparr>w_tick := Suc (w_tick w)\<rparr>"
  by (auto simp: externalCall_apply split: sum.splits)

lemma startJob_Inr [run_Inr]:
  "startJob j w = (Inr y, w') \<longleftrightarrow> w' = w\<lparr>w_jobs := w_jobs w @ [j]\<rparr>"
  by (auto simp: startJob_apply)

lemma dbFind_Inr [run_Inr]:
  "dbFind tbl p w = (Inr y, w') \<longleftrightarrow> y = List.find p (tbl (w_db w)) \<and> w' = w"
  by (auto simp: dbFind_apply)

lemma dbFindOrThrow_Inr [run_Inr]:
  "dbFindOrThrow tbl p w = (Inr y, w') \<longleftrightarrow> List.find p (tbl (w_db w)) = Some y \<and> w' = w"
  by (auto simp: dbFindOrThrow_apply split: option.splits)

lemma dbFindMany_Inr [run_Inr]:
  "dbFindMany tbl p w = (Inr y, w') \<longleftrightarrow> y = filter p (tbl (w_db w)) \<and> w' = w"
  by (auto simp: dbFindMany_apply)

lemma dbCount_Inr [run_Inr]:
  "dbCount tbl p w = (Inr y, w') \<longleftrightarrow> y = length (filter p (tbl (w_db w))) \<and> w' = w"
  by (auto simp: dbCount_apply)

lemma dbUpdate_Inr [run_Inr]:
  "dbUpdate tbl upd p f w = (Inr y, w') \<longleftrightarrow>
     (\<exists>r. List.find p (tbl (w_db w)) = Some r \<and> y = f r) \<and>
     w' = w\<lparr>w_db := upd (map (\<lambda>x. if p x then f x else x)) (w_db w)\<rparr>"
  by (auto simp: dbUpdate_apply split: option.splits)

lemma dbUpdateMany_Inr [run_Inr]:
  "dbUpdateMany upd p f w = (Inr y, w') \<longleftrightarrow>
     w' = w\<lparr>w_db := upd (map (\<lambda>x. if p x then f x else x)) (w_db w)\<rparr>"
  by (auto simp: dbUpdateMany_apply)

lemma dbCreate_Inr [run_Inr]:
  "dbCreate tbl upd conflict fk row w = (Inr y, w') \<longleftrightarrow>
     \<not> list_ex (conflict row) (tbl (w_db w)) \<and> fk (w_db w) row \<and> y = row \<and>
     w' = w\<lparr>w_db := upd (\<lambda>t. t @ [row]) (w_db w)\<rparr>"
  by (auto simp: dbCreate_apply)

lemma dbDelete_Inr [run_Inr]:
  "dbDelete tbl upd p w = (Inr y, w') \<longleftrightarrow>
     list_ex p (tbl (w_db w)) \<and> w' = w\<lparr>w_db := upd (filter (\<lambda>x. \<not> p x)) (w_db w)\<rparr>"
  by (auto simp: dbDelete_apply)

lemma dbDeleteMany_Inr [run_Inr]:
  "dbDeleteMany upd p w = (Inr y, w') \<longleftrightarrow>
     w' = w\<lparr>w_db := upd (filter (\<lambda>x. \<not> p x)) (w_db w)\<rparr>"
  by (auto simp: dbDeleteMany_apply)

lemma case_option_Inr [run_Inr]:
  "(case x of None \<Rightarrow> m | Some a \<Rightarrow> f a) w = (Inr y, w') \<longleftrightarrow>
     (x = None \<and> m w = (Inr y, w')) \<or> (\<exists>a. x = Some a \<and> f a w = (Inr y, w'))"
  by (cases x) auto

lemma if_Inr [run_Inr]:
  "(if c then m else k) w = (Inr y, w') \<longleftrightarrow>
     (c \<and> m w = (Inr y, w')) \<or> (\<not> c \<and> k w = (Inr y, w'))"
  by auto

lemma case_prod_Inr [run_Inr]:
  "(case x of (a, b) \<Rightarrow> f a b) w = (Inr y, w') \<longleftrightarrow>
     (\<exists>a b. x = (a, b) \<and> f a b w = (Inr y, w'))"
  by (cases x) auto

subsection \<open>Invariants of the database\<close>

text \<open>
  \<open>keepsDb J m\<close>: the program keeps the invariant \<open>J\<close> of the database. A write to a table
  that \<open>J\<close> does not read keeps it; \<open>frame\<close> says so for one updater of the record.
\<close>

definition keepsDb :: "(db \<Rightarrow> bool) \<Rightarrow> 'a io \<Rightarrow> bool" where
  "keepsDb J m \<longleftrightarrow> keeps (\<lambda>w. J (w_db w)) m"

definition frame :: "(db \<Rightarrow> bool) \<Rightarrow> (('r list \<Rightarrow> 'r list) \<Rightarrow> db \<Rightarrow> db) \<Rightarrow> bool" where
  "frame J upd \<longleftrightarrow> (\<forall>g d. J d \<longrightarrow> J (upd g d))"

lemma frameD: "frame J upd \<Longrightarrow> J d \<Longrightarrow> J (upd g d)"
  by (simp add: frame_def)

lemma keepsDbI: "(\<And>w. J (w_db w) \<Longrightarrow> J (w_db (snd (m w)))) \<Longrightarrow> keepsDb J m"
  by (simp add: keepsDb_def keeps_def)

lemma keepsDbD: "keepsDb J m \<Longrightarrow> J (w_db w) \<Longrightarrow> m w = (r, w') \<Longrightarrow> J (w_db w')"
  unfolding keepsDb_def by (rule keepsD)

lemma keepsDb_snd: "keepsDb J m \<Longrightarrow> J (w_db w) \<Longrightarrow> J (w_db (snd (m w)))"
  by (simp add: keepsDb_def keeps_def)

named_theorems keepsDb_intros "rules that show that a program keeps an invariant of the database"

lemma keepsDb_prog [keepsDb_intros]:
  "keepsDb J (ret x)"
  "keepsDb J (throw e)"
  "keepsDb J (gets g)"
  "keepsDb J (throwIf c e)"
  "keepsDb J tick"
  "keepsDb J (external f)"
  "keepsDb J (externalCall h)"
  "keepsDb J (startJob j)"
  by (simp_all add: keepsDb_def keeps_def prog_simps split: sum.splits)

lemma keepsDb_query [keepsDb_intros]:
  "keepsDb J (dbFind t p)"
  "keepsDb J (dbFindOrThrow t p)"
  "keepsDb J (dbFindMany t p)"
  "keepsDb J (dbCount t p)"
  "keepsDb J (page skip n rows)"
  by (simp_all add: keepsDb_def keeps_def prog_simps page_def split: option.splits)

lemma keepsDb_bnd [keepsDb_intros]:
  "keepsDb J m \<Longrightarrow> (\<And>x. keepsDb J (f x)) \<Longrightarrow> keepsDb J (bnd m f)"
  unfolding keepsDb_def by (rule keeps_bnd)

lemma keepsDb_andThen [keepsDb_intros]:
  "keepsDb J m \<Longrightarrow> keepsDb J k \<Longrightarrow> keepsDb J (andThen m k)"
  unfolding keepsDb_def by (rule keeps_andThen)

lemma keepsDb_tryCatch [keepsDb_intros]:
  "keepsDb J m \<Longrightarrow> (\<And>e. keepsDb J (h e)) \<Longrightarrow> keepsDb J (tryCatch m h)"
  unfolding keepsDb_def by (rule keeps_tryCatch)

lemma keepsDb_tryFinally [keepsDb_intros]:
  "keepsDb J m \<Longrightarrow> keepsDb J f \<Longrightarrow> keepsDb J (tryFinally m f)"
  unfolding keepsDb_def by (rule keeps_tryFinally)

lemma keepsDb_detach [keepsDb_intros]: "keepsDb J m \<Longrightarrow> keepsDb J (detach m)"
  by (simp add: keepsDb_def keeps_def prog_simps)

lemma keepsDb_transaction [keepsDb_intros]: "keepsDb J m \<Longrightarrow> keepsDb J (transaction m)"
  by (fastforce simp: keepsDb_def keeps_def prog_simps split: prod.splits sum.splits)

lemma keepsDb_forEach [keepsDb_intros]:
  "(\<And>x. x \<in> set xs \<Longrightarrow> keepsDb J (body x)) \<Longrightarrow> keepsDb J (forEach xs body)"
  unfolding keepsDb_def by (rule keeps_forEach)

lemma keepsDb_foldEach [keepsDb_intros]:
  "(\<And>x a. x \<in> set xs \<Longrightarrow> keepsDb J (body x a)) \<Longrightarrow> keepsDb J (foldEach xs acc body)"
  unfolding keepsDb_def by (rule keeps_foldEach)

lemma keepsDb_if [keepsDb_intros]:
  "(c \<Longrightarrow> keepsDb J m) \<Longrightarrow> (\<not> c \<Longrightarrow> keepsDb J k) \<Longrightarrow> keepsDb J (if c then m else k)"
  by simp

lemma keepsDb_case_option [keepsDb_intros]:
  "(x = None \<Longrightarrow> keepsDb J m) \<Longrightarrow> (\<And>y. x = Some y \<Longrightarrow> keepsDb J (f y)) \<Longrightarrow>
   keepsDb J (case x of None \<Rightarrow> m | Some y \<Rightarrow> f y)"
  by (cases x) auto

lemma keepsDb_case_prod [keepsDb_intros]:
  "(\<And>a b. p = (a, b) \<Longrightarrow> keepsDb J (f a b)) \<Longrightarrow> keepsDb J (case p of (a, b) \<Rightarrow> f a b)"
  by (cases p) auto

lemma keepsDb_case_list [keepsDb_intros]:
  "(xs = [] \<Longrightarrow> keepsDb J m) \<Longrightarrow> (\<And>y ys. xs = y # ys \<Longrightarrow> keepsDb J (f y ys)) \<Longrightarrow>
   keepsDb J (case xs of [] \<Rightarrow> m | y # ys \<Rightarrow> f y ys)"
  by (cases xs) auto

lemma keepsDb_Let [keepsDb_intros]:
  "(\<And>y. y = x \<Longrightarrow> keepsDb J (f y)) \<Longrightarrow> keepsDb J (Let x f)"
  by simp

text \<open>A write to a table the invariant does not read.\<close>

lemma keepsDb_write_frame:
  assumes "frame J upd"
  shows "keepsDb J (dbUpdate tbl upd p f)"
    and "keepsDb J (dbUpdateMany upd p f)"
    and "keepsDb J (dbCreate tbl upd conflict fk row)"
    and "keepsDb J (dbDelete tbl upd p)"
    and "keepsDb J (dbDeleteMany upd p)"
  using assms
  by (auto simp: keepsDb_def keeps_def prog_simps frame_def split: option.splits)

text \<open>A program that reads the database only.\<close>

definition readOnlyDb :: "'a io \<Rightarrow> bool" where
  "readOnlyDb m \<longleftrightarrow> (\<forall>w. w_db (snd (m w)) = w_db w)"

lemma readOnlyDb_keepsDb: "readOnlyDb m \<Longrightarrow> keepsDb J m"
  by (simp add: readOnlyDb_def keepsDb_def keeps_def)

lemma readOnlyDb_iff: "readOnlyDb m \<longleftrightarrow> (\<forall>J. keepsDb J m)"
proof
  assume "readOnlyDb m"
  then show "\<forall>J. keepsDb J m" by (simp add: readOnlyDb_keepsDb)
next
  assume all: "\<forall>J. keepsDb J m"
  show "readOnlyDb m" unfolding readOnlyDb_def
  proof
    fix w :: world
    from all have "keepsDb (\<lambda>d. d = w_db w) m" by simp
    from keepsDb_snd [OF this] show "w_db (snd (m w)) = w_db w" by simp
  qed
qed

lemma readOnlyDbD: "readOnlyDb m \<Longrightarrow> m w = (r, w') \<Longrightarrow> w_db w' = w_db w"
  by (metis readOnlyDb_def snd_conv)

end
