(* ===== verification/Tables.thy ===== *)
theory Tables
  imports World
begin

text \<open>
  The constraints of \<^verbatim>\<open>backend/prisma/schema.prisma\<close>: which rows conflict under the unique
  constraints of a table, which rows a row refers to, and what the deletion of a row does
  to the rows that refer to it (\<open>ON DELETE\<close> \<open>CASCADE\<close>, \<open>SET NULL\<close> or \<open>RESTRICT\<close>). The locale
  \<open>table\<close> states what a table promises its clients; it is interpreted on the tables of the
  database.
\<close>

subsection \<open>Unique constraints\<close>

definition same_some :: "'a option \<Rightarrow> 'a option \<Rightarrow> bool" where
  "same_some a b \<longleftrightarrow> a \<noteq> None \<and> a = b"

definition user_conflict :: "user \<Rightarrow> user \<Rightarrow> bool" where
  "user_conflict r x \<longleftrightarrow> u_id x = u_id r \<or> u_email x = u_email r \<or> u_username x = u_username r \<or>
     same_some (u_discordId r) (u_discordId x) \<or> same_some (u_googleId r) (u_googleId x) \<or>
     same_some (u_githubId r) (u_githubId x)"

definition role_conflict :: "role \<Rightarrow> role \<Rightarrow> bool" where
  "role_conflict r x \<longleftrightarrow> r_id x = r_id r \<or> r_name x = r_name r"

definition permission_conflict :: "permission \<Rightarrow> permission \<Rightarrow> bool" where
  "permission_conflict r x \<longleftrightarrow> p_id x = p_id r \<or> p_key x = p_key r"

definition rolePermission_conflict :: "rolePermission \<Rightarrow> rolePermission \<Rightarrow> bool" where
  "rolePermission_conflict r x \<longleftrightarrow>
     rp_roleId x = rp_roleId r \<and> rp_permissionId x = rp_permissionId r"

definition refreshToken_conflict :: "refreshToken \<Rightarrow> refreshToken \<Rightarrow> bool" where
  "refreshToken_conflict r x \<longleftrightarrow> rt_id x = rt_id r \<or> rt_tokenHash x = rt_tokenHash r"

definition apiKey_conflict :: "apiKey \<Rightarrow> apiKey \<Rightarrow> bool" where
  "apiKey_conflict r x \<longleftrightarrow> k_id x = k_id r \<or> k_keyHash x = k_keyHash r"

definition auditLog_conflict :: "auditLog \<Rightarrow> auditLog \<Rightarrow> bool" where
  "auditLog_conflict r x \<longleftrightarrow> a_id x = a_id r"

definition node_conflict :: "node \<Rightarrow> node \<Rightarrow> bool" where
  "node_conflict r x \<longleftrightarrow> n_id x = n_id r \<or> n_name x = n_name r"

definition allocation_conflict :: "networkAllocation \<Rightarrow> networkAllocation \<Rightarrow> bool" where
  "allocation_conflict r x \<longleftrightarrow> al_id x = al_id r \<or>
     (al_nodeId x = al_nodeId r \<and> al_ip x = al_ip r \<and> al_port x = al_port r)"

definition template_conflict :: "serverTemplate \<Rightarrow> serverTemplate \<Rightarrow> bool" where
  "template_conflict r x \<longleftrightarrow> tp_id x = tp_id r \<or> tp_name x = tp_name r"

definition server_conflict :: "server \<Rightarrow> server \<Rightarrow> bool" where
  "server_conflict r x \<longleftrightarrow> s_id x = s_id r \<or> s_uuid x = s_uuid r"

definition subUser_conflict :: "serverSubUser \<Rightarrow> serverSubUser \<Rightarrow> bool" where
  "subUser_conflict r x \<longleftrightarrow> su_id x = su_id r \<or>
     (su_serverId x = su_serverId r \<and> su_userId x = su_userId r)"

definition task_conflict :: "scheduledTask \<Rightarrow> scheduledTask \<Rightarrow> bool" where
  "task_conflict r x \<longleftrightarrow> st_id x = st_id r"

definition backup_conflict :: "backup \<Rightarrow> backup \<Rightarrow> bool" where
  "backup_conflict r x \<longleftrightarrow> b_id x = b_id r"

definition mod_conflict :: "installedMod \<Rightarrow> installedMod \<Rightarrow> bool" where
  "mod_conflict r x \<longleftrightarrow> m_id x = m_id r \<or>
     (m_serverId x = m_serverId r \<and> m_projectId x = m_projectId r)"

definition product_conflict :: "product \<Rightarrow> product \<Rightarrow> bool" where
  "product_conflict r x \<longleftrightarrow> pr_id x = pr_id r"

definition plan_conflict :: "plan \<Rightarrow> plan \<Rightarrow> bool" where
  "plan_conflict r x \<longleftrightarrow> pl_id x = pl_id r"

definition subscription_conflict :: "subscription \<Rightarrow> subscription \<Rightarrow> bool" where
  "subscription_conflict r x \<longleftrightarrow> sb_id x = sb_id r \<or>
     same_some (sb_stripeSubscriptionId r) (sb_stripeSubscriptionId x)"

definition invoice_conflict :: "invoice \<Rightarrow> invoice \<Rightarrow> bool" where
  "invoice_conflict r x \<longleftrightarrow> i_id x = i_id r \<or> i_number x = i_number r"

definition coupon_conflict :: "coupon \<Rightarrow> coupon \<Rightarrow> bool" where
  "coupon_conflict r x \<longleftrightarrow> c_id x = c_id r \<or> c_code x = c_code r"

definition ticket_conflict :: "supportTicket \<Rightarrow> supportTicket \<Rightarrow> bool" where
  "ticket_conflict r x \<longleftrightarrow> tk_id x = tk_id r"

definition message_conflict :: "ticketMessage \<Rightarrow> ticketMessage \<Rightarrow> bool" where
  "message_conflict r x \<longleftrightarrow> tm_id x = tm_id r"

definition item_conflict :: "marketplaceItem \<Rightarrow> marketplaceItem \<Rightarrow> bool" where
  "item_conflict r x \<longleftrightarrow> mi_id x = mi_id r \<or> mi_slug x = mi_slug r"

subsection \<open>Foreign keys\<close>

definition no_fk :: "db \<Rightarrow> 'r \<Rightarrow> bool" where
  "no_fk d r \<longleftrightarrow> True"

definition user_exists :: "db \<Rightarrow> id \<Rightarrow> bool" where
  "user_exists d i \<longleftrightarrow> list_ex (\<lambda>x. u_id x = i) (t_users d)"

definition role_exists :: "db \<Rightarrow> id \<Rightarrow> bool" where
  "role_exists d i \<longleftrightarrow> list_ex (\<lambda>x. r_id x = i) (t_roles d)"

definition permission_exists :: "db \<Rightarrow> id \<Rightarrow> bool" where
  "permission_exists d i \<longleftrightarrow> list_ex (\<lambda>x. p_id x = i) (t_permissions d)"

definition node_exists :: "db \<Rightarrow> id \<Rightarrow> bool" where
  "node_exists d i \<longleftrightarrow> list_ex (\<lambda>x. n_id x = i) (t_nodes d)"

definition server_exists :: "db \<Rightarrow> id \<Rightarrow> bool" where
  "server_exists d i \<longleftrightarrow> list_ex (\<lambda>x. s_id x = i) (t_servers d)"

definition template_exists :: "db \<Rightarrow> id \<Rightarrow> bool" where
  "template_exists d i \<longleftrightarrow> list_ex (\<lambda>x. tp_id x = i) (t_templates d)"

definition opt_ok :: "('a \<Rightarrow> bool) \<Rightarrow> 'a option \<Rightarrow> bool" where
  "opt_ok p x = (case x of None \<Rightarrow> True | Some y \<Rightarrow> p y)"

definition user_fk :: "db \<Rightarrow> user \<Rightarrow> bool" where
  "user_fk d r \<longleftrightarrow> opt_ok (role_exists d) (u_roleId r)"

definition rolePermission_fk :: "db \<Rightarrow> rolePermission \<Rightarrow> bool" where
  "rolePermission_fk d r \<longleftrightarrow> role_exists d (rp_roleId r) \<and> permission_exists d (rp_permissionId r)"

definition refreshToken_fk :: "db \<Rightarrow> refreshToken \<Rightarrow> bool" where
  "refreshToken_fk d r \<longleftrightarrow> user_exists d (rt_userId r)"

definition apiKey_fk :: "db \<Rightarrow> apiKey \<Rightarrow> bool" where
  "apiKey_fk d r \<longleftrightarrow> user_exists d (k_userId r)"

definition auditLog_fk :: "db \<Rightarrow> auditLog \<Rightarrow> bool" where
  "auditLog_fk d r \<longleftrightarrow> opt_ok (user_exists d) (a_actorId r)"

definition allocation_fk :: "db \<Rightarrow> networkAllocation \<Rightarrow> bool" where
  "allocation_fk d r \<longleftrightarrow> node_exists d (al_nodeId r) \<and> opt_ok (server_exists d) (al_serverId r)"

definition server_fk :: "db \<Rightarrow> server \<Rightarrow> bool" where
  "server_fk d r \<longleftrightarrow> user_exists d (s_ownerId r) \<and> node_exists d (s_nodeId r) \<and>
     template_exists d (s_templateId r)"

definition subUser_fk :: "db \<Rightarrow> serverSubUser \<Rightarrow> bool" where
  "subUser_fk d r \<longleftrightarrow> server_exists d (su_serverId r) \<and> user_exists d (su_userId r)"

definition task_fk :: "db \<Rightarrow> scheduledTask \<Rightarrow> bool" where
  "task_fk d r \<longleftrightarrow> server_exists d (st_serverId r)"

definition backup_fk :: "db \<Rightarrow> backup \<Rightarrow> bool" where
  "backup_fk d r \<longleftrightarrow> server_exists d (b_serverId r)"

definition mod_fk :: "db \<Rightarrow> installedMod \<Rightarrow> bool" where
  "mod_fk d r \<longleftrightarrow> server_exists d (m_serverId r)"

definition plan_fk :: "db \<Rightarrow> plan \<Rightarrow> bool" where
  "plan_fk d r \<longleftrightarrow> list_ex (\<lambda>x. pr_id x = pl_productId r) (t_products d)"

definition subscription_fk :: "db \<Rightarrow> subscription \<Rightarrow> bool" where
  "subscription_fk d r \<longleftrightarrow> user_exists d (sb_userId r) \<and>
     list_ex (\<lambda>x. pl_id x = sb_planId r) (t_plans d)"

definition invoice_fk :: "db \<Rightarrow> invoice \<Rightarrow> bool" where
  "invoice_fk d r \<longleftrightarrow> user_exists d (i_userId r) \<and>
     opt_ok (\<lambda>s. list_ex (\<lambda>x. sb_id x = s) (t_subscriptions d)) (i_subscriptionId r)"

definition ticket_fk :: "db \<Rightarrow> supportTicket \<Rightarrow> bool" where
  "ticket_fk d r \<longleftrightarrow> user_exists d (tk_userId r)"

definition message_fk :: "db \<Rightarrow> ticketMessage \<Rightarrow> bool" where
  "message_fk d r \<longleftrightarrow> list_ex (\<lambda>x. tk_id x = tm_ticketId r) (t_tickets d) \<and>
     user_exists d (tm_authorId r)"

subsection \<open>Deletions\<close>

text \<open>A server: its sub-users, tasks, backups and mods go with it; its network allocations
  stay, without a server.\<close>

definition drop_server :: "id \<Rightarrow> db \<Rightarrow> db" where
  "drop_server sid d = d\<lparr>
     t_servers := filter (\<lambda>s. s_id s \<noteq> sid) (t_servers d),
     t_subUsers := filter (\<lambda>x. su_serverId x \<noteq> sid) (t_subUsers d),
     t_tasks := filter (\<lambda>x. st_serverId x \<noteq> sid) (t_tasks d),
     t_backups := filter (\<lambda>x. b_serverId x \<noteq> sid) (t_backups d),
     t_mods := filter (\<lambda>x. m_serverId x \<noteq> sid) (t_mods d),
     t_allocations := map (\<lambda>x. if al_serverId x = Some sid then x\<lparr>al_serverId := None\<rparr> else x)
       (t_allocations d)\<rparr>"

definition dbDeleteServer :: "id \<Rightarrow> unit io" where
  "dbDeleteServer sid = (\<lambda>w. if server_exists (w_db w) sid
     then (Inr (), w\<lparr>w_db := drop_server sid (w_db w)\<rparr>) else (Inl P2025, w))"

text \<open>A user: refused while servers, subscriptions, invoices, tickets or messages refer to
  the account; its tokens, keys and sub-user rows go with it, its audit entries stay.\<close>

definition user_restricted :: "db \<Rightarrow> id \<Rightarrow> bool" where
  "user_restricted d i \<longleftrightarrow>
     list_ex (\<lambda>x. s_ownerId x = i) (t_servers d) \<or>
     list_ex (\<lambda>x. sb_userId x = i) (t_subscriptions d) \<or>
     list_ex (\<lambda>x. i_userId x = i) (t_invoices d) \<or>
     list_ex (\<lambda>x. tk_userId x = i) (t_tickets d) \<or>
     list_ex (\<lambda>x. tm_authorId x = i) (t_messages d)"

definition drop_user :: "id \<Rightarrow> db \<Rightarrow> db" where
  "drop_user i d = d\<lparr>
     t_users := filter (\<lambda>x. u_id x \<noteq> i) (t_users d),
     t_refreshTokens := filter (\<lambda>x. rt_userId x \<noteq> i) (t_refreshTokens d),
     t_apiKeys := filter (\<lambda>x. k_userId x \<noteq> i) (t_apiKeys d),
     t_subUsers := filter (\<lambda>x. su_userId x \<noteq> i) (t_subUsers d),
     t_auditLogs := map (\<lambda>x. if a_actorId x = Some i then x\<lparr>a_actorId := None\<rparr> else x)
       (t_auditLogs d)\<rparr>"

definition dbDeleteUser :: "id \<Rightarrow> unit io" where
  "dbDeleteUser i = (\<lambda>w. if \<not> user_exists (w_db w) i then (Inl P2025, w)
     else if user_restricted (w_db w) i then (Inl P2003, w)
     else (Inr (), w\<lparr>w_db := drop_user i (w_db w)\<rparr>))"

text \<open>A role: its permissions go with it, its users stay without a role.\<close>

definition drop_role :: "id \<Rightarrow> db \<Rightarrow> db" where
  "drop_role i d = d\<lparr>
     t_roles := filter (\<lambda>x. r_id x \<noteq> i) (t_roles d),
     t_rolePermissions := filter (\<lambda>x. rp_roleId x \<noteq> i) (t_rolePermissions d),
     t_users := map (\<lambda>x. if u_roleId x = Some i then x\<lparr>u_roleId := None\<rparr> else x) (t_users d)\<rparr>"

definition dbDeleteRole :: "id \<Rightarrow> unit io" where
  "dbDeleteRole i = (\<lambda>w. if role_exists (w_db w) i
     then (Inr (), w\<lparr>w_db := drop_role i (w_db w)\<rparr>) else (Inl P2025, w))"

text \<open>A node: refused while servers refer to it; its allocations go with it.\<close>

definition drop_node :: "id \<Rightarrow> db \<Rightarrow> db" where
  "drop_node i d = d\<lparr>
     t_nodes := filter (\<lambda>x. n_id x \<noteq> i) (t_nodes d),
     t_allocations := filter (\<lambda>x. al_nodeId x \<noteq> i) (t_allocations d)\<rparr>"

definition dbDeleteNode :: "id \<Rightarrow> unit io" where
  "dbDeleteNode i = (\<lambda>w. if \<not> node_exists (w_db w) i then (Inl P2025, w)
     else if list_ex (\<lambda>s. s_nodeId s = i) (t_servers (w_db w)) then (Inl P2003, w)
     else (Inr (), w\<lparr>w_db := drop_node i (w_db w)\<rparr>))"

lemma dbDelete_row_apply [prog_simps]:
  "dbDeleteServer sid w = (if server_exists (w_db w) sid
     then (Inr (), w\<lparr>w_db := drop_server sid (w_db w)\<rparr>) else (Inl P2025, w))"
  "dbDeleteUser i w = (if \<not> user_exists (w_db w) i then (Inl P2025, w)
     else if user_restricted (w_db w) i then (Inl P2003, w)
     else (Inr (), w\<lparr>w_db := drop_user i (w_db w)\<rparr>))"
  "dbDeleteRole i w = (if role_exists (w_db w) i
     then (Inr (), w\<lparr>w_db := drop_role i (w_db w)\<rparr>) else (Inl P2025, w))"
  "dbDeleteNode i w = (if \<not> node_exists (w_db w) i then (Inl P2025, w)
     else if list_ex (\<lambda>s. s_nodeId s = i) (t_servers (w_db w)) then (Inl P2003, w)
     else (Inr (), w\<lparr>w_db := drop_node i (w_db w)\<rparr>))"
  by (simp_all add: dbDeleteServer_def dbDeleteUser_def dbDeleteRole_def dbDeleteNode_def)

lemma dbDelete_row_Inr [run_Inr]:
  "dbDeleteServer i w = (Inr y, w') \<longleftrightarrow>
     server_exists (w_db w) i \<and> w' = w\<lparr>w_db := drop_server i (w_db w)\<rparr>"
  "dbDeleteUser i w = (Inr y, w') \<longleftrightarrow> user_exists (w_db w) i \<and> \<not> user_restricted (w_db w) i \<and>
     w' = w\<lparr>w_db := drop_user i (w_db w)\<rparr>"
  "dbDeleteRole i w = (Inr y, w') \<longleftrightarrow>
     role_exists (w_db w) i \<and> w' = w\<lparr>w_db := drop_role i (w_db w)\<rparr>"
  "dbDeleteNode i w = (Inr y, w') \<longleftrightarrow> node_exists (w_db w) i \<and>
     \<not> list_ex (\<lambda>s. s_nodeId s = i) (t_servers (w_db w)) \<and>
     w' = w\<lparr>w_db := drop_node i (w_db w)\<rparr>"
  by (auto simp: dbDelete_row_apply)

subsection \<open>The interface of a table\<close>

lemma find_SomeD: "List.find p xs = Some r \<Longrightarrow> p r \<and> r \<in> set xs"
  by (metis find_Some_iff nth_mem)

lemma find_NoneD: "List.find p xs = None \<Longrightarrow> x \<in> set xs \<Longrightarrow> \<not> p x"
  by (simp add: find_None_iff)

lemma find_Some_ex: "x \<in> set xs \<Longrightarrow> p x \<Longrightarrow> \<exists>r. List.find p xs = Some r"
  by (metis find_NoneD option.exhaust)

lemma find_map_key:
  assumes "\<And>x. key (f x) = key x"
  shows "List.find (\<lambda>x. key x = k) (map (\<lambda>x. if p x then f x else x) rows) =
     map_option (\<lambda>x. if p x then f x else x) (List.find (\<lambda>x. key x = k) rows)"
  by (induction rows) (auto simp: assms)

lemma find_filter_key:
  "k \<noteq> k' \<Longrightarrow>
   List.find (\<lambda>x. key x = k) (filter (\<lambda>x. key x \<noteq> k') rows) = List.find (\<lambda>x. key x = k) rows"
  by (induction rows) auto

lemma find_append_key:
  "List.find p (xs @ ys) = (case List.find p xs of None \<Rightarrow> List.find p ys | Some x \<Rightarrow> Some x)"
  by (induction xs) auto

lemma map_key_update:
  "(\<And>x. key (f x) = key x) \<Longrightarrow> map key (map (\<lambda>x. if p x then f x else x) rows) = map key rows"
  by (induction rows) auto

text \<open>
  What a handler relies on when it uses a table by its key: a row that was created is
  found, an update changes the row of the key and no other, a deleted key is absent, and
  keys stay distinct.
\<close>

locale table =
  fixes tbl :: "db \<Rightarrow> 'r list"
    and upd :: "('r list \<Rightarrow> 'r list) \<Rightarrow> db \<Rightarrow> db"
    and key :: "'r \<Rightarrow> id"
  assumes get_put: "tbl (upd g d) = g (tbl d)"
begin

lemma find_created:
  assumes "dbCreate tbl upd conflict fk row w = (Inr r, w')"
    and "\<And>x. key x = key row \<Longrightarrow> conflict row x"
  shows "List.find (\<lambda>x. key x = key row) (tbl (w_db w')) = Some row"
proof -
  have "\<forall>x \<in> set (tbl (w_db w)). key x \<noteq> key row"
    using assms by (auto simp: dbCreate_apply list_ex_iff split: if_splits)
  then have "List.find (\<lambda>x. key x = key row) (tbl (w_db w)) = None"
    by (simp add: find_None_iff)
  then show ?thesis using assms(1)
    by (auto simp: dbCreate_apply get_put find_append_key split: if_splits)
qed

lemma find_updated:
  assumes "dbUpdate tbl upd (\<lambda>x. key x = k) f w = (Inr r, w')" and "\<And>x. key (f x) = key x"
  shows "List.find (\<lambda>x. key x = k) (tbl (w_db w')) = Some r"
    and "k' \<noteq> k \<Longrightarrow>
      List.find (\<lambda>x. key x = k') (tbl (w_db w')) = List.find (\<lambda>x. key x = k') (tbl (w_db w))"
proof -
  obtain r0 where r0: "List.find (\<lambda>x. key x = k) (tbl (w_db w)) = Some r0" and "r = f r0"
    and w': "w' = w\<lparr>w_db := upd (map (\<lambda>x. if key x = k then f x else x)) (w_db w)\<rparr>"
    using assms(1) by (auto simp: dbUpdate_apply split: option.splits)
  moreover have "key r0 = k" using r0 by (auto simp: find_Some_iff)
  ultimately show "List.find (\<lambda>x. key x = k) (tbl (w_db w')) = Some r"
    by (simp add: get_put find_map_key [where key = key] assms(2))
  assume "k' \<noteq> k"
  then show "List.find (\<lambda>x. key x = k') (tbl (w_db w')) = List.find (\<lambda>x. key x = k') (tbl (w_db w))"
    by (cases "List.find (\<lambda>x. key x = k') (tbl (w_db w))")
       (auto simp: w' get_put find_map_key [where key = key] assms(2) dest: find_SomeD)
qed

lemma find_deleted:
  assumes "dbDelete tbl upd (\<lambda>x. key x = k) w = (Inr r, w')"
  shows "List.find (\<lambda>x. key x = k) (tbl (w_db w')) = None"
    and "k' \<noteq> k \<Longrightarrow>
      List.find (\<lambda>x. key x = k') (tbl (w_db w')) = List.find (\<lambda>x. key x = k') (tbl (w_db w))"
  using assms
  by (auto simp: dbDelete_apply get_put find_None_iff find_filter_key [where key = key]
      split: if_splits)

lemma distinct_created:
  assumes "\<And>x. key x = key row \<Longrightarrow> conflict row x"
  shows "keepsDb (\<lambda>d. distinct (map key (tbl d))) (dbCreate tbl upd conflict fk row)"
proof (rule keepsDbI)
  fix w :: world
  assume "distinct (map key (tbl (w_db w)))"
  moreover have "\<not> list_ex (conflict row) (tbl (w_db w)) \<Longrightarrow> key row \<notin> key ` set (tbl (w_db w))"
    using assms by (auto simp: list_ex_iff)
  ultimately show "distinct (map key (tbl (w_db (snd (dbCreate tbl upd conflict fk row w)))))"
    by (simp add: dbCreate_apply get_put)
qed

lemma distinct_updated:
  "(\<And>x. key (f x) = key x) \<Longrightarrow>
   keepsDb (\<lambda>d. distinct (map key (tbl d))) (dbUpdate tbl upd p f)"
  by (rule keepsDbI)
     (simp add: dbUpdate_apply get_put map_key_update [where key = key] del: map_map
       split: option.splits)

lemma distinct_deleted: "keepsDb (\<lambda>d. distinct (map key (tbl d))) (dbDelete tbl upd p)"
  by (rule keepsDbI) (simp add: dbDelete_apply get_put distinct_map_filter)

end

interpretation users: table t_users t_users_update u_id
  by unfold_locales simp

interpretation roles: table t_roles t_roles_update r_id
  by unfold_locales simp

interpretation refreshTokens: table t_refreshTokens t_refreshTokens_update rt_id
  by unfold_locales simp

interpretation apiKeys: table t_apiKeys t_apiKeys_update k_id
  by unfold_locales simp

interpretation nodes: table t_nodes t_nodes_update n_id
  by unfold_locales simp

interpretation servers: table t_servers t_servers_update s_id
  by unfold_locales simp

interpretation tasks: table t_tasks t_tasks_update st_id
  by unfold_locales simp

interpretation backups: table t_backups t_backups_update b_id
  by unfold_locales simp

interpretation mods: table t_mods t_mods_update m_id
  by unfold_locales simp

interpretation invoices: table t_invoices t_invoices_update i_id
  by unfold_locales simp

interpretation tickets: table t_tickets t_tickets_update tk_id
  by unfold_locales simp

end
