(* ===== verification/AuditLog.thy ===== *)
theory AuditLog
  imports Tables
begin

text \<open>
  \<^verbatim>\<open>audit/audit.service.ts\<close>: one row per recorded action. The actor is a foreign key, so a
  record for an account that does not exist throws.
\<close>

record auditEntry =
  ae_actorId :: "id option"
  ae_action :: string
  ae_targetType :: "string option"
  ae_targetId :: "id option"
  ae_severity :: "AuditSeverity option"
  ae_metadata :: "json option"
  ae_ip :: "string option"
  ae_userAgent :: "string option"

text \<open>The object literal of a call: actor, action, type and identifier of the target; the
  other fields are set by a record update where a call gives them.\<close>

definition auditEntry :: "id \<Rightarrow> string \<Rightarrow> string \<Rightarrow> id \<Rightarrow> auditEntry" where
  "auditEntry actor action ttype tid = \<lparr>ae_actorId = Some actor, ae_action = action,
     ae_targetType = Some ttype, ae_targetId = Some tid, ae_severity = None,
     ae_metadata = None, ae_ip = None, ae_userAgent = None\<rparr>"

definition auditLog_row :: "id \<Rightarrow> time \<Rightarrow> auditEntry \<Rightarrow> auditLog" where
  "auditLog_row i t e = \<lparr>a_id = i, a_actorId = ae_actorId e, a_action = ae_action e,
     a_targetType = ae_targetType e, a_targetId = ae_targetId e,
     a_severity = orElse (ae_severity e) INFO, a_metadata = orElse (ae_metadata e) JNull,
     a_ip = ae_ip e, a_userAgent = ae_userAgent e, a_createdAt = t\<rparr>"

definition audit_log :: "env \<Rightarrow> auditEntry \<Rightarrow> unit io" where
  "audit_log E e =
     bnd (external (newUuid E)) (\<lambda>i.
     bnd (external (now E)) (\<lambda>t.
     andThen (dbCreate t_auditLogs t_auditLogs_update auditLog_conflict auditLog_fk
         (auditLog_row i t e))
       (ret ())))"

record auditListParams =
  al_skip :: "int option"
  al_take :: "int option"
  al_actor :: "id option"
  al_targetType :: "string option"

text \<open>A filter that is \<open>undefined\<close> is no filter. Each entry comes with the identifier, the
  name and the address of its actor.\<close>

definition audit_list :: "auditListParams \<Rightarrow> (auditLog \<times> (id \<times> string \<times> string) option) list io" where
  "audit_list ps =
     bnd (dbFindMany t_auditLogs (\<lambda>a.
         opt_ok (\<lambda>x. a_actorId a = Some x) (al_actor ps) \<and>
         opt_ok (\<lambda>x. a_targetType a = Some x) (al_targetType ps))) (\<lambda>rows.
     bnd (page (orElse (al_skip ps) 0) (orElse (al_take ps) 50) (orderDesc a_createdAt rows)) (\<lambda>rows.
     bnd (gets w_db) (\<lambda>d.
     ret (map (\<lambda>a. (a, case a_actorId a of None \<Rightarrow> None | Some i \<Rightarrow>
         map_option (\<lambda>u. (u_id u, u_username u, u_email u))
           (List.find (\<lambda>u. u_id u = i) (t_users d)))) rows))))"

lemma keepsDb_audit_log:
  "frame J t_auditLogs_update \<Longrightarrow> keepsDb J (audit_log E e)"
  unfolding audit_log_def by (intro keepsDb_intros keepsDb_write_frame)

lemma audit_log_Inr:
  assumes "audit_log E e w = (Inr x, w')"
  shows "\<exists>row. a_action row = ae_action e \<and> a_actorId row = ae_actorId e \<and>
    a_targetId row = ae_targetId e \<and> a_severity row = orElse (ae_severity e) INFO \<and>
    w_db w' = t_auditLogs_update (\<lambda>t. t @ [row]) (w_db w) \<and>
    w_calls w' = w_calls w \<and> w_jobs w' = w_jobs w \<and> w_clients w' = w_clients w"
  using assms
  by (intro exI [where x = "auditLog_row (newUuid E (w_tick w)) (now E (Suc (w_tick w))) e"])
     (auto simp: audit_log_def prog_simps auditLog_row_def split: if_splits)

text \<open>What a record leaves as it is, whatever its outcome.\<close>

lemma audit_log_snd:
  "w_calls (snd (audit_log E e w)) = w_calls w"
  "w_jobs (snd (audit_log E e w)) = w_jobs w"
  "w_clients (snd (audit_log E e w)) = w_clients w"
  by (auto simp: audit_log_def prog_simps)

lemma audit_log_tables:
  "\<exists>rows. w_db (snd (audit_log E e w)) = t_auditLogs_update (\<lambda>t. t @ rows) (w_db w)"
proof (cases "\<exists>x. fst (audit_log E e w) = Inr x")
  case True
  then obtain x w' where "audit_log E e w = (Inr x, w')" by (cases "audit_log E e w") auto
  then show ?thesis using audit_log_Inr by fastforce
next
  case False
  then have "w_db (snd (audit_log E e w)) = w_db w"
    by (auto simp: audit_log_def prog_simps split: if_splits)
  then show ?thesis by (intro exI [where x = "[]"]) simp
qed

end
