(* ===== verification/NodeClient.thy ===== *)
theory NodeClient
  imports Tables
begin

text \<open>
  \<^verbatim>\<open>grpc-client/node-client.service.ts\<close>: one cached client per node, created at the first
  call with the address it is given, and the unary calls through it. A call is recorded in
  the trace of the world when it leaves the backend; the daemon's answer is a parameter.
\<close>

record connectionParams =
  cp_host :: string
  cp_port :: int
  cp_caCertPath :: "string option"
  cp_clientCertPath :: "string option"
  cp_clientKeyPath :: "string option"

text \<open>The literal \<open>{ host, port }\<close> every service passes.\<close>

definition hostPort :: "string \<Rightarrow> int \<Rightarrow> connectionParams" where
  "hostPort h p = \<lparr>cp_host = h, cp_port = p, cp_caCertPath = None, cp_clientCertPath = None,
     cp_clientKeyPath = None\<rparr>"

definition nodeParams :: "node \<Rightarrow> connectionParams" where
  "nodeParams n = hostPort (n_grpcHost n) (n_grpcPort n)"

text \<open>The methods of \<open>NodeService\<close> in \<^verbatim>\<open>api/openapi/elysia.proto\<close>.\<close>

definition nodeServiceMethods :: "string list" where
  "nodeServiceMethods = [''Ping'', ''GetSystemStats'', ''CreateServer'', ''StartServer'',
     ''StopServer'', ''RestartServer'', ''KillServer'', ''DeleteServer'', ''ReinstallServer'',
     ''SendCommand'', ''GetServerStats'', ''StreamConsole'', ''StreamStats'', ''ListFiles'',
     ''ReadFile'', ''WriteFile'', ''DeleteFile'', ''RenameFile'', ''CreateDirectory'',
     ''CompressFiles'', ''DecompressFile'', ''CreateBackup'', ''RestoreBackup'', ''DeleteBackup'',
     ''TransferOut'', ''TransferIn'']"

definition PROTO_PATH :: string where
  "PROTO_PATH = ''../api/openapi/elysia.proto''"

definition loadProto :: "env \<Rightarrow> unit io" where
  "loadProto E = bnd (gets w_protoLoaded) (\<lambda>loaded.
     if loaded then ret ()
     else bnd (external (\<lambda>n. fileExists E n PROTO_PATH)) (\<lambda>found.
       if \<not> found then throw (JsError (''Fichier proto introuvable: '' @ PROTO_PATH))
       else modify (\<lambda>w. w\<lparr>w_protoLoaded := True\<rparr>)))"

text \<open>\<open>grpc.credentials\<close>: a channel is secure when the three paths are given and their
  files can be read.\<close>

definition clientCredentials :: "env \<Rightarrow> connectionParams \<Rightarrow> bool io" where
  "clientCredentials E params =
     (if truthy (cp_caCertPath params) \<and> truthy (cp_clientCertPath params) \<and>
         truthy (cp_clientKeyPath params)
      then andThen (externalCall (\<lambda>n. readFile E n (orElse (cp_caCertPath params) [])))
          (andThen (externalCall (\<lambda>n. readFile E n (orElse (cp_clientKeyPath params) [])))
          (andThen (externalCall (\<lambda>n. readFile E n (orElse (cp_clientCertPath params) [])))
            (ret True)))
      else ret False)"

definition getOrCreateClient :: "env \<Rightarrow> id \<Rightarrow> connectionParams \<Rightarrow> grpcClient io" where
  "getOrCreateClient E nodeId params = bnd (gets w_clients) (\<lambda>clients.
     case map_of clients nodeId of
       Some c \<Rightarrow> ret c
     | None \<Rightarrow> andThen (loadProto E)
         (bnd (clientCredentials E params) (\<lambda>secure.
           let c = \<lparr>cl_host = cp_host params, cl_port = cp_port params, cl_secure = secure\<rparr>
           in andThen (modify (\<lambda>w. w\<lparr>w_clients := (nodeId, c) # w_clients w\<rparr>)) (ret c))))"

text \<open>\<open>call\<close>: the answer \<open>orc\<close> of the daemon depends on the number of the call and on the
  call itself; \<open>Inl\<close> is a gRPC error.\<close>

definition sendCall :: "(nat \<Rightarrow> grpcCall \<Rightarrow> string + 'a) \<Rightarrow> grpcCall \<Rightarrow> 'a io" where
  "sendCall orc c = andThen (modify (\<lambda>w. w\<lparr>w_calls := w_calls w @ [c]\<rparr>))
     (externalCall (\<lambda>n. orc n c))"

definition nodeCall ::
  "env \<Rightarrow> (nat \<Rightarrow> grpcCall \<Rightarrow> string + 'a) \<Rightarrow> id \<Rightarrow> connectionParams \<Rightarrow> string \<Rightarrow>
   grpcRequest \<Rightarrow> 'a io" where
  "nodeCall E orc nodeId params method req =
     bnd (getOrCreateClient E nodeId params) (\<lambda>client.
       if method \<notin> set nodeServiceMethods then throw (JsError (''Methode gRPC inconnue: '' @ method))
       else sendCall orc \<lparr>gc_node = nodeId, gc_client = client, gc_method = method,
              gc_request = req\<rparr>)"

definition nodePing :: "env \<Rightarrow> id \<Rightarrow> connectionParams \<Rightarrow> pingResponse io" where
  "nodePing E nodeId params =
     bnd (getOrCreateClient E nodeId params) (\<lambda>client.
     bnd (external (now E)) (\<lambda>t.
       sendCall (grpcPing E) \<lparr>gc_node = nodeId, gc_client = client, gc_method = ''Ping'',
         gc_request = PingRequest (show_int t)\<rparr>))"

definition nodeDisconnect :: "id \<Rightarrow> unit io" where
  "nodeDisconnect nodeId =
     modify (\<lambda>w. w\<lparr>w_clients := filter (\<lambda>c. fst c \<noteq> nodeId) (w_clients w)\<rparr>)"

subsection \<open>Calls do not touch the database\<close>

lemma keepsDb_modify: "(\<And>w. w_db (f w) = w_db w) \<Longrightarrow> keepsDb J (modify f)"
  by (simp add: keepsDb_def keeps_def prog_simps)

lemma keepsDb_client [keepsDb_intros]:
  "keepsDb J (loadProto E)"
  "keepsDb J (clientCredentials E params)"
  "keepsDb J (getOrCreateClient E nodeId params)"
  "keepsDb J (sendCall orc c)"
  "keepsDb J (nodeCall E orc nodeId params method req)"
  "keepsDb J (nodePing E nodeId params)"
  "keepsDb J (nodeDisconnect nodeId)"
  unfolding loadProto_def clientCredentials_def getOrCreateClient_def sendCall_def
    nodeCall_def nodePing_def nodeDisconnect_def
  by (auto intro!: keepsDb_intros keepsDb_modify)

lemma readOnlyDb_nodeCall: "readOnlyDb (nodeCall E orc nodeId params method req)"
  by (simp add: readOnlyDb_iff keepsDb_intros)

lemma nodeCall_db: "nodeCall E orc nodeId params method req w = (r, w') \<Longrightarrow> w_db w' = w_db w"
  by (rule readOnlyDbD [OF readOnlyDb_nodeCall])

lemma nodeCall_jobs: "nodeCall E orc nodeId params method req w = (r, w') \<Longrightarrow> w_jobs w' = w_jobs w"
  by (auto simp: nodeCall_def getOrCreateClient_def loadProto_def clientCredentials_def
      sendCall_def prog_simps Let_def split: option.splits if_splits sum.splits prod.splits)

text \<open>A call that returns was sent, once, to the node and with the request it was given; one that
  throws was sent at most once.\<close>

lemma getOrCreateClient_frame:
  "getOrCreateClient E nodeId params w = (r, w') \<Longrightarrow>
     w_calls w' = w_calls w \<and> w_db w' = w_db w \<and> w_jobs w' = w_jobs w"
  by (auto simp: getOrCreateClient_def loadProto_def clientCredentials_def prog_simps Let_def
      split: option.splits if_splits sum.splits prod.splits)

lemma nodeCall_Inr:
  assumes "nodeCall E orc nodeId params method req w = (Inr x, w')"
  shows "\<exists>k c. gc_node c = nodeId \<and> gc_method c = method \<and> gc_request c = req \<and>
    orc k c = Inr x \<and> w_calls w' = w_calls w @ [c]"
proof -
  obtain c w1 where g: "getOrCreateClient E nodeId params w = (Inr c, w1)"
    and s: "sendCall orc \<lparr>gc_node = nodeId, gc_client = c, gc_method = method,
      gc_request = req\<rparr> w1 = (Inr x, w')"
    using assms by (auto simp: nodeCall_def run_Inr split: if_splits)
  then show ?thesis using getOrCreateClient_frame [OF g]
    by (intro exI [where x = "w_tick w1"] exI [where x = "\<lparr>gc_node = nodeId, gc_client = c,
        gc_method = method, gc_request = req\<rparr>"])
       (auto simp: sendCall_def run_Inr)
qed

lemma nodeCall_Inl:
  assumes "nodeCall E orc nodeId params method req w = (Inl e, w')"
  shows "w_calls w' = w_calls w \<or> (\<exists>c. gc_node c = nodeId \<and> gc_method c = method \<and>
    gc_request c = req \<and> w_calls w' = w_calls w @ [c])"
proof (cases "getOrCreateClient E nodeId params w")
  case (Pair r w1)
  then show ?thesis using assms getOrCreateClient_frame [OF Pair]
    by (cases r) (auto simp: nodeCall_def sendCall_def prog_simps split: if_splits sum.splits)
qed

subsection \<open>The channels are not authenticated\<close>

text \<open>
  Every service passes \<open>{ host, port }\<close> only, so the branch with certificates is never
  taken. The invariant of the cache: no client is secure.
\<close>

definition insecureClients :: "world \<Rightarrow> bool" where
  "insecureClients w \<longleftrightarrow> (\<forall>(i, c) \<in> set (w_clients w). \<not> cl_secure c) \<and>
     (\<forall>c \<in> set (w_calls w). \<not> cl_secure (gc_client c))"

lemma getOrCreateClient_insecure:
  assumes "insecureClients w" and "getOrCreateClient E nodeId (hostPort h p) w = (r, w')"
  shows "insecureClients w' \<and> (\<forall>c. r = Inr c \<longrightarrow> \<not> cl_secure c)"
proof (cases "map_of (w_clients w) nodeId")
  case None
  then show ?thesis using assms
    by (auto simp: getOrCreateClient_def loadProto_def clientCredentials_def hostPort_def
        insecureClients_def prog_simps Let_def split: if_splits)
next
  case (Some c)
  then have "(nodeId, c) \<in> set (w_clients w)" by (rule map_of_SomeD)
  with Some show ?thesis using assms
    by (auto simp: getOrCreateClient_def prog_simps insecureClients_def)
qed

lemma nodeCall_insecure:
  assumes "insecureClients w"
  shows "insecureClients (snd (nodeCall E orc nodeId (hostPort h p) method req w))"
proof -
  obtain r w' where g: "getOrCreateClient E nodeId (hostPort h p) w = (r, w')"
    by (cases "getOrCreateClient E nodeId (hostPort h p) w")
  note i = getOrCreateClient_insecure [OF assms g]
  show ?thesis
  proof (cases r)
    case (Inl e)
    then show ?thesis using i by (simp add: nodeCall_def prog_simps g)
  next
    case (Inr c)
    then show ?thesis using i
      by (auto simp: nodeCall_def sendCall_def prog_simps g insecureClients_def
          split: if_splits sum.splits)
  qed
qed

subsection \<open>The cache\<close>

text \<open>A node that has a client keeps its address, whatever address a later call is given.\<close>

lemma getOrCreateClient_cached:
  "map_of (w_clients w) nodeId = Some c \<Longrightarrow> getOrCreateClient E nodeId params w = (Inr c, w)"
  by (simp add: getOrCreateClient_def prog_simps)

lemma nodeDisconnect_removes:
  "map_of (w_clients (snd (nodeDisconnect nodeId w))) nodeId = None"
  by (auto simp: nodeDisconnect_def prog_simps map_of_eq_None_iff)

end
