(* ===== verification/Doubles.thy ===== *)
theory Doubles
  imports Complex_Main "HOL-Library.Log_Nat"
begin

text \<open>
  The numbers of JavaScript. A result of an arithmetic operation is the exact rational
  result rounded to a double: 53 significant bits, to nearest, ties to even. The range is
  not bounded: the operands of the code are columns of 32 bits, far from the largest and
  from the subnormal doubles.
\<close>

subsection \<open>Rounding\<close>

definition round_even :: "rat \<Rightarrow> int" where
  "round_even m = (let f = \<lfloor>m\<rfloor>; d = m - of_int f in
     if d < 1/2 then f else if 1/2 < d then f + 1 else if even f then f else f + 1)"

text \<open>The exponent \<open>k\<close> with \<open>2 ^ k \<le> x < 2 ^ (k + 1)\<close>, from the bit lengths of the
  numerator and the denominator.\<close>

definition binexp :: "rat \<Rightarrow> int" where
  "binexp x = (let (a, b) = quotient_of x; k = bitlen a - bitlen b in
     if 2 powi k \<le> x then k else k - 1)"

definition fl_pos :: "rat \<Rightarrow> rat" where
  "fl_pos x = (let e = binexp x - 52 in of_int (round_even (x / 2 powi e)) * 2 powi e)"

definition fl :: "rat \<Rightarrow> rat" where
  "fl x = (if x = 0 then 0 else if x < 0 then - fl_pos (- x) else fl_pos x)"

definition js_div :: "rat \<Rightarrow> rat \<Rightarrow> rat" where "js_div a b = fl (a / b)"
definition js_mul :: "rat \<Rightarrow> rat \<Rightarrow> rat" where "js_mul a b = fl (a * b)"
definition js_add :: "rat \<Rightarrow> rat \<Rightarrow> rat" where "js_add a b = fl (a + b)"

subsection \<open>Rounding to an integer\<close>

lemma round_even_of_int [simp]: "round_even (of_int i) = i"
  by (simp add: round_even_def)

lemma round_even_error: "\<bar>of_int (round_even m) - m\<bar> \<le> 1/2"
proof -
  have "of_int \<lfloor>m\<rfloor> \<le> m" and "m < of_int \<lfloor>m\<rfloor> + 1" by linarith+
  then show ?thesis by (auto simp: round_even_def Let_def abs_le_iff)
qed

subsection \<open>The exponent\<close>

lemma bitlen_powi:
  assumes "0 < a"
  shows "2 powi (bitlen a - 1) \<le> (of_int a :: rat)" and "of_int a < (2 powi bitlen a :: rat)"
proof -
  have pos: "0 < bitlen a"
    using assms bitlen_eq_zero_iff [of a] bitlen_nonneg [of a] by linarith
  have b: "2 ^ nat (bitlen a - 1) \<le> a \<and> a < 2 ^ nat (bitlen a)"
    using bitlen_bounds [OF assms] .
  have "(2 :: rat) powi (bitlen a - 1) = of_int (2 ^ nat (bitlen a - 1))"
    using pos by (simp add: power_int_def)
  also have "\<dots> \<le> of_int a" using b by (simp only: of_int_le_iff)
  finally show "2 powi (bitlen a - 1) \<le> (of_int a :: rat)" .
  have "of_int a < (of_int (2 ^ nat (bitlen a)) :: rat)" using b by (simp only: of_int_less_iff)
  also have "\<dots> = 2 powi bitlen a" using pos by (simp add: power_int_def)
  finally show "of_int a < (2 powi bitlen a :: rat)" .
qed

lemma powi_pos: "0 < (2 :: rat) powi k"
  by simp

lemma binexp_bounds:
  assumes "0 < x"
  shows "2 powi binexp x \<le> x" and "x < 2 powi (binexp x + 1)"
proof -
  obtain a b where q: "quotient_of x = (a, b)" by (cases "quotient_of x")
  have b: "0 < b" using q quotient_of_denom_pos by blast
  have x: "x = of_int a / of_int b" using quotient_of_div [OF q] .
  have a: "0 < a" using assms b by (simp add: x zero_less_divide_iff)
  define k where "k = bitlen a - bitlen b"
  have up: "x < 2 powi (k + 1)"
  proof -
    have "of_int a < (2 powi bitlen a :: rat)" using bitlen_powi(2) [OF a] .
    also have "\<dots> = 2 powi (k + 1) * 2 powi (bitlen b - 1)"
      by (simp add: power_int_add [symmetric] k_def)
    also have "\<dots> \<le> 2 powi (k + 1) * of_int b"
      using bitlen_powi(1) [OF b] by (intro mult_left_mono) auto
    finally show ?thesis using b by (simp add: x divide_less_eq)
  qed
  have low: "2 powi (k - 1) \<le> x"
  proof -
    have "2 powi (k - 1) * of_int b \<le> 2 powi (k - 1) * (2 powi bitlen b :: rat)"
      using bitlen_powi(2) [OF b] by (intro mult_left_mono) auto
    also have "\<dots> = 2 powi (bitlen a - 1)"
      by (simp add: power_int_add [symmetric] k_def)
    also have "\<dots> \<le> of_int a" using bitlen_powi(1) [OF a] .
    finally show ?thesis using b by (simp add: x le_divide_eq)
  qed
  have e: "binexp x = (if 2 powi k \<le> x then k else k - 1)"
    by (simp add: binexp_def q k_def)
  show "2 powi binexp x \<le> x" using low e by auto
  show "x < 2 powi (binexp x + 1)" using up e by auto
qed

subsection \<open>Accuracy\<close>

lemma fl_0 [simp]: "fl 0 = 0"
  by (simp add: fl_def)

lemma fl_minus: "fl (- x) = - fl x"
  by (auto simp: fl_def)

text \<open>An integer below \<open>2 ^ 53\<close> is not changed.\<close>

lemma fl_of_int:
  assumes "\<bar>i\<bar> < 2 ^ 53"
  shows "fl (of_int i) = of_int i"
proof -
  have pos: "fl_pos (of_int j) = of_int j" if "0 < j" "j < 2 ^ 53" for j :: int
  proof -
    define x where "x = (of_int j :: rat)"
    have x0: "0 < x" using that by (simp add: x_def)
    have "2 powi binexp x < (2 :: rat) powi 53"
    proof -
      have "2 powi binexp x \<le> x" by (rule binexp_bounds(1) [OF x0])
      also have "x < of_int (2 ^ 53)" unfolding x_def using that by (simp only: of_int_less_iff)
      also have "\<dots> = 2 powi 53" by simp
      finally show ?thesis .
    qed
    then have k: "binexp x < 53"
      by (meson not_le power_int_increasing one_le_numeral)
    define n where "n = nat (52 - binexp x)"
    have e: "2 powi (binexp x - 52) = inverse ((2 :: rat) ^ n)"
      using k by (auto simp: n_def power_int_def power_one_over inverse_eq_divide)
    have "x / 2 powi (binexp x - 52) = of_int (j * 2 ^ n)"
      unfolding e by (simp add: x_def divide_inverse)
    then have "round_even (x / 2 powi (binexp x - 52)) = j * 2 ^ n"
      by (simp only: round_even_of_int)
    then have "fl_pos x = of_int (j * 2 ^ n) * 2 powi (binexp x - 52)"
      by (simp add: fl_pos_def)
    also have "\<dots> = x" unfolding e by (simp add: x_def)
    finally show ?thesis by (simp add: x_def)
  qed
  show ?thesis using pos [of i] pos [of "- i"] assms by (auto simp: fl_def)
qed

text \<open>The relative error of a rounding is at most \<open>2 ^ -53\<close>.\<close>

lemma fl_pos_error:
  assumes "0 < x"
  shows "\<bar>fl_pos x - x\<bar> \<le> x / 2 ^ 53"
proof -
  define e where "e = binexp x - 52"
  define u where "u = (2 :: rat) powi e"
  have u: "0 < u" by (simp add: u_def)
  have "\<bar>fl_pos x - x\<bar> = \<bar>of_int (round_even (x / u)) - x / u\<bar> * u"
  proof -
    have "fl_pos x - x = (of_int (round_even (x / u)) - x / u) * u"
      using u by (simp add: fl_pos_def Let_def e_def [symmetric] u_def [symmetric] left_diff_distrib)
    then show ?thesis using u by (simp add: abs_mult)
  qed
  also have "\<dots> \<le> 1/2 * u"
    using round_even_error [of "x / u"] u by (intro mult_right_mono) auto
  also have "\<dots> \<le> x / 2 ^ 53"
  proof -
    have "(2 :: rat) powi binexp x = 2 ^ 52 * u"
      by (simp add: u_def e_def power_int_diff)
    with binexp_bounds(1) [OF assms] have "2 ^ 52 * u \<le> x" by simp
    then show ?thesis by simp
  qed
  finally show ?thesis .
qed

lemma fl_error: "\<bar>fl x - x\<bar> \<le> \<bar>x\<bar> / 2 ^ 53"
  using fl_pos_error [of x] fl_pos_error [of "- x"]
  by (cases x "0 :: rat" rule: linorder_cases) (auto simp: fl_def abs_minus_commute)

lemma fl_nonneg: "0 \<le> x \<Longrightarrow> 0 \<le> fl x"
proof -
  assume x: "0 \<le> x"
  have "\<bar>fl x - x\<bar> \<le> x / 2 ^ 53" using fl_error [of x] x by simp
  moreover have "x / 2 ^ 53 \<le> x" using x by simp
  ultimately show "0 \<le> fl x" by linarith
qed

subsection \<open>Monotonicity\<close>

lemma round_even_mono: "a \<le> b \<Longrightarrow> round_even a \<le> round_even b"
proof -
  assume ab: "a \<le> b"
  have fa: "of_int \<lfloor>a\<rfloor> \<le> a" "a < of_int \<lfloor>a\<rfloor> + 1" and fb: "of_int \<lfloor>b\<rfloor> \<le> b" "b < of_int \<lfloor>b\<rfloor> + 1"
    by linarith+
  have le: "\<lfloor>a\<rfloor> \<le> \<lfloor>b\<rfloor>" using ab by (rule floor_mono)
  show ?thesis
  proof (cases "\<lfloor>a\<rfloor> = \<lfloor>b\<rfloor>")
    case True
    then show ?thesis using ab by (auto simp: round_even_def Let_def)
  next
    case False
    with le have "\<lfloor>a\<rfloor> + 1 \<le> \<lfloor>b\<rfloor>" by simp
    then show ?thesis by (auto simp: round_even_def Let_def)
  qed
qed

lemma fl_pos_bounds:
  assumes "0 < x"
  shows "2 powi binexp x \<le> fl_pos x" and "fl_pos x \<le> 2 powi (binexp x + 1)"
proof -
  define e where "e = binexp x - 52"
  define u where "u = (2 :: rat) powi e"
  have u: "0 < u" by (simp add: u_def)
  have b: "2 powi binexp x = 2 ^ 52 * u" "2 powi (binexp x + 1) = 2 ^ 53 * u"
    by (simp_all add: u_def e_def power_int_diff power_int_add)
  have "of_int (2 ^ 52) \<le> x / u" "x / u \<le> of_int (2 ^ 53)"
    using binexp_bounds [OF assms] u by (simp_all add: b le_divide_eq divide_le_eq)
  from this [THEN round_even_mono]
  have "2 ^ 52 \<le> round_even (x / u)" "round_even (x / u) \<le> 2 ^ 53"
    by (simp_all only: round_even_of_int)
  then have r: "of_int (2 ^ 52) \<le> (of_int (round_even (x / u)) :: rat)"
    "of_int (round_even (x / u)) \<le> (of_int (2 ^ 53) :: rat)"
    by (simp_all only: of_int_le_iff)
  have f: "fl_pos x = of_int (round_even (x / u)) * u"
    by (simp add: fl_pos_def Let_def e_def [symmetric] u_def [symmetric])
  show "2 powi binexp x \<le> fl_pos x" "fl_pos x \<le> 2 powi (binexp x + 1)"
    unfolding f b using r u by (simp_all add: mult_right_mono)
qed

lemma fl_pos_mono:
  assumes "0 < x" and "x \<le> y"
  shows "fl_pos x \<le> fl_pos y"
proof (cases "binexp x = binexp y")
  case True
  define u where "u = (2 :: rat) powi (binexp y - 52)"
  have u: "0 < u" by (simp add: u_def)
  have "round_even (x / u) \<le> round_even (y / u)"
    using assms(2) u by (intro round_even_mono) (simp add: divide_right_mono)
  then have "of_int (round_even (x / u)) * u \<le> of_int (round_even (y / u)) * u"
    using u by simp
  then show ?thesis by (simp add: fl_pos_def Let_def True u_def)
next
  case False
  have y: "0 < y" using assms by simp
  have "2 powi binexp x \<le> x" by (rule binexp_bounds(1) [OF assms(1)])
  also note \<open>x \<le> y\<close>
  also have "y < 2 powi (binexp y + 1)" by (rule binexp_bounds(2) [OF y])
  finally have "(2 :: rat) powi binexp x < 2 powi (binexp y + 1)" .
  then have "binexp x < binexp y + 1"
    by (meson not_le power_int_increasing one_le_numeral)
  with False have lt: "binexp x + 1 \<le> binexp y" by simp
  have "fl_pos x \<le> 2 powi (binexp x + 1)" by (rule fl_pos_bounds(2) [OF assms(1)])
  also have "\<dots> \<le> 2 powi binexp y" using lt by (intro power_int_increasing) auto
  also have "\<dots> \<le> fl_pos y" by (rule fl_pos_bounds(1) [OF y])
  finally show ?thesis .
qed

lemma fl_mono: "x \<le> y \<Longrightarrow> fl x \<le> fl y"
proof -
  assume xy: "x \<le> y"
  consider "0 < x" | "x \<le> 0" "0 \<le> y" | "y < 0" by linarith
  then show ?thesis
  proof cases
    case 1
    then show ?thesis using fl_pos_mono [OF 1 xy] xy by (simp add: fl_def)
  next
    case 2
    have "fl x \<le> 0" using fl_nonneg [of "- x"] 2 by (simp add: fl_minus)
    also have "0 \<le> fl y" using fl_nonneg 2 by simp
    finally show ?thesis .
  next
    case 3
    then show ?thesis using fl_pos_mono [of "- y" "- x"] xy by (simp add: fl_def)
  qed
qed

end
