(* ===== verification/Nodes.thy ===== *)
theory Nodes
  imports AuditLog NodeClient Doubles "HOL-Library.List_Lexorder" "HOL-Library.Char_ord"
begin

text \<open>
  \<^verbatim>\<open>nodes/nodes.service.ts\<close> and \<^verbatim>\<open>nodes/dto/create-node.dto.ts\<close>: the nodes of the panel,
  their maintenance mode and health, and the choice of a node for a new server.
\<close>

subsection \<open>Data transfer objects\<close>

record createNodeDto =
  cn_name :: string
  cn_fqdn :: string
  cn_region :: "string option"
  cn_grpcHost :: string
  cn_grpcPort :: "int option"
  cn_cpuCores :: int
  cn_memoryMb :: int
  cn_diskMb :: int
  cn_dockerNetworkSubnet :: string

text \<open>The decorators \<open>@Min\<close>; the types are those of the fields.\<close>

definition valid_createNodeDto :: "createNodeDto \<Rightarrow> bool" where
  "valid_createNodeDto d \<longleftrightarrow> 1 \<le> cn_cpuCores d \<and> 256 \<le> cn_memoryMb d \<and> 1024 \<le> cn_diskMb d"

subsection \<open>Queries\<close>

text \<open>\<open>list\<close>: every node with the number of its servers, by name.\<close>

definition nodes_list :: "(node \<times> nat) list io" where
  "nodes_list =
     bnd (dbFindMany t_nodes (\<lambda>_. True)) (\<lambda>ns.
     bnd (dbFindMany t_servers (\<lambda>_. True)) (\<lambda>ss.
     ret (map (\<lambda>n. (n, length (filter (\<lambda>s. s_nodeId s = n_id n) ss))) (orderAsc n_name ns))))"

definition nodes_findByIdOrThrow :: "id \<Rightarrow> node io" where
  "nodes_findByIdOrThrow i =
     bnd (dbFind t_nodes (\<lambda>n. n_id n = i)) (\<lambda>node. case node of
       None \<Rightarrow> throw (NotFoundException ''Node introuvable'')
     | Some n \<Rightarrow> ret n)"

subsection \<open>Administration\<close>

definition newNode :: "id \<Rightarrow> createNodeDto \<Rightarrow> node" where
  "newNode i dto = \<lparr>n_id = i, n_name = cn_name dto, n_fqdn = cn_fqdn dto,
     n_region = cn_region dto, n_status = NODE_OFFLINE, n_maintenanceMode = False,
     n_grpcHost = cn_grpcHost dto, n_grpcPort = orElse (cn_grpcPort dto) 9501,
     n_cpuCores = cn_cpuCores dto, n_memoryMb = cn_memoryMb dto, n_diskMb = cn_diskMb dto,
     n_cpuAllocatedPct = 0, n_memoryAllocatedMb = 0, n_diskAllocatedMb = 0,
     n_overallocateCpuPct = 0, n_overallocateMemPct = 0, n_overallocateDiskPct = 0,
     n_dockerNetworkSubnet = cn_dockerNetworkSubnet dto, n_lastHeartbeatAt = None\<rparr>"

definition node_int4 :: "node \<Rightarrow> bool" where
  "node_int4 n \<longleftrightarrow> int4 (n_grpcPort n) \<and> int4 (n_cpuCores n) \<and> int4 (n_memoryMb n) \<and>
     int4 (n_diskMb n)"

definition nodes_create :: "env \<Rightarrow> createNodeDto \<Rightarrow> id \<Rightarrow> node io" where
  "nodes_create E dto actorId =
     bnd (external (newUuid E)) (\<lambda>i.
     andThen (throwIf (\<not> node_int4 (newNode i dto)) OutOfRange)
     (bnd (dbCreate t_nodes t_nodes_update node_conflict no_fk (newNode i dto)) (\<lambda>node.
     andThen (detach (audit_log E (auditEntry actorId ''node.create'' ''Node'' (n_id node))))
     (ret node))))"

definition nodes_setMaintenance :: "env \<Rightarrow> id \<Rightarrow> bool \<Rightarrow> id \<Rightarrow> node io" where
  "nodes_setMaintenance E i enabled actorId =
     bnd (dbUpdate t_nodes t_nodes_update (\<lambda>n. n_id n = i)
         (\<lambda>n. n\<lparr>n_maintenanceMode := enabled,
                n_status := (if enabled then NODE_MAINTENANCE else NODE_ONLINE)\<rparr>)) (\<lambda>node.
     andThen (audit_log E ((auditEntry actorId
         (if enabled then ''node.maintenance.enable'' else ''node.maintenance.disable'')
         ''Node'' i)\<lparr>ae_severity := Some WARNING\<rparr>))
     (ret node))"

definition nodes_delete :: "env \<Rightarrow> id \<Rightarrow> id \<Rightarrow> unit io" where
  "nodes_delete E i actorId =
     bnd (dbCount t_servers (\<lambda>s. s_nodeId s = i)) (\<lambda>remaining.
     andThen (throwIf (remaining > 0) (BadRequestException
         (''Impossible de supprimer ce node : '' @ show_nat remaining @
          '' serveur(s) y sont encore heberges'')))
     (andThen (nodeDisconnect i)
     (andThen (dbDeleteNode i)
       (audit_log E ((auditEntry actorId ''node.delete'' ''Node'' i)
          \<lparr>ae_severity := Some WARNING\<rparr>)))))"

record healthResult =
  hr_online :: bool
  hr_ping :: "pingResponse option"
  hr_error :: "string option"

definition nodes_healthCheck :: "env \<Rightarrow> id \<Rightarrow> healthResult io" where
  "nodes_healthCheck E i =
     bnd (nodes_findByIdOrThrow i) (\<lambda>node.
     tryCatch
       (bnd (nodePing E (n_id node) (nodeParams node)) (\<lambda>res.
        bnd (external (now E)) (\<lambda>t.
        andThen (dbUpdate t_nodes t_nodes_update (\<lambda>n. n_id n = i)
            (\<lambda>n. n\<lparr>n_status := NODE_ONLINE, n_lastHeartbeatAt := Some t\<rparr>))
        (ret \<lparr>hr_online = True, hr_ping = Some res, hr_error = None\<rparr>))))
       (\<lambda>err.
        andThen (dbUpdate t_nodes t_nodes_update (\<lambda>n. n_id n = i)
            (\<lambda>n. n\<lparr>n_status := NODE_OFFLINE\<rparr>))
        (ret \<lparr>hr_online = False, hr_ping = None, hr_error = Some (exn_message err)\<rparr>)))"

subsection \<open>The choice of a node\<close>

record requirements =
  rq_cpuPct :: int
  rq_memoryMb :: int
  rq_diskMb :: int

text \<open>\<open>amount * (1 + pct / 100)\<close> in doubles.\<close>

definition overallocated :: "int \<Rightarrow> int \<Rightarrow> rat" where
  "overallocated amount pct = js_mul (of_int amount) (js_add 1 (js_div (of_int pct) 100))"

definition fitsNode :: "requirements \<Rightarrow> node \<Rightarrow> bool" where
  "fitsNode rq n \<longleftrightarrow>
     js_add (of_int (n_cpuAllocatedPct n)) (of_int (rq_cpuPct rq))
       \<le> overallocated (n_cpuCores n * 100) (n_overallocateCpuPct n) \<and>
     js_add (of_int (n_memoryAllocatedMb n)) (of_int (rq_memoryMb rq))
       \<le> overallocated (n_memoryMb n) (n_overallocateMemPct n) \<and>
     js_add (of_int (n_diskAllocatedMb n)) (of_int (rq_diskMb rq))
       \<le> overallocated (n_diskMb n) (n_overallocateDiskPct n)"

text \<open>\<open>a.memoryAllocatedMb / a.memoryMb\<close>. The comparator subtracts two of these; the
  difference of two doubles has the sign of their comparison, and the sort is stable.\<close>

definition memRatio :: "node \<Rightarrow> rat" where
  "memRatio n = js_div (of_int (n_memoryAllocatedMb n)) (of_int (n_memoryMb n))"

definition nodes_findEligibleNode :: "requirements \<Rightarrow> node io" where
  "nodes_findEligibleNode rq =
     bnd (dbFindMany t_nodes (\<lambda>n. n_status n = NODE_ONLINE \<and> \<not> n_maintenanceMode n)) (\<lambda>nodes.
     case sort_key memRatio (filter (fitsNode rq) nodes) of
       [] \<Rightarrow> throw (BadRequestException ''Aucun node disponible avec suffisamment de capacite'')
     | n # _ \<Rightarrow> ret n)"

subsection \<open>Lemmas on the choice\<close>

definition eligible :: "requirements \<Rightarrow> db \<Rightarrow> node \<Rightarrow> bool" where
  "eligible rq d n \<longleftrightarrow> n \<in> set (t_nodes d) \<and> n_status n = NODE_ONLINE \<and>
     \<not> n_maintenanceMode n \<and> fitsNode rq n"

lemma findEligibleNode_cases:
  "(\<nexists>n. eligible rq (w_db w) n) \<and>
     nodes_findEligibleNode rq w =
       (Inl (BadRequestException ''Aucun node disponible avec suffisamment de capacite''), w) \<or>
   (\<exists>n. nodes_findEligibleNode rq w = (Inr n, w) \<and> eligible rq (w_db w) n \<and>
     (\<forall>m. eligible rq (w_db w) m \<longrightarrow> memRatio n \<le> memRatio m))"
proof -
  define es where "es = filter (fitsNode rq)
    (filter (\<lambda>n. n_status n = NODE_ONLINE \<and> \<not> n_maintenanceMode n) (t_nodes (w_db w)))"
  have es: "set es = {n. eligible rq (w_db w) n}" by (auto simp: es_def eligible_def)
  have run: "nodes_findEligibleNode rq w = (case sort_key memRatio es of
       [] \<Rightarrow> (Inl (BadRequestException ''Aucun node disponible avec suffisamment de capacite''), w)
     | n # _ \<Rightarrow> (Inr n, w))"
    by (simp add: nodes_findEligibleNode_def prog_simps es_def split: list.splits)
  show ?thesis
  proof (cases "sort_key memRatio es")
    case Nil
    then have "es = []" by (metis set_empty set_sort)
    with es Nil run show ?thesis by auto
  next
    case (Cons n ns)
    have "sorted (map memRatio (n # ns))" unfolding Cons [symmetric] by (rule sorted_sort_key)
    moreover have "set (n # ns) = {n. eligible rq (w_db w) n}"
      unfolding Cons [symmetric] by (simp add: es)
    ultimately show ?thesis using Cons run by (auto simp: set_eq_iff)
  qed
qed

lemma findEligibleNode_Inr:
  assumes "nodes_findEligibleNode rq w = (Inr n, w')"
  shows "w' = w" and "eligible rq (w_db w) n"
    and "eligible rq (w_db w) m \<Longrightarrow> memRatio n \<le> memRatio m"
  using findEligibleNode_cases [of rq w] assms by auto

lemma overallocated_zero: "\<bar>a\<bar> < 2 ^ 53 \<Longrightarrow> overallocated a 0 = of_int a"
proof -
  assume "\<bar>a\<bar> < 2 ^ 53"
  moreover have "fl 1 = 1" using fl_of_int [of 1] by simp
  ultimately show ?thesis
    by (simp add: overallocated_def js_mul_def js_add_def js_div_def fl_of_int)
qed

text \<open>The three roundings of a capacity raise it by a relative error of at most \<open>2 ^ -50\<close>.\<close>

lemma fl_upper: "0 \<le> x \<Longrightarrow> fl x \<le> x * (1 + 1 / 2 ^ 53)"
proof -
  assume "0 \<le> x"
  then have "\<bar>fl x - x\<bar> \<le> x / 2 ^ 53" using fl_error [of x] by simp
  then have "fl x \<le> x + x / 2 ^ 53" by (metis abs_le_D1 diff_le_eq add.commute)
  then show ?thesis by (simp add: distrib_left)
qed

lemma overallocated_upper:
  assumes "0 \<le> a" and "0 \<le> p"
  shows "overallocated a p \<le> of_int a * (1 + of_int p / 100) * (1 + 1 / 2 ^ 50)"
proof -
  define u where "u = (1 + 1 / 2 ^ 53 :: rat)"
  define q where "q = (of_int p / 100 :: rat)"
  have q: "0 \<le> q" using assms by (simp add: q_def)
  have u: "1 \<le> u" by (simp add: u_def)
  have dq: "js_div (of_int p) 100 = fl q" by (simp add: js_div_def q_def)
  have d: "0 \<le> js_div (of_int p) 100" "js_div (of_int p) 100 \<le> q * u"
    unfolding dq u_def by (rule fl_nonneg [OF q], rule fl_upper [OF q])
  have s: "0 \<le> js_add 1 (js_div (of_int p) 100)"
    using d by (auto simp: js_add_def intro!: fl_nonneg)
  have "js_add 1 (js_div (of_int p) 100) \<le> (1 + js_div (of_int p) 100) * u"
    unfolding js_add_def u_def using d by (intro fl_upper) simp
  also have "\<dots> \<le> (1 + q) * u * u"
  proof -
    have "1 + js_div (of_int p) 100 \<le> (1 + q) * u" using d u by (simp add: algebra_simps)
    then show ?thesis using u by (simp add: mult_right_mono)
  qed
  finally have add: "js_add 1 (js_div (of_int p) 100) \<le> (1 + q) * u * u" .
  have "overallocated a p \<le> (of_int a * js_add 1 (js_div (of_int p) 100)) * u"
    unfolding overallocated_def js_mul_def u_def using s assms by (intro fl_upper) simp
  also have "\<dots> \<le> (of_int a * ((1 + q) * u * u)) * u"
    using add assms u by (intro mult_right_mono mult_left_mono) auto
  also have "\<dots> = of_int a * (1 + q) * (u * u * u)" by (simp add: algebra_simps)
  also have "\<dots> \<le> of_int a * (1 + q) * (1 + 1 / 2 ^ 50)"
    using assms q by (intro mult_left_mono) (auto simp: u_def field_simps)
  finally show ?thesis by (simp add: q_def)
qed

subsection \<open>The accounting invariant\<close>

text \<open>
  What the counters of a node mean: each is the sum of the limits of the servers placed on
  it. The invariant also says that the identifiers of the servers are distinct and that
  every server is placed on a node that exists.
\<close>

definition nodeUsage :: "(server \<Rightarrow> int) \<Rightarrow> db \<Rightarrow> id \<Rightarrow> int" where
  "nodeUsage f d nid = sum_list (map f (filter (\<lambda>s. s_nodeId s = nid) (t_servers d)))"

definition countersMatch :: "db \<Rightarrow> node \<Rightarrow> bool" where
  "countersMatch d n \<longleftrightarrow> n_cpuAllocatedPct n = nodeUsage s_cpuLimitPct d (n_id n) \<and>
     n_memoryAllocatedMb n = nodeUsage s_memoryLimitMb d (n_id n) \<and>
     n_diskAllocatedMb n = nodeUsage s_diskLimitMb d (n_id n)"

definition accounting :: "db \<Rightarrow> bool" where
  "accounting d \<longleftrightarrow> distinct (map s_id (t_servers d)) \<and>
     (\<forall>s \<in> set (t_servers d). node_exists d (s_nodeId s)) \<and>
     (\<forall>n \<in> set (t_nodes d). countersMatch d n)"

lemma accounting_frame:
  "frame accounting t_users_update" "frame accounting t_roles_update"
  "frame accounting t_permissions_update" "frame accounting t_rolePermissions_update"
  "frame accounting t_refreshTokens_update" "frame accounting t_apiKeys_update"
  "frame accounting t_auditLogs_update" "frame accounting t_allocations_update"
  "frame accounting t_templates_update" "frame accounting t_subUsers_update"
  "frame accounting t_tasks_update" "frame accounting t_backups_update"
  "frame accounting t_mods_update" "frame accounting t_products_update"
  "frame accounting t_plans_update" "frame accounting t_subscriptions_update"
  "frame accounting t_invoices_update" "frame accounting t_coupons_update"
  "frame accounting t_tickets_update" "frame accounting t_messages_update"
  "frame accounting t_items_update"
  by (auto simp: frame_def accounting_def countersMatch_def nodeUsage_def node_exists_def)

text \<open>An update of nodes or of servers that changes neither the keys nor the amounts.\<close>

lemma node_exists_image: "node_exists d i \<longleftrightarrow> i \<in> n_id ` set (t_nodes d)"
  by (auto simp: node_exists_def list_ex_iff)

lemma accounting_node_update:
  assumes "accounting d"
    and "\<And>n. n_id (f n) = n_id n" "\<And>n. n_cpuAllocatedPct (f n) = n_cpuAllocatedPct n"
      "\<And>n. n_memoryAllocatedMb (f n) = n_memoryAllocatedMb n"
      "\<And>n. n_diskAllocatedMb (f n) = n_diskAllocatedMb n"
  shows "accounting (t_nodes_update (map (\<lambda>n. if p n then f n else n)) d)"
proof -
  define g where "g = (\<lambda>n. if p n then f n else n)"
  have g: "n_id (g n) = n_id n" "n_cpuAllocatedPct (g n) = n_cpuAllocatedPct n"
    "n_memoryAllocatedMb (g n) = n_memoryAllocatedMb n"
    "n_diskAllocatedMb (g n) = n_diskAllocatedMb n" for n by (auto simp: g_def assms)
  show ?thesis using assms(1) unfolding g_def [symmetric]
    by (simp add: accounting_def countersMatch_def nodeUsage_def node_exists_image image_image g)
qed

lemma filter_map_same:
  "(\<And>x. q (f x) = q x) \<Longrightarrow> filter q (map f xs) = map f (filter q xs)"
  by (induction xs) auto

lemma accounting_server_update:
  assumes "accounting d"
    and "\<And>s. s_id (f s) = s_id s" "\<And>s. s_nodeId (f s) = s_nodeId s"
      "\<And>s. s_cpuLimitPct (f s) = s_cpuLimitPct s" "\<And>s. s_memoryLimitMb (f s) = s_memoryLimitMb s"
      "\<And>s. s_diskLimitMb (f s) = s_diskLimitMb s"
  shows "accounting (t_servers_update (map (\<lambda>s. if p s then f s else s)) d)"
proof -
  define g where "g = (\<lambda>s. if p s then f s else s)"
  have g: "s_id (g s) = s_id s" "s_nodeId (g s) = s_nodeId s" "s_cpuLimitPct (g s) = s_cpuLimitPct s"
    "s_memoryLimitMb (g s) = s_memoryLimitMb s" "s_diskLimitMb (g s) = s_diskLimitMb s" for s
    by (auto simp: g_def assms)
  have "filter (\<lambda>s. s_nodeId s = nid) (map g ss) = map g (filter (\<lambda>s. s_nodeId s = nid) ss)" for nid ss
    by (rule filter_map_same) (simp add: g)
  then have "nodeUsage h (t_servers_update (map g) d) nid = nodeUsage (h \<circ> g) d nid" for h nid
    by (simp add: nodeUsage_def)
  then show ?thesis using assms(1) unfolding g_def [symmetric]
    by (auto simp: accounting_def countersMatch_def node_exists_def g comp_def)
qed

lemma keepsDb_accounting_nodeUpdate:
  assumes "\<And>n. n_id (f n) = n_id n" "\<And>n. n_cpuAllocatedPct (f n) = n_cpuAllocatedPct n"
      "\<And>n. n_memoryAllocatedMb (f n) = n_memoryAllocatedMb n"
      "\<And>n. n_diskAllocatedMb (f n) = n_diskAllocatedMb n"
  shows "keepsDb accounting (dbUpdate t_nodes t_nodes_update p f)"
  by (rule keepsDbI) (auto simp: prog_simps accounting_node_update assms split: option.splits)

lemma keepsDb_accounting_serverUpdate:
  assumes "\<And>s. s_id (f s) = s_id s" "\<And>s. s_nodeId (f s) = s_nodeId s"
      "\<And>s. s_cpuLimitPct (f s) = s_cpuLimitPct s" "\<And>s. s_memoryLimitMb (f s) = s_memoryLimitMb s"
      "\<And>s. s_diskLimitMb (f s) = s_diskLimitMb s"
  shows "keepsDb accounting (dbUpdate t_servers t_servers_update p f)"
  by (rule keepsDbI) (auto simp: prog_simps accounting_server_update assms split: option.splits)

lemma nodeUsage_unplaced:
  "\<not> node_exists d nid \<Longrightarrow> \<forall>s \<in> set (t_servers d). node_exists d (s_nodeId s) \<Longrightarrow>
   nodeUsage f d nid = 0"
proof -
  assume "\<not> node_exists d nid" "\<forall>s \<in> set (t_servers d). node_exists d (s_nodeId s)"
  then have "filter (\<lambda>s. s_nodeId s = nid) (t_servers d) = []" by (auto simp: filter_empty_conv)
  then show ?thesis by (simp add: nodeUsage_def)
qed

lemma accounting_node_create:
  assumes "accounting d" and "\<not> node_exists d (n_id n)" and "n_cpuAllocatedPct n = 0"
    and "n_memoryAllocatedMb n = 0" and "n_diskAllocatedMb n = 0"
  shows "accounting (t_nodes_update (\<lambda>t. t @ [n]) d)"
proof -
  have "nodeUsage f d (n_id n) = 0" for f
    using assms nodeUsage_unplaced by (simp add: accounting_def)
  then show ?thesis using assms
    by (auto simp: accounting_def countersMatch_def nodeUsage_def node_exists_def)
qed

lemma accounting_node_drop:
  assumes "accounting d" and "\<not> list_ex (\<lambda>s. s_nodeId s = i) (t_servers d)"
  shows "accounting (drop_node i d)"
proof -
  have "n_id ` set (filter (\<lambda>n. n_id n \<noteq> i) (t_nodes d)) = n_id ` set (t_nodes d) - {i}"
    by auto
  then show ?thesis using assms
    by (simp add: accounting_def countersMatch_def nodeUsage_def node_exists_image drop_node_def
        list_ex_iff)
qed

lemma accounting_nodes:
  "keepsDb accounting (nodes_list)"
  "keepsDb accounting (nodes_findByIdOrThrow i)"
  "keepsDb accounting (nodes_setMaintenance E i enabled actorId)"
  "keepsDb accounting (nodes_healthCheck E i)"
  "keepsDb accounting (nodes_findEligibleNode rq)"
  unfolding nodes_list_def nodes_findByIdOrThrow_def nodes_setMaintenance_def
    nodes_healthCheck_def nodes_findEligibleNode_def
  by (auto intro!: keepsDb_intros keepsDb_audit_log accounting_frame keepsDb_accounting_nodeUpdate)

lemma accounting_nodes_create: "keepsDb accounting (nodes_create E dto actorId)"
  unfolding nodes_create_def
proof (intro keepsDb_intros keepsDb_audit_log accounting_frame keepsDbI)
  fix i and w :: world
  assume a: "accounting (w_db w)"
  show "accounting (w_db (snd (dbCreate t_nodes t_nodes_update node_conflict no_fk
      (newNode i dto) w)))"
    using accounting_node_create [OF a, of "newNode i dto"] a
    by (auto simp: prog_simps node_exists_def newNode_def node_conflict_def list_ex_iff)
qed

lemma accounting_nodes_delete: "keepsDb accounting (nodes_delete E i actorId)"
  unfolding nodes_delete_def
proof (intro keepsDb_intros keepsDb_audit_log accounting_frame keepsDbI)
  fix w :: world
  assume a: "accounting (w_db w)"
  then show "accounting (w_db (snd (dbDeleteNode i w)))"
    using accounting_node_drop [OF a] by (auto simp: prog_simps)
qed

end
