(* ===== verification/Access.thy ===== *)
theory Access
  imports AuditLog
begin

text \<open>
  Access decisions shared by the modules: the permissions of a role
  (\<open>AuthService.permissionsForRole\<close>), \<^verbatim>\<open>auth/guards/permissions.guard.ts\<close>,
  \<^verbatim>\<open>common/guards/node-secret.guard.ts\<close>, \<^verbatim>\<open>common/url-safety.ts\<close> and
  \<^verbatim>\<open>common/filters/http-exception.filter.ts\<close>.
\<close>

subsection \<open>Roles and permissions\<close>

definition roleOf :: "db \<Rightarrow> user \<Rightarrow> role option" where
  "roleOf d u = (case u_roleId u of None \<Rightarrow> None
     | Some i \<Rightarrow> List.find (\<lambda>r. r_id r = i) (t_roles d))"

text \<open>\<open>role.permissions.map((rp) => rp.permission.key)\<close>, over the joined rows.\<close>

definition rolePermissionKeys :: "db \<Rightarrow> id \<Rightarrow> string list" where
  "rolePermissionKeys d rid =
     concat (map (\<lambda>rp. map p_key (filter (\<lambda>p. p_id p = rp_permissionId rp) (t_permissions d)))
       (filter (\<lambda>rp. rp_roleId rp = rid) (t_rolePermissions d)))"

definition permissionsForRole :: "db \<Rightarrow> role option \<Rightarrow> string list" where
  "permissionsForRole d r = (case r of
       None \<Rightarrow> []
     | Some r \<Rightarrow> if r_isSystem r \<and> r_name r = ''admin'' then [''*'']
                 else rolePermissionKeys d (r_id r))"

definition currentPermissions :: "db \<Rightarrow> user \<Rightarrow> string list" where
  "currentPermissions d u = permissionsForRole d (roleOf d u)"

lemma permissionsForRole_admin:
  "r_isSystem r \<Longrightarrow> r_name r = ''admin'' \<Longrightarrow> permissionsForRole d (Some r) = [''*'']"
  by (simp add: permissionsForRole_def)

lemma permissionsForRole_keys:
  "p \<in> set (permissionsForRole d (Some r)) \<Longrightarrow> p \<noteq> ''*'' \<Longrightarrow>
   \<exists>rp \<in> set (t_rolePermissions d). rp_roleId rp = r_id r \<and>
     (\<exists>q \<in> set (t_permissions d). p_id q = rp_permissionId rp \<and> p_key q = p)"
  by (auto simp: permissionsForRole_def rolePermissionKeys_def split: if_splits)

subsection \<open>The permissions guard\<close>

definition WILDCARD :: string where "WILDCARD = ''*''"

definition permissionsGuard :: "string list option \<Rightarrow> authUser option \<Rightarrow> exn + bool" where
  "permissionsGuard required user =
     (case required of
        None \<Rightarrow> Inr True
      | Some req \<Rightarrow> if req = [] then Inr True else
          (case user of
             None \<Rightarrow> Inl (ForbiddenException ''Utilisateur non authentifie'')
           | Some u \<Rightarrow>
               if has_perm u WILDCARD then Inr True
               else if list_all (has_perm u) req then Inr True
               else Inl (ForbiddenException (''Permissions manquantes: '' @
                      joinWith '', '' (filter (\<lambda>p. \<not> has_perm u p) req)))))"

lemma permissionsGuard_user:
  "req \<noteq> [] \<Longrightarrow>
   permissionsGuard (Some req) (Some u) = Inr True \<longleftrightarrow>
     has_perm u WILDCARD \<or> (\<forall>p \<in> set req. has_perm u p)"
  by (auto simp: permissionsGuard_def list_all_iff)

lemma permissionsGuard_no_false: "permissionsGuard req u \<noteq> Inr False"
  by (auto simp: permissionsGuard_def split: option.splits)

subsection \<open>The secret of the nodes\<close>

text \<open>The comparison of the two buffers; the lengths are compared first.\<close>

definition timingSafeEqual :: "string \<Rightarrow> string \<Rightarrow> bool" where
  "timingSafeEqual a b \<longleftrightarrow> (if length a \<noteq> length b then False else list_all2 (=) a b)"

definition nodeSecretGuard :: "env \<Rightarrow> string option \<Rightarrow> exn + bool" where
  "nodeSecretGuard E provided =
     (let expected = cf_nodeSecret (cfg E) in
      if \<not> truthy provided \<or> expected = [] \<or> \<not> timingSafeEqual (orElse provided []) expected
      then Inl (UnauthorizedException ''Secret interne invalide'')
      else Inr True)"

lemma timingSafeEqual_iff [simp]: "timingSafeEqual a b \<longleftrightarrow> a = b"
  by (auto simp: timingSafeEqual_def list.rel_eq)

subsection \<open>Download URLs\<close>

definition ALLOWED_DOWNLOAD_HOSTS :: "string list" where
  "ALLOWED_DOWNLOAD_HOSTS = [''cdn.modrinth.com'', ''github.com'',
     ''objects.githubusercontent.com'', ''edge.forgecdn.net'', ''mediafilez.forgecdn.net'',
     ''media.forgecdn.net'']"

definition allowedHost :: "string \<Rightarrow> bool" where
  "allowedHost h \<longleftrightarrow>
     list_ex (\<lambda>host. h = host \<or> endsWith h (''.'' @ host)) ALLOWED_DOWNLOAD_HOSTS"

definition assertSafeDownloadUrl :: "env \<Rightarrow> string \<Rightarrow> unit io" where
  "assertSafeDownloadUrl E rawUrl =
     (case parseUrl E rawUrl of
        None \<Rightarrow> throw (BadRequestException ''URL de telechargement invalide'')
      | Some url \<Rightarrow>
          andThen (throwIf (url_protocol url \<noteq> ''https:'')
              (BadRequestException ''Seules les URLs HTTPS sont autorisees''))
            (throwIf (\<not> allowedHost (url_hostname url))
              (BadRequestException
                (''Hote de telechargement non autorise: '' @ url_hostname url))))"

text \<open>The abstract policy: the URL parses, its scheme is HTTPS, and its host is one of the
  list or a subdomain of one.\<close>

definition safeDownloadUrl :: "env \<Rightarrow> string \<Rightarrow> bool" where
  "safeDownloadUrl E raw \<longleftrightarrow> (\<exists>u. parseUrl E raw = Some u \<and> url_protocol u = ''https:'' \<and>
     (\<exists>host \<in> set ALLOWED_DOWNLOAD_HOSTS.
        url_hostname u = host \<or> (\<exists>sub. url_hostname u = sub @ ''.'' @ host)))"

lemma allowedHost_iff:
  "allowedHost h \<longleftrightarrow>
     (\<exists>host \<in> set ALLOWED_DOWNLOAD_HOSTS. h = host \<or> (\<exists>sub. h = sub @ ''.'' @ host))"
  by (simp add: allowedHost_def list_ex_iff suffix_def)

lemma assertSafeDownloadUrl_iff:
  "(assertSafeDownloadUrl E raw w = (Inr (), w)) \<longleftrightarrow> safeDownloadUrl E raw"
  by (auto simp: assertSafeDownloadUrl_def safeDownloadUrl_def allowedHost_iff prog_simps
      split: option.splits if_splits)

lemma assertSafeDownloadUrl_world: "snd (assertSafeDownloadUrl E raw w) = w"
  by (simp add: assertSafeDownloadUrl_def prog_simps split: option.splits)

lemma assertSafeDownloadUrl_Inr:
  "assertSafeDownloadUrl E raw w = (Inr x, w') \<longleftrightarrow> safeDownloadUrl E raw \<and> w' = w"
  by (metis assertSafeDownloadUrl_iff assertSafeDownloadUrl_world old.unit.exhaust snd_conv)

lemma keepsDb_assertSafeDownloadUrl [keepsDb_intros]: "keepsDb J (assertSafeDownloadUrl E raw)"
  by (rule keepsDbI) (simp add: assertSafeDownloadUrl_world)

subsection \<open>The exception filter\<close>

fun httpStatus :: "exn \<Rightarrow> nat" where
  "httpStatus (BadRequestException m) = 400"
| "httpStatus (UnauthorizedException m) = 401"
| "httpStatus (ForbiddenException m) = 403"
| "httpStatus (NotFoundException m) = 404"
| "httpStatus (ConflictException m) = 409"
| "httpStatus (PrismaError m) = 500"
| "httpStatus (JsError m) = 500"

fun isHttpException :: "exn \<Rightarrow> bool" where
  "isHttpException (PrismaError m) = False"
| "isHttpException (JsError m) = False"
| "isHttpException e = True"

text \<open>What \<^verbatim>\<open>getResponse\<close> gives: the message, and beside it the name of the status unless the exception
  was made without a message, whose message is that name.\<close>

fun statusName :: "exn \<Rightarrow> string option" where
  "statusName (BadRequestException m) = Some ''Bad Request''"
| "statusName (UnauthorizedException m) = Some ''Unauthorized''"
| "statusName (ForbiddenException m) = Some ''Forbidden''"
| "statusName (NotFoundException m) = Some ''Not Found''"
| "statusName (ConflictException m) = Some ''Conflict''"
| "statusName (PrismaError m) = None"
| "statusName (JsError m) = None"

record errorBody =
  eb_statusCode :: nat
  eb_timestamp :: time
  eb_message :: string
  eb_error :: "string option"

definition exceptionFilter :: "env \<Rightarrow> exn \<Rightarrow> errorBody io" where
  "exceptionFilter E e = bnd (external (now E)) (\<lambda>t.
     ret \<lparr>eb_statusCode = (if isHttpException e then httpStatus e else 500), eb_timestamp = t,
       eb_message = (if isHttpException e then exn_message e
                     else ''Erreur interne du serveur''),
       eb_error = (if statusName e = Some (exn_message e) then None else statusName e)\<rparr>)"

lemma exceptionFilter_no_leak:
  "\<not> isHttpException e \<Longrightarrow> exceptionFilter E e w = (Inr b, w') \<Longrightarrow>
   eb_statusCode b = 500 \<and> eb_message b = ''Erreur interne du serveur''"
  by (auto simp: exceptionFilter_def prog_simps)

end
