(* ===== verification/Servers.thy ===== *)
theory Servers
  imports Nodes Access
begin

text \<open>
  \<^verbatim>\<open>servers/servers.service.ts\<close> and its data transfer objects: the access check every other
  module relies on, the creation of a server (choice of a node, transaction, provisioning
  job), its power actions, suspension, deletion, ports and sub-users.
\<close>

subsection \<open>Access\<close>

definition PORT_RANGE_START :: int where "PORT_RANGE_START = 25565"
definition PORT_RANGE_END :: int where "PORT_RANGE_END = 25665"

text \<open>A server with the rows the queries include. The foreign keys of the schema make the
  joins total; in a database that breaks them the query throws.\<close>

record serverView =
  sv_server :: server
  sv_node :: node
  sv_template :: serverTemplate
  sv_allocations :: "networkAllocation list"
  sv_subUsers :: "serverSubUser list"

definition allocationsOf :: "db \<Rightarrow> id \<Rightarrow> networkAllocation list" where
  "allocationsOf d sid = filter (\<lambda>a. al_serverId a = Some sid) (t_allocations d)"

definition subUsersOf :: "db \<Rightarrow> id \<Rightarrow> serverSubUser list" where
  "subUsersOf d sid = filter (\<lambda>x. su_serverId x = sid) (t_subUsers d)"

definition includeServer :: "server \<Rightarrow> serverView io" where
  "includeServer s =
     bnd (dbFindOrThrow t_nodes (\<lambda>n. n_id n = s_nodeId s)) (\<lambda>n.
     bnd (dbFindOrThrow t_templates (\<lambda>t. tp_id t = s_templateId s)) (\<lambda>t.
     bnd (gets w_db) (\<lambda>d.
     ret \<lparr>sv_server = s, sv_node = n, sv_template = t,
       sv_allocations = allocationsOf d (s_id s), sv_subUsers = subUsersOf d (s_id s)\<rparr>)))"

definition isServerAdmin :: "authUser \<Rightarrow> bool" where
  "isServerAdmin u \<longleftrightarrow> has_perm u ''*'' \<or> has_perm u ''servers.read.any''"

record serverListItem =
  sl_server :: server
  sl_node :: "(id \<times> string) option"
  sl_template :: "serverTemplate option"
  sl_allocations :: "networkAllocation list"

definition servers_listForUser :: "authUser \<Rightarrow> serverListItem list io" where
  "servers_listForUser user =
     bnd (dbFindMany t_servers (\<lambda>s. isServerAdmin user \<or> s_ownerId s = au_id user)) (\<lambda>ss.
     bnd (gets w_db) (\<lambda>d.
     ret (map (\<lambda>s. \<lparr>sl_server = s,
         sl_node = map_option (\<lambda>n. (n_id n, n_name n))
           (List.find (\<lambda>n. n_id n = s_nodeId s) (t_nodes d)),
         sl_template = List.find (\<lambda>t. tp_id t = s_templateId s) (t_templates d),
         sl_allocations = allocationsOf d (s_id s)\<rparr>)
       (orderDesc s_createdAt ss))))"

definition servers_findAccessibleOrThrow :: "id \<Rightarrow> authUser \<Rightarrow> serverView io" where
  "servers_findAccessibleOrThrow sid user =
     bnd (dbFind t_servers (\<lambda>s. s_id s = sid)) (\<lambda>r. case r of
       None \<Rightarrow> throw (NotFoundException ''Serveur introuvable'')
     | Some s \<Rightarrow>
         bnd (includeServer s) (\<lambda>v.
         andThen (throwIf (\<not> isServerAdmin user \<and> s_ownerId s \<noteq> au_id user \<and>
             \<not> list_ex (\<lambda>su. su_userId su = au_id user) (sv_subUsers v))
           (ForbiddenException ''Vous n'avez pas acces a ce serveur''))
         (ret v)))"

subsection \<open>Creation\<close>

record createServerDto =
  cs_name :: string
  cs_description :: "string option"
  cs_templateId :: id
  cs_cpuLimitPct :: int
  cs_memoryLimitMb :: int
  cs_diskLimitMb :: int
  cs_environment :: "(string \<times> string) list option"
  cs_ownerId :: "id option"

definition valid_createServerDto :: "createServerDto \<Rightarrow> bool" where
  "valid_createServerDto d \<longleftrightarrow>
     10 \<le> cs_cpuLimitPct d \<and> 256 \<le> cs_memoryLimitMb d \<and> 512 \<le> cs_diskLimitMb d"

text \<open>What the first half of \<open>create\<close> reads: owner, template and node. Other requests may
  run between this and the transaction.\<close>

definition servers_createSelect ::
  "createServerDto \<Rightarrow> authUser \<Rightarrow> (id \<times> serverTemplate \<times> node) io" where
  "servers_createSelect dto actor =
     andThen (throwIf (truthy (cs_ownerId dto) \<and> cs_ownerId dto \<noteq> Some (au_id actor) \<and>
         \<not> has_perm actor ''*'')
       (ForbiddenException
         ''Seul un administrateur peut creer un serveur pour un autre utilisateur''))
     (bnd (dbFind t_templates (\<lambda>t. tp_id t = cs_templateId dto)) (\<lambda>r. case r of
       None \<Rightarrow> throw (BadRequestException ''Template de serveur introuvable'')
     | Some template \<Rightarrow>
         bnd (nodes_findEligibleNode \<lparr>rq_cpuPct = cs_cpuLimitPct dto,
             rq_memoryMb = cs_memoryLimitMb dto, rq_diskMb = cs_diskLimitMb dto\<rparr>) (\<lambda>node.
         ret (orElse (cs_ownerId dto) (au_id actor), template, node))))"

definition newServer ::
  "id \<Rightarrow> id \<Rightarrow> time \<Rightarrow> createServerDto \<Rightarrow> id \<Rightarrow> serverTemplate \<Rightarrow> id \<Rightarrow> server" where
  "newServer i uuid t dto ownerId template nodeId = \<lparr>s_id = i, s_uuid = uuid,
     s_name = cs_name dto, s_description = cs_description dto, s_ownerId = ownerId,
     s_nodeId = nodeId, s_templateId = tp_id template, s_gameType = tp_gameType template,
     s_dockerImage = tp_dockerImage template, s_status = SRV_INSTALLING, s_suspended = False,
     s_suspendedReason = None, s_cpuLimitPct = cs_cpuLimitPct dto,
     s_memoryLimitMb = cs_memoryLimitMb dto, s_diskLimitMb = cs_diskLimitMb dto,
     s_swapLimitMb = 0, s_ioWeight = 500, s_environment = orElse (cs_environment dto) [],
     s_startupCommand = tp_startupCommand template, s_dataPath = [], s_createdAt = t\<rparr>"

definition dataPathOf :: "id \<Rightarrow> string" where
  "dataPathOf uuid = ''/srv/elysia/servers/'' @ uuid"

text \<open>\<open>increment\<close> of the three counters of a node; a negative amount is \<open>decrement\<close>. The
  columns hold 32-bit integers.\<close>

definition addUsage :: "int \<Rightarrow> int \<Rightarrow> int \<Rightarrow> node \<Rightarrow> node" where
  "addUsage c m k n = n\<lparr>n_cpuAllocatedPct := n_cpuAllocatedPct n + c,
     n_memoryAllocatedMb := n_memoryAllocatedMb n + m,
     n_diskAllocatedMb := n_diskAllocatedMb n + k\<rparr>"

definition node_increment :: "id \<Rightarrow> int \<Rightarrow> int \<Rightarrow> int \<Rightarrow> node io" where
  "node_increment nid c m k =
     bnd (dbFindOrThrow t_nodes (\<lambda>n. n_id n = nid)) (\<lambda>n.
     andThen (throwIf (\<not> (int4 (n_cpuAllocatedPct n + c) \<and> int4 (n_memoryAllocatedMb n + m) \<and>
         int4 (n_diskAllocatedMb n + k))) OutOfRange)
     (dbUpdate t_nodes t_nodes_update (\<lambda>n. n_id n = nid) (addUsage c m k)))"

text \<open>The loop of \<open>allocatePort\<close>.\<close>

function firstFreePort :: "int list \<Rightarrow> int \<Rightarrow> int option" where
  "firstFreePort used port =
     (if port \<le> PORT_RANGE_END
      then if port \<notin> set used then Some port else firstFreePort used (port + 1)
      else None)"
  by pat_completeness auto
termination
  by (relation "measure (\<lambda>(used, port). nat (PORT_RANGE_END + 1 - port))") auto

declare firstFreePort.simps [simp del]

definition usedPorts :: "db \<Rightarrow> id \<Rightarrow> int list" where
  "usedPorts d nid = map al_port (filter (\<lambda>a. al_nodeId a = nid \<and> al_ip a = ''0.0.0.0'' \<and>
     PORT_RANGE_START \<le> al_port a \<and> al_port a \<le> PORT_RANGE_END) (t_allocations d))"

definition servers_allocatePort :: "id \<Rightarrow> int io" where
  "servers_allocatePort nid =
     bnd (gets (\<lambda>w. usedPorts (w_db w) nid)) (\<lambda>used.
     case firstFreePort used PORT_RANGE_START of
       Some port \<Rightarrow> ret port
     | None \<Rightarrow> throw (BadRequestException ''Plus de port disponible sur ce node''))"

definition createAllocation :: "env \<Rightarrow> id \<Rightarrow> int \<Rightarrow> id \<Rightarrow> bool \<Rightarrow> networkAllocation io" where
  "createAllocation E nid port sid primary =
     bnd (external (newUuid E)) (\<lambda>i.
     dbCreate t_allocations t_allocations_update allocation_conflict allocation_fk
       \<lparr>al_id = i, al_nodeId = nid, al_ip = ''0.0.0.0'', al_port = port,
        al_serverId = Some sid, al_isPrimary = primary\<rparr>)"

text \<open>The row, then its \<open>dataPath\<close> once the uuid is known.\<close>

definition servers_insert ::
  "env \<Rightarrow> createServerDto \<Rightarrow> id \<Rightarrow> serverTemplate \<Rightarrow> id \<Rightarrow> server io" where
  "servers_insert E dto ownerId template nid =
     bnd (external (newUuid E)) (\<lambda>i.
     bnd (external (newUuid E)) (\<lambda>uuid.
     bnd (external (now E)) (\<lambda>t.
     andThen (throwIf (\<not> (int4 (cs_cpuLimitPct dto) \<and> int4 (cs_memoryLimitMb dto) \<and>
         int4 (cs_diskLimitMb dto))) OutOfRange)
     (bnd (dbCreate t_servers t_servers_update server_conflict server_fk
         (newServer i uuid t dto ownerId template nid)) (\<lambda>created.
     andThen (dbUpdate t_servers t_servers_update (\<lambda>s. s_id s = s_id created)
         (\<lambda>s. s\<lparr>s_dataPath := dataPathOf (s_uuid created)\<rparr>))
     (ret (created\<lparr>s_dataPath := dataPathOf (s_uuid created)\<rparr>)))))))"

definition servers_createTx ::
  "env \<Rightarrow> createServerDto \<Rightarrow> id \<Rightarrow> serverTemplate \<Rightarrow> id \<Rightarrow> (server \<times> int) io" where
  "servers_createTx E dto ownerId template nid =
     bnd (servers_insert E dto ownerId template nid) (\<lambda>server.
     andThen (node_increment nid (cs_cpuLimitPct dto) (cs_memoryLimitMb dto) (cs_diskLimitMb dto))
     (bnd (servers_allocatePort nid) (\<lambda>port.
     andThen (createAllocation E nid port (s_id server) True)
     (ret (server, port)))))"

text \<open>The transaction, the audit entry and the start of the provisioning, which is not
  awaited.\<close>

definition servers_createCommit ::
  "env \<Rightarrow> createServerDto \<Rightarrow> authUser \<Rightarrow> id \<times> serverTemplate \<times> node \<Rightarrow> (server \<times> int) io" where
  "servers_createCommit E dto actor = (\<lambda>(ownerId, template, node).
     bnd (transaction (servers_createTx E dto ownerId template (n_id node))) (\<lambda>(server, port).
     andThen (audit_log E ((auditEntry (au_id actor) ''server.create'' ''Server'' (s_id server))
         \<lparr>ae_metadata := Some (JObj [(''name'', JStr (cs_name dto)), (''nodeId'', JStr (n_id node))])\<rparr>))
     (andThen (startJob (ProvisionJob (s_id server) (n_id node) (n_grpcHost node) (n_grpcPort node)))
     (ret (server, port)))))"

definition servers_create :: "env \<Rightarrow> createServerDto \<Rightarrow> authUser \<Rightarrow> (server \<times> int) io" where
  "servers_create E dto actor =
     bnd (servers_createSelect dto actor) (servers_createCommit E dto actor)"

subsection \<open>Provisioning\<close>

definition containerRequest :: "serverView \<Rightarrow> createServerRequest" where
  "containerRequest v = (let s = sv_server v in \<lparr>cr_server_uuid = s_uuid s,
     cr_docker_image = s_dockerImage s, cr_startup_command = s_startupCommand s,
     cr_cpu_limit_pct = s_cpuLimitPct s, cr_memory_limit_mb = s_memoryLimitMb s,
     cr_disk_limit_mb = s_diskLimitMb s, cr_swap_limit_mb = s_swapLimitMb s,
     cr_io_weight = s_ioWeight s, cr_environment = s_environment s,
     cr_ports = map (\<lambda>a. \<lparr>pm_ip = al_ip a, pm_port = al_port a, pm_protocol = ''tcp''\<rparr>)
       (sv_allocations v),
     cr_install_script = orElse (tp_installScript (sv_template v)) []\<rparr>)"

definition setServerStatus :: "id \<Rightarrow> ServerStatus \<Rightarrow> server io" where
  "setServerStatus sid st =
     dbUpdate t_servers t_servers_update (\<lambda>s. s_id s = sid) (\<lambda>s. s\<lparr>s_status := st\<rparr>)"

definition servers_provisionOnNode :: "env \<Rightarrow> id \<Rightarrow> id \<Rightarrow> string \<Rightarrow> int \<Rightarrow> unit io" where
  "servers_provisionOnNode E sid nid host port =
     bnd (bnd (dbFindOrThrow t_servers (\<lambda>s. s_id s = sid)) includeServer) (\<lambda>v.
     tryCatch
       (andThen (nodeCall E (grpcAction E) nid (hostPort host port) ''CreateServer''
           (CreateServerRequest (containerRequest v)))
        (andThen (setServerStatus sid SRV_OFFLINE) (ret ())))
       (\<lambda>err. andThen (setServerStatus sid SRV_INSTALL_FAILED) (throw err)))"

subsection \<open>Power, console, suspension\<close>

datatype powerAct = PowerStart | PowerStop | PowerRestart | PowerKill

fun grpcMethod :: "powerAct \<Rightarrow> string" where
  "grpcMethod PowerStart = ''StartServer''"
| "grpcMethod PowerStop = ''StopServer''"
| "grpcMethod PowerRestart = ''RestartServer''"
| "grpcMethod PowerKill = ''KillServer''"

fun optimisticStatus :: "powerAct \<Rightarrow> ServerStatus" where
  "optimisticStatus PowerStart = SRV_STARTING"
| "optimisticStatus PowerStop = SRV_STOPPING"
| "optimisticStatus PowerRestart = SRV_STARTING"
| "optimisticStatus PowerKill = SRV_OFFLINE"

fun powerName :: "powerAct \<Rightarrow> string" where
  "powerName PowerStart = ''start''"
| "powerName PowerStop = ''stop''"
| "powerName PowerRestart = ''restart''"
| "powerName PowerKill = ''kill''"

text \<open>A call to the daemon of a server the actor can access.\<close>

definition callServer ::
  "env \<Rightarrow> (nat \<Rightarrow> grpcCall \<Rightarrow> string + 'a) \<Rightarrow> serverView \<Rightarrow> string \<Rightarrow> grpcRequest \<Rightarrow> 'a io" where
  "callServer E orc v method req =
     nodeCall E orc (s_nodeId (sv_server v)) (nodeParams (sv_node v)) method req"

definition servers_powerAction :: "env \<Rightarrow> id \<Rightarrow> powerAct \<Rightarrow> authUser \<Rightarrow> unit io" where
  "servers_powerAction E sid action actor =
     bnd (servers_findAccessibleOrThrow sid actor) (\<lambda>v.
     andThen (throwIf (s_suspended (sv_server v)) (BadRequestException ''Serveur suspendu''))
     (andThen (setServerStatus sid (optimisticStatus action))
     (andThen (callServer E (grpcAction E) v (grpcMethod action)
         (ServerIdRequest (s_uuid (sv_server v))))
       (audit_log E (auditEntry (au_id actor) (''server.power.'' @ powerName action)
          ''Server'' sid)))))"

definition servers_sendCommand :: "env \<Rightarrow> id \<Rightarrow> string \<Rightarrow> authUser \<Rightarrow> actionResponse io" where
  "servers_sendCommand E sid command actor =
     bnd (servers_findAccessibleOrThrow sid actor) (\<lambda>v.
     callServer E (grpcAction E) v ''SendCommand''
       (SendCommandRequest (s_uuid (sv_server v)) command))"

definition servers_suspend :: "env \<Rightarrow> id \<Rightarrow> string \<Rightarrow> id \<Rightarrow> server io" where
  "servers_suspend E sid reason actorId =
     bnd (dbUpdate t_servers t_servers_update (\<lambda>s. s_id s = sid)
         (\<lambda>s. s\<lparr>s_suspended := True, s_suspendedReason := Some reason,
                s_status := SRV_SUSPENDED\<rparr>)) (\<lambda>server.
     andThen (audit_log E ((auditEntry actorId ''server.suspend'' ''Server'' sid)
         \<lparr>ae_severity := Some WARNING, ae_metadata := Some (JObj [(''reason'', JStr reason)])\<rparr>))
     (ret server))"

definition servers_unsuspend :: "env \<Rightarrow> id \<Rightarrow> id \<Rightarrow> server io" where
  "servers_unsuspend E sid actorId =
     bnd (dbUpdate t_servers t_servers_update (\<lambda>s. s_id s = sid)
         (\<lambda>s. s\<lparr>s_suspended := False, s_suspendedReason := None,
                s_status := SRV_OFFLINE\<rparr>)) (\<lambda>server.
     andThen (audit_log E (auditEntry actorId ''server.unsuspend'' ''Server'' sid))
     (ret server))"

subsection \<open>Deletion, update, reinstallation\<close>

definition servers_deleteTx :: "server \<Rightarrow> unit io" where
  "servers_deleteTx s =
     andThen (node_increment (s_nodeId s) (- s_cpuLimitPct s) (- s_memoryLimitMb s)
         (- s_diskLimitMb s))
       (dbDeleteServer (s_id s))"

definition servers_delete :: "env \<Rightarrow> id \<Rightarrow> authUser \<Rightarrow> unit io" where
  "servers_delete E sid actor =
     bnd (servers_findAccessibleOrThrow sid actor) (\<lambda>v.
     andThen (tryCatch
         (andThen (callServer E (grpcAction E) v ''DeleteServer''
             (ServerIdRequest (s_uuid (sv_server v)))) (ret ()))
         (\<lambda>err. ret ()))
     (andThen (transaction (servers_deleteTx (sv_server v)))
       (audit_log E ((auditEntry (au_id actor) ''server.delete'' ''Server'' sid)
          \<lparr>ae_severity := Some WARNING\<rparr>))))"

record updateServerDto =
  us_name :: "string option"
  us_description :: "string option"
  us_dockerImage :: "string option"
  us_startupCommand :: "string option"
  us_environment :: "(string \<times> string) list option"

text \<open>A field that is \<open>undefined\<close> is left as it is.\<close>

definition applyUpdateServer :: "updateServerDto \<Rightarrow> server \<Rightarrow> server" where
  "applyUpdateServer dto s = s\<lparr>s_name := orElse (us_name dto) (s_name s),
     s_description := (case us_description dto of None \<Rightarrow> s_description s | Some x \<Rightarrow> Some x),
     s_dockerImage := orElse (us_dockerImage dto) (s_dockerImage s),
     s_startupCommand := orElse (us_startupCommand dto) (s_startupCommand s),
     s_environment := orElse (us_environment dto) (s_environment s)\<rparr>"

text \<open>\<open>Object.keys(dto)\<close>, in the order of the class.\<close>

definition updateServerKeys :: "updateServerDto \<Rightarrow> string list" where
  "updateServerKeys dto =
     (if us_name dto = None then [] else [''name'']) @
     (if us_description dto = None then [] else [''description'']) @
     (if us_dockerImage dto = None then [] else [''dockerImage'']) @
     (if us_startupCommand dto = None then [] else [''startupCommand'']) @
     (if us_environment dto = None then [] else [''environment''])"

definition servers_update :: "env \<Rightarrow> id \<Rightarrow> updateServerDto \<Rightarrow> authUser \<Rightarrow> server io" where
  "servers_update E sid dto actor =
     andThen (servers_findAccessibleOrThrow sid actor)
     (bnd (dbUpdate t_servers t_servers_update (\<lambda>s. s_id s = sid) (applyUpdateServer dto)) (\<lambda>server.
     andThen (audit_log E ((auditEntry (au_id actor) ''server.update'' ''Server'' sid)
         \<lparr>ae_metadata := Some (JObj [(''fields'', JArr (map JStr (updateServerKeys dto)))])\<rparr>))
     (ret server)))"

definition servers_reinstall :: "env \<Rightarrow> id \<Rightarrow> authUser \<Rightarrow> unit io" where
  "servers_reinstall E sid actor =
     bnd (servers_findAccessibleOrThrow sid actor) (\<lambda>v.
     andThen (callServer E (grpcAction E) v ''ReinstallServer''
         (CreateServerRequest (containerRequest v)))
     (andThen (setServerStatus sid SRV_OFFLINE)
       (audit_log E (auditEntry (au_id actor) ''server.reinstall'' ''Server'' sid))))"

subsection \<open>Ports and sub-users\<close>

definition servers_addAllocation :: "env \<Rightarrow> id \<Rightarrow> authUser \<Rightarrow> networkAllocation io" where
  "servers_addAllocation E sid actor =
     bnd (servers_findAccessibleOrThrow sid actor) (\<lambda>v.
     bnd (transaction (bnd (servers_allocatePort (s_nodeId (sv_server v))) (\<lambda>port.
         createAllocation E (s_nodeId (sv_server v)) port sid False))) (\<lambda>allocation.
     andThen (audit_log E ((auditEntry (au_id actor) ''server.allocation.add'' ''Server'' sid)
         \<lparr>ae_metadata := Some (JObj [(''port'', JNum (al_port allocation))])\<rparr>))
     (ret allocation)))"

definition servers_removeAllocation :: "env \<Rightarrow> id \<Rightarrow> id \<Rightarrow> authUser \<Rightarrow> unit io" where
  "servers_removeAllocation E sid aid actor =
     andThen (servers_findAccessibleOrThrow sid actor)
     (bnd (dbFind t_allocations (\<lambda>a. al_id a = aid)) (\<lambda>r. case r of
       None \<Rightarrow> throw (NotFoundException ''Allocation introuvable'')
     | Some a \<Rightarrow>
         andThen (throwIf (al_serverId a \<noteq> Some sid) (NotFoundException ''Allocation introuvable''))
         (andThen (throwIf (al_isPrimary a)
             (BadRequestException ''Impossible de supprimer l'allocation primaire''))
         (andThen (dbDelete t_allocations t_allocations_update (\<lambda>x. al_id x = aid))
           (audit_log E ((auditEntry (au_id actor) ''server.allocation.remove'' ''Server'' sid)
              \<lparr>ae_metadata := Some (JObj [(''port'', JNum (al_port a))])\<rparr>))))))"

definition ownerOnly :: "serverView \<Rightarrow> authUser \<Rightarrow> unit io" where
  "ownerOnly v actor =
     throwIf (s_ownerId (sv_server v) \<noteq> au_id actor \<and> \<not> has_perm actor ''*'')
       (ForbiddenException ''Seul le proprietaire peut gerer les sous-utilisateurs'')"

definition servers_addSubUser ::
  "env \<Rightarrow> id \<Rightarrow> id \<Rightarrow> string list \<Rightarrow> authUser \<Rightarrow> serverSubUser io" where
  "servers_addSubUser E sid userId permissions actor =
     bnd (servers_findAccessibleOrThrow sid actor) (\<lambda>v.
     andThen (ownerOnly v actor)
     (bnd (dbFind t_subUsers (\<lambda>x. su_serverId x = sid \<and> su_userId x = userId)) (\<lambda>r. case r of
        Some x \<Rightarrow> dbUpdate t_subUsers t_subUsers_update
          (\<lambda>x. su_serverId x = sid \<and> su_userId x = userId)
          (\<lambda>x. x\<lparr>su_permissions := permissions\<rparr>)
      | None \<Rightarrow> bnd (external (newUuid E)) (\<lambda>i.
          dbCreate t_subUsers t_subUsers_update subUser_conflict subUser_fk
            \<lparr>su_id = i, su_serverId = sid, su_userId = userId, su_permissions = permissions\<rparr>))))"

definition servers_removeSubUser :: "id \<Rightarrow> id \<Rightarrow> authUser \<Rightarrow> unit io" where
  "servers_removeSubUser sid userId actor =
     bnd (servers_findAccessibleOrThrow sid actor) (\<lambda>v.
     andThen (ownerOnly v actor)
       (dbDelete t_subUsers t_subUsers_update
          (\<lambda>x. su_serverId x = sid \<and> su_userId x = userId)))"

end
