(* ===== verification/Server_Facts.thy ===== *)
theory Server_Facts
  imports Servers
begin

text \<open>
  What the operations of \<^verbatim>\<open>servers/servers.service.ts\<close> guarantee: who may act on a server,
  which port is allocated, that the counters of the nodes stay the sums of the limits of
  their servers, and what each operation does when the daemon fails.
\<close>

subsection \<open>Access\<close>

definition canAccess :: "db \<Rightarrow> authUser \<Rightarrow> server \<Rightarrow> bool" where
  "canAccess d u s \<longleftrightarrow> isServerAdmin u \<or> s_ownerId s = au_id u \<or>
     (\<exists>x \<in> set (t_subUsers d). su_serverId x = s_id s \<and> su_userId x = au_id u)"

text \<open>The joins of a query on the server succeed.\<close>

definition serverJoins :: "db \<Rightarrow> server \<Rightarrow> bool" where
  "serverJoins d s \<longleftrightarrow> node_exists d (s_nodeId s) \<and> template_exists d (s_templateId s)"

lemma includeServer_apply:
  "includeServer s w = (case List.find (\<lambda>n. n_id n = s_nodeId s) (t_nodes (w_db w)) of
       None \<Rightarrow> (Inl P2025, w)
     | Some n \<Rightarrow> (case List.find (\<lambda>t. tp_id t = s_templateId s) (t_templates (w_db w)) of
         None \<Rightarrow> (Inl P2025, w)
       | Some t \<Rightarrow> (Inr \<lparr>sv_server = s, sv_node = n, sv_template = t,
           sv_allocations = allocationsOf (w_db w) (s_id s),
           sv_subUsers = subUsersOf (w_db w) (s_id s)\<rparr>, w)))"
  by (simp add: includeServer_def prog_simps split: option.splits)

lemma findAccessible_snd: "snd (servers_findAccessibleOrThrow sid user w) = w"
  by (simp add: servers_findAccessibleOrThrow_def includeServer_apply prog_simps split: option.splits)

lemma findAccessible_Inr:
  assumes "servers_findAccessibleOrThrow sid user w = (Inr v, w')"
  shows "w' = w" and "List.find (\<lambda>s. s_id s = sid) (t_servers (w_db w)) = Some (sv_server v)"
    and "s_id (sv_server v) = sid" and "sv_server v \<in> set (t_servers (w_db w))"
    and "canAccess (w_db w) user (sv_server v)"
    and "List.find (\<lambda>n. n_id n = s_nodeId (sv_server v)) (t_nodes (w_db w)) = Some (sv_node v)"
    and "sv_allocations v = allocationsOf (w_db w) sid"
  using assms
  by (auto simp: servers_findAccessibleOrThrow_def includeServer_apply prog_simps canAccess_def
      list_ex_iff subUsersOf_def split: option.splits if_splits dest: find_SomeD)

lemma findAccessible_ok:
  assumes "List.find (\<lambda>s. s_id s = sid) (t_servers (w_db w)) = Some s"
    and "canAccess (w_db w) user s" and "serverJoins (w_db w) s"
  shows "\<exists>v. servers_findAccessibleOrThrow sid user w = (Inr v, w) \<and> sv_server v = s"
proof -
  obtain n where n: "List.find (\<lambda>n. n_id n = s_nodeId s) (t_nodes (w_db w)) = Some n"
    using assms(3) by (auto simp: serverJoins_def node_exists_def list_ex_iff dest: find_Some_ex)
  obtain t where t: "List.find (\<lambda>t. tp_id t = s_templateId s) (t_templates (w_db w)) = Some t"
    using assms(3)
    by (auto simp: serverJoins_def template_exists_def list_ex_iff dest: find_Some_ex)
  show ?thesis using assms(1,2)
    by (auto simp: servers_findAccessibleOrThrow_def includeServer_apply prog_simps canAccess_def
        list_ex_iff subUsersOf_def n t)
qed

lemma findAccessible_Inl:
  assumes "servers_findAccessibleOrThrow sid user w = (Inl e, w')"
    and "\<forall>s \<in> set (t_servers (w_db w)). serverJoins (w_db w) s"
  shows "e = NotFoundException ''Serveur introuvable'' \<and>
      List.find (\<lambda>s. s_id s = sid) (t_servers (w_db w)) = None \<or>
    e = ForbiddenException ''Vous n'avez pas acces a ce serveur'' \<and>
      (\<exists>s. List.find (\<lambda>s. s_id s = sid) (t_servers (w_db w)) = Some s \<and>
        \<not> canAccess (w_db w) user s)"
proof (cases "List.find (\<lambda>s. s_id s = sid) (t_servers (w_db w))")
  case None
  then show ?thesis using assms(1)
    by (simp add: servers_findAccessibleOrThrow_def prog_simps)
next
  case (Some s)
  have j: "serverJoins (w_db w) s" using Some assms(2) find_SomeD by fastforce
  then have "\<not> canAccess (w_db w) user s"
    using findAccessible_ok [OF Some _ j] assms(1) by fastforce
  moreover have "e = ForbiddenException ''Vous n'avez pas acces a ce serveur''"
    using assms(1) Some j
    by (auto simp: servers_findAccessibleOrThrow_def includeServer_apply prog_simps
        serverJoins_def node_exists_def template_exists_def list_ex_iff
        split: option.splits if_splits dest: find_NoneD)
  ultimately show ?thesis using Some by simp
qed

text \<open>Every operation on an existing server starts with the check.\<close>

definition guarded :: "(id \<Rightarrow> authUser \<Rightarrow> 'a io) \<Rightarrow> bool" where
  "guarded f \<longleftrightarrow> (\<forall>sid user w e. fst (servers_findAccessibleOrThrow sid user w) = Inl e \<longrightarrow>
     f sid user w = (Inl e, w))"

lemma guarded_bnd: "guarded (\<lambda>sid user. bnd (servers_findAccessibleOrThrow sid user) (f sid user))"
  unfolding guarded_def
proof (intro allI impI)
  fix sid user w e
  assume "fst (servers_findAccessibleOrThrow sid user w) = Inl e"
  then have "servers_findAccessibleOrThrow sid user w = (Inl e, w)"
    by (simp add: prod_eq_iff findAccessible_snd)
  then show "bnd (servers_findAccessibleOrThrow sid user) (f sid user) w = (Inl e, w)"
    by (simp add: bnd_apply)
qed

lemma guarded_operations:
  "guarded (\<lambda>sid. servers_powerAction E sid action)"
  "guarded (\<lambda>sid. servers_sendCommand E sid command)"
  "guarded (servers_delete E)"
  "guarded (\<lambda>sid. servers_update E sid udto)"
  "guarded (servers_reinstall E)"
  "guarded (servers_addAllocation E)"
  "guarded (\<lambda>sid. servers_removeAllocation E sid aid)"
  "guarded (\<lambda>sid. servers_addSubUser E sid userId permissions)"
  "guarded (\<lambda>sid. servers_removeSubUser sid userId)"
  unfolding servers_powerAction_def servers_sendCommand_def servers_delete_def servers_update_def
    servers_reinstall_def servers_addAllocation_def servers_removeAllocation_def
    servers_addSubUser_def servers_removeSubUser_def andThen_def [of "servers_findAccessibleOrThrow _ _"]
  by (rule guarded_bnd)+

subsection \<open>Ports\<close>

lemma firstFreePort_Some:
  "firstFreePort used p = Some q \<longleftrightarrow>
     p \<le> q \<and> q \<le> PORT_RANGE_END \<and> q \<notin> set used \<and> (\<forall>r. p \<le> r \<and> r < q \<longrightarrow> r \<in> set used)"
proof (induction used p rule: firstFreePort.induct)
  case (1 used p)
  show ?case
  proof (cases "p \<le> PORT_RANGE_END \<and> p \<in> set used")
    case True
    have "firstFreePort used p = firstFreePort used (p + 1)"
      using True by (subst firstFreePort.simps) simp
    moreover have "(\<forall>r. p \<le> r \<and> r < q \<longrightarrow> r \<in> set used) \<longleftrightarrow>
        (\<forall>r. p + 1 \<le> r \<and> r < q \<longrightarrow> r \<in> set used)"
      using True by (metis add1_zle_eq order_le_less)
    moreover have "q \<notin> set used \<Longrightarrow> p \<le> q \<longleftrightarrow> p + 1 \<le> q"
      using True by (metis add1_zle_eq order_le_less)
    ultimately show ?thesis using "1.IH" True by auto
  next
    case False
    then show ?thesis by (subst firstFreePort.simps) (force simp: not_less)
  qed
qed

lemma firstFreePort_None:
  "firstFreePort used p = None \<longleftrightarrow> (\<forall>r. p \<le> r \<and> r \<le> PORT_RANGE_END \<longrightarrow> r \<in> set used)"
proof (induction used p rule: firstFreePort.induct)
  case (1 used p)
  show ?case
  proof (cases "p \<le> PORT_RANGE_END \<and> p \<in> set used")
    case True
    have "firstFreePort used p = firstFreePort used (p + 1)"
      using True by (subst firstFreePort.simps) simp
    then show ?thesis using "1.IH" True by (metis add1_zle_eq order_le_less)
  next
    case False
    then show ?thesis by (subst firstFreePort.simps) auto
  qed
qed

text \<open>\<open>(node, 0.0.0.0, port)\<close> is in use.\<close>

definition portUsed :: "db \<Rightarrow> id \<Rightarrow> int \<Rightarrow> bool" where
  "portUsed d nid port \<longleftrightarrow>
     (\<exists>a \<in> set (t_allocations d). al_nodeId a = nid \<and> al_ip a = ''0.0.0.0'' \<and> al_port a = port)"

lemma usedPorts_iff:
  "port \<in> set (usedPorts d nid) \<longleftrightarrow>
     PORT_RANGE_START \<le> port \<and> port \<le> PORT_RANGE_END \<and> portUsed d nid port"
  by (auto simp: usedPorts_def portUsed_def)

lemma allocatePort_Inr:
  "servers_allocatePort nid w = (Inr port, w') \<longleftrightarrow> w' = w \<and>
     PORT_RANGE_START \<le> port \<and> port \<le> PORT_RANGE_END \<and> \<not> portUsed (w_db w) nid port \<and>
     (\<forall>q. PORT_RANGE_START \<le> q \<and> q < port \<longrightarrow> portUsed (w_db w) nid q)"
proof -
  have "servers_allocatePort nid w = (Inr port, w') \<longleftrightarrow> w' = w \<and>
      firstFreePort (usedPorts (w_db w) nid) PORT_RANGE_START = Some port"
    by (auto simp: servers_allocatePort_def prog_simps split: option.splits)
  then show ?thesis by (auto simp: firstFreePort_Some usedPorts_iff)
qed

lemma allocatePort_Inl:
  "(\<exists>e w'. servers_allocatePort nid w = (Inl e, w')) \<longleftrightarrow>
     (\<forall>q. PORT_RANGE_START \<le> q \<and> q \<le> PORT_RANGE_END \<longrightarrow> portUsed (w_db w) nid q)"
proof -
  have "(\<exists>e w'. servers_allocatePort nid w = (Inl e, w')) \<longleftrightarrow>
      firstFreePort (usedPorts (w_db w) nid) PORT_RANGE_START = None"
    by (simp add: servers_allocatePort_def prog_simps split: option.splits)
  then show ?thesis by (auto simp: firstFreePort_None usedPorts_iff)
qed

lemma allocatePort_snd: "snd (servers_allocatePort nid w) = w"
  by (simp add: servers_allocatePort_def prog_simps split: option.splits)

subsection \<open>Uniqueness of the ports\<close>

definition portsUnique :: "db \<Rightarrow> bool" where
  "portsUnique d \<longleftrightarrow> distinct (map (\<lambda>a. (al_nodeId a, al_ip a, al_port a)) (t_allocations d))"

lemma portsUnique_frame:
  "frame portsUnique t_servers_update" "frame portsUnique t_nodes_update"
  "frame portsUnique t_auditLogs_update" "frame portsUnique t_subUsers_update"
  by (auto simp: frame_def portsUnique_def)

lemma keepsDb_portsUnique_create:
  "keepsDb portsUnique (createAllocation E nid port sid primary)"
  unfolding createAllocation_def
proof (intro keepsDb_intros keepsDbI)
  fix i and w :: world
  assume "portsUnique (w_db w)"
  then show "portsUnique (w_db (snd (dbCreate t_allocations t_allocations_update
      allocation_conflict allocation_fk \<lparr>al_id = i, al_nodeId = nid, al_ip = ''0.0.0.0'',
        al_port = port, al_serverId = Some sid, al_isPrimary = primary\<rparr> w)))"
    by (auto simp: prog_simps portsUnique_def allocation_conflict_def list_ex_iff)
qed

lemma readOnly_findAccessible: "readOnlyDb (servers_findAccessibleOrThrow sid user)"
  by (simp add: readOnlyDb_def findAccessible_snd)

lemma keepsDb_findAccessible [keepsDb_intros]:
  "keepsDb J (servers_findAccessibleOrThrow sid user)"
  by (rule readOnlyDb_keepsDb [OF readOnly_findAccessible])

lemma keepsDb_allocatePort [keepsDb_intros]: "keepsDb J (servers_allocatePort nid)"
  by (rule readOnlyDb_keepsDb) (simp add: readOnlyDb_def allocatePort_snd)

lemma keepsDb_findEligible [keepsDb_intros]: "keepsDb J (nodes_findEligibleNode rq)"
  unfolding nodes_findEligibleNode_def by (intro keepsDb_intros)

lemma keepsDb_createSelect [keepsDb_intros]: "keepsDb J (servers_createSelect dto actor)"
  unfolding servers_createSelect_def by (intro keepsDb_intros)

lemma keepsDb_includeServer [keepsDb_intros]: "keepsDb J (includeServer s)"
  unfolding includeServer_def by (intro keepsDb_intros)

lemma portsUnique_drop_server: "portsUnique d \<Longrightarrow> portsUnique (drop_server sid d)"
  by (simp add: portsUnique_def drop_server_def comp_def cong: map_cong if_cong)
     (erule back_subst [of distinct], simp)

lemma keepsDb_portsUnique_delete: "keepsDb portsUnique (dbDeleteServer sid)"
  by (rule keepsDbI) (simp add: prog_simps portsUnique_drop_server)

lemma keepsDb_portsUnique_dropAllocation:
  "keepsDb portsUnique (dbDelete t_allocations t_allocations_update p)"
  by (rule keepsDbI) (simp add: prog_simps portsUnique_def distinct_map_filter)

lemmas server_writes = keepsDb_write_frame keepsDb_audit_log
lemmas server_unfolds = servers_powerAction_def servers_sendCommand_def servers_suspend_def
  servers_unsuspend_def servers_update_def servers_reinstall_def servers_addAllocation_def
  servers_removeAllocation_def servers_addSubUser_def servers_removeSubUser_def
  servers_listForUser_def servers_provisionOnNode_def setServerStatus_def callServer_def
  ownerOnly_def

lemma portsUnique_create: "keepsDb portsUnique (servers_create E dto actor)"
  unfolding servers_create_def servers_createCommit_def servers_createTx_def servers_insert_def
    node_increment_def
  by (auto intro!: keepsDb_intros server_writes portsUnique_frame keepsDb_portsUnique_create)

lemma portsUnique_delete: "keepsDb portsUnique (servers_delete E sid actor)"
  unfolding servers_delete_def servers_deleteTx_def callServer_def node_increment_def
  by (auto intro!: keepsDb_intros server_writes portsUnique_frame keepsDb_portsUnique_delete)

lemma portsUnique_ops:
  "keepsDb portsUnique (servers_powerAction E sid action actor)"
  "keepsDb portsUnique (servers_sendCommand E sid command actor)"
  "keepsDb portsUnique (servers_suspend E sid reason actorId)"
  "keepsDb portsUnique (servers_unsuspend E sid actorId)"
  "keepsDb portsUnique (servers_update E sid udto actor)"
  "keepsDb portsUnique (servers_reinstall E sid actor)"
  "keepsDb portsUnique (servers_addAllocation E sid actor)"
  "keepsDb portsUnique (servers_removeAllocation E sid aid actor)"
  "keepsDb portsUnique (servers_addSubUser E sid userId permissions actor)"
  "keepsDb portsUnique (servers_removeSubUser sid userId actor)"
  "keepsDb portsUnique (servers_provisionOnNode E sid nid host port)"
  unfolding server_unfolds
  by (auto intro!: keepsDb_intros server_writes portsUnique_frame keepsDb_portsUnique_create
      keepsDb_portsUnique_dropAllocation)

subsection \<open>The accounting invariant\<close>

lemma keepsDb_transactionI:
  "(\<And>w x w'. J (w_db w) \<Longrightarrow> m w = (Inr x, w') \<Longrightarrow> J (w_db w')) \<Longrightarrow> keepsDb J (transaction m)"
  by (rule keepsDbI) (auto simp: prog_simps split: prod.splits sum.splits)

lemma node_increment_Inr:
  "node_increment nid c m k w = (Inr n, w') \<Longrightarrow>
     node_exists (w_db w) nid \<and> w_calls w' = w_calls w \<and> w_jobs w' = w_jobs w \<and>
     w_db w' = t_nodes_update (map (\<lambda>n. if n_id n = nid then addUsage c m k n else n)) (w_db w)"
  by (auto simp: node_increment_def prog_simps node_exists_def list_ex_iff
      split: option.splits if_splits dest: find_SomeD)

lemma nodeUsage_append:
  "nodeUsage f (t_servers_update (\<lambda>t. t @ [s]) d) nid =
     nodeUsage f d nid + (if s_nodeId s = nid then f s else 0)"
  by (simp add: nodeUsage_def)

lemma addUsage_simps [simp]:
  "n_id (addUsage c m k n) = n_id n"
  "n_cpuAllocatedPct (addUsage c m k n) = n_cpuAllocatedPct n + c"
  "n_memoryAllocatedMb (addUsage c m k n) = n_memoryAllocatedMb n + m"
  "n_diskAllocatedMb (addUsage c m k n) = n_diskAllocatedMb n + k"
  by (simp_all add: addUsage_def)

lemma node_exists_map:
  "(\<And>n. n_id (g n) = n_id n) \<Longrightarrow> node_exists (t_nodes_update (map g) d) i = node_exists d i"
  by (simp add: node_exists_image image_image)

lemma node_exists_drop_server: "node_exists (drop_server sid d) i = node_exists d i"
  by (simp add: node_exists_def drop_server_def)

lemma accountingI:
  "t_nodes d' = map g (t_nodes d) \<Longrightarrow> distinct (map s_id (t_servers d')) \<Longrightarrow>
   (\<And>s. s \<in> set (t_servers d') \<Longrightarrow> node_exists d' (s_nodeId s)) \<Longrightarrow>
   (\<And>n. n \<in> set (t_nodes d) \<Longrightarrow> countersMatch d' (g n)) \<Longrightarrow> accounting d'"
  by (auto simp: accounting_def)

lemma accounting_place:
  assumes "accounting d" and "node_exists d (s_nodeId s)" and "\<not> server_exists d (s_id s)"
  shows "accounting (t_nodes_update (map (\<lambda>n. if n_id n = s_nodeId s
      then addUsage (s_cpuLimitPct s) (s_memoryLimitMb s) (s_diskLimitMb s) n else n))
    (t_servers_update (\<lambda>t. t @ [s]) d))"
    (is "accounting (t_nodes_update (map ?g) (t_servers_update ?h d))")
proof -
  have ids: "n_id (?g n) = n_id n" for n by simp
  have ex: "node_exists (t_nodes_update (map ?g) (t_servers_update ?h d)) i = node_exists d i" for i
    using node_exists_map [of ?g "t_servers_update ?h d" i, OF ids] by (simp add: node_exists_def)
  have "countersMatch (t_nodes_update (map ?g) (t_servers_update ?h d)) (?g n)"
    if "n \<in> set (t_nodes d)" for n
    using assms(1) that nodeUsage_append [where s = s and d = d]
    by (auto simp: accounting_def countersMatch_def nodeUsage_def)
  then show ?thesis using assms ex
    by (intro accountingI [where g = ?g and d = d])
       (auto simp: accounting_def server_exists_def list_ex_iff)
qed

lemma sum_list_remove:
  "distinct (map key xs) \<Longrightarrow> x \<in> set xs \<Longrightarrow>
   sum_list (map f (filter q (filter (\<lambda>y. key y \<noteq> key x) xs))) =
     sum_list (map f (filter q xs)) - (if q x then f x else (0::int))"
proof (induction xs)
  case Nil
  then show ?case by simp
next
  case (Cons y ys)
  show ?case
  proof (cases "y = x")
    case True
    then have "filter (\<lambda>z. key z \<noteq> key x) ys = ys"
      using Cons.prems by (auto simp: filter_id_conv image_iff) 
    then show ?thesis using True by simp
  next
    case False
    then have "x \<in> set ys" "key y \<noteq> key x" using Cons.prems by (auto simp: image_iff)
    then show ?thesis using Cons by auto
  qed
qed

lemma accounting_remove:
  assumes "accounting d" and "s \<in> set (t_servers d)"
  shows "accounting (drop_server (s_id s) (t_nodes_update (map (\<lambda>n. if n_id n = s_nodeId s
      then addUsage (- s_cpuLimitPct s) (- s_memoryLimitMb s) (- s_diskLimitMb s) n else n)) d))"
    (is "accounting (drop_server _ (t_nodes_update (map ?g) d))")
proof -
  let ?d = "drop_server (s_id s) (t_nodes_update (map ?g) d)"
  have dist: "distinct (map s_id (t_servers d))" using assms by (simp add: accounting_def)
  have ids: "n_id (?g n) = n_id n" for n by simp
  have ex: "node_exists ?d i = node_exists d i" for i
    unfolding node_exists_drop_server by (rule node_exists_map [OF ids])
  have usage: "nodeUsage f ?d i = nodeUsage f d i - (if s_nodeId s = i then f s else 0)" for f i
    using sum_list_remove [OF dist assms(2)] by (simp add: nodeUsage_def drop_server_def)
  have "countersMatch ?d (?g n)" if "n \<in> set (t_nodes d)" for n
    using assms(1) that by (auto simp: accounting_def countersMatch_def usage)
  then show ?thesis using assms dist ex
    by (intro accountingI [where g = ?g and d = d])
       (auto simp: accounting_def drop_server_def distinct_map_filter)
qed

subsection \<open>The transaction of a creation\<close>

lemma map_update_fresh:
  "\<forall>x \<in> set xs. key x \<noteq> k \<Longrightarrow> map (\<lambda>x. if key x = k then f x else x) xs = xs"
  by (induction xs) auto

lemma newServer_simps [simp]:
  "s_id (newServer i u t dto o' tp nid) = i" "s_uuid (newServer i u t dto o' tp nid) = u"
  "s_ownerId (newServer i u t dto o' tp nid) = o'" "s_nodeId (newServer i u t dto o' tp nid) = nid"
  "s_cpuLimitPct (newServer i u t dto o' tp nid) = cs_cpuLimitPct dto"
  "s_memoryLimitMb (newServer i u t dto o' tp nid) = cs_memoryLimitMb dto"
  "s_diskLimitMb (newServer i u t dto o' tp nid) = cs_diskLimitMb dto"
  "s_status (newServer i u t dto o' tp nid) = SRV_INSTALLING"
  "s_templateId (newServer i u t dto o' tp nid) = tp_id tp"
  "s_suspended (newServer i u t dto o' tp nid) = False"
  by (simp_all add: newServer_def)

lemma insert_Inr:
  assumes "servers_insert E dto ownerId template nid w = (Inr s, w')"
  obtains i uuid t where
    "s = (newServer i uuid t dto ownerId template nid)\<lparr>s_dataPath := dataPathOf uuid\<rparr>"
    "user_exists (w_db w) ownerId" "node_exists (w_db w) nid" "\<not> server_exists (w_db w) i"
    "w_db w' = t_servers_update (\<lambda>t. t @ [s]) (w_db w)"
    "w_calls w' = w_calls w" "w_jobs w' = w_jobs w"
proof -
  define i where "i = newUuid E (w_tick w)"
  define uuid where "uuid = newUuid E (Suc (w_tick w))"
  define t where "t = now E (Suc (Suc (w_tick w)))"
  note defs = i_def [symmetric] uuid_def [symmetric] t_def [symmetric]
  note run = assms [unfolded servers_insert_def, simplified run_Inr defs newServer_simps, simplified defs]
  have conf: "\<not> list_ex (server_conflict (newServer i uuid t dto ownerId template nid))
        (t_servers (w_db w))"
    and fk: "server_fk (w_db w) (newServer i uuid t dto ownerId template nid)"
    and s: "s = (newServer i uuid t dto ownerId template nid)\<lparr>s_dataPath := dataPathOf uuid\<rparr>"
    and w': "w_db w' = t_servers_update
        (map (\<lambda>s. if s_id s = i then s\<lparr>s_dataPath := dataPathOf uuid\<rparr> else s) \<circ>
         (\<lambda>t'. t' @ [newServer i uuid t dto ownerId template nid])) (w_db w)"
      "w_calls w' = w_calls w" "w_jobs w' = w_jobs w"
    using run by (auto simp: defs)
  have fresh: "\<forall>x \<in> set (t_servers (w_db w)). s_id x \<noteq> i"
    using conf by (auto simp: list_ex_iff server_conflict_def)
  have "w_db w' = t_servers_update (\<lambda>t. t @ [s]) (w_db w)"
    using map_update_fresh [OF fresh] s w' by (simp only: w', intro db.unfold_congs) auto
  moreover have "user_exists (w_db w) ownerId" "node_exists (w_db w) nid" "\<not> server_exists (w_db w) i"
    using fk fresh by (auto simp: server_fk_def server_exists_def list_ex_iff)
  ultimately show ?thesis using that s w' by auto
qed

lemma createTx_Inr:
  assumes "servers_createTx E dto ownerId template nid w = (Inr (s, port), w')"
  obtains i uuid t a where
    "s = (newServer i uuid t dto ownerId template nid)\<lparr>s_dataPath := dataPathOf uuid\<rparr>"
    "user_exists (w_db w) ownerId" "node_exists (w_db w) nid" "\<not> server_exists (w_db w) i"
    "PORT_RANGE_START \<le> port" "port \<le> PORT_RANGE_END" "\<not> portUsed (w_db w) nid port"
    "\<forall>q. PORT_RANGE_START \<le> q \<and> q < port \<longrightarrow> portUsed (w_db w) nid q"
    "al_nodeId a = nid" "al_port a = port" "al_serverId a = Some i" "al_isPrimary a"
    "w_db w' = t_allocations_update (\<lambda>t. t @ [a]) (t_nodes_update (map (\<lambda>n. if n_id n = nid
       then addUsage (cs_cpuLimitPct dto) (cs_memoryLimitMb dto) (cs_diskLimitMb dto) n else n))
       (t_servers_update (\<lambda>t. t @ [s]) (w_db w)))"
    "w_calls w' = w_calls w" "w_jobs w' = w_jobs w"
proof -
  obtain w1 w2 n a where ins: "servers_insert E dto ownerId template nid w = (Inr s, w1)"
    and inc: "node_increment nid (cs_cpuLimitPct dto) (cs_memoryLimitMb dto) (cs_diskLimitMb dto) w1
        = (Inr n, w2)"
    and port: "servers_allocatePort nid w2 = (Inr port, w2)"
    and alloc: "createAllocation E nid port (s_id s) True w2 = (Inr a, w')"
    using assms unfolding servers_createTx_def by (auto simp: run_Inr allocatePort_Inr)
  note n = node_increment_Inr [OF inc]
  obtain i uuid t where s: "s = (newServer i uuid t dto ownerId template nid)\<lparr>s_dataPath := dataPathOf uuid\<rparr>"
    and d: "user_exists (w_db w) ownerId" "node_exists (w_db w) nid" "\<not> server_exists (w_db w) i"
    and w1: "w_db w1 = t_servers_update (\<lambda>t. t @ [s]) (w_db w)"
      "w_calls w1 = w_calls w" "w_jobs w1 = w_jobs w"
    using insert_Inr [OF ins] by metis
  have used: "portUsed (w_db w2) nid q = portUsed (w_db w) nid q" for q
    using n w1 by (simp add: portUsed_def)
  have a: "al_nodeId a = nid" "al_port a = port" "al_serverId a = Some i" "al_isPrimary a"
    "w_db w' = t_allocations_update (\<lambda>t. t @ [a]) (w_db w2)" "w_calls w' = w_calls w2"
    "w_jobs w' = w_jobs w2"
    using alloc s by (auto simp: createAllocation_def run_Inr)
  show ?thesis
    using that [OF s d _ _ _ _ a(1-4)] port n a used w1 by (auto simp: allocatePort_Inr)
qed

lemma accounting_createTx:
  "keepsDb accounting (transaction (servers_createTx E dto ownerId template nid))"
proof (rule keepsDb_transactionI)
  fix w x w'
  assume acc: "accounting (w_db w)" and run: "servers_createTx E dto ownerId template nid w = (Inr x, w')"
  obtain s port where x: "x = (s, port)" by (cases x)
  obtain i uuid t a where s: "s = (newServer i uuid t dto ownerId template nid)\<lparr>s_dataPath := dataPathOf uuid\<rparr>"
    and n: "node_exists (w_db w) nid" "\<not> server_exists (w_db w) i"
    and d: "w_db w' = t_allocations_update (\<lambda>t. t @ [a]) (t_nodes_update (map (\<lambda>n. if n_id n = nid
       then addUsage (cs_cpuLimitPct dto) (cs_memoryLimitMb dto) (cs_diskLimitMb dto) n else n))
       (t_servers_update (\<lambda>t. t @ [s]) (w_db w)))"
    by (rule createTx_Inr [OF run [unfolded x]]) (rule that; assumption)
  have f: "s_id s = i" "s_nodeId s = nid" "s_cpuLimitPct s = cs_cpuLimitPct dto"
    "s_memoryLimitMb s = cs_memoryLimitMb dto" "s_diskLimitMb s = cs_diskLimitMb dto"
    by (simp_all add: s)
  show "accounting (w_db w')"
    unfolding d using accounting_place [OF acc, of s, unfolded f] n
    by (intro frameD [OF accounting_frame(8)]) simp
qed

lemma keepsDb_accounting_status: "keepsDb accounting (setServerStatus sid st)"
  unfolding setServerStatus_def by (rule keepsDb_accounting_serverUpdate) simp_all

lemmas accounting_writes = accounting_frame [THEN keepsDb_write_frame(1)]
  accounting_frame [THEN keepsDb_write_frame(2)] accounting_frame [THEN keepsDb_write_frame(3)]
  accounting_frame [THEN keepsDb_write_frame(4)] accounting_frame [THEN keepsDb_write_frame(5)]
  accounting_frame(7) [THEN keepsDb_audit_log] keepsDb_accounting_status
  keepsDb_accounting_serverUpdate

lemma accounting_create: "keepsDb accounting (servers_create E dto actor)"
  unfolding servers_create_def servers_createCommit_def
  by (auto intro!: keepsDb_intros accounting_writes accounting_createTx)

lemma accounting_createCommit: "keepsDb accounting (servers_createCommit E dto actor sel)"
  unfolding servers_createCommit_def
  by (auto intro!: keepsDb_intros accounting_writes accounting_createTx)

lemma accounting_deleteTx:
  assumes "accounting (w_db w)" and "s \<in> set (t_servers (w_db w))"
    and "transaction (servers_deleteTx s) w = (r, w')"
  shows "accounting (w_db w')"
proof (cases r)
  case (Inl e)
  then show ?thesis using assms transaction_Inl [of _ w] by metis
next
  case (Inr u)
  then obtain n w1 where inc: "node_increment (s_nodeId s) (- s_cpuLimitPct s) (- s_memoryLimitMb s)
        (- s_diskLimitMb s) w = (Inr n, w1)"
    and del: "dbDeleteServer (s_id s) w1 = (Inr u, w')"
    using assms(3) by (auto simp: run_Inr servers_deleteTx_def)
  have "w_db w' = drop_server (s_id s) (w_db w1)" using del by (auto simp: prog_simps split: if_splits)
  then show ?thesis using accounting_remove [OF assms(1,2)] node_increment_Inr [OF inc] by simp
qed

lemma accounting_delete: "keepsDb accounting (servers_delete E sid actor)"
  unfolding servers_delete_def
proof (rule keepsDbI)
  fix w :: world
  assume acc: "accounting (w_db w)"
  let ?call = "\<lambda>v. tryCatch (andThen (callServer E (grpcAction E) v ''DeleteServer''
      (ServerIdRequest (s_uuid (sv_server v)))) (ret ())) (\<lambda>err. ret ())"
  let ?audit = "audit_log E ((auditEntry (au_id actor) ''server.delete'' ''Server'' sid)
      \<lparr>ae_severity := Some WARNING\<rparr>)"
  obtain r w0 where find: "servers_findAccessibleOrThrow sid actor w = (r, w0)" by fastforce
  show "accounting (w_db (snd (bnd (servers_findAccessibleOrThrow sid actor) (\<lambda>v.
      andThen (?call v) (andThen (transaction (servers_deleteTx (sv_server v))) ?audit)) w)))"
  proof (cases r)
    case (Inl e)
    then show ?thesis using find acc findAccessible_snd [of sid actor w] by (simp add: prog_simps)
  next
    case (Inr v)
    note v = findAccessible_Inr [OF find [unfolded Inr]]
    obtain c w1 where c: "?call v w = (c, w1)" by fastforce
    have d1: "w_db w1 = w_db w"
    proof -
      have "readOnlyDb (?call v)"
        by (auto simp: readOnlyDb_iff callServer_def intro!: keepsDb_intros)
      then show ?thesis using c by (metis readOnlyDb_def snd_conv)
    qed
    obtain t w2 where t: "transaction (servers_deleteTx (sv_server v)) w1 = (t, w2)" by fastforce
    have "accounting (w_db w2)" using accounting_deleteTx [OF _ _ t] acc v(4) d1 by simp
    moreover have "keepsDb accounting ?audit" by (intro accounting_writes)
    ultimately show ?thesis using find Inr v(1) c t acc d1
      by (auto simp: bnd_apply andThen_apply keepsDb_snd split: sum.splits)
  qed
qed

lemma accounting_ops:
  "keepsDb accounting (servers_powerAction E sid action actor)"
  "keepsDb accounting (servers_sendCommand E sid command actor)"
  "keepsDb accounting (servers_suspend E sid reason actorId)"
  "keepsDb accounting (servers_unsuspend E sid actorId)"
  "keepsDb accounting (servers_update E sid udto actor)"
  "keepsDb accounting (servers_reinstall E sid actor)"
  "keepsDb accounting (servers_addAllocation E sid actor)"
  "keepsDb accounting (servers_removeAllocation E sid aid actor)"
  "keepsDb accounting (servers_addSubUser E sid userId permissions actor)"
  "keepsDb accounting (servers_removeSubUser sid userId actor)"
  "keepsDb accounting (servers_provisionOnNode E sid nid host port)"
  unfolding server_unfolds createAllocation_def
  by (auto intro!: keepsDb_intros accounting_writes simp: applyUpdateServer_def)

end
