(* ===== verification/Sample.thy ===== *)
theory Sample
  imports NodeClient
begin

text \<open>
  A concrete environment and a concrete database, at which the theorems with hypotheses are
  applied: an administrator, two clients, one node with one server, and a daemon that answers
  every call with success.
\<close>

definition sampleOauth :: oauthConfig where
  "sampleOauth = \<lparr>oa_clientId = None, oa_clientSecret = None, oa_callbackUrl = None\<rparr>"

definition sampleConfig :: config where
  "sampleConfig = \<lparr>cf_env = ''development'', cf_httpPort = Some 9401, cf_wsPort = Some 9402,
     cf_accessSecret = ''access'', cf_refreshSecret = ''refresh'', cf_accessTtl = ''15m'',
     cf_refreshTtl = ''30d'', cf_redisHost = ''localhost'', cf_redisPort = Some 6379,
     cf_redisPassword = None, cf_discord = sampleOauth, cf_google = sampleOauth,
     cf_github = sampleOauth, cf_stripeSecretKey = Some ''sk'', cf_stripeWebhookSecret = Some ''wh'',
     cf_modrinthApiUrl = ''https://api.modrinth.com/v2'',
     cf_curseforgeApiUrl = ''https://api.curseforge.com/v1'', cf_curseforgeApiKey = Some ''key'',
     cf_nodeSecret = ''secret'', cf_backupDriver = ''local'',
     cf_s3 = \<lparr>s3_endpoint = None, s3_bucket = None, s3_accessKey = None, s3_secretKey = None,
       s3_useSsl = False\<rparr>\<rparr>"

text \<open>Identifiers and times count the calls; hashes and tokens are marked strings.\<close>

definition sampleToken :: "nat \<Rightarrow> string \<Rightarrow> string \<Rightarrow> jwtClaims \<Rightarrow> string" where
  "sampleToken n secret ttl c = ''T'' @ replicate n (CHR ''.'') @ secret @ '':'' @ jc_sub c"

definition sampleEnv :: env where
  "sampleEnv = \<lparr>now = (\<lambda>n. 1000 + int n), newUuid = (\<lambda>n. ''id'' @ replicate n (CHR ''x'')),
     randomHex = (\<lambda>n k. replicate n (CHR ''0'') @ ''abcdef0123456789abcdef0123456789''),
     bcryptHash = (\<lambda>n p. CHR ''b'' # p),
     bcryptCompare = (\<lambda>p h. h = CHR ''b'' # p), sha256Hex = (\<lambda>s. CHR ''h'' # s),
     totpVerify = (\<lambda>n secret code. code = secret), totpGenerate = (\<lambda>n u. (''totp'', ''otpauth://'' @ u)),
     qrDataUrl = (\<lambda>s. ''data:'' @ s), jwtSign = sampleToken, jwtVerify = (\<lambda>n secret t. if prefix ''T:'' t then Some \<lparr>jc_sub = drop 2 t,
       jc_impersonatedBy = None\<rparr> else None),
     passportBearer = (\<lambda>h. case h of Some s \<Rightarrow> if prefix ''Bearer '' s then Some (drop 7 s) else None
       | None \<Rightarrow> None),
     cronNext = (\<lambda>n e. if e = [] then Inl ''cron'' else Inr (2000 + int n)),
     parseUrl = (\<lambda>s. Some \<lparr>url_protocol = ''https:'', url_hostname = ''cdn.modrinth.com'',
       url_pathname = s\<rparr>),
     fileExists = (\<lambda>n p. True), readFile = (\<lambda>n p. Inr []),
     grpcAction = (\<lambda>n c. Inr \<lparr>ar_success = True, ar_message = []\<rparr>),
     grpcBackup = (\<lambda>n c. Inr \<lparr>br_success = True, br_message = [], br_size_bytes = ''42'',
       br_checksum = ''sum''\<rparr>),
     grpcFiles = (\<lambda>n c. Inr (Some [])), grpcContent = (\<lambda>n c. Inr []),
     grpcPing = (\<lambda>n c. Inr \<lparr>pg_nonce = [], pg_node_version = ''1''\<rparr>), cfg = sampleConfig\<rparr>"

definition sampleUser :: "id \<Rightarrow> id option \<Rightarrow> user" where
  "sampleUser i rid = \<lparr>u_id = i, u_email = i @ ''@x'', u_username = i,
     u_passwordHash = Some (''b'' @ i), u_status = ACTIVE, u_suspendedReason = None,
     u_bannedReason = None, u_twoFactorEnabled = False, u_twoFactorSecret = None,
     u_twoFactorRecoveryCodes = [], u_discordId = None, u_googleId = None, u_githubId = None,
     u_roleId = rid, u_createdAt = 0\<rparr>"

definition sampleNode :: node where
  "sampleNode = \<lparr>n_id = ''node'', n_name = ''node'', n_fqdn = ''node.x'', n_region = None,
     n_status = NODE_ONLINE, n_maintenanceMode = False, n_grpcHost = ''10.0.0.1'',
     n_grpcPort = 9501, n_cpuCores = 4, n_memoryMb = 4096, n_diskMb = 100000,
     n_cpuAllocatedPct = 100, n_memoryAllocatedMb = 1024, n_diskAllocatedMb = 2048,
     n_overallocateCpuPct = 0, n_overallocateMemPct = 0, n_overallocateDiskPct = 0,
     n_dockerNetworkSubnet = ''172.20.0.0/16'', n_lastHeartbeatAt = None\<rparr>"

definition sampleTemplate :: serverTemplate where
  "sampleTemplate = \<lparr>tp_id = ''tpl'', tp_name = ''Paper'', tp_gameType = MINECRAFT_JAVA,
     tp_description = None, tp_dockerImage = ''img'', tp_startupCommand = ''run'',
     tp_installScript = None, tp_minMemoryMb = 1024, tp_isPublic = True\<rparr>"

definition sampleServer :: server where
  "sampleServer = \<lparr>s_id = ''srv'', s_uuid = ''uuid'', s_name = ''survival'',
     s_description = None, s_ownerId = ''alice'', s_nodeId = ''node'', s_templateId = ''tpl'',
     s_gameType = MINECRAFT_JAVA, s_dockerImage = ''img'', s_status = SRV_OFFLINE,
     s_suspended = False, s_suspendedReason = None, s_cpuLimitPct = 100,
     s_memoryLimitMb = 1024, s_diskLimitMb = 2048, s_swapLimitMb = 0, s_ioWeight = 500,
     s_environment = [], s_startupCommand = ''run'', s_dataPath = ''/srv/elysia/servers/uuid'',
     s_createdAt = 0\<rparr>"

definition sampleAllocation :: networkAllocation where
  "sampleAllocation = \<lparr>al_id = ''alloc'', al_nodeId = ''node'', al_ip = ''0.0.0.0'',
     al_port = 25565, al_serverId = Some ''srv'', al_isPrimary = True\<rparr>"

definition sampleRole :: "id \<Rightarrow> string \<Rightarrow> bool \<Rightarrow> role" where
  "sampleRole i name sys = \<lparr>r_id = i, r_name = name, r_description = None, r_isSystem = sys\<rparr>"

definition sampleDb :: db where
  "sampleDb = empty_db\<lparr>
     t_users := [sampleUser ''root'' (Some ''r-admin''), sampleUser ''alice'' (Some ''r-client''),
       sampleUser ''bob'' (Some ''r-client'')],
     t_roles := [sampleRole ''r-admin'' ''admin'' True, sampleRole ''r-client'' ''client'' False],
     t_permissions := [\<lparr>p_id = ''p1'', p_key = ''servers.read'', p_group = ''servers''\<rparr>,
       \<lparr>p_id = ''p2'', p_key = ''servers.create'', p_group = ''servers''\<rparr>],
     t_rolePermissions := [\<lparr>rp_roleId = ''r-client'', rp_permissionId = ''p1''\<rparr>],
     t_nodes := [sampleNode], t_templates := [sampleTemplate], t_servers := [sampleServer],
     t_allocations := [sampleAllocation]\<rparr>"

definition sampleWorld :: world where
  "sampleWorld = empty_world\<lparr>w_db := sampleDb\<rparr>"

definition sampleAuth :: "id \<Rightarrow> string list \<Rightarrow> authUser" where
  "sampleAuth i ps = \<lparr>au_id = i, au_email = i @ ''@x'', au_username = i, au_roleId = None,
     au_permissions = ps, au_twoFactorEnabled = False, au_impersonatedBy = None\<rparr>"

lemmas sample_defs = sampleWorld_def sampleDb_def sampleAuth_def sampleRole_def
  sampleAllocation_def sampleServer_def sampleTemplate_def sampleNode_def sampleUser_def
  sampleEnv_def sampleConfig_def sampleOauth_def sampleToken_def empty_world_def empty_db_def

end
