(* ===== verification/Server_Properties.thy ===== *)
theory Server_Properties
  imports Server_Facts Sample
begin

text \<open>
  The properties of \<^verbatim>\<open>servers/servers.service.ts\<close>, each with an instance at the sample
  database where it has hypotheses.
\<close>

subsection \<open>Access\<close>

definition refused :: "'a io \<Rightarrow> world \<Rightarrow> bool" where
  "refused m w \<longleftrightarrow> m w = (Inl (ForbiddenException ''Vous n'avez pas acces a ce serveur''), w)"

lemma serverJoins_find:
  "serverJoins d s \<longleftrightarrow> (\<exists>n. List.find (\<lambda>n. n_id n = s_nodeId s) (t_nodes d) = Some n) \<and>
     (\<exists>t. List.find (\<lambda>t. tp_id t = s_templateId s) (t_templates d) = Some t)"
  by (auto simp: serverJoins_def node_exists_def template_exists_def list_ex_iff
      dest: find_Some_ex find_SomeD)

lemma refused_guarded:
  assumes "guarded f" and "List.find (\<lambda>s. s_id s = sid) (t_servers (w_db w)) = Some s"
    and "serverJoins (w_db w) s" and "\<not> canAccess (w_db w) user s"
  shows "refused (f sid user) w"
proof -
  have "servers_findAccessibleOrThrow sid user w =
      (Inl (ForbiddenException ''Vous n'avez pas acces a ce serveur''), w)"
    using assms(2-4)
    by (auto simp: servers_findAccessibleOrThrow_def includeServer_apply prog_simps canAccess_def
        serverJoins_find list_ex_iff subUsersOf_def)
  then show ?thesis using assms(1) by (simp add: guarded_def refused_def)
qed

text \<open>C2: a user can act on a server exactly when the permissions of the user hold \<open>*\<close> or
  \<open>servers.read.any\<close>, or the user owns it or is one of its sub-users; when not, every
  operation on the server throws before it changes anything or calls the daemon.\<close>

theorem inaccessible_server_untouched:
  assumes "List.find (\<lambda>s. s_id s = sid) (t_servers (w_db w)) = Some s"
    and "serverJoins (w_db w) s"
  shows "(\<exists>v. servers_findAccessibleOrThrow sid user w = (Inr v, w)) = canAccess (w_db w) user s \<and>
    (canAccess (w_db w) user s \<or>
      refused (servers_powerAction E sid action user) w \<and>
      refused (servers_sendCommand E sid command user) w \<and>
      refused (servers_delete E sid user) w \<and>
      refused (servers_update E sid udto user) w \<and>
      refused (servers_reinstall E sid user) w \<and>
      refused (servers_addAllocation E sid user) w \<and>
      refused (servers_removeAllocation E sid aid user) w \<and>
      refused (servers_addSubUser E sid userId permissions user) w \<and>
      refused (servers_removeSubUser sid userId user) w)"
proof (cases "canAccess (w_db w) user s")
  case True
  then show ?thesis using findAccessible_ok [OF assms(1) True assms(2)] by blast
next
  case False
  note no = refused_guarded [OF _ assms False]
  have "\<not> (\<exists>v. servers_findAccessibleOrThrow sid user w = (Inr v, w))"
    using findAccessible_Inr [of sid user w _ w] assms(1) False by auto
  then show ?thesis using False guarded_operations [THEN no] by blast
qed

theorem inaccessible_server_untouched_witness:
  "servers_delete sampleEnv ''srv'' (sampleAuth ''bob'' [''servers.delete'']) sampleWorld =
     (Inl (ForbiddenException ''Vous n'avez pas acces a ce serveur''), sampleWorld)"
  using inaccessible_server_untouched [of "''srv''" sampleWorld sampleServer
      "sampleAuth ''bob'' [''servers.delete'']" sampleEnv]
  by (simp add: sample_defs serverJoins_def node_exists_def template_exists_def canAccess_def
      isServerAdmin_def has_perm_def refused_def)

subsection \<open>Ports\<close>

text \<open>C26: the port given to a server is the least free port of the range of its node, and
  the allocation fails exactly when the 101 ports of the range are in use.\<close>

theorem allocated_port_is_least_free:
  "((servers_allocatePort nid w = (Inr port, w)) =
     (PORT_RANGE_START \<le> port \<and> port \<le> PORT_RANGE_END \<and> \<not> portUsed (w_db w) nid port \<and>
      {PORT_RANGE_START ..< port} \<subseteq> {q. portUsed (w_db w) nid q})) \<and>
   ((\<exists>e. servers_allocatePort nid w = (Inl e, w)) =
     ({PORT_RANGE_START .. PORT_RANGE_END} \<subseteq> {q. portUsed (w_db w) nid q})) \<and>
   card {PORT_RANGE_START .. PORT_RANGE_END} = 101"
proof -
  have "(\<exists>e w'. servers_allocatePort nid w = (Inl e, w')) =
      (\<exists>e. servers_allocatePort nid w = (Inl e, w))"
    using allocatePort_snd [of nid w] by (metis snd_conv)
  then show ?thesis using allocatePort_Inl [of nid w]
    by (auto simp: allocatePort_Inr PORT_RANGE_START_def PORT_RANGE_END_def)
qed

subsection \<open>Creation\<close>

text \<open>The contract of a creation: owner, node and template, the counters, the port and the
  provisioning job.\<close>

definition createdSpec ::
  "createServerDto \<Rightarrow> authUser \<Rightarrow> world \<Rightarrow> server \<Rightarrow> int \<Rightarrow> world \<Rightarrow> bool" where
  "createdSpec dto actor w s port w' \<longleftrightarrow>
     (\<exists>n tp a rows. eligible \<lparr>rq_cpuPct = cs_cpuLimitPct dto, rq_memoryMb = cs_memoryLimitMb dto,
          rq_diskMb = cs_diskLimitMb dto\<rparr> (w_db w) n \<and>
        tp \<in> set (t_templates (w_db w)) \<and> tp_id tp = cs_templateId dto \<and>
        s_ownerId s = orElse (cs_ownerId dto) (au_id actor) \<and> s_nodeId s = n_id n \<and>
        s_status s = SRV_INSTALLING \<and> s_dockerImage s = tp_dockerImage tp \<and>
        s_dataPath s = dataPathOf (s_uuid s) \<and>
        \<not> portUsed (w_db w) (n_id n) port \<and> PORT_RANGE_START \<le> port \<and> port \<le> PORT_RANGE_END \<and>
        al_port a = port \<and> al_nodeId a = n_id n \<and> al_serverId a = Some (s_id s) \<and> al_isPrimary a \<and>
        t_servers (w_db w') = t_servers (w_db w) @ [s] \<and>
        t_allocations (w_db w') = t_allocations (w_db w) @ [a] \<and>
        t_nodes (w_db w') = map (\<lambda>m. if n_id m = n_id n
          then addUsage (cs_cpuLimitPct dto) (cs_memoryLimitMb dto) (cs_diskLimitMb dto) m else m)
          (t_nodes (w_db w)) \<and>
        t_auditLogs (w_db w') = t_auditLogs (w_db w) @ rows \<and> length rows = 1 \<and>
        w_jobs w' = w_jobs w @ [ProvisionJob (s_id s) (n_id n) (n_grpcHost n) (n_grpcPort n)] \<and>
        w_calls w' = w_calls w)"

lemma createSelect_Inr:
  assumes "servers_createSelect dto actor w = (Inr (ownerId, tp, n), w')"
  shows "w' = w" and "ownerId = orElse (cs_ownerId dto) (au_id actor)"
    and "tp \<in> set (t_templates (w_db w)) \<and> tp_id tp = cs_templateId dto"
    and "eligible \<lparr>rq_cpuPct = cs_cpuLimitPct dto, rq_memoryMb = cs_memoryLimitMb dto,
          rq_diskMb = cs_diskLimitMb dto\<rparr> (w_db w) n"
    and "truthy (cs_ownerId dto) \<and> cs_ownerId dto \<noteq> Some (au_id actor) \<longrightarrow> has_perm actor ''*''"
  using assms
  by (auto simp: servers_createSelect_def run_Inr dest: find_SomeD findEligibleNode_Inr)

text \<open>C4: a creation that succeeds meets its contract: one server, owned by the requested
  owner (another account than the actor only for \<open>*\<close>), on a node with the capacity, whose
  counters grew by its limits, with a free port and one provisioning job.\<close>

theorem create_meets_contract:
  assumes "servers_create E dto actor w = (Inr (s, port), w')"
  shows "createdSpec dto actor w s port w' \<and>
    (s_ownerId s = au_id actor \<or> cs_ownerId dto = Some [] \<or> has_perm actor ''*'')"
proof -
  obtain ownerId tp n w1 w2 u where sel: "servers_createSelect dto actor w = (Inr (ownerId, tp, n), w1)"
    and tx: "servers_createTx E dto ownerId tp (n_id n) w1 = (Inr (s, port), w2)"
    and log: "audit_log E ((auditEntry (au_id actor) ''server.create'' ''Server'' (s_id s))
         \<lparr>ae_metadata := Some (JObj [(''name'', JStr (cs_name dto)), (''nodeId'', JStr (n_id n))])\<rparr>) w2
         = (Inr (), u)"
    and w': "w' = u\<lparr>w_jobs := w_jobs u @ [ProvisionJob (s_id s) (n_id n) (n_grpcHost n) (n_grpcPort n)]\<rparr>"
    using assms unfolding servers_create_def servers_createCommit_def by (auto simp: run_Inr)
  note sel = createSelect_Inr [OF sel]
  obtain i uuid t a where s: "s = (newServer i uuid t dto ownerId tp (n_id n))\<lparr>s_dataPath := dataPathOf uuid\<rparr>"
    and port: "PORT_RANGE_START \<le> port" "port \<le> PORT_RANGE_END" "\<not> portUsed (w_db w1) (n_id n) port"
    and a: "al_nodeId a = n_id n" "al_port a = port" "al_serverId a = Some i" "al_isPrimary a"
    and d: "w_db w2 = t_allocations_update (\<lambda>t. t @ [a]) (t_nodes_update (map (\<lambda>m. if n_id m = n_id n
       then addUsage (cs_cpuLimitPct dto) (cs_memoryLimitMb dto) (cs_diskLimitMb dto) m else m))
       (t_servers_update (\<lambda>t. t @ [s]) (w_db w1)))" "w_calls w2 = w_calls w1" "w_jobs w2 = w_jobs w1"
    by (rule createTx_Inr [OF tx]) (rule that; assumption)
  obtain row where row: "w_db u = t_auditLogs_update (\<lambda>t. t @ [row]) (w_db w2)"
    "w_calls u = w_calls w2" "w_jobs u = w_jobs w2"
    using audit_log_Inr [OF log] by auto
  have "createdSpec dto actor w s port w'"
    unfolding createdSpec_def
    using sel s port a d row w'
    by (intro exI [where x = n] exI [where x = tp] exI [where x = a] exI [where x = "[row]"])
       (simp add: newServer_def)
  moreover have "s_ownerId s = orElse (cs_ownerId dto) (au_id actor)" using s sel by simp
  ultimately show ?thesis using sel(5) by (cases "cs_ownerId dto") auto
qed

definition sampleCreate :: createServerDto where
  "sampleCreate = \<lparr>cs_name = ''new'', cs_description = None, cs_templateId = ''tpl'',
     cs_cpuLimitPct = 200, cs_memoryLimitMb = 2048, cs_diskLimitMb = 4096,
     cs_environment = None, cs_ownerId = None\<rparr>"

lemma sampleCreate_runs:
  "case servers_create sampleEnv sampleCreate (sampleAuth ''alice'' []) sampleWorld of
     (Inr (s, port), w') \<Rightarrow> port = 25566 | _ \<Rightarrow> False"
  by code_simp

theorem create_meets_contract_witness:
  "\<exists>s w'. servers_create sampleEnv sampleCreate (sampleAuth ''alice'' []) sampleWorld =
       (Inr (s, 25566), w') \<and> createdSpec sampleCreate (sampleAuth ''alice'' []) sampleWorld s 25566 w'"
proof -
  obtain s w' where run: "servers_create sampleEnv sampleCreate (sampleAuth ''alice'' [])
      sampleWorld = (Inr (s, 25566), w')"
    using sampleCreate_runs by (auto split: prod.splits sum.splits)
  then show ?thesis using create_meets_contract [OF run] by blast
qed

text \<open>An audit entry that cannot be recorded: its actor does not exist, or its identifier is taken.\<close>

lemma audit_log_Inl:
  assumes "audit_log E e w = (Inl x, w')"
  shows "(x = P2003 \<and> \<not> opt_ok (user_exists (w_db w)) (ae_actorId e) \<or>
      x = P2002 \<and> (\<exists>n. newUuid E n \<in> a_id ` set (t_auditLogs (w_db w)))) \<and>
    w_db w' = w_db w \<and> w_jobs w' = w_jobs w"
  using assms
  by (auto simp: audit_log_def prog_simps auditLog_fk_def auditLog_conflict_def auditLog_row_def list_ex_iff
      split: if_splits) (metis imageI)+

lemma createSelect_snd: "snd (servers_createSelect dto actor w) = w"
  by (simp add: servers_createSelect_def nodes_findEligibleNode_def prog_simps split: option.splits list.splits)

lemma createTx_jobs: "w_jobs (snd (servers_createTx E dto o' tp nid w)) = w_jobs w"
  by (simp add: servers_createTx_def servers_insert_def node_increment_def createAllocation_def
      servers_allocatePort_def prog_simps split: option.splits sum.splits prod.splits)

text \<open>C7: a creation that fails starts no job, and is all or nothing: it leaves the database as it was,
  or, where only the audit entry failed, which is written after the commit, the database with
  the whole server: its row, its port and the counters of its node.\<close>

theorem failed_create_is_atomic:
  assumes "servers_create E dto actor w = (Inl e, w')"
  shows "w_jobs w' = w_jobs w \<and> (w_db w' = w_db w \<or>
    (e = P2003 \<and> au_id actor \<notin> u_id ` set (t_users (w_db w)) \<or>
     e = P2002 \<and> (\<exists>n. newUuid E n \<in> a_id ` set (t_auditLogs (w_db w)))) \<and>
    (\<exists>s a. s_status s = SRV_INSTALLING \<and> s_ownerId s = orElse (cs_ownerId dto) (au_id actor) \<and>
      al_serverId a = Some (s_id s) \<and> al_nodeId a = s_nodeId s \<and>
      w_db w' = (w_db w)\<lparr>t_servers := t_servers (w_db w) @ [s],
        t_allocations := t_allocations (w_db w) @ [a],
        t_nodes := map (\<lambda>n. if n_id n = s_nodeId s
          then addUsage (cs_cpuLimitPct dto) (cs_memoryLimitMb dto) (cs_diskLimitMb dto) n else n)
          (t_nodes (w_db w))\<rparr>))"
proof (cases "fst (servers_createSelect dto actor w)")
  case (Inl x)
  then show ?thesis using assms createSelect_snd [of dto actor w]
    by (simp add: servers_create_def bnd_apply split: prod.splits sum.splits)
next
  case (Inr x)
  obtain ownerId tp n where x: "x = (ownerId, tp, n)" by (cases x)
  have "servers_createSelect dto actor w = (Inr (ownerId, tp, n), w)"
    using Inr x createSelect_snd [of dto actor w] by (metis prod.collapse)
  note owner = createSelect_Inr(2) [OF this]
  have run: "servers_createCommit E dto actor (ownerId, tp, n) w = (Inl e, w')"
    using assms createSelect_snd [of dto actor w] Inr x
    by (simp add: servers_create_def bnd_apply split: prod.splits sum.splits)
  obtain r w1 where tx: "servers_createTx E dto ownerId tp (n_id n) w = (r, w1)" by fastforce
  show ?thesis
  proof (cases r)
    case (Inl e')
    then show ?thesis using run tx createTx_jobs [of E dto ownerId tp "n_id n" w]
      by (auto simp: servers_createCommit_def prog_simps)
  next
    case (Inr y)
    obtain s port where y: "y = (s, port)" by (cases y)
    let ?e = "(auditEntry (au_id actor) ''server.create'' ''Server'' (s_id s))
      \<lparr>ae_metadata := Some (JObj [(''name'', JStr (cs_name dto)), (''nodeId'', JStr (n_id n))])\<rparr>"
    obtain i uuid t a where s: "s = (newServer i uuid t dto ownerId tp (n_id n))\<lparr>s_dataPath := dataPathOf uuid\<rparr>"
      and a: "al_nodeId a = n_id n" "al_serverId a = Some i"
      and d: "w_db w1 = t_allocations_update (\<lambda>t. t @ [a]) (t_nodes_update (map (\<lambda>m. if n_id m = n_id n
         then addUsage (cs_cpuLimitPct dto) (cs_memoryLimitMb dto) (cs_diskLimitMb dto) m else m))
         (t_servers_update (\<lambda>t. t @ [s]) (w_db w)))" "w_jobs w1 = w_jobs w"
      by (rule createTx_Inr [OF tx [unfolded Inr y]]) (rule that; assumption)
    have "audit_log E ?e w1 = (Inl e, w')"
      using run tx Inr y by (auto simp: servers_createCommit_def prog_simps split: sum.splits prod.splits)
    note failed = audit_log_Inl [OF this]
    have "e = P2003 \<and> au_id actor \<notin> u_id ` set (t_users (w_db w)) \<or>
        e = P2002 \<and> (\<exists>n. newUuid E n \<in> a_id ` set (t_auditLogs (w_db w)))"
      using failed by (auto simp: d auditEntry_def opt_ok_def user_exists_def list_ex_iff)
    moreover have "w_db w' = (w_db w)\<lparr>t_servers := t_servers (w_db w) @ [s],
        t_allocations := t_allocations (w_db w) @ [a], t_nodes := map (\<lambda>m. if n_id m = s_nodeId s
          then addUsage (cs_cpuLimitPct dto) (cs_memoryLimitMb dto) (cs_diskLimitMb dto) m else m)
          (t_nodes (w_db w))\<rparr>"
      using failed d(1) by (simp add: s newServer_def)
    moreover have "s_status s = SRV_INSTALLING" "s_ownerId s = orElse (cs_ownerId dto) (au_id actor)"
        "al_serverId a = Some (s_id s)" "al_nodeId a = s_nodeId s"
      using a owner by (simp_all add: s newServer_def)
    moreover have "w_jobs w' = w_jobs w" using failed d(2) by simp
    ultimately show ?thesis by blast
  qed
qed

lemma failed_create_example:
  "fst (servers_create sampleEnv (sampleCreate\<lparr>cs_memoryLimitMb := 4000\<rparr>)
     (sampleAuth ''alice'' []) sampleWorld) =
   Inl (BadRequestException ''Aucun node disponible avec suffisamment de capacite'')"
  by code_simp

theorem failed_create_is_atomic_witness:
  "w_db (snd (servers_create sampleEnv (sampleCreate\<lparr>cs_memoryLimitMb := 4000\<rparr>)
     (sampleAuth ''alice'' []) sampleWorld)) = sampleDb"
proof -
  obtain r w' where run: "servers_create sampleEnv (sampleCreate\<lparr>cs_memoryLimitMb := 4000\<rparr>)
     (sampleAuth ''alice'' []) sampleWorld = (r, w')" by fastforce
  then have r: "r = Inl (BadRequestException ''Aucun node disponible avec suffisamment de capacite'')"
    using failed_create_example by simp
  show ?thesis using failed_create_is_atomic [OF run [unfolded r]] run by (auto simp: sampleWorld_def)
qed

text \<open>The other case happens: the caller is told that nothing was created, and the server stays in
  installation, with no job to provision it.\<close>

lemma failed_audit_leaves_server:
  "case servers_create sampleEnv (sampleCreate\<lparr>cs_ownerId := Some ''alice''\<rparr>)
      (sampleAuth ''deleted'' [''*'']) sampleWorld of
     (Inl e, w') \<Rightarrow> e = P2003 \<and> map s_status (t_servers (w_db w')) = [SRV_OFFLINE, SRV_INSTALLING] \<and> w_jobs w' = []
   | _ \<Rightarrow> False"
  by code_simp

subsection \<open>Capacity\<close>

text \<open>Every node without overallocation holds at most what it has; node identifiers are
  distinct, and the columns are 32-bit integers.\<close>

definition withinCapacity :: "node \<Rightarrow> bool" where
  "withinCapacity n \<longleftrightarrow>
     (n_overallocateCpuPct n = 0 \<longrightarrow> n_cpuAllocatedPct n \<le> n_cpuCores n * 100) \<and>
     (n_overallocateMemPct n = 0 \<longrightarrow> n_memoryAllocatedMb n \<le> n_memoryMb n) \<and>
     (n_overallocateDiskPct n = 0 \<longrightarrow> n_diskAllocatedMb n \<le> n_diskMb n)"

definition nodeColumns :: "node \<Rightarrow> bool" where
  "nodeColumns n \<longleftrightarrow> int4 (n_cpuCores n) \<and> int4 (n_memoryMb n) \<and> int4 (n_diskMb n) \<and>
     int4 (n_cpuAllocatedPct n) \<and> int4 (n_memoryAllocatedMb n) \<and> int4 (n_diskAllocatedMb n)"

definition capacityRespected :: "db \<Rightarrow> bool" where
  "capacityRespected d \<longleftrightarrow> distinct (map n_id (t_nodes d)) \<and>
     (\<forall>n \<in> set (t_nodes d). nodeColumns n \<and> withinCapacity n)"

lemma capacityRespected_map:
  assumes "capacityRespected d" and "t_nodes d' = map g (t_nodes d)" and "\<And>n. n_id (g n) = n_id n"
    and "\<And>n. n \<in> set (t_nodes d) \<Longrightarrow> nodeColumns (g n) \<and> withinCapacity (g n)"
  shows "capacityRespected d'"
  using assms by (auto simp: capacityRespected_def comp_def)

lemma js_add_int4: "int4 a \<Longrightarrow> int4 b \<Longrightarrow> js_add (of_int a) (of_int b) = of_int (a + b)"
  unfolding js_add_def of_int_add [symmetric] by (rule fl_of_int) (auto simp: int4_def)

lemma fitsNode_exact:
  assumes "fitsNode \<lparr>rq_cpuPct = c, rq_memoryMb = m, rq_diskMb = k\<rparr> n" and "nodeColumns n"
    and "int4 c" "int4 m" "int4 k"
  shows "withinCapacity (addUsage c m k n)"
proof -
  have "overallocated a 0 = of_int a" if "int4 a \<or> (\<exists>b. int4 b \<and> a = b * 100)" for a
    using that by (intro overallocated_zero) (auto simp: int4_def)
  then show ?thesis using assms
    by (auto simp: fitsNode_def nodeColumns_def withinCapacity_def js_add_int4 addUsage_def)
qed

lemma node_increment_int4:
  "node_increment nid c m k w = (Inr n, w') \<Longrightarrow> List.find (\<lambda>n. n_id n = nid) (t_nodes (w_db w)) = Some n0 \<Longrightarrow>
     int4 (n_cpuAllocatedPct n0 + c) \<and> int4 (n_memoryAllocatedMb n0 + m) \<and>
     int4 (n_diskAllocatedMb n0 + k)"
  by (auto simp: node_increment_def run_Inr)

lemma find_distinct_key:
  "distinct (map key xs) \<Longrightarrow> x \<in> set xs \<Longrightarrow> List.find (\<lambda>y. key y = key x) xs = Some x"
  by (induction xs) auto

lemma createTx_columns:
  assumes "servers_createTx E dto ownerId tp nid w = (Inr (s, port), w')"
    and "capacityRespected (w_db w)" and "n \<in> set (t_nodes (w_db w))" and "n_id n = nid"
  shows "int4 (cs_cpuLimitPct dto) \<and> int4 (cs_memoryLimitMb dto) \<and> int4 (cs_diskLimitMb dto) \<and>
    nodeColumns (addUsage (cs_cpuLimitPct dto) (cs_memoryLimitMb dto) (cs_diskLimitMb dto) n)"
proof -
  obtain w1 w2 m where ins: "servers_insert E dto ownerId tp nid w = (Inr s, w1)"
    and inc: "node_increment nid (cs_cpuLimitPct dto) (cs_memoryLimitMb dto) (cs_diskLimitMb dto) w1
        = (Inr m, w2)"
    using assms(1) unfolding servers_createTx_def by (auto simp: run_Inr)
  have i: "int4 (cs_cpuLimitPct dto) \<and> int4 (cs_memoryLimitMb dto) \<and> int4 (cs_diskLimitMb dto)"
    using ins by (auto simp: servers_insert_def run_Inr)
  have "w_db w1 = t_servers_update (\<lambda>t. t @ [s]) (w_db w)" by (rule insert_Inr [OF ins])
  then have "List.find (\<lambda>n. n_id n = nid) (t_nodes (w_db w1)) = Some n"
    using assms(2-4) find_distinct_key [of n_id "t_nodes (w_db w)" n] by (simp add: capacityRespected_def)
  from node_increment_int4 [OF inc this] i assms(2,3)
  show ?thesis by (auto simp: nodeColumns_def capacityRespected_def addUsage_def)
qed

text \<open>C8: creations that do not overlap never commit more than a node has, where the node has
  no overallocation.\<close>

theorem create_respects_capacity:
  assumes "capacityRespected (w_db w)" and "servers_create E dto actor w = (Inr (s, port), w')"
  shows "capacityRespected (w_db w')"
proof -
  obtain ownerId tp n w2 u where sel: "servers_createSelect dto actor w = (Inr (ownerId, tp, n), w)"
    and tx: "servers_createTx E dto ownerId tp (n_id n) w = (Inr (s, port), w2)"
    and log: "audit_log E ((auditEntry (au_id actor) ''server.create'' ''Server'' (s_id s))
         \<lparr>ae_metadata := Some (JObj [(''name'', JStr (cs_name dto)), (''nodeId'', JStr (n_id n))])\<rparr>) w2
         = (Inr (), u)"
    and w': "w_db w' = w_db u"
    using assms(2) createSelect_Inr(1) unfolding servers_create_def servers_createCommit_def
    by (fastforce simp: run_Inr)
  have el: "eligible \<lparr>rq_cpuPct = cs_cpuLimitPct dto, rq_memoryMb = cs_memoryLimitMb dto,
          rq_diskMb = cs_diskLimitMb dto\<rparr> (w_db w) n"
    using createSelect_Inr(4) [OF sel] .
  then have n: "n \<in> set (t_nodes (w_db w))" by (simp add: eligible_def)
  note col = createTx_columns [OF tx assms(1) n refl]
  let ?g = "\<lambda>m. if n_id m = n_id n
     then addUsage (cs_cpuLimitPct dto) (cs_memoryLimitMb dto) (cs_diskLimitMb dto) m else m"
  obtain a where "w_db w2 = t_allocations_update (\<lambda>t. t @ [a]) (t_nodes_update (map ?g)
       (t_servers_update (\<lambda>t. t @ [s]) (w_db w)))"
    by (rule createTx_Inr [OF tx]) (rule that; assumption)
  then have nodes: "t_nodes (w_db w') = map ?g (t_nodes (w_db w))"
    using audit_log_Inr [OF log] w' by auto
  have ok: "nodeColumns (?g m) \<and> withinCapacity (?g m)" if m: "m \<in> set (t_nodes (w_db w))" for m
  proof (cases "n_id m = n_id n")
    case True
    then have "m = n" using m n assms(1)
      by (auto simp: capacityRespected_def distinct_map dest: inj_onD)
    then show ?thesis using col fitsNode_exact [of "cs_cpuLimitPct dto" "cs_memoryLimitMb dto"
          "cs_diskLimitMb dto" n] el n assms(1) by (simp add: eligible_def capacityRespected_def)
  next
    case False
    then show ?thesis using m assms(1) by (simp add: capacityRespected_def)
  qed
  show ?thesis by (rule capacityRespected_map [OF assms(1) nodes _ ok]) simp_all
qed

theorem create_respects_capacity_witness:
  "\<exists>s port w'. servers_create sampleEnv sampleCreate (sampleAuth ''alice'' []) sampleWorld =
       (Inr (s, port), w') \<and> capacityRespected (w_db w')"
proof -
  have "capacityRespected (w_db sampleWorld)"
    by (simp add: capacityRespected_def sample_defs nodeColumns_def withinCapacity_def int4_def)
  then show ?thesis
    using sampleCreate_runs create_respects_capacity [of sampleWorld sampleEnv sampleCreate
        "sampleAuth ''alice'' []"]
    by (auto split: prod.splits sum.splits)
qed

text \<open>Creations that overlap do: both choose the node before either commits.\<close>

theorem overlapping_creates_overcommit:
  "case servers_createSelect sampleCreate (sampleAuth ''alice'' []) sampleWorld of
     (Inr sel, w0) \<Rightarrow> (case servers_createCommit sampleEnv sampleCreate (sampleAuth ''alice'' []) sel w0 of
       (Inr r1, w1) \<Rightarrow> (case servers_createCommit sampleEnv sampleCreate (sampleAuth ''alice'' []) sel w1 of
         (Inr r2, w2) \<Rightarrow> list_ex (\<lambda>n. n_memoryAllocatedMb n > n_memoryMb n \<and>
             n_overallocateMemPct n = 0) (t_nodes (w_db w2))
       | _ \<Rightarrow> False) | _ \<Rightarrow> False) | _ \<Rightarrow> False"
  by code_simp

subsection \<open>Power\<close>





subsection \<open>Provisioning\<close>

text \<open>The provisioning job ends with the server offline when the call returned, whatever
  the reply says, and with a failed installation when the call threw.\<close>

theorem provision_outcome:
  assumes "List.find (\<lambda>s. s_id s = sid) (t_servers (w_db w)) = Some s"
    and "serverJoins (w_db w) s"
    and "servers_provisionOnNode E sid nid host port w = (r, w')"
  shows "t_servers (w_db w') = map (\<lambda>x. if s_id x = sid
           then x\<lparr>s_status := (if r = Inr () then SRV_OFFLINE else SRV_INSTALL_FAILED)\<rparr> else x)
         (t_servers (w_db w)) \<and>
    (r = Inr () \<longrightarrow> (\<exists>k c reply. gc_node c = nid \<and> gc_method c = ''CreateServer'' \<and>
       w_calls w' = w_calls w @ [c] \<and> grpcAction E k c = Inr reply))"
proof -
  obtain v where v: "includeServer s w = (Inr v, w)" and s: "sv_server v = s"
    using assms(2) by (auto simp: serverJoins_find includeServer_apply)
  obtain q w1 where call: "nodeCall E (grpcAction E) nid (hostPort host port) ''CreateServer''
      (CreateServerRequest (containerRequest v)) w = (q, w1)" by fastforce
  have d: "w_db w1 = w_db w" using nodeCall_db [OF call] .
  show ?thesis
  proof (cases q)
    case (Inl e)
    then show ?thesis using assms(1,3) v call d
      by (auto simp: servers_provisionOnNode_def setServerStatus_def prog_simps)
  next
    case (Inr x)
    obtain k c where kc: "gc_node c = nid" "gc_method c = ''CreateServer''"
      "grpcAction E k c = Inr x" "w_calls w1 = w_calls w @ [c]"
      using nodeCall_Inr [OF call [unfolded Inr]] by blast
    have "r = Inr () \<and> w_calls w' = w_calls w1 \<and> t_servers (w_db w') = map (\<lambda>y. if s_id y = sid
        then y\<lparr>s_status := SRV_OFFLINE\<rparr> else y) (t_servers (w_db w))"
      using assms(1,3) v call d Inr
      by (auto simp: servers_provisionOnNode_def setServerStatus_def prog_simps)
    then show ?thesis using kc by auto
  qed
qed

text \<open>A daemon that refuses the container.\<close>

definition refusingEnv :: env where
  "refusingEnv = sampleEnv\<lparr>grpcAction := (\<lambda>n c. Inr \<lparr>ar_success = False, ar_message = ''docker''\<rparr>)\<rparr>"

theorem provision_outcome_witness:
  "map s_status (t_servers (w_db (snd (servers_provisionOnNode refusingEnv ''srv'' ''node''
     ''10.0.0.1'' 9501 sampleWorld)))) = [SRV_OFFLINE]"
proof -
  obtain r w' where run: "servers_provisionOnNode refusingEnv ''srv'' ''node'' ''10.0.0.1'' 9501
     sampleWorld = (r, w')" by fastforce
  have "fst (servers_provisionOnNode refusingEnv ''srv'' ''node'' ''10.0.0.1'' 9501 sampleWorld) = Inr ()"
    by code_simp
  then show ?thesis
    using provision_outcome [OF _ _ run, of sampleServer] run
    by (simp add: sample_defs serverJoins_def node_exists_def template_exists_def)
qed

subsection \<open>Deletion\<close>

lemma portUsed_drop_server: "portUsed (drop_server sid d) nid port = portUsed d nid port"
proof -
  have iff: "portUsed e nid port \<longleftrightarrow> (nid, ''0.0.0.0'', port) \<in>
      (\<lambda>a. (al_nodeId a, al_ip a, al_port a)) ` set (t_allocations e)" for e
    by (auto simp: portUsed_def image_iff)
  have "map (\<lambda>a. (al_nodeId a, al_ip a, al_port a)) (t_allocations (drop_server sid d)) =
      map (\<lambda>a. (al_nodeId a, al_ip a, al_port a)) (t_allocations d)"
    by (simp add: drop_server_def)
  from arg_cong [OF this, of set]
  have "(\<lambda>a. (al_nodeId a, al_ip a, al_port a)) ` set (t_allocations (drop_server sid d)) =
      (\<lambda>a. (al_nodeId a, al_ip a, al_port a)) ` set (t_allocations d)" by simp
  then show ?thesis by (simp only: iff)
qed

lemma portUsed_auditLogs: "portUsed (t_auditLogs_update g d) nid port = portUsed d nid port"
  by (simp add: portUsed_def)

text \<open>A deletion that succeeds removes the server with its sub-users, tasks, backups and
  mods, and takes its limits off the counters of its node; its allocations stay, without a
  server, so that none of its ports is free again.\<close>

theorem delete_frees_counters_not_ports:
  assumes "servers_delete E sid actor w = (Inr u, w')"
  shows "\<exists>s \<in> set (t_servers (w_db w)). s_id s = sid \<and>
      t_servers (w_db w') = filter (\<lambda>x. s_id x \<noteq> sid) (t_servers (w_db w)) \<and>
      (\<forall>x \<in> set (t_subUsers (w_db w')). su_serverId x \<noteq> sid) \<and>
      (\<forall>x \<in> set (t_tasks (w_db w')). st_serverId x \<noteq> sid) \<and>
      (\<forall>x \<in> set (t_backups (w_db w')). b_serverId x \<noteq> sid) \<and>
      (\<forall>x \<in> set (t_mods (w_db w')). m_serverId x \<noteq> sid) \<and>
      t_nodes (w_db w') = map (\<lambda>n. if n_id n = s_nodeId s
        then addUsage (- s_cpuLimitPct s) (- s_memoryLimitMb s) (- s_diskLimitMb s) n else n)
        (t_nodes (w_db w)) \<and>
      (\<forall>a \<in> set (t_allocations (w_db w')). al_serverId a \<noteq> Some sid) \<and>
      (\<forall>n port. portUsed (w_db w') n port = portUsed (w_db w) n port)"
proof -
  obtain v w1 w2 where find: "servers_findAccessibleOrThrow sid actor w = (Inr v, w)"
    and call: "w_db w1 = w_db w"
    and tx: "servers_deleteTx (sv_server v) w1 = (Inr (), w2)"
    and log: "audit_log E ((auditEntry (au_id actor) ''server.delete'' ''Server'' sid)
          \<lparr>ae_severity := Some WARNING\<rparr>) w2 = (Inr (), w')"
  proof -
    obtain v w0 where find: "servers_findAccessibleOrThrow sid actor w = (Inr v, w0)"
      using assms by (auto simp: servers_delete_def run_Inr)
    note w0 = findAccessible_Inr(1) [OF find]
    let ?call = "tryCatch (andThen (callServer E (grpcAction E) v ''DeleteServer''
         (ServerIdRequest (s_uuid (sv_server v)))) (ret ())) (\<lambda>err. ret ())"
    obtain x w1 where c: "?call w = (x, w1)" by fastforce
    have "readOnlyDb ?call" by (auto simp: readOnlyDb_iff callServer_def intro!: keepsDb_intros)
    then have "w_db w1 = w_db w" using c by (metis readOnlyDb_def snd_conv)
    then show ?thesis using that [of v w1] assms find w0 c
      by (auto simp: servers_delete_def run_Inr)
  qed
  let ?s = "sv_server v"
  note s = findAccessible_Inr(3,4) [OF find]
  obtain n w3 where inc: "node_increment (s_nodeId ?s) (- s_cpuLimitPct ?s) (- s_memoryLimitMb ?s)
        (- s_diskLimitMb ?s) w1 = (Inr n, w3)" and del: "w_db w2 = drop_server sid (w_db w3)"
    using tx s(1) by (auto simp: servers_deleteTx_def run_Inr)
  obtain row where "w_db w' = t_auditLogs_update (\<lambda>t. t @ [row]) (w_db w2)"
    using audit_log_Inr [OF log] by auto
  then have w': "w_db w' = t_auditLogs_update (\<lambda>t. t @ [row]) (drop_server sid (t_nodes_update
      (map (\<lambda>n. if n_id n = s_nodeId ?s
        then addUsage (- s_cpuLimitPct ?s) (- s_memoryLimitMb ?s) (- s_diskLimitMb ?s) n else n)) (w_db w)))"
    using del node_increment_Inr [OF inc] call by simp
  have "portUsed (w_db w') i port = portUsed (w_db w) i port" for i port
    by (simp only: w' portUsed_auditLogs portUsed_drop_server) (simp add: portUsed_def)
  then show ?thesis using s by (intro bexI [where x = ?s]) (auto simp: w' drop_server_def)
qed

lemma sampleDelete_runs:
  "fst (servers_delete sampleEnv ''srv'' (sampleAuth ''alice'' []) sampleWorld) = Inr ()"
  by code_simp

theorem delete_frees_counters_not_ports_witness:
  "portUsed (w_db (snd (servers_delete sampleEnv ''srv'' (sampleAuth ''alice'' []) sampleWorld)))
     ''node'' 25565"
proof -
  obtain w' where run: "servers_delete sampleEnv ''srv'' (sampleAuth ''alice'' []) sampleWorld =
      (Inr (), w')" using sampleDelete_runs by (metis prod.collapse)
  have "portUsed (w_db sampleWorld) ''node'' 25565" by (simp add: portUsed_def sample_defs)
  then show ?thesis using delete_frees_counters_not_ports [OF run] run by auto
qed

end
