(* ===== verification/Auth.thy ===== *)
theory Auth
  imports Access
begin

text \<open>
  \<^verbatim>\<open>auth/auth.service.ts\<close> with its data transfer objects: registration, login with a second
  factor, refresh tokens, password change, OAuth logins, impersonation.
\<close>

subsection \<open>Data transfer objects\<close>

record registerDto =
  rd_email :: string
  rd_username :: string
  rd_password :: string

definition usernameChar :: "char \<Rightarrow> bool" where
  "usernameChar c \<longleftrightarrow> (let n = of_char c :: nat in
     97 \<le> n \<and> n \<le> 122 \<or> 65 \<le> n \<and> n \<le> 90 \<or> 48 \<le> n \<and> n \<le> 57 \<or> n = 95)"

text \<open>The decorators; the check of an email address is the validator's.\<close>

definition valid_registerDto :: "(string \<Rightarrow> bool) \<Rightarrow> registerDto \<Rightarrow> bool" where
  "valid_registerDto isEmail d \<longleftrightarrow> isEmail (rd_email d) \<and>
     list_all usernameChar (rd_username d) \<and> 3 \<le> length (rd_username d) \<and>
     length (rd_username d) \<le> 32 \<and> 10 \<le> length (rd_password d)"

record loginDto =
  ld_email :: string
  ld_password :: string
  ld_totpCode :: "string option"

datatype OAuthProvider = Discord | Google | Github

record oauthProfile =
  op_provider :: OAuthProvider
  op_providerId :: string
  op_email :: string
  op_username :: string

record tokenPair =
  pair_access :: string
  pair_refresh :: string

datatype loginResult = RequiresTwoFactor | LoggedIn tokenPair

subsection \<open>Internals\<close>

text \<open>\<open>parseTtlToMs\<close>: digits and one unit, 30 days otherwise. The product is exact in doubles
  below \<open>2^53\<close>.\<close>

definition unitMs :: "char \<Rightarrow> int option" where
  "unitMs c = (if c = CHR ''s'' then Some 1000 else if c = CHR ''m'' then Some 60000
     else if c = CHR ''h'' then Some 3600000 else if c = CHR ''d'' then Some 86400000 else None)"

definition parseTtlToMs :: "string \<Rightarrow> int" where
  "parseTtlToMs ttl = (case rev ttl of
       [] \<Rightarrow> 30 * 24 * 60 * 60 * 1000
     | u # ds \<Rightarrow> (case unitMs u of
         Some ms \<Rightarrow> if ds \<noteq> [] \<and> list_all is_digit ds then int (parse_nat (rev ds)) * ms
                    else 30 * 24 * 60 * 60 * 1000
       | None \<Rightarrow> 30 * 24 * 60 * 60 * 1000))"

definition hashToken :: "env \<Rightarrow> string \<Rightarrow> string" where
  "hashToken E token = sha256Hex E token"

definition signAccess :: "env \<Rightarrow> jwtClaims \<Rightarrow> string io" where
  "signAccess E claims =
     external (\<lambda>n. jwtSign E n (cf_accessSecret (cfg E)) (cf_accessTtl (cfg E)) claims)"

definition newRefreshToken ::
  "env \<Rightarrow> id \<Rightarrow> id \<Rightarrow> string \<Rightarrow> string option \<Rightarrow> string option \<Rightarrow> time \<Rightarrow> refreshToken" where
  "newRefreshToken E i userId plain ip userAgent t = \<lparr>rt_id = i, rt_userId = userId,
     rt_tokenHash = hashToken E plain, rt_userAgent = userAgent, rt_ip = ip, rt_revoked = False,
     rt_expiresAt = t + parseTtlToMs (cf_refreshTtl (cfg E))\<rparr>"

definition auth_issueTokenPair :: "env \<Rightarrow> id \<Rightarrow> string option \<Rightarrow> string option \<Rightarrow> tokenPair io" where
  "auth_issueTokenPair E userId ip userAgent =
     bnd (signAccess E \<lparr>jc_sub = userId, jc_impersonatedBy = None\<rparr>) (\<lambda>accessToken.
     bnd (external (\<lambda>n. randomHex E n 48)) (\<lambda>refreshTokenPlain.
     bnd (external (now E)) (\<lambda>t.
     bnd (external (newUuid E)) (\<lambda>i.
     andThen (dbCreate t_refreshTokens t_refreshTokens_update refreshToken_conflict refreshToken_fk
         (newRefreshToken E i userId refreshTokenPlain ip userAgent t))
     (ret \<lparr>pair_access = accessToken, pair_refresh = refreshTokenPlain\<rparr>)))))"

definition revokeTokensOf :: "id \<Rightarrow> unit io" where
  "revokeTokensOf userId =
     dbUpdateMany t_refreshTokens_update (\<lambda>r. rt_userId r = userId) (\<lambda>r. r\<lparr>rt_revoked := True\<rparr>)"

definition auth_verifyTotp :: "env \<Rightarrow> string \<Rightarrow> string \<Rightarrow> bool io" where
  "auth_verifyTotp E secret code = external (\<lambda>n. totpVerify E n secret code)"

subsection \<open>Registration and login\<close>

definition newUser :: "id \<Rightarrow> time \<Rightarrow> string \<Rightarrow> string \<Rightarrow> string option \<Rightarrow> id option \<Rightarrow> user" where
  "newUser i t email username passwordHash roleId = \<lparr>u_id = i, u_email = email,
     u_username = username, u_passwordHash = passwordHash, u_status = ACTIVE,
     u_suspendedReason = None, u_bannedReason = None, u_twoFactorEnabled = False,
     u_twoFactorSecret = None, u_twoFactorRecoveryCodes = [], u_discordId = None,
     u_googleId = None, u_githubId = None, u_roleId = roleId, u_createdAt = t\<rparr>"

definition auth_register :: "env \<Rightarrow> registerDto \<Rightarrow> string option \<Rightarrow> tokenPair io" where
  "auth_register E dto ip =
     bnd (dbFind t_users (\<lambda>u. u_email u = rd_email dto \<or> u_username u = rd_username dto)) (\<lambda>existing.
     andThen (throwIf (existing \<noteq> None)
       (ConflictException ''Email ou nom d'utilisateur deja utilise''))
     (bnd (dbCount t_users (\<lambda>u. u_id u \<noteq> SYSTEM_USER_ID)) (\<lambda>existingRealUsers.
     bnd (dbFind t_roles (\<lambda>r. r_name r =
         (if existingRealUsers = 0 then ''admin'' else ''client''))) (\<lambda>role.
     bnd (external (\<lambda>n. bcryptHash E n (rd_password dto))) (\<lambda>passwordHash.
     bnd (external (newUuid E)) (\<lambda>i.
     bnd (external (now E)) (\<lambda>t.
     bnd (dbCreate t_users t_users_update user_conflict user_fk
         (newUser i t (rd_email dto) (rd_username dto) (Some passwordHash) (map_option r_id role))) (\<lambda>user.
     andThen (audit_log E ((auditEntry (u_id user) ''auth.register'' ''User'' (u_id user))
         \<lparr>ae_ip := ip\<rparr>))
     (auth_issueTokenPair E (u_id user) ip None)))))))))"

definition auth_validateLocalUser :: "env \<Rightarrow> string \<Rightarrow> string \<Rightarrow> user option io" where
  "auth_validateLocalUser E email password =
     bnd (dbFind t_users (\<lambda>u. u_email u = email)) (\<lambda>r. case r of
       None \<Rightarrow> ret None
     | Some u \<Rightarrow> if \<not> truthy (u_passwordHash u) then ret None
         else ret (if bcryptCompare E password (orElse (u_passwordHash u) []) then Some u else None))"

definition auth_validateLocalUserByUsername ::
  "env \<Rightarrow> string \<Rightarrow> string \<Rightarrow> (user \<times> string list) option io" where
  "auth_validateLocalUserByUsername E username password =
     bnd (dbFind t_users (\<lambda>u. u_username u = username)) (\<lambda>r. case r of
       None \<Rightarrow> ret None
     | Some u \<Rightarrow> if \<not> truthy (u_passwordHash u) \<or> u_status u \<noteq> ACTIVE then ret None
         else if \<not> bcryptCompare E password (orElse (u_passwordHash u) []) then ret None
         else bnd (gets w_db) (\<lambda>d. ret (Some (u, currentPermissions d u))))"

definition loginEntry :: "id \<Rightarrow> string option \<Rightarrow> auditEntry" where
  "loginEntry userId ip = \<lparr>ae_actorId = Some userId, ae_action = ''auth.login'',
     ae_targetType = None, ae_targetId = None, ae_severity = None, ae_metadata = None,
     ae_ip = ip, ae_userAgent = None\<rparr>"

text \<open>The second factor: a code of the authenticator, or a recovery code, which is used up.\<close>

definition auth_secondFactor :: "env \<Rightarrow> user \<Rightarrow> string \<Rightarrow> unit io" where
  "auth_secondFactor E u code =
     bnd (auth_verifyTotp E (orElse (u_twoFactorSecret u) []) code) (\<lambda>valid.
     let recoveryUsed = (\<not> valid \<and> code \<in> set (u_twoFactorRecoveryCodes u)) in
     andThen (throwIf (\<not> valid \<and> \<not> recoveryUsed) (UnauthorizedException ''Code 2FA invalide''))
     (if recoveryUsed
      then andThen (dbUpdate t_users t_users_update (\<lambda>x. u_id x = u_id u)
          (\<lambda>x. x\<lparr>u_twoFactorRecoveryCodes :=
             filter (\<lambda>c. c \<noteq> code) (u_twoFactorRecoveryCodes u)\<rparr>)) (ret ())
      else ret ()))"

definition auth_login ::
  "env \<Rightarrow> id \<Rightarrow> string option \<Rightarrow> string option \<Rightarrow> string option \<Rightarrow> loginResult io" where
  "auth_login E userId totpCode ip userAgent =
     bnd (dbFindOrThrow t_users (\<lambda>u. u_id u = userId)) (\<lambda>u.
     if u_twoFactorEnabled u \<and> \<not> truthy totpCode then ret RequiresTwoFactor
     else andThen (if u_twoFactorEnabled u then auth_secondFactor E u (orElse totpCode []) else ret ())
     (andThen (audit_log E (loginEntry (u_id u) ip))
     (bnd (auth_issueTokenPair E (u_id u) ip userAgent) (\<lambda>p. ret (LoggedIn p)))))"

text \<open>The handler of \<open>POST auth/login\<close>.\<close>

definition auth_loginRoute ::
  "env \<Rightarrow> loginDto \<Rightarrow> string option \<Rightarrow> string option \<Rightarrow> loginResult io" where
  "auth_loginRoute E dto ip userAgent =
     bnd (auth_validateLocalUser E (ld_email dto) (ld_password dto)) (\<lambda>r. case r of
       None \<Rightarrow> throw (UnauthorizedException ''Identifiants invalides'')
     | Some u \<Rightarrow> auth_login E (u_id u) (ld_totpCode dto) ip userAgent)"

subsection \<open>Refresh tokens\<close>

definition auth_refresh :: "env \<Rightarrow> string \<Rightarrow> string option \<Rightarrow> tokenPair io" where
  "auth_refresh E refreshTokenPlain ip =
     bnd (dbFind t_refreshTokens (\<lambda>r. rt_tokenHash r = hashToken E refreshTokenPlain)) (\<lambda>r.
     bnd (external (now E)) (\<lambda>t. case r of
       None \<Rightarrow> throw (UnauthorizedException ''Refresh token invalide ou expire'')
     | Some stored \<Rightarrow>
         andThen (throwIf (rt_revoked stored \<or> rt_expiresAt stored < t)
           (UnauthorizedException ''Refresh token invalide ou expire''))
         (andThen (dbUpdate t_refreshTokens t_refreshTokens_update (\<lambda>x. rt_id x = rt_id stored)
             (\<lambda>x. x\<lparr>rt_revoked := True\<rparr>))
         (auth_issueTokenPair E (rt_userId stored) ip None))))"

definition auth_logout :: "env \<Rightarrow> string \<Rightarrow> unit io" where
  "auth_logout E refreshTokenPlain =
     dbUpdateMany t_refreshTokens_update (\<lambda>r. rt_tokenHash r = hashToken E refreshTokenPlain)
       (\<lambda>r. r\<lparr>rt_revoked := True\<rparr>)"

definition auth_changeOwnPassword :: "env \<Rightarrow> id \<Rightarrow> string \<Rightarrow> string \<Rightarrow> unit io" where
  "auth_changeOwnPassword E userId currentPassword newPassword =
     bnd (dbFindOrThrow t_users (\<lambda>u. u_id u = userId)) (\<lambda>u.
     andThen (throwIf (\<not> truthy (u_passwordHash u) \<or>
         \<not> bcryptCompare E currentPassword (orElse (u_passwordHash u) []))
       (UnauthorizedException ''Mot de passe actuel incorrect''))
     (bnd (external (\<lambda>n. bcryptHash E n newPassword)) (\<lambda>passwordHash.
     andThen (dbUpdate t_users t_users_update (\<lambda>x. u_id x = userId)
         (\<lambda>x. x\<lparr>u_passwordHash := Some passwordHash\<rparr>))
     (andThen (revokeTokensOf userId)
       (audit_log E ((auditEntry userId ''user.change_password'' ''User'' userId)
          \<lparr>ae_severity := Some WARNING\<rparr>))))))"

subsection \<open>Access tokens\<close>

definition toAuthUser :: "db \<Rightarrow> user \<Rightarrow> id option \<Rightarrow> authUser" where
  "toAuthUser d u imp = \<lparr>au_id = u_id u, au_email = u_email u, au_username = u_username u,
     au_roleId = u_roleId u, au_permissions = currentPermissions d u,
     au_twoFactorEnabled = u_twoFactorEnabled u, au_impersonatedBy = imp\<rparr>"

definition auth_resolveUserFromAccessToken :: "env \<Rightarrow> string \<Rightarrow> authUser io" where
  "auth_resolveUserFromAccessToken E token =
     bnd (external (\<lambda>n. jwtVerify E n (cf_accessSecret (cfg E)) token)) (\<lambda>payload. case payload of
       None \<Rightarrow> throw (UnauthorizedException ''Token invalide ou expire'')
     | Some p \<Rightarrow>
         bnd (dbFind t_users (\<lambda>u. u_id u = jc_sub p)) (\<lambda>r. case r of
           None \<Rightarrow> throw (UnauthorizedException ''Compte invalide'')
         | Some u \<Rightarrow> if u_status u \<noteq> ACTIVE then throw (UnauthorizedException ''Compte invalide'')
             else bnd (gets w_db) (\<lambda>d. ret (toAuthUser d u None))))"

definition auth_impersonate :: "env \<Rightarrow> id \<Rightarrow> id \<Rightarrow> string option \<Rightarrow> string io" where
  "auth_impersonate E adminId targetUserId ip =
     bnd (dbFindOrThrow t_users (\<lambda>u. u_id u = targetUserId)) (\<lambda>target.
     andThen (audit_log E ((auditEntry adminId ''auth.impersonate'' ''User'' (u_id target))
         \<lparr>ae_severity := Some WARNING, ae_ip := ip\<rparr>))
     (signAccess E \<lparr>jc_sub = u_id target, jc_impersonatedBy = Some adminId\<rparr>))"

subsection \<open>OAuth\<close>

fun providerId :: "OAuthProvider \<Rightarrow> user \<Rightarrow> string option" where
  "providerId Discord u = u_discordId u"
| "providerId Google u = u_googleId u"
| "providerId Github u = u_githubId u"

fun setProviderId :: "OAuthProvider \<Rightarrow> string \<Rightarrow> user \<Rightarrow> user" where
  "setProviderId Discord i u = u\<lparr>u_discordId := Some i\<rparr>"
| "setProviderId Google i u = u\<lparr>u_googleId := Some i\<rparr>"
| "setProviderId Github i u = u\<lparr>u_githubId := Some i\<rparr>"

definition oauthUsername :: "oauthProfile \<Rightarrow> string" where
  "oauthUsername profile = take 32 (op_username profile @ ''_'' @ op_providerId profile)"

text \<open>The upsert: an account with the address of the profile is linked to it; setting the
  identifier of the provider is subject to its unique constraint.\<close>

definition auth_validateOAuthLogin :: "env \<Rightarrow> oauthProfile \<Rightarrow> user io" where
  "auth_validateOAuthLogin E profile =
     bnd (dbFind t_users (\<lambda>u. providerId (op_provider profile) u = Some (op_providerId profile))) (\<lambda>r. case r of
       Some u \<Rightarrow> ret u
     | None \<Rightarrow>
         bnd (dbFind t_roles (\<lambda>r. r_name r = ''client'')) (\<lambda>clientRole.
         bnd (dbFind t_users (\<lambda>u. u_email u = op_email profile)) (\<lambda>byEmail. case byEmail of
           Some _ \<Rightarrow> dbUpdate t_users t_users_update (\<lambda>u. u_email u = op_email profile)
             (setProviderId (op_provider profile) (op_providerId profile))
         | None \<Rightarrow>
             bnd (external (newUuid E)) (\<lambda>i.
             bnd (external (now E)) (\<lambda>t.
             dbCreate t_users t_users_update user_conflict user_fk
               (setProviderId (op_provider profile) (op_providerId profile)
                 (newUser i t (op_email profile) (oauthUsername profile) None
                   (map_option r_id clientRole))))))))"

text \<open>The callback routes sign the user in without a code of the second factor.\<close>

definition auth_oauthCallback :: "env \<Rightarrow> oauthProfile \<Rightarrow> string option \<Rightarrow> loginResult io" where
  "auth_oauthCallback E profile ip =
     bnd (auth_validateOAuthLogin E profile) (\<lambda>u. auth_login E (u_id u) None ip None)"

subsection \<open>The second factor\<close>

definition auth_generateTwoFactorSecret :: "env \<Rightarrow> id \<Rightarrow> (string \<times> string) io" where
  "auth_generateTwoFactorSecret E userId =
     bnd (dbFindOrThrow t_users (\<lambda>u. u_id u = userId)) (\<lambda>u.
     bnd (external (\<lambda>n. totpGenerate E n (''Elysia Panel ('' @ u_email u @ '')''))) (\<lambda>(base32, url).
     andThen (dbUpdate t_users t_users_update (\<lambda>x. u_id x = userId)
         (\<lambda>x. x\<lparr>u_twoFactorSecret := Some base32\<rparr>))
     (ret (base32, qrDataUrl E url))))"

text \<open>Ten codes of five random bytes.\<close>

primrec randomCodes :: "env \<Rightarrow> nat \<Rightarrow> string list io" where
  "randomCodes E 0 = ret []"
| "randomCodes E (Suc k) =
     bnd (external (\<lambda>n. randomHex E n 5)) (\<lambda>c. bnd (randomCodes E k) (\<lambda>cs. ret (c # cs)))"

definition auth_enableTwoFactor :: "env \<Rightarrow> id \<Rightarrow> string \<Rightarrow> string list io" where
  "auth_enableTwoFactor E userId code =
     bnd (dbFindOrThrow t_users (\<lambda>u. u_id u = userId)) (\<lambda>u.
     andThen (throwIf (\<not> truthy (u_twoFactorSecret u))
       (UnauthorizedException ''Aucun secret 2FA en attente de confirmation''))
     (bnd (auth_verifyTotp E (orElse (u_twoFactorSecret u) []) code) (\<lambda>valid.
     andThen (throwIf (\<not> valid) (UnauthorizedException ''Code 2FA invalide''))
     (bnd (randomCodes E 10) (\<lambda>recoveryCodes.
     andThen (dbUpdate t_users t_users_update (\<lambda>x. u_id x = userId)
         (\<lambda>x. x\<lparr>u_twoFactorEnabled := True, u_twoFactorRecoveryCodes := recoveryCodes\<rparr>))
     (ret recoveryCodes))))))"

definition auth_disableTwoFactor :: "env \<Rightarrow> id \<Rightarrow> string \<Rightarrow> unit io" where
  "auth_disableTwoFactor E userId code =
     bnd (dbFindOrThrow t_users (\<lambda>u. u_id u = userId)) (\<lambda>u.
     if \<not> truthy (u_twoFactorSecret u) then throw (UnauthorizedException ''Code 2FA invalide'')
     else bnd (auth_verifyTotp E (orElse (u_twoFactorSecret u) []) code) (\<lambda>valid.
       andThen (throwIf (\<not> valid) (UnauthorizedException ''Code 2FA invalide''))
       (andThen (dbUpdate t_users t_users_update (\<lambda>x. u_id x = userId)
           (\<lambda>x. x\<lparr>u_twoFactorEnabled := False, u_twoFactorSecret := None,
                  u_twoFactorRecoveryCodes := []\<rparr>))
       (ret ()))))"

end
