(* ===== verification/ApiKeys.thy ===== *)
theory ApiKeys
  imports Auth
begin

text \<open>
  \<^verbatim>\<open>api-keys/api-keys.service.ts\<close> and the authentication of a request:
  \<^verbatim>\<open>auth/guards/jwt-auth.guard.ts\<close> and \<^verbatim>\<open>auth/strategies/jwt.strategy.ts\<close>.
\<close>

subsection \<open>API keys\<close>

definition KEY_PREFIX :: string where "KEY_PREFIX = ''elysia_''"
definition KEY_BYTES :: nat where "KEY_BYTES = 32"

text \<open>The columns the list selects.\<close>

record apiKeyItem =
  ki_id :: id
  ki_name :: string
  ki_keyPrefix :: string
  ki_scopes :: "string list"
  ki_lastUsedAt :: "time option"
  ki_expiresAt :: "time option"
  ki_createdAt :: time

definition apiKeyItem :: "apiKey \<Rightarrow> apiKeyItem" where
  "apiKeyItem k = \<lparr>ki_id = k_id k, ki_name = k_name k, ki_keyPrefix = k_keyPrefix k,
     ki_scopes = k_scopes k, ki_lastUsedAt = k_lastUsedAt k, ki_expiresAt = k_expiresAt k,
     ki_createdAt = k_createdAt k\<rparr>"

definition apiKeys_list :: "id \<Rightarrow> apiKeyItem list io" where
  "apiKeys_list userId =
     bnd (dbFindMany t_apiKeys (\<lambda>k. k_userId k = userId)) (\<lambda>ks.
     ret (map apiKeyItem (orderDesc k_createdAt ks)))"

record createdKey =
  ck_id :: id
  ck_name :: string
  ck_key :: string
  ck_keyPrefix :: string

definition newApiKey ::
  "env \<Rightarrow> id \<Rightarrow> id \<Rightarrow> string \<Rightarrow> string \<Rightarrow> string list \<Rightarrow> time option \<Rightarrow> time \<Rightarrow> apiKey" where
  "newApiKey E i userId name raw scopes expiresAt t = \<lparr>k_id = i, k_userId = userId,
     k_name = name, k_keyPrefix = take (length KEY_PREFIX + 8) raw, k_keyHash = sha256Hex E raw,
     k_scopes = scopes, k_lastUsedAt = None, k_expiresAt = expiresAt, k_createdAt = t\<rparr>"

definition apiKeys_create ::
  "env \<Rightarrow> authUser \<Rightarrow> string \<Rightarrow> string list \<Rightarrow> time option \<Rightarrow> createdKey io" where
  "apiKeys_create E actor name scopes expiresAt =
     andThen (throwIf (scopes = []) (BadRequestException ''Selectionnez au moins une permission''))
     (let invalid = filter (\<lambda>s. \<not> has_perm actor s) scopes in
      andThen (throwIf (\<not> has_perm actor ''*'' \<and> invalid \<noteq> []) (ForbiddenException
        (''Vous ne pouvez pas creer une cle avec des permissions que vous n'avez pas: '' @
         joinWith '', '' invalid)))
     (bnd (external (\<lambda>n. randomHex E n KEY_BYTES)) (\<lambda>hex.
      let raw = KEY_PREFIX @ hex in
      bnd (external (newUuid E)) (\<lambda>i.
      bnd (external (now E)) (\<lambda>t.
      bnd (dbCreate t_apiKeys t_apiKeys_update apiKey_conflict apiKey_fk
          (newApiKey E i (au_id actor) name raw scopes expiresAt t)) (\<lambda>row.
      andThen (audit_log E ((auditEntry (au_id actor) ''api_key.create'' ''ApiKey'' (k_id row))
          \<lparr>ae_severity := Some WARNING, ae_metadata := Some (JObj [(''name'', JStr name),
             (''scopes'', JArr (map JStr scopes))])\<rparr>))
      (ret \<lparr>ck_id = k_id row, ck_name = k_name row, ck_key = raw,
           ck_keyPrefix = k_keyPrefix row\<rparr>)))))))"

definition apiKeys_revoke :: "env \<Rightarrow> id \<Rightarrow> authUser \<Rightarrow> unit io" where
  "apiKeys_revoke E kid actor =
     bnd (dbFind t_apiKeys (\<lambda>k. k_id k = kid)) (\<lambda>r. case r of
       None \<Rightarrow> throw (NotFoundException ''Cle API introuvable'')
     | Some k \<Rightarrow>
         andThen (throwIf (k_userId k \<noteq> au_id actor \<and> \<not> has_perm actor ''*'')
           (ForbiddenException ''Vous n'avez pas acces a cette cle''))
         (andThen (dbDelete t_apiKeys t_apiKeys_update (\<lambda>k. k_id k = kid))
           (audit_log E ((auditEntry (au_id actor) ''api_key.revoke'' ''ApiKey'' kid)
              \<lparr>ae_severity := Some WARNING\<rparr>))))"

text \<open>The permissions of a key: its scopes, cut down to what its owner has now.\<close>

definition keyPermissions :: "string list \<Rightarrow> string list \<Rightarrow> string list" where
  "keyPermissions scopes userPermissions =
     (if ''*'' \<in> set userPermissions then scopes
      else filter (\<lambda>s. s \<in> set userPermissions) scopes)"

definition apiKeys_validateAndGetUser :: "env \<Rightarrow> string \<Rightarrow> authUser io" where
  "apiKeys_validateAndGetUser E rawKey =
     bnd (dbFind t_apiKeys (\<lambda>k. k_keyHash k = sha256Hex E rawKey)) (\<lambda>r. case r of
       None \<Rightarrow> throw (UnauthorizedException ''Cle API invalide'')
     | Some k \<Rightarrow>
         bnd (external (now E)) (\<lambda>t.
         andThen (throwIf (case k_expiresAt k of None \<Rightarrow> False | Some x \<Rightarrow> x < t)
           (UnauthorizedException ''Cle API expiree''))
         (bnd (dbFind t_users (\<lambda>u. u_id u = k_userId k)) (\<lambda>ru. case ru of
            None \<Rightarrow> throw (UnauthorizedException ''Compte invalide'')
          | Some u \<Rightarrow>
              andThen (throwIf (u_status u \<noteq> ACTIVE) (UnauthorizedException ''Compte invalide''))
              (bnd (gets w_db) (\<lambda>d.
               bnd (external (now E)) (\<lambda>t'.
               andThen (detach (dbUpdate t_apiKeys t_apiKeys_update (\<lambda>x. k_id x = k_id k)
                   (\<lambda>x. x\<lparr>k_lastUsedAt := Some t'\<rparr>)))
               (ret ((toAuthUser d u None)
                  \<lparr>au_permissions := keyPermissions (k_scopes k) (currentPermissions d u)\<rparr>)))))))))"

subsection \<open>The JWT strategy\<close>

definition jwt_validate :: "jwtClaims \<Rightarrow> authUser io" where
  "jwt_validate p =
     bnd (dbFind t_users (\<lambda>u. u_id u = jc_sub p)) (\<lambda>r. case r of
       None \<Rightarrow> throw (UnauthorizedException ''Compte invalide ou banni'')
     | Some u \<Rightarrow> if u_status u = BANNED then throw (UnauthorizedException ''Compte invalide ou banni'')
         else if u_status u = SUSPENDED then throw (UnauthorizedException ''Compte suspendu'')
         else bnd (gets w_db) (\<lambda>d. ret (toAuthUser d u (jc_impersonatedBy p))))"

text \<open>The library's part: it extracts the token from the header, verifies it, and refuses a
  request without a valid one.\<close>

definition passportJwt :: "env \<Rightarrow> string option \<Rightarrow> authUser io" where
  "passportJwt E authorization =
     (case passportBearer E authorization of
        None \<Rightarrow> throw (UnauthorizedException ''Unauthorized'')
      | Some token \<Rightarrow>
          bnd (external (\<lambda>n. jwtVerify E n (cf_accessSecret (cfg E)) token)) (\<lambda>p. case p of
            None \<Rightarrow> throw (UnauthorizedException ''Unauthorized'')
          | Some claims \<Rightarrow> jwt_validate claims))"

subsection \<open>The authentication guard\<close>

definition API_KEY_PREFIX :: string where "API_KEY_PREFIX = ''elysia_''"

text \<open>The part of an HTTP request the guards read. The result is \<open>request.user\<close>, which stays
  undefined on a public route.\<close>

record httpRequest =
  hq_url :: string
  hq_authorization :: "string option"
  hq_ip :: "string option"
  hq_userAgent :: "string option"

definition bearerToken :: "string option \<Rightarrow> string option" where
  "bearerToken header = (case header of None \<Rightarrow> None
     | Some h \<Rightarrow> if startsWith h ''Bearer '' then Some (drop (length ''Bearer '') h) else None)"

definition jwtAuthGuard :: "env \<Rightarrow> bool \<Rightarrow> httpRequest \<Rightarrow> authUser option io" where
  "jwtAuthGuard E isPublic rq =
     (if isPublic then ret None
      else if endsWith (hq_url rq) ''/metrics'' then ret None
      else if startsWith (hq_url rq) ''/api/docs'' then ret None
      else case bearerToken (hq_authorization rq) of
          Some token \<Rightarrow>
            if startsWith token API_KEY_PREFIX
            then bnd (apiKeys_validateAndGetUser E token) (\<lambda>u. ret (Some u))
            else bnd (passportJwt E (hq_authorization rq)) (\<lambda>u. ret (Some u))
        | None \<Rightarrow> bnd (passportJwt E (hq_authorization rq)) (\<lambda>u. ret (Some u)))"

end
