(* ===== verification/Users.thy ===== *)
theory Users
  imports Auth "HOL-Library.List_Lexorder" "HOL-Library.Char_ord"
begin

text \<open>
  \<^verbatim>\<open>users/users.service.ts\<close> and \<^verbatim>\<open>roles/roles.service.ts\<close>: the administration of accounts and
  of roles.
\<close>

subsection \<open>Accounts\<close>

record createUserDto =
  cu_email :: string
  cu_username :: string
  cu_password :: string
  cu_roleId :: "id option"

definition valid_createUserDto :: "(string \<Rightarrow> bool) \<Rightarrow> createUserDto \<Rightarrow> bool" where
  "valid_createUserDto isEmail d \<longleftrightarrow> isEmail (cu_email d) \<and> 10 \<le> length (cu_password d)"

record updateUserDto =
  uu_username :: "string option"
  uu_roleId :: "id option"

text \<open>The rows come with the role of the account, and with every column of it.\<close>

definition users_list :: "int option \<Rightarrow> int option \<Rightarrow> (user \<times> role option) list io" where
  "users_list skip n =
     bnd (dbFindMany t_users (\<lambda>_. True)) (\<lambda>us.
     bnd (page (orElse skip 0) (orElse n 50) (orderDesc u_createdAt us)) (\<lambda>us.
     bnd (gets w_db) (\<lambda>d. ret (map (\<lambda>u. (u, roleOf d u)) us))))"

definition users_findByIdOrThrow :: "id \<Rightarrow> (user \<times> role option) io" where
  "users_findByIdOrThrow i =
     bnd (dbFind t_users (\<lambda>u. u_id u = i)) (\<lambda>r. case r of
       None \<Rightarrow> throw (NotFoundException ''Utilisateur introuvable'')
     | Some u \<Rightarrow> bnd (gets w_db) (\<lambda>d. ret (u, roleOf d u)))"

definition users_lookupByEmail :: "string \<Rightarrow> (id \<times> string \<times> string) io" where
  "users_lookupByEmail email =
     bnd (dbFind t_users (\<lambda>u. u_email u = email)) (\<lambda>r. case r of
       None \<Rightarrow> throw (NotFoundException ''Aucun utilisateur avec cet email'')
     | Some u \<Rightarrow> ret (u_id u, u_username u, u_email u))"

definition users_create :: "env \<Rightarrow> createUserDto \<Rightarrow> id \<Rightarrow> user io" where
  "users_create E dto actorId =
     bnd (external (\<lambda>n. bcryptHash E n (cu_password dto))) (\<lambda>passwordHash.
     bnd (external (newUuid E)) (\<lambda>i.
     bnd (external (now E)) (\<lambda>t.
     bnd (dbCreate t_users t_users_update user_conflict user_fk
         (newUser i t (cu_email dto) (cu_username dto) (Some passwordHash) (cu_roleId dto))) (\<lambda>user.
     andThen (audit_log E (auditEntry actorId ''user.create'' ''User'' (u_id user)))
     (ret user)))))"

text \<open>The update writes the fields that are given; the unique name and the foreign key of the
  role are checked.\<close>

definition applyUpdateUser :: "updateUserDto \<Rightarrow> user \<Rightarrow> user" where
  "applyUpdateUser dto u = u\<lparr>u_username := orElse (uu_username dto) (u_username u),
     u_roleId := (case uu_roleId dto of None \<Rightarrow> u_roleId u | Some r \<Rightarrow> Some r)\<rparr>"

definition updateUserJson :: "updateUserDto \<Rightarrow> json" where
  "updateUserJson dto = JObj
     ((case uu_username dto of None \<Rightarrow> [] | Some x \<Rightarrow> [(''username'', JStr x)]) @
      (case uu_roleId dto of None \<Rightarrow> [] | Some x \<Rightarrow> [(''roleId'', JStr x)]))"

definition users_update :: "env \<Rightarrow> id \<Rightarrow> updateUserDto \<Rightarrow> id \<Rightarrow> user io" where
  "users_update E i dto actorId =
     andThen (dbFindOrThrow t_users (\<lambda>u. u_id u = i))
     (bnd (gets w_db) (\<lambda>d.
     andThen (throwIf (uu_username dto \<noteq> None \<and>
         list_ex (\<lambda>x. u_id x \<noteq> i \<and> Some (u_username x) = uu_username dto) (t_users d)) P2002)
     (andThen (throwIf (\<not> opt_ok (role_exists d) (uu_roleId dto)) P2003)
     (bnd (dbUpdate t_users t_users_update (\<lambda>u. u_id u = i) (applyUpdateUser dto)) (\<lambda>user.
     andThen (audit_log E ((auditEntry actorId ''user.update'' ''User'' i)
         \<lparr>ae_metadata := Some (updateUserJson dto)\<rparr>))
     (ret user))))))"

definition users_resetPassword :: "env \<Rightarrow> id \<Rightarrow> string \<Rightarrow> id \<Rightarrow> unit io" where
  "users_resetPassword E i newPassword actorId =
     bnd (external (\<lambda>n. bcryptHash E n newPassword)) (\<lambda>passwordHash.
     andThen (dbUpdate t_users t_users_update (\<lambda>u. u_id u = i)
         (\<lambda>u. u\<lparr>u_passwordHash := Some passwordHash\<rparr>))
     (andThen (revokeTokensOf i)
       (audit_log E ((auditEntry actorId ''user.reset_password'' ''User'' i)
          \<lparr>ae_severity := Some WARNING\<rparr>))))"

definition users_suspend :: "env \<Rightarrow> id \<Rightarrow> string \<Rightarrow> id \<Rightarrow> user io" where
  "users_suspend E i reason actorId =
     bnd (dbUpdate t_users t_users_update (\<lambda>u. u_id u = i)
         (\<lambda>u. u\<lparr>u_status := SUSPENDED, u_suspendedReason := Some reason\<rparr>)) (\<lambda>user.
     andThen (revokeTokensOf i)
     (andThen (audit_log E ((auditEntry actorId ''user.suspend'' ''User'' i)
         \<lparr>ae_severity := Some WARNING, ae_metadata := Some (JObj [(''reason'', JStr reason)])\<rparr>))
     (ret user)))"

definition users_ban :: "env \<Rightarrow> id \<Rightarrow> string \<Rightarrow> id \<Rightarrow> user io" where
  "users_ban E i reason actorId =
     bnd (dbUpdate t_users t_users_update (\<lambda>u. u_id u = i)
         (\<lambda>u. u\<lparr>u_status := BANNED, u_bannedReason := Some reason\<rparr>)) (\<lambda>user.
     andThen (revokeTokensOf i)
     (andThen (audit_log E ((auditEntry actorId ''user.ban'' ''User'' i)
         \<lparr>ae_severity := Some CRITICAL, ae_metadata := Some (JObj [(''reason'', JStr reason)])\<rparr>))
     (ret user)))"

definition users_reactivate :: "env \<Rightarrow> id \<Rightarrow> id \<Rightarrow> user io" where
  "users_reactivate E i actorId =
     bnd (dbUpdate t_users t_users_update (\<lambda>u. u_id u = i)
         (\<lambda>u. u\<lparr>u_status := ACTIVE, u_suspendedReason := None, u_bannedReason := None\<rparr>)) (\<lambda>user.
     andThen (audit_log E (auditEntry actorId ''user.reactivate'' ''User'' i))
     (ret user))"

definition users_delete :: "env \<Rightarrow> id \<Rightarrow> id \<Rightarrow> unit io" where
  "users_delete E i actorId =
     andThen (dbDeleteUser i)
       (audit_log E ((auditEntry actorId ''user.delete'' ''User'' i)\<lparr>ae_severity := Some CRITICAL\<rparr>))"

subsection \<open>Roles\<close>

definition withPermissions :: "db \<Rightarrow> role \<Rightarrow> role \<times> string list" where
  "withPermissions d r = (r, rolePermissionKeys d (r_id r))"

definition roles_list :: "(role \<times> string list) list io" where
  "roles_list = bnd (gets w_db) (\<lambda>d. ret (map (withPermissions d) (t_roles d)))"

definition roles_listPermissions :: "permission list io" where
  "roles_listPermissions = gets (\<lambda>w. sort_key p_group (t_permissions (w_db w)))"

text \<open>The audit entry of a creation is not awaited.\<close>

definition roles_create :: "env \<Rightarrow> string \<Rightarrow> string option \<Rightarrow> id \<Rightarrow> role io" where
  "roles_create E name description actorId =
     bnd (external (newUuid E)) (\<lambda>i.
     bnd (dbCreate t_roles t_roles_update role_conflict no_fk
         \<lparr>r_id = i, r_name = name, r_description = description, r_isSystem = False\<rparr>) (\<lambda>role.
     andThen (detach (audit_log E (auditEntry actorId ''role.create'' ''Role'' (r_id role))))
     (ret role)))"

text \<open>\<open>createMany\<close> fails as a whole.\<close>

definition createMany_rolePermissions :: "rolePermission list \<Rightarrow> unit io" where
  "createMany_rolePermissions rows = forEach rows (\<lambda>r.
     andThen (dbCreate t_rolePermissions t_rolePermissions_update rolePermission_conflict
       rolePermission_fk r) (ret ()))"

definition roles_setPermissions ::
  "env \<Rightarrow> id \<Rightarrow> string list \<Rightarrow> id \<Rightarrow> (role \<times> string list) option io" where
  "roles_setPermissions E roleId permissionKeys actorId =
     bnd (dbFindMany t_permissions (\<lambda>p. p_key p \<in> set permissionKeys)) (\<lambda>permissions.
     andThen (transaction (andThen
         (dbDeleteMany t_rolePermissions_update (\<lambda>rp. rp_roleId rp = roleId))
         (createMany_rolePermissions
           (map (\<lambda>p. \<lparr>rp_roleId = roleId, rp_permissionId = p_id p\<rparr>) permissions))))
     (andThen (audit_log E ((auditEntry actorId ''role.set_permissions'' ''Role'' roleId)
         \<lparr>ae_metadata := Some (JObj [(''permissions'', JArr (map JStr permissionKeys))])\<rparr>))
     (bnd (gets w_db) (\<lambda>d.
     ret (map_option (withPermissions d) (List.find (\<lambda>r. r_id r = roleId) (t_roles d)))))))"

definition roles_delete :: "env \<Rightarrow> id \<Rightarrow> id \<Rightarrow> unit io" where
  "roles_delete E roleId actorId =
     bnd (dbFindOrThrow t_roles (\<lambda>r. r_id r = roleId)) (\<lambda>role.
     andThen (throwIf (r_isSystem role)
       (BadRequestException ''Impossible de supprimer un role systeme''))
     (andThen (dbDeleteRole roleId)
       (audit_log E (auditEntry actorId ''role.delete'' ''Role'' roleId))))"

end
