(* ===== verification/Identity_Properties.thy ===== *)
theory Identity_Properties
  imports ApiKeys Users Sample
begin

text \<open>
  The properties of the identity modules: \<^verbatim>\<open>auth\<close>, \<^verbatim>\<open>api-keys\<close>, \<^verbatim>\<open>users\<close> and \<^verbatim>\<open>roles\<close>.
\<close>

subsection \<open>Who is let in\<close>

lemma detach_dbUpdate_tables:
  "w_db (snd (detach (dbUpdate t_apiKeys t_apiKeys_update p f) w)) =
     (if list_ex p (t_apiKeys (w_db w))
      then t_apiKeys_update (map (\<lambda>x. if p x then f x else x)) (w_db w) else w_db w)"
  by (auto simp: prog_simps list_ex_iff split: option.splits dest: find_SomeD find_NoneD)

lemma validateKey_Inr:
  assumes "apiKeys_validateAndGetUser E raw w = (Inr u, w')"
  shows "\<exists>k x. k \<in> set (t_apiKeys (w_db w)) \<and> k_keyHash k = sha256Hex E raw \<and>
    (\<forall>t. k_expiresAt k = Some t \<longrightarrow> now E (w_tick w) \<le> t) \<and>
    x \<in> set (t_users (w_db w)) \<and> u_id x = k_userId k \<and> u_status x = ACTIVE \<and> au_id u = u_id x \<and>
    au_permissions u = keyPermissions (k_scopes k) (currentPermissions (w_db w) x)"
proof -
  obtain k x where k: "List.find (\<lambda>k. k_keyHash k = sha256Hex E raw) (t_apiKeys (w_db w)) = Some k"
    and exp: "\<not> (case k_expiresAt k of None \<Rightarrow> False | Some y \<Rightarrow> y < now E (w_tick w))"
    and x: "List.find (\<lambda>u. u_id u = k_userId k) (t_users (w_db w)) = Some x" "u_status x = ACTIVE"
    and u: "u = (toAuthUser (w_db w) x None)
      \<lparr>au_permissions := keyPermissions (k_scopes k) (currentPermissions (w_db w) x)\<rparr>"
    using assms unfolding apiKeys_validateAndGetUser_def by (auto simp: run_Inr)
  show ?thesis using k x exp u
    by (intro exI [where x = k] exI [where x = x])
       (auto simp: toAuthUser_def not_less dest!: find_SomeD)
qed

lemma jwt_validate_Inr:
  assumes "jwt_validate p w = (Inr u, w')"
  shows "\<exists>x. x \<in> set (t_users (w_db w)) \<and> u_id x = jc_sub p \<and> u_status x = ACTIVE \<and>
    au_id u = u_id x \<and> au_permissions u = currentPermissions (w_db w) x"
proof -
  have "s \<noteq> BANNED \<Longrightarrow> s \<noteq> SUSPENDED \<Longrightarrow> s = ACTIVE" for s by (cases s) auto
  then show ?thesis using assms unfolding jwt_validate_def
    by (auto simp: run_Inr toAuthUser_def dest!: find_SomeD)
qed

lemma passportJwt_Inr:
  assumes "passportJwt E header w = (Inr u, w')"
  shows "\<exists>token claims x. passportBearer E header = Some token \<and>
    jwtVerify E (w_tick w) (cf_accessSecret (cfg E)) token = Some claims \<and>
    x \<in> set (t_users (w_db w)) \<and> u_id x = jc_sub claims \<and> u_status x = ACTIVE \<and>
    au_id u = u_id x \<and> au_permissions u = currentPermissions (w_db w) x"
  using assms unfolding passportJwt_def
  by (auto simp: run_Inr dest!: jwt_validate_Inr) metis

lemma bearerToken_Some: "bearerToken h = Some raw \<longleftrightarrow> h = Some (''Bearer '' @ raw)"
  by (auto simp: bearerToken_def prefix_def split: option.splits if_splits)

text \<open>C6: whoever passes the authentication guard of a protected route is an account that is active
  now. Either the library verified the JWT of the header, which names the account, and the
  permissions are those its role has now; or the header has an API key of the account that has
  not expired, and the permissions are its scopes, cut down to what the role has now unless the
  account is an administrator's.\<close>

theorem guard_admits_active_accounts:
  assumes "jwtAuthGuard E False rq w = (Inr (Some u), w')"
  shows "\<exists>x \<in> set (t_users (w_db w)). u_status x = ACTIVE \<and> au_id u = u_id x \<and>
    ((\<exists>token claims. passportBearer E (hq_authorization rq) = Some token \<and>
        jwtVerify E (w_tick w) (cf_accessSecret (cfg E)) token = Some claims \<and> jc_sub claims = u_id x \<and>
        au_permissions u = currentPermissions (w_db w) x) \<or>
     (\<exists>raw. \<exists>k \<in> set (t_apiKeys (w_db w)). hq_authorization rq = Some (''Bearer '' @ raw) \<and>
        startsWith raw ''elysia_'' \<and> k_keyHash k = sha256Hex E raw \<and> k_userId k = u_id x \<and>
        (\<forall>t. k_expiresAt k = Some t \<longrightarrow> now E (w_tick w) \<le> t) \<and>
        au_permissions u = (if ''*'' \<in> set (currentPermissions (w_db w) x) then k_scopes k
          else filter (\<lambda>s. s \<in> set (currentPermissions (w_db w) x)) (k_scopes k))))"
proof -
  consider raw where "hq_authorization rq = Some (''Bearer '' @ raw)" "startsWith raw API_KEY_PREFIX"
      "apiKeys_validateAndGetUser E raw w = (Inr u, w')"
    | "passportJwt E (hq_authorization rq) w = (Inr u, w')"
    using assms unfolding jwtAuthGuard_def
    by (auto simp: run_Inr bearerToken_Some split: option.splits if_splits)
  then show ?thesis
  proof cases
    case 1
    obtain k x where k: "k \<in> set (t_apiKeys (w_db w))" "k_keyHash k = sha256Hex E raw"
        "\<forall>t. k_expiresAt k = Some t \<longrightarrow> now E (w_tick w) \<le> t"
      and x: "x \<in> set (t_users (w_db w))" "u_id x = k_userId k" "u_status x = ACTIVE" "au_id u = u_id x"
        "au_permissions u = keyPermissions (k_scopes k) (currentPermissions (w_db w) x)"
      using validateKey_Inr [OF 1(3)] by blast
    then show ?thesis using 1(1,2)
      by (intro bexI [OF _ x(1)] conjI disjI2 exI [where x = raw] bexI [OF _ k(1)])
         (simp_all add: keyPermissions_def API_KEY_PREFIX_def)
  next
    case 2
    then show ?thesis using passportJwt_Inr [OF 2] by metis
  qed
qed

definition sampleRequest :: httpRequest where
  "sampleRequest = \<lparr>hq_url = ''/api/servers'', hq_authorization = Some ''Bearer T:alice'',
     hq_ip = None, hq_userAgent = None\<rparr>"

lemma sampleRequest_runs:
  "case jwtAuthGuard sampleEnv False sampleRequest sampleWorld of
     (Inr (Some u), w) \<Rightarrow> au_id u = ''alice'' \<and> au_permissions u = [''servers.read''] | _ \<Rightarrow> False"
  by code_simp

theorem guard_admits_active_accounts_witness:
  "\<exists>u w'. jwtAuthGuard sampleEnv False sampleRequest sampleWorld = (Inr (Some u), w') \<and>
     (\<exists>x \<in> set (t_users sampleDb). u_status x = ACTIVE \<and> au_id u = u_id x \<and>
       au_permissions u = currentPermissions sampleDb x)"
proof -
  obtain u w' where run: "jwtAuthGuard sampleEnv False sampleRequest sampleWorld = (Inr (Some u), w')"
    using sampleRequest_runs by (auto split: prod.splits sum.splits option.splits)
  have "\<not> startsWith ''T:alice'' ''elysia_''" by simp
  then show ?thesis using guard_admits_active_accounts [OF run] run
    by (auto simp: sampleWorld_def sampleRequest_def)
qed

subsection \<open>Registration\<close>

lemma newRefreshToken_simps [simp]:
  "rt_id (newRefreshToken E i u plain ip ua t) = i"
  "rt_userId (newRefreshToken E i u plain ip ua t) = u"
  "rt_tokenHash (newRefreshToken E i u plain ip ua t) = hashToken E plain"
  "\<not> rt_revoked (newRefreshToken E i u plain ip ua t)"
  "rt_expiresAt (newRefreshToken E i u plain ip ua t) = t + parseTtlToMs (cf_refreshTtl (cfg E))"
  by (simp_all add: newRefreshToken_def)

lemma issueTokenPair_Inr:
  assumes "auth_issueTokenPair E userId ip ua w = (Inr p, w')"
  shows "\<exists>i t. user_exists (w_db w) userId \<and>
    \<not> list_ex (refreshToken_conflict (newRefreshToken E i userId (pair_refresh p) ip ua t))
      (t_refreshTokens (w_db w)) \<and>
    w_db w' = t_refreshTokens_update (\<lambda>ts. ts @ [newRefreshToken E i userId (pair_refresh p) ip ua t])
      (w_db w)"
  using assms unfolding auth_issueTokenPair_def signAccess_def
  by (auto simp: run_Inr refreshToken_fk_def)

lemma register_Inr:
  assumes "auth_register E dto ip w = (Inr p, w')"
  defines "role \<equiv> List.find (\<lambda>r. r_name r =
      (if \<forall>x \<in> set (t_users (w_db w)). u_id x = SYSTEM_USER_ID then ''admin'' else ''client''))
      (t_roles (w_db w))"
  shows "\<exists>i t h ls ts. i \<notin> u_id ` set (t_users (w_db w)) \<and> w_db w' = (w_db w)\<lparr>
      t_users := t_users (w_db w) @
        [newUser i t (rd_email dto) (rd_username dto) (Some h) (map_option r_id role)],
      t_auditLogs := ls, t_refreshTokens := ts\<rparr>"
    and "List.find (\<lambda>u. u_email u = rd_email dto \<or> u_username u = rd_username dto)
      (t_users (w_db w)) = None"
proof -
  have role: "role = List.find (\<lambda>r. r_name r = (if filter (\<lambda>u. u_id u \<noteq> SYSTEM_USER_ID)
      (t_users (w_db w)) = [] then ''admin'' else ''client'')) (t_roles (w_db w))"
    by (simp add: role_def filter_empty_conv)
  let ?u = "newUser (newUuid E (Suc (w_tick w))) (now E (Suc (Suc (w_tick w)))) (rd_email dto)
      (rd_username dto) (Some (bcryptHash E (w_tick w) (rd_password dto))) (map_option r_id role)"
  obtain e w2 where none: "List.find (\<lambda>u. u_email u = rd_email dto \<or> u_username u = rd_username dto)
        (t_users (w_db w)) = None"
    and new: "\<not> list_ex (user_conflict ?u) (t_users (w_db w))"
    and log: "audit_log E e (w\<lparr>w_tick := Suc (Suc (Suc (w_tick w))),
        w_db := t_users_update (\<lambda>t. t @ [?u]) (w_db w)\<rparr>) = (Inr (), w2)"
    and tok: "auth_issueTokenPair E (u_id ?u) ip None w2 = (Inr p, w')"
    using assms(1) unfolding auth_register_def role by (simp add: run_Inr) blast
  show "List.find (\<lambda>u. u_email u = rd_email dto \<or> u_username u = rd_username dto)
      (t_users (w_db w)) = None" by (rule none)
  obtain f g where "w_db w' = t_refreshTokens_update f (t_auditLogs_update g
      (t_users_update (\<lambda>t. t @ [?u]) (w_db w)))"
    using issueTokenPair_Inr [OF tok] audit_log_Inr [OF log] by auto
  then have "w_db w' = (w_db w)\<lparr>t_users := t_users (w_db w) @ [?u],
      t_auditLogs := g (t_auditLogs (w_db w)), t_refreshTokens := f (t_refreshTokens (w_db w))\<rparr>"
    by simp
  moreover have "u_id ?u \<notin> u_id ` set (t_users (w_db w))"
    using new by (auto simp: list_ex_iff user_conflict_def)
  ultimately show "\<exists>i t h ls ts. i \<notin> u_id ` set (t_users (w_db w)) \<and> w_db w' = (w_db w)\<lparr>
      t_users := t_users (w_db w) @
        [newUser i t (rd_email dto) (rd_username dto) (Some h) (map_option r_id role)],
      t_auditLogs := ls, t_refreshTokens := ts\<rparr>"
    by (intro exI conjI) (simp_all add: newUser_def)
qed

text \<open>A registration creates one active account with the given name and address; it has
  the role \<open>admin\<close> exactly when no account other than the system one existed, and \<open>client\<close>
  otherwise.\<close>

theorem register_first_account_is_admin:
  assumes "auth_register E dto ip w = (Inr p, w')"
  shows "\<exists>u. t_users (w_db w') = t_users (w_db w) @ [u] \<and> u_email u = rd_email dto \<and>
    u_username u = rd_username dto \<and> u_status u = ACTIVE \<and>
    u_roleId u = map_option r_id (List.find (\<lambda>r. r_name r =
      (if \<forall>x \<in> set (t_users (w_db w)). u_id x = SYSTEM_USER_ID then ''admin'' else ''client''))
      (t_roles (w_db w))) \<and>
    (\<forall>x \<in> set (t_users (w_db w)). u_email x \<noteq> u_email u \<and> u_username x \<noteq> u_username u)"
  using register_Inr [OF assms] by (auto simp: newUser_def find_None_iff)

definition sampleRegister :: registerDto where
  "sampleRegister = \<lparr>rd_email = ''carol@x'', rd_username = ''carol'', rd_password = ''0123456789''\<rparr>"

lemma sampleRegister_runs:
  "case auth_register sampleEnv sampleRegister None sampleWorld of (Inr p, w) \<Rightarrow> True | _ \<Rightarrow> False"
  by code_simp

theorem register_first_account_is_admin_witness:
  "\<exists>p w' u. auth_register sampleEnv sampleRegister None sampleWorld = (Inr p, w') \<and>
     t_users (w_db w') = t_users sampleDb @ [u] \<and> u_roleId u = Some ''r-client''"
proof -
  obtain p w' where run: "auth_register sampleEnv sampleRegister None sampleWorld = (Inr p, w')"
    using sampleRegister_runs by (auto split: prod.splits sum.splits)
  have roles: "map_option r_id (List.find (\<lambda>r. r_name r =
      (if \<forall>x \<in> set (t_users (w_db sampleWorld)). u_id x = SYSTEM_USER_ID then ''admin'' else ''client''))
      (t_roles (w_db sampleWorld))) = Some ''r-client''"
    by (simp add: sample_defs SYSTEM_USER_ID_def)
  show ?thesis using register_first_account_is_admin [OF run] run
    unfolding roles by (auto simp: sampleWorld_def)
qed

subsection \<open>Refresh tokens\<close>

text \<open>C13: a refresh token works once: a refresh that succeeds was given a token that is
  neither revoked nor expired, gives a new one to the same account, and the same token is
  refused from then on.\<close>

theorem refresh_rotates:
  assumes "auth_refresh E token ip w = (Inr p, w')"
  shows "(\<exists>r \<in> set (t_refreshTokens (w_db w)). rt_tokenHash r = hashToken E token \<and>
      \<not> rt_revoked r \<and> now E (w_tick w) \<le> rt_expiresAt r \<and>
      (\<exists>n \<in> set (t_refreshTokens (w_db w')). rt_userId n = rt_userId r \<and> \<not> rt_revoked n \<and>
         rt_tokenHash n = hashToken E (pair_refresh p))) \<and>
    fst (auth_refresh E token ip2 w') = Inl (UnauthorizedException ''Refresh token invalide ou expire'')"
proof -
  obtain r where r: "List.find (\<lambda>r. rt_tokenHash r = hashToken E token) (t_refreshTokens (w_db w)) = Some r"
    and live: "\<not> rt_revoked r" "now E (w_tick w) \<le> rt_expiresAt r"
    and tok: "auth_issueTokenPair E (rt_userId r) ip None (w\<lparr>w_tick := Suc (w_tick w),
      w_db := t_refreshTokens_update (map (\<lambda>x. if rt_id x = rt_id r then x\<lparr>rt_revoked := True\<rparr> else x))
        (w_db w)\<rparr>) = (Inr p, w')"
    using assms unfolding auth_refresh_def by (auto simp: run_Inr not_less)
  obtain i t where w': "w_db w' = t_refreshTokens_update (\<lambda>ts. ts @
      [newRefreshToken E i (rt_userId r) (pair_refresh p) ip None t]) (t_refreshTokens_update
      (map (\<lambda>x. if rt_id x = rt_id r then x\<lparr>rt_revoked := True\<rparr> else x)) (w_db w))"
    using issueTokenPair_Inr [OF tok] by auto
  have "List.find (\<lambda>r. rt_tokenHash r = hashToken E token) (map (\<lambda>x. if rt_id x = rt_id r
      then x\<lparr>rt_revoked := True\<rparr> else x) (t_refreshTokens (w_db w))) = Some (r\<lparr>rt_revoked := True\<rparr>)"
    using find_map_key [of rt_tokenHash "\<lambda>x. x\<lparr>rt_revoked := True\<rparr>" "hashToken E token"
        "\<lambda>x. rt_id x = rt_id r" "t_refreshTokens (w_db w)"] r by simp
  then have "fst (auth_refresh E token ip2 w') =
      Inl (UnauthorizedException ''Refresh token invalide ou expire'')"
    by (simp add: auth_refresh_def prog_simps w' find_append_key)
  then show ?thesis using r live w' by (auto dest!: find_SomeD)
qed

definition sampleTokens :: world where
  "sampleTokens = sampleWorld\<lparr>w_db := sampleDb\<lparr>t_refreshTokens := [\<lparr>rt_id = ''t'', rt_userId = ''alice'',
     rt_tokenHash = ''htoken'', rt_userAgent = None, rt_ip = None, rt_revoked = False,
     rt_expiresAt = 5000\<rparr>]\<rparr>\<rparr>"

lemma sampleTokens_runs:
  "case auth_refresh sampleEnv ''token'' None sampleTokens of (Inr p, w) \<Rightarrow> True | _ \<Rightarrow> False"
  by code_simp

theorem refresh_rotates_witness:
  "fst (auth_refresh sampleEnv ''token'' None (snd (auth_refresh sampleEnv ''token'' None sampleTokens))) =
     Inl (UnauthorizedException ''Refresh token invalide ou expire'')"
proof -
  obtain p w' where run: "auth_refresh sampleEnv ''token'' None sampleTokens = (Inr p, w')"
    using sampleTokens_runs by (auto split: prod.splits sum.splits)
  then show ?thesis using refresh_rotates [OF run, of None] by simp
qed

subsection \<open>Revocation\<close>

text \<open>An account that nothing lets in: every refresh token revoked, and the JWT strategy, the
  API keys, the console and the SFTP server refuse it.\<close>

definition sessionsRevoked :: "db \<Rightarrow> id \<Rightarrow> bool" where
  "sessionsRevoked d i \<longleftrightarrow> (\<forall>r \<in> set (t_refreshTokens d). rt_userId r = i \<longrightarrow> rt_revoked r)"

definition lockedOut :: "db \<Rightarrow> id \<Rightarrow> bool" where
  "lockedOut d i \<longleftrightarrow> sessionsRevoked d i \<and>
     (\<forall>u. List.find (\<lambda>u. u_id u = i) (t_users d) = Some u \<longrightarrow> u_status u \<noteq> ACTIVE)"

lemma sessionsRevoked_revoke:
  "sessionsRevoked (t_refreshTokens_update (map (\<lambda>x. if rt_userId x = i then x\<lparr>rt_revoked := True\<rparr> else x)) d) i"
proof -
  have "list_all (\<lambda>r. rt_userId r = i \<longrightarrow> rt_revoked r)
      (map (\<lambda>x. if rt_userId x = i then x\<lparr>rt_revoked := True\<rparr> else x) ts)" for ts
    by (induction ts) auto
  then show ?thesis by (simp add: sessionsRevoked_def list_all_iff del: set_map)
qed

lemma sessionsRevoked_audit: "sessionsRevoked (t_auditLogs_update g d) i = sessionsRevoked d i"
  by (simp add: sessionsRevoked_def)

definition revokesSessions :: "id \<Rightarrow> 'a io \<Rightarrow> bool" where
  "revokesSessions i m \<longleftrightarrow> (\<forall>w x w'. m w = (Inr x, w') \<longrightarrow> sessionsRevoked (w_db w') i)"

lemma sessions_revoked_suspend:
  "users_suspend E i reason actorId w = (Inr u, w') \<Longrightarrow> sessionsRevoked (w_db w') i"
  "users_ban E i reason actorId w = (Inr u, w') \<Longrightarrow> sessionsRevoked (w_db w') i"
  unfolding users_suspend_def users_ban_def revokeTokensOf_def
  by (auto simp: run_Inr sessionsRevoked_revoke sessionsRevoked_audit dest!: audit_log_Inr)

text \<open>A password change, a password reset, a suspension and a ban that succeed revoke every
  refresh token of the account.\<close>

theorem sessions_revoked:
  "revokesSessions i (auth_changeOwnPassword E i current new) \<and>
   revokesSessions i (users_resetPassword E i new actorId) \<and>
   revokesSessions i (users_suspend E i reason actorId) \<and>
   revokesSessions i (users_ban E i reason actorId)"
  unfolding revokesSessions_def auth_changeOwnPassword_def users_resetPassword_def
    users_suspend_def users_ban_def revokeTokensOf_def
  by (auto simp: run_Inr sessionsRevoked_revoke sessionsRevoked_audit dest!: audit_log_Inr)

text \<open>What refuses a locked account.\<close>

lemma lockedOut_refused:
  assumes "lockedOut (w_db w) i"
  shows "jc_sub p = i \<Longrightarrow> \<exists>e. jwt_validate p w = (Inl e, w)"
    and "r \<in> set (t_refreshTokens (w_db w)) \<Longrightarrow> rt_userId r = i \<Longrightarrow> rt_revoked r"
    and "List.find (\<lambda>k. k_keyHash k = sha256Hex E raw) (t_apiKeys (w_db w)) = Some k \<Longrightarrow>
      k_userId k = i \<Longrightarrow> \<exists>e. fst (apiKeys_validateAndGetUser E raw w) = Inl e"
    and "jwtVerify E (w_tick w) (cf_accessSecret (cfg E)) token = Some p \<Longrightarrow> jc_sub p = i \<Longrightarrow>
      \<exists>e. fst (auth_resolveUserFromAccessToken E token w) = Inl e"
proof -
  have st: "List.find (\<lambda>u. u_id u = i) (t_users (w_db w)) = Some u \<Longrightarrow>
      u_status u = BANNED \<or> u_status u = SUSPENDED" for u
    using assms by (cases "u_status u") (auto simp: lockedOut_def)
  show "jc_sub p = i \<Longrightarrow> \<exists>e. jwt_validate p w = (Inl e, w)"
    using st by (auto simp: jwt_validate_def prog_simps split: option.splits)
  show "r \<in> set (t_refreshTokens (w_db w)) \<Longrightarrow> rt_userId r = i \<Longrightarrow> rt_revoked r"
    using assms by (simp add: lockedOut_def sessionsRevoked_def)
  show "List.find (\<lambda>k. k_keyHash k = sha256Hex E raw) (t_apiKeys (w_db w)) = Some k \<Longrightarrow>
      k_userId k = i \<Longrightarrow> \<exists>e. fst (apiKeys_validateAndGetUser E raw w) = Inl e"
    using st by (fastforce simp: apiKeys_validateAndGetUser_def prog_simps split: option.split)
  show "jwtVerify E (w_tick w) (cf_accessSecret (cfg E)) token = Some p \<Longrightarrow> jc_sub p = i \<Longrightarrow>
      \<exists>e. fst (auth_resolveUserFromAccessToken E token w) = Inl e"
    using st by (fastforce simp: auth_resolveUserFromAccessToken_def prog_simps split: option.split)
qed

lemma find_updated_status:
  assumes "\<And>u. u_id (f u) = u_id u" and "\<And>u. u_status (f u) \<noteq> ACTIVE"
    and "List.find (\<lambda>u. u_id u = i) (map (\<lambda>x. if u_id x = i then f x else x) us) = Some u"
  shows "u_status u \<noteq> ACTIVE"
  using assms by (auto simp: find_map_key [where key = u_id and f = f] dest!: find_SomeD)

lemma lockedOut_no_refresh:
  assumes "lockedOut (w_db w) i" and "rt_userId r = i"
    and "List.find (\<lambda>r. rt_tokenHash r = hashToken E token) (t_refreshTokens (w_db w)) = Some r"
  shows "\<exists>e. fst (auth_refresh E token ip w) = Inl e"
proof -
  have "rt_revoked r" using lockedOut_refused(2) [OF assms(1) _ assms(2)] find_SomeD [OF assms(3)] by simp
  then show ?thesis using assms(3) by (simp add: auth_refresh_def prog_simps)
qed

text \<open>C24: a suspension or a ban that succeeds locks the account out: in the state it leaves, the
  JWTs of the account, its refresh tokens, its API keys and its console tokens are refused.\<close>

theorem suspension_locks_out:
  assumes "users_suspend E i reason actorId w = (Inr u, w') \<or> users_ban E i reason actorId w = (Inr u, w')"
  shows "(\<forall>claims. jc_sub claims = i \<longrightarrow> (\<exists>e. jwt_validate claims w' = (Inl e, w'))) \<and>
    (\<forall>token ip r. List.find (\<lambda>r. rt_tokenHash r = hashToken E token) (t_refreshTokens (w_db w')) = Some r \<and>
       rt_userId r = i \<longrightarrow> (\<exists>e. fst (auth_refresh E token ip w') = Inl e)) \<and>
    (\<forall>raw k. List.find (\<lambda>k. k_keyHash k = sha256Hex E raw) (t_apiKeys (w_db w')) = Some k \<and>
       k_userId k = i \<longrightarrow> (\<exists>e. fst (apiKeys_validateAndGetUser E raw w') = Inl e)) \<and>
    (\<forall>token claims. jwtVerify E (w_tick w') (cf_accessSecret (cfg E)) token = Some claims \<and>
       jc_sub claims = i \<longrightarrow> (\<exists>e. fst (auth_resolveUserFromAccessToken E token w') = Inl e))"
proof -
  have "sessionsRevoked (w_db w') i"
    using assms sessions_revoked_suspend by blast
  moreover have "\<forall>u. List.find (\<lambda>u. u_id u = i) (t_users (w_db w')) = Some u \<longrightarrow> u_status u \<noteq> ACTIVE"
    using assms unfolding users_suspend_def users_ban_def revokeTokensOf_def
    by (auto simp: run_Inr dest!: audit_log_Inr find_updated_status [rotated 2])
  ultimately have "lockedOut (w_db w') i" by (simp add: lockedOut_def)
  then show ?thesis using lockedOut_refused(1,3,4) [of w' i] lockedOut_no_refresh [of w' i]
    by (intro conjI allI impI) blast+
qed

lemma sampleSuspend_runs:
  "case users_suspend sampleEnv ''alice'' ''spam'' ''root'' sampleTokens of
     (Inr u, w) \<Rightarrow> map rt_userId (t_refreshTokens (w_db w)) = [''alice''] \<and>
       map rt_tokenHash (t_refreshTokens (w_db w)) = [hashToken sampleEnv ''token''] | _ \<Rightarrow> False"
  by code_simp

theorem suspension_locks_out_witness:
  "\<exists>u w' e. users_suspend sampleEnv ''alice'' ''spam'' ''root'' sampleTokens = (Inr u, w') \<and>
     fst (auth_refresh sampleEnv ''token'' None w') = Inl e"
proof -
  obtain u w' where run: "users_suspend sampleEnv ''alice'' ''spam'' ''root'' sampleTokens = (Inr u, w')"
    and rows: "map rt_userId (t_refreshTokens (w_db w')) = [''alice'']"
      "map rt_tokenHash (t_refreshTokens (w_db w')) = [hashToken sampleEnv ''token'']"
    using sampleSuspend_runs by (auto split: prod.splits sum.splits)
  then obtain r where "t_refreshTokens (w_db w') = [r]" "rt_userId r = ''alice''"
      "rt_tokenHash r = hashToken sampleEnv ''token''"
    by (auto simp: map_eq_Cons_conv)
  then show ?thesis using suspension_locks_out [OF disjI1 [OF run]] run by fastforce
qed

subsection \<open>The second factor\<close>

text \<open>C28: an account with the second factor gets tokens only for a code of the authenticator,
  or for one of its recovery codes, which is then removed from the account.\<close>

theorem login_needs_second_factor:
  assumes "List.find (\<lambda>u. u_id u = i) (t_users (w_db w)) = Some u" and "u_twoFactorEnabled u"
    and "auth_login E i totpCode ip ua w = (Inr (LoggedIn p), w')"
  shows "\<exists>code. totpCode = Some code \<and> code \<noteq> [] \<and>
    (totpVerify E (w_tick w) (orElse (u_twoFactorSecret u) []) code \<or>
     code \<in> set (u_twoFactorRecoveryCodes u) \<and>
     (\<exists>v. List.find (\<lambda>u. u_id u = i) (t_users (w_db w')) = Some v \<and>
        u_twoFactorRecoveryCodes v = filter (\<lambda>c. c \<noteq> code) (u_twoFactorRecoveryCodes u)))"
proof -
  have i: "u_id u = i" using find_SomeD [OF assms(1)] by simp
  have t: "truthy totpCode" using assms by (auto simp: auth_login_def run_Inr)
  then obtain code where code: "totpCode = Some code" "code \<noteq> []" by (cases totpCode) auto
  obtain w1 w2 where sf: "auth_secondFactor E u code w = (Inr (), w1)"
    and log: "audit_log E (loginEntry i ip) w1 = (Inr (), w2)"
    and tok: "auth_issueTokenPair E i ip ua w2 = (Inr p, w')"
    using assms i code by (auto simp: auth_login_def run_Inr)
  have users: "t_users (w_db w') = t_users (w_db w1)"
    using audit_log_Inr [OF log] issueTokenPair_Inr [OF tok] by auto
  let ?valid = "totpVerify E (w_tick w) (orElse (u_twoFactorSecret u) []) code"
  show ?thesis
  proof (cases ?valid)
    case True
    then show ?thesis using code by blast
  next
    case False
    let ?f = "\<lambda>x. x\<lparr>u_twoFactorRecoveryCodes := filter (\<lambda>c. c \<noteq> code) (u_twoFactorRecoveryCodes u)\<rparr>"
    have c: "code \<in> set (u_twoFactorRecoveryCodes u)"
      and d: "t_users (w_db w1) = map (\<lambda>x. if u_id x = u_id u then ?f x else x) (t_users (w_db w))"
      using sf False by (auto simp: auth_secondFactor_def auth_verifyTotp_def run_Inr Let_def)
    have "List.find (\<lambda>u. u_id u = i) (t_users (w_db w')) = Some (?f u)"
      unfolding users d i
      using find_map_key [of u_id ?f i "\<lambda>x. u_id x = i" "t_users (w_db w)"] assms(1) i by simp
    then show ?thesis using c code by auto
  qed
qed

definition sampleTwoFactor :: world where
  "sampleTwoFactor = sampleWorld\<lparr>w_db := sampleDb\<lparr>t_users := [(sampleUser ''alice'' None)
     \<lparr>u_twoFactorEnabled := True, u_twoFactorSecret := Some ''S'',
      u_twoFactorRecoveryCodes := [''r1'', ''r2'']\<rparr>]\<rparr>\<rparr>"

lemma sampleTwoFactor_runs:
  "case auth_login sampleEnv ''alice'' (Some ''r1'') None None sampleTwoFactor of
     (Inr (LoggedIn p), w) \<Rightarrow> map u_twoFactorRecoveryCodes (t_users (w_db w)) = [[''r2'']] | _ \<Rightarrow> False"
  by code_simp

theorem login_needs_second_factor_witness:
  "\<exists>v p w'. auth_login sampleEnv ''alice'' (Some ''r1'') None None sampleTwoFactor = (Inr (LoggedIn p), w') \<and>
     List.find (\<lambda>u. u_id u = ''alice'') (t_users (w_db w')) = Some v \<and> u_twoFactorRecoveryCodes v = [''r2'']"
proof -
  obtain p w' where run: "auth_login sampleEnv ''alice'' (Some ''r1'') None None sampleTwoFactor =
      (Inr (LoggedIn p), w')"
    using sampleTwoFactor_runs by (auto split: prod.splits sum.splits loginResult.splits)
  show ?thesis
    using login_needs_second_factor [OF _ _ run] run by (auto simp: sampleTwoFactor_def sample_defs)
qed

text \<open>A new secret replaces the confirmed one before it is confirmed: whoever holds a session
  generates a secret and disables the second factor with it.\<close>

lemma unconfirmed_secret_disables_second_factor:
  "case auth_generateTwoFactorSecret sampleEnv ''alice'' sampleTwoFactor of
     (Inr (secret, qr), w) \<Rightarrow> (case auth_disableTwoFactor sampleEnv ''alice'' secret w of
        (Inr _, w') \<Rightarrow> map u_twoFactorEnabled (t_users (w_db w')) = [False] | _ \<Rightarrow> False)
   | _ \<Rightarrow> False"
  by code_simp

text \<open>An account with the second factor never gets tokens through OAuth.\<close>

lemma oauth_with_second_factor_never_logs_in:
  "u_twoFactorEnabled u \<Longrightarrow> List.find (\<lambda>u. u_id u = i) (t_users (w_db w)) = Some u \<Longrightarrow>
   auth_login E i None ip None w = (Inr RequiresTwoFactor, w)"
  by (simp add: auth_login_def prog_simps)

subsection \<open>Lifetimes\<close>

text \<open>The lifetime of a refresh token is read as written: a number and a unit give that
  many milliseconds, and anything else thirty days.\<close>

theorem ttl_parses:
  "(\<forall>n. parseTtlToMs (show_nat n @ ''s'') = 1000 * int n \<and>
      parseTtlToMs (show_nat n @ ''m'') = 60 * 1000 * int n \<and>
      parseTtlToMs (show_nat n @ ''h'') = 60 * 60 * 1000 * int n \<and>
      parseTtlToMs (show_nat n @ ''d'') = 24 * 60 * 60 * 1000 * int n) \<and>
   ((\<exists>ds u. ttl = ds @ [u] \<and> ds \<noteq> [] \<and> list_all is_digit ds \<and> u \<in> set ''smhd'') \<or>
      parseTtlToMs ttl = 30 * 24 * 60 * 60 * 1000)"
proof (intro conjI allI)
  fix n
  note d = show_nat_digits [of n] show_nat_nonempty [of n] parse_show_nat [of n]
  show "parseTtlToMs (show_nat n @ ''s'') = 1000 * int n"
    "parseTtlToMs (show_nat n @ ''m'') = 60 * 1000 * int n"
    "parseTtlToMs (show_nat n @ ''h'') = 60 * 60 * 1000 * int n"
    "parseTtlToMs (show_nat n @ ''d'') = 24 * 60 * 60 * 1000 * int n"
    using d by (simp_all add: parseTtlToMs_def unitMs_def list_all_iff)
next
  show "(\<exists>ds u. ttl = ds @ [u] \<and> ds \<noteq> [] \<and> list_all is_digit ds \<and> u \<in> set ''smhd'') \<or>
      parseTtlToMs ttl = 30 * 24 * 60 * 60 * 1000"
  proof (cases ttl rule: rev_cases)
    case Nil
    then show ?thesis by (simp add: parseTtlToMs_def)
  next
    case (snoc ds u)
    then show ?thesis by (auto simp: parseTtlToMs_def unitMs_def list_all_iff)
  qed
qed

subsection \<open>OAuth\<close>

lemma setProviderId_simps [simp]:
  "u_id (setProviderId p i u) = u_id u" "u_email (setProviderId p i u) = u_email u"
  "u_username (setProviderId p i u) = u_username u" "providerId p (setProviderId p i u) = Some i"
  "u_status (setProviderId p i u) = u_status u" "u_roleId (setProviderId p i u) = u_roleId u"
  by (cases p; simp)+

text \<open>An OAuth login ends in one account: the one linked to the identifier of the provider
  if there is one; else the one with the address of the profile, which is linked (no
  confirmation is asked of its owner); else a new account, without password, with a name of at
  most 32 characters and the role \<open>client\<close>. Either way the account is linked afterwards.\<close>

theorem oauth_account:
  assumes "auth_validateOAuthLogin E profile w = (Inr u, w')"
  defines "linked \<equiv> List.find (\<lambda>u. providerId (op_provider profile) u = Some (op_providerId profile))
      (t_users (w_db w))"
    and "byEmail \<equiv> List.find (\<lambda>u. u_email u = op_email profile) (t_users (w_db w))"
  shows "providerId (op_provider profile) u = Some (op_providerId profile) \<and>
    u \<in> set (t_users (w_db w')) \<and>
    (case linked of Some v \<Rightarrow> u = v \<and> w' = w
     | None \<Rightarrow> u_email u = op_email profile \<and>
        (case byEmail of
          Some v \<Rightarrow> u = setProviderId (op_provider profile) (op_providerId profile) v
        | None \<Rightarrow> t_users (w_db w') = t_users (w_db w) @ [u] \<and> length (u_username u) \<le> 32 \<and>
            u_passwordHash u = None \<and>
            u_roleId u = map_option r_id (List.find (\<lambda>r. r_name r = ''client'') (t_roles (w_db w)))))"
proof (cases linked)
  case (Some v)
  then show ?thesis using assms(1) unfolding linked_def auth_validateOAuthLogin_def
    by (auto simp: run_Inr dest: find_SomeD)
next
  case None
  note none = None [unfolded linked_def]
  show ?thesis
  proof (cases byEmail)
    case (Some v)
    let ?f = "setProviderId (op_provider profile) (op_providerId profile)"
    have u: "u = ?f v" and d: "t_users (w_db w') = map (\<lambda>x. if u_email x = op_email profile then ?f x else x)
        (t_users (w_db w))"
      using assms(1) none Some unfolding byEmail_def auth_validateOAuthLogin_def
      by (auto simp: run_Inr)
    have v: "v \<in> set (t_users (w_db w))" "u_email v = op_email profile"
      using Some find_SomeD unfolding byEmail_def by fastforce+
    then have "u \<in> set (t_users (w_db w'))" unfolding d u by (auto simp: image_iff)
    then show ?thesis using u v None Some by simp
  next
    case none': None
    have pw: "u_passwordHash (setProviderId p i x) = u_passwordHash x" for p i x by (cases p) simp_all
    show ?thesis using assms(1) none none' None unfolding byEmail_def auth_validateOAuthLogin_def
      by (auto simp: run_Inr newUser_def oauthUsername_def pw)
  qed
qed

definition sampleProfile :: oauthProfile where
  "sampleProfile = \<lparr>op_provider = Discord, op_providerId = ''42'', op_email = ''root@x'',
     op_username = ''mallory''\<rparr>"

lemma sampleProfile_runs:
  "case auth_validateOAuthLogin sampleEnv sampleProfile sampleWorld of (Inr u, w) \<Rightarrow> True | _ \<Rightarrow> False"
  by code_simp

theorem oauth_account_witness:
  "\<exists>u w'. auth_validateOAuthLogin sampleEnv sampleProfile sampleWorld = (Inr u, w') \<and> u_id u = ''root''"
proof -
  obtain u w' where run: "auth_validateOAuthLogin sampleEnv sampleProfile sampleWorld = (Inr u, w')"
    using sampleProfile_runs by (auto split: prod.splits sum.splits)
  then show ?thesis using oauth_account [OF run]
    by (auto simp: sample_defs sampleProfile_def)
qed

subsection \<open>API keys\<close>

text \<open>C30: a key can be created only with scopes its owner has, unless the owner is an
  administrator; the key returned authenticates its owner from then on, until it expires or
  is revoked, with its scopes cut down to the owner's permissions.\<close>

theorem created_key_authenticates:
  assumes "apiKeys_create E actor name scopes expiresAt w = (Inr c, w')"
    and "List.find (\<lambda>u. u_id u = au_id actor) (t_users (w_db w)) = Some u" and "u_status u = ACTIVE"
    and "\<forall>t. expiresAt = Some t \<longrightarrow> now E (w_tick w') \<le> t"
  shows "(has_perm actor ''*'' \<or> set scopes \<subseteq> set (au_permissions actor)) \<and> scopes \<noteq> [] \<and>
    (\<exists>v. fst (apiKeys_validateAndGetUser E (ck_key c) w') = Inr v \<and> au_id v = au_id actor \<and>
       au_permissions v = keyPermissions scopes (currentPermissions (w_db w) u))"
proof -
  let ?raw = "KEY_PREFIX @ randomHex E (w_tick w) KEY_BYTES"
  let ?row = "newApiKey E (newUuid E (Suc (w_tick w))) (au_id actor) name ?raw scopes expiresAt
      (now E (Suc (Suc (w_tick w))))"
  let ?w1 = "w\<lparr>w_tick := Suc (Suc (Suc (w_tick w))), w_db := t_apiKeys_update (\<lambda>ks. ks @ [?row]) (w_db w)\<rparr>"
  have row [simp]: "k_keyHash ?row = sha256Hex E ?raw" "k_expiresAt ?row = expiresAt"
    "k_userId ?row = au_id actor" "k_scopes ?row = scopes"
    by (simp_all add: newApiKey_def)
  obtain e where sc: "scopes \<noteq> []"
    "has_perm actor ''*'' \<or> filter (\<lambda>s. \<not> has_perm actor s) scopes = []"
    and fresh: "\<not> list_ex (apiKey_conflict ?row) (t_apiKeys (w_db w))"
    and log: "audit_log E e ?w1 = (Inr (), w')" and c: "ck_key c = ?raw"
    using assms(1) unfolding apiKeys_create_def by (simp add: run_Inr Let_def) blast
  have find: "List.find (\<lambda>k. k_keyHash k = sha256Hex E (ck_key c)) (t_apiKeys (w_db w')) = Some ?row"
  proof -
    have "List.find (\<lambda>k. k_keyHash k = sha256Hex E ?raw) (t_apiKeys (w_db w)) = None"
      using fresh by (auto simp: find_None_iff list_ex_iff apiKey_conflict_def)
    then show ?thesis using audit_log_Inr [OF log] c by (auto simp: find_append_key)
  qed
  have "t_users (w_db w') = t_users (w_db w)" "currentPermissions (w_db w') u = currentPermissions (w_db w) u"
    using audit_log_Inr [OF log]
    by (auto simp: currentPermissions_def permissionsForRole_def roleOf_def rolePermissionKeys_def
        split: option.splits)
  then have "\<exists>v. fst (apiKeys_validateAndGetUser E (ck_key c) w') = Inr v \<and> au_id v = au_id actor \<and>
       au_permissions v = keyPermissions scopes (currentPermissions (w_db w) u)"
    using find assms(2-4) find_SomeD [OF assms(2)]
    by (auto simp: apiKeys_validateAndGetUser_def prog_simps toAuthUser_def split: option.split)
  then show ?thesis using sc by (auto simp: has_perm_def filter_empty_conv)
qed

lemma sampleKey_runs:
  "case apiKeys_create sampleEnv (sampleAuth ''alice'' [''servers.read'']) ''ci'' [''servers.read''] None sampleWorld
   of (Inr c, w) \<Rightarrow> True | _ \<Rightarrow> False"
  by code_simp

theorem created_key_authenticates_witness:
  "\<exists>c w' v. apiKeys_create sampleEnv (sampleAuth ''alice'' [''servers.read'']) ''ci'' [''servers.read''] None sampleWorld
     = (Inr c, w') \<and> fst (apiKeys_validateAndGetUser sampleEnv (ck_key c) w') = Inr v \<and> au_id v = ''alice''"
proof -
  obtain c w' where run: "apiKeys_create sampleEnv (sampleAuth ''alice'' [''servers.read'']) ''ci''
      [''servers.read''] None sampleWorld = (Inr c, w')"
    using sampleKey_runs by (auto split: prod.splits sum.splits)
  have "List.find (\<lambda>u. u_id u = au_id (sampleAuth ''alice'' [''servers.read''])) (t_users (w_db sampleWorld)) =
      Some (sampleUser ''alice'' (Some ''r-client''))" by (simp add: sample_defs)
  moreover have "u_status (sampleUser ''alice'' (Some ''r-client'')) = ACTIVE" by (simp add: sampleUser_def)
  ultimately show ?thesis using created_key_authenticates [OF run] run
    by (fastforce simp: sampleAuth_def)
qed

subsection \<open>Roles\<close>

lemma createMany_Inr:
  "createMany_rolePermissions rows w = (Inr x, w') \<Longrightarrow>
   w_db w' = t_rolePermissions_update (\<lambda>t. t @ rows) (w_db w)"
proof (induction rows arbitrary: w)
  case Nil
  then show ?case by (simp add: createMany_rolePermissions_def run_Inr)
next
  case (Cons r rows)
  then have "createMany_rolePermissions rows
      (w\<lparr>w_db := t_rolePermissions_update (\<lambda>t. t @ [r]) (w_db w)\<rparr>) = (Inr x, w')"
    by (auto simp: createMany_rolePermissions_def run_Inr)
  from Cons.IH [OF this] show ?case by (simp add: comp_def)
qed

text \<open>The permissions of a role whose rows are those of given permissions.\<close>

lemma rolePermissionKeys_assigned:
  assumes "distinct (map p_id (t_permissions d))" and "set ps \<subseteq> set (t_permissions d)"
    and "\<And>rp. rp \<in> set (t_rolePermissions d) \<and> rp_roleId rp = rid \<longleftrightarrow>
      rp \<in> (\<lambda>p. \<lparr>rp_roleId = rid, rp_permissionId = p_id p\<rparr>) ` set ps"
  shows "set (rolePermissionKeys d rid) = p_key ` set ps"
proof -
  have same: "p = q" if "p \<in> set (t_permissions d)" "q \<in> set (t_permissions d)" "p_id p = p_id q" for p q
    using assms(1) that by (auto simp: distinct_map dest: inj_onD)
  have keys: "set (rolePermissionKeys d rid) = {p_key p | p rp. rp \<in> set (t_rolePermissions d) \<and>
      rp_roleId rp = rid \<and> p \<in> set (t_permissions d) \<and> p_id p = rp_permissionId rp}"
    by (auto simp: rolePermissionKeys_def)
  show ?thesis
  proof (intro equalityI subsetI)
    fix k assume "k \<in> set (rolePermissionKeys d rid)"
    then obtain p rp where p: "k = p_key p" "p \<in> set (t_permissions d)" "p_id p = rp_permissionId rp"
      and rp: "rp \<in> set (t_rolePermissions d) \<and> rp_roleId rp = rid" unfolding keys by blast
    from rp assms(3) obtain q where "q \<in> set ps" "rp_permissionId rp = p_id q" by auto
    then show "k \<in> p_key ` set ps" using same [of p q] p assms(2) by auto
  next
    fix k assume "k \<in> p_key ` set ps"
    then obtain p where p: "p \<in> set ps" "k = p_key p" by blast
    then have "\<lparr>rp_roleId = rid, rp_permissionId = p_id p\<rparr> \<in> set (t_rolePermissions d) \<and>
        rp_roleId \<lparr>rp_roleId = rid, rp_permissionId = p_id p\<rparr> = rid"
      unfolding assms(3) by blast
    then show "k \<in> set (rolePermissionKeys d rid)" unfolding keys using p assms(2) by fastforce
  qed
qed

text \<open>Setting the permissions of a role gives it exactly the requested permissions that
  exist, and leaves the other roles as they are.\<close>

theorem set_permissions_exact:
  assumes "roles_setPermissions E rid keys actorId w = (Inr res, w')"
    and "distinct (map p_id (t_permissions (w_db w)))"
  shows "set (rolePermissionKeys (w_db w') rid) = set keys \<inter> p_key ` set (t_permissions (w_db w)) \<and>
    (\<forall>r. r \<noteq> rid \<longrightarrow> rolePermissionKeys (w_db w') r = rolePermissionKeys (w_db w) r)"
proof -
  let ?ps = "filter (\<lambda>p. p_key p \<in> set keys) (t_permissions (w_db w))"
  let ?rows = "map (\<lambda>p. \<lparr>rp_roleId = rid, rp_permissionId = p_id p\<rparr>) ?ps"
  obtain w1 e where many: "createMany_rolePermissions ?rows (w\<lparr>w_db := t_rolePermissions_update
        (filter (\<lambda>x. rp_roleId x \<noteq> rid)) (w_db w)\<rparr>) = (Inr (), w1)"
    and log: "\<exists>w2. audit_log E e w1 = (Inr (), w2) \<and> w_db w' = w_db w2"
    using assms(1) unfolding roles_setPermissions_def by (fastforce simp: run_Inr)
  have d: "t_rolePermissions (w_db w') = filter (\<lambda>x. rp_roleId x \<noteq> rid) (t_rolePermissions (w_db w)) @ ?rows"
    "t_permissions (w_db w') = t_permissions (w_db w)"
    using createMany_Inr [OF many] log by (auto dest!: audit_log_Inr)
  have "set (rolePermissionKeys (w_db w') rid) = p_key ` set ?ps"
    by (rule rolePermissionKeys_assigned) (use assms(2) in \<open>auto simp: d image_iff\<close>)
  moreover have "rolePermissionKeys (w_db w') r = rolePermissionKeys (w_db w) r" if "r \<noteq> rid" for r
    using that by (simp add: rolePermissionKeys_def d filter_map comp_def) (metis (mono_tags, lifting) filter_cong)
  ultimately show ?thesis by auto
qed

lemma sampleSetPermissions_runs:
  "\<exists>res. roles_setPermissions sampleEnv ''r-client'' [''servers.create'', ''unknown''] ''root'' sampleWorld =
     (Inr res, snd (roles_setPermissions sampleEnv ''r-client'' [''servers.create'', ''unknown''] ''root''
       sampleWorld))"
proof -
  have "(case fst (roles_setPermissions sampleEnv ''r-client'' [''servers.create'', ''unknown''] ''root''
      sampleWorld) of Inr r \<Rightarrow> True | Inl e \<Rightarrow> False)" by code_simp
  then show ?thesis by (auto simp: prod_eq_iff split: sum.splits)
qed

theorem set_permissions_exact_witness:
  "set (rolePermissionKeys (w_db (snd (roles_setPermissions sampleEnv ''r-client''
     [''servers.create'', ''unknown''] ''root'' sampleWorld))) ''r-client'') = {''servers.create''}"
proof -
  obtain res where run: "roles_setPermissions sampleEnv ''r-client'' [''servers.create'', ''unknown''] ''root''
      sampleWorld = (Inr res, snd (roles_setPermissions sampleEnv ''r-client''
        [''servers.create'', ''unknown''] ''root'' sampleWorld))"
    using sampleSetPermissions_runs by blast
  have "distinct (map p_id (t_permissions (w_db sampleWorld)))" by (simp add: sample_defs)
  from set_permissions_exact [OF run this] show ?thesis by (auto simp: sample_defs)
qed

text \<open>Deleting a role that succeeds removes a role that is not a system role, with its
  permissions, and leaves its users without a role, hence without permissions; a system role
  is refused and nothing changes.\<close>

theorem role_deletion:
  assumes "List.find (\<lambda>r. r_id r = rid) (t_roles (w_db w)) = Some role"
    and "roles_delete E rid actorId w = (r, w')"
  shows "if r_isSystem role
    then r = Inl (BadRequestException ''Impossible de supprimer un role systeme'') \<and> w' = w
    else t_roles (w_db w') = filter (\<lambda>x. r_id x \<noteq> rid) (t_roles (w_db w)) \<and>
      rolePermissionKeys (w_db w') rid = [] \<and>
      (\<forall>u \<in> set (t_users (w_db w')). u_roleId u \<noteq> Some rid) \<and>
      length (t_users (w_db w')) = length (t_users (w_db w))"
proof (cases "r_isSystem role")
  case True
  then show ?thesis using assms by (simp add: roles_delete_def prog_simps)
next
  case False
  have ex: "role_exists (w_db w) rid"
    using assms(1) by (auto simp: role_exists_def list_ex_iff find_Some_iff)
  let ?w1 = "w\<lparr>w_db := drop_role rid (w_db w)\<rparr>"
  have "audit_log E (auditEntry actorId ''role.delete'' ''Role'' rid) ?w1 = (r, w')"
    using assms(2) False ex assms(1) by (simp add: roles_delete_def prog_simps)
  then obtain rows where "w_db w' = t_auditLogs_update (\<lambda>t. t @ rows) (drop_role rid (w_db w))"
    using audit_log_tables [of E "auditEntry actorId ''role.delete'' ''Role'' rid" ?w1] by auto
  then show ?thesis using False by (auto simp: drop_role_def rolePermissionKeys_def)
qed

theorem role_deletion_witness:
  "fst (roles_delete sampleEnv ''r-admin'' ''root'' sampleWorld) =
     Inl (BadRequestException ''Impossible de supprimer un role systeme'') \<and>
   t_roles (w_db (snd (roles_delete sampleEnv ''r-client'' ''root'' sampleWorld))) =
     [sampleRole ''r-admin'' ''admin'' True]"
proof -
  have a: "List.find (\<lambda>r. r_id r = ''r-admin'') (t_roles (w_db sampleWorld)) =
      Some (sampleRole ''r-admin'' ''admin'' True)"
    and c: "List.find (\<lambda>r. r_id r = ''r-client'') (t_roles (w_db sampleWorld)) =
      Some (sampleRole ''r-client'' ''client'' False)" by (simp_all add: sample_defs)
  show ?thesis
    using role_deletion [OF a surjective_pairing, of sampleEnv "''root''"]
      role_deletion [OF c surjective_pairing, of sampleEnv "''root''"]
    by (simp add: sample_defs)
qed

end
