(* ===== verification/Backups.thy ===== *)
theory Backups
  imports Servers
begin

text \<open>
  \<^verbatim>\<open>backups/backups.service.ts\<close>: backups of a server and the job that makes one, and
  \<^verbatim>\<open>scheduled-tasks/scheduled-tasks.service.ts\<close>: the tasks of a server and the loop that runs
  those that are due.
\<close>

subsection \<open>Destination\<close>

text \<open>The configured driver is a string; the column of a backup holds one of the enumeration.\<close>

definition driverOf :: "string \<Rightarrow> BackupDriver option" where
  "driverOf s = map_of [(''LOCAL'', LOCAL), (''S3'', S3), (''CLOUDFLARE_R2'', CLOUDFLARE_R2),
     (''BACKBLAZE_B2'', BACKBLAZE_B2), (''MINIO'', MINIO), (''SFTP'', SFTP), (''FTP'', FTP)] s"

definition driverAndConfig :: "env \<Rightarrow> string \<times> (string \<times> string) list" where
  "driverAndConfig E = (let driver = cf_backupDriver (cfg E); s3 = cf_s3 (cfg E) in
     if driver = ''LOCAL'' then (driver, [])
     else (driver, [(''endpoint'', orElse (s3_endpoint s3) []), (''bucket'', orElse (s3_bucket s3) []),
       (''access_key'', orElse (s3_accessKey s3) []), (''secret_key'', orElse (s3_secretKey s3) []),
       (''use_ssl'', if s3_useSsl s3 then ''true'' else ''false'')]))"

subsection \<open>Backups\<close>

definition backups_listForServer :: "id \<Rightarrow> authUser \<Rightarrow> backup list io" where
  "backups_listForServer sid user =
     andThen (servers_findAccessibleOrThrow sid user)
     (bnd (dbFindMany t_backups (\<lambda>b. b_serverId b = sid)) (\<lambda>bs. ret (orderDesc b_createdAt bs)))"

definition backups_create :: "env \<Rightarrow> id \<Rightarrow> string \<Rightarrow> authUser \<Rightarrow> backup io" where
  "backups_create E sid name user =
     bnd (servers_findAccessibleOrThrow sid user) (\<lambda>v.
     case driverOf (fst (driverAndConfig E)) of
       None \<Rightarrow> throw (PrismaError ''driver'')
     | Some driver \<Rightarrow>
         bnd (external (newUuid E)) (\<lambda>i.
         bnd (external (now E)) (\<lambda>t.
         bnd (dbCreate t_backups t_backups_update backup_conflict backup_fk
             \<lparr>b_id = i, b_serverId = sid, b_name = name, b_driver = driver, b_status = BK_PENDING,
              b_sizeBytes = None, b_checksum = None, b_remotePath = None, b_failReason = None,
              b_createdAt = t, b_completedAt = None\<rparr>) (\<lambda>b.
         andThen (startJob (BackupJob (b_id b) (s_nodeId (sv_server v)) (s_uuid (sv_server v))
             (n_grpcHost (sv_node v)) (n_grpcPort (sv_node v))))
         (andThen (audit_log E (auditEntry (au_id user) ''backup.create'' ''Server'' sid))
         (ret b))))))"

text \<open>\<open>BigInt(s)\<close> of the decimal numbers the daemon sends.\<close>

definition bigInt :: "string \<Rightarrow> int option" where
  "bigInt s = (case s of
       c # ds \<Rightarrow> if c = CHR ''-'' then (if ds \<noteq> [] \<and> list_all is_digit ds
                    then Some (- int (parse_nat ds)) else None)
                 else if list_all is_digit s then Some (int (parse_nat s)) else None
     | [] \<Rightarrow> Some 0)"

definition updateBackup :: "id \<Rightarrow> (backup \<Rightarrow> backup) \<Rightarrow> backup io" where
  "updateBackup bid f = dbUpdate t_backups t_backups_update (\<lambda>b. b_id b = bid) f"

definition backups_runBackup :: "env \<Rightarrow> id \<Rightarrow> id \<Rightarrow> id \<Rightarrow> string \<Rightarrow> int \<Rightarrow> unit io" where
  "backups_runBackup E bid nid uuid host port =
     andThen (updateBackup bid (\<lambda>b. b\<lparr>b_status := BK_IN_PROGRESS\<rparr>))
     (let driver = fst (driverAndConfig E) in
      tryCatch
       (bnd (nodeCall E (grpcBackup E) nid (hostPort host port) ''CreateBackup''
           (CreateBackupRequest uuid bid driver (snd (driverAndConfig E)))) (\<lambda>res.
        bnd (if br_size_bytes res = [] then ret None
             else case bigInt (br_size_bytes res) of
                 None \<Rightarrow> throw (JsError (''Cannot convert '' @ br_size_bytes res @ '' to a BigInt''))
               | Some i \<Rightarrow> ret (Some i)) (\<lambda>size.
        bnd (external (now E)) (\<lambda>t.
        andThen (updateBackup bid (\<lambda>b. b\<lparr>
            b_status := (if br_success res then BK_COMPLETED else BK_FAILED),
            b_failReason := (if br_success res then b_failReason b else Some (br_message res)),
            b_sizeBytes := (case size of None \<Rightarrow> b_sizeBytes b | Some i \<Rightarrow> Some i),
            b_checksum := Some (br_checksum res),
            b_remotePath := (if driver \<noteq> ''LOCAL'' then Some (uuid @ ''/'' @ bid @ ''.tar.gz'')
                             else b_remotePath b),
            b_completedAt := Some t\<rparr>))
        (ret ())))))
       (\<lambda>err. andThen (updateBackup bid (\<lambda>b. b\<lparr>b_status := BK_FAILED,
            b_failReason := Some (exn_message err)\<rparr>)) (ret ())))"

text \<open>A backup with its server and its node.\<close>

definition backupServer :: "id \<Rightarrow> (backup \<times> server \<times> node) io" where
  "backupServer bid =
     bnd (dbFindOrThrow t_backups (\<lambda>b. b_id b = bid)) (\<lambda>b.
     bnd (dbFindOrThrow t_servers (\<lambda>s. s_id s = b_serverId b)) (\<lambda>s.
     bnd (dbFindOrThrow t_nodes (\<lambda>n. n_id n = s_nodeId s)) (\<lambda>n.
     ret (b, s, n))))"

definition backupRequest :: "env \<Rightarrow> backup \<Rightarrow> server \<Rightarrow> grpcRequest" where
  "backupRequest E b s = BackupIdRequest (s_uuid s) (b_id b) (orElse (b_remotePath b) [])
     (b_driver b) (if b_driver b = LOCAL then [] else snd (driverAndConfig E))"

definition backups_restore :: "env \<Rightarrow> id \<Rightarrow> authUser \<Rightarrow> unit io" where
  "backups_restore E bid user =
     bnd (backupServer bid) (\<lambda>(b, s, n).
     andThen (servers_findAccessibleOrThrow (b_serverId b) user)
     (andThen (setServerStatus (b_serverId b) SRV_RESTORING)
     (andThen (updateBackup bid (\<lambda>b. b\<lparr>b_status := BK_RESTORING\<rparr>))
     (andThen (nodeCall E (grpcAction E) (s_nodeId s) (nodeParams n) ''RestoreBackup''
         (backupRequest E b s))
     (andThen (setServerStatus (b_serverId b) SRV_OFFLINE)
     (andThen (updateBackup bid (\<lambda>b. b\<lparr>b_status := BK_COMPLETED\<rparr>))
       (audit_log E ((auditEntry (au_id user) ''backup.restore'' ''Server'' (b_serverId b))
          \<lparr>ae_severity := Some WARNING\<rparr>))))))))"

definition backups_delete :: "env \<Rightarrow> id \<Rightarrow> authUser \<Rightarrow> unit io" where
  "backups_delete E bid user =
     bnd (backupServer bid) (\<lambda>(b, s, n).
     andThen (servers_findAccessibleOrThrow (b_serverId b) user)
     (andThen (nodeCall E (grpcAction E) (s_nodeId s) (nodeParams n) ''DeleteBackup''
         (backupRequest E b s))
     (andThen (dbDelete t_backups t_backups_update (\<lambda>b. b_id b = bid))
       (audit_log E (auditEntry (au_id user) ''backup.delete'' ''Server'' (b_serverId b))))))"

subsection \<open>Scheduled tasks\<close>

definition SYSTEM_ACTOR :: authUser where
  "SYSTEM_ACTOR = \<lparr>au_id = SYSTEM_USER_ID, au_email = ''system@elysia.local'',
     au_username = ''system'', au_roleId = None, au_permissions = [''*''],
     au_twoFactorEnabled = False, au_impersonatedBy = None\<rparr>"

definition taskActionOf :: "string \<Rightarrow> ScheduledTaskAction option" where
  "taskActionOf s = map_of [(''POWER_START'', POWER_START), (''POWER_STOP'', POWER_STOP),
     (''POWER_RESTART'', POWER_RESTART), (''BACKUP_CREATE'', BACKUP_CREATE),
     (''COMMAND_SEND'', COMMAND_SEND)] s"

definition tasks_computeNextRun :: "env \<Rightarrow> string \<Rightarrow> time io" where
  "tasks_computeNextRun E cronExpr = externalCall (\<lambda>n. cronNext E n cronExpr)"

definition tasks_create ::
  "env \<Rightarrow> id \<Rightarrow> string \<Rightarrow> string \<Rightarrow> string \<Rightarrow> (string \<times> string) list option \<Rightarrow> authUser \<Rightarrow>
   scheduledTask io" where
  "tasks_create E sid name cronExpr action payload user =
     andThen (servers_findAccessibleOrThrow sid user)
     (bnd (tasks_computeNextRun E cronExpr) (\<lambda>nextRunAt.
     case taskActionOf action of
       None \<Rightarrow> throw (PrismaError ''action'')
     | Some a \<Rightarrow>
         bnd (external (newUuid E)) (\<lambda>i.
         bnd (external (now E)) (\<lambda>t.
         bnd (dbCreate t_tasks t_tasks_update task_conflict task_fk
             \<lparr>st_id = i, st_serverId = sid, st_name = name, st_cronExpr = cronExpr,
              st_action = a, st_payload = payload, st_enabled = True, st_lastRunAt = None,
              st_nextRunAt = Some nextRunAt, st_createdAt = t\<rparr>) (\<lambda>task.
         andThen (audit_log E (auditEntry (au_id user) ''scheduled_task.create'' ''Server'' sid))
         (ret task))))))"

definition tasks_listForServer :: "id \<Rightarrow> authUser \<Rightarrow> scheduledTask list io" where
  "tasks_listForServer sid user =
     andThen (servers_findAccessibleOrThrow sid user)
     (bnd (dbFindMany t_tasks (\<lambda>t. st_serverId t = sid)) (\<lambda>ts. ret (orderDesc st_createdAt ts)))"

definition tasks_setEnabled :: "env \<Rightarrow> id \<Rightarrow> bool \<Rightarrow> authUser \<Rightarrow> scheduledTask io" where
  "tasks_setEnabled E tid enabled user =
     bnd (dbFindOrThrow t_tasks (\<lambda>t. st_id t = tid)) (\<lambda>existing.
     andThen (servers_findAccessibleOrThrow (st_serverId existing) user)
     (bnd (dbUpdate t_tasks t_tasks_update (\<lambda>t. st_id t = tid) (\<lambda>t. t\<lparr>st_enabled := enabled\<rparr>)) (\<lambda>task.
     andThen (audit_log E (auditEntry (au_id user)
         (if enabled then ''scheduled_task.enable'' else ''scheduled_task.disable'')
         ''ScheduledTask'' tid))
     (ret task))))"

definition tasks_delete :: "env \<Rightarrow> id \<Rightarrow> authUser \<Rightarrow> unit io" where
  "tasks_delete E tid user =
     bnd (dbFindOrThrow t_tasks (\<lambda>t. st_id t = tid)) (\<lambda>existing.
     andThen (servers_findAccessibleOrThrow (st_serverId existing) user)
     (andThen (dbDelete t_tasks t_tasks_update (\<lambda>t. st_id t = tid))
       (audit_log E (auditEntry (au_id user) ''scheduled_task.delete'' ''ScheduledTask'' tid))))"

definition payloadCommand :: "(string \<times> string) list option \<Rightarrow> string" where
  "payloadCommand p = (case p of None \<Rightarrow> [] | Some m \<Rightarrow> orElse (map_of m ''command'') [])"

definition tasks_execute ::
  "env \<Rightarrow> id \<Rightarrow> ScheduledTaskAction \<Rightarrow> (string \<times> string) list option \<Rightarrow> unit io" where
  "tasks_execute E sid action payload = (case action of
       POWER_START \<Rightarrow> servers_powerAction E sid PowerStart SYSTEM_ACTOR
     | POWER_STOP \<Rightarrow> servers_powerAction E sid PowerStop SYSTEM_ACTOR
     | POWER_RESTART \<Rightarrow> servers_powerAction E sid PowerRestart SYSTEM_ACTOR
     | BACKUP_CREATE \<Rightarrow>
         bnd (external (now E)) (\<lambda>t.
         andThen (backups_create E sid (''scheduled-'' @ show_int t) SYSTEM_ACTOR) (ret ()))
     | COMMAND_SEND \<Rightarrow>
         andThen (servers_sendCommand E sid (payloadCommand payload) SYSTEM_ACTOR) (ret ()))"

text \<open>The body of the loop: the outcome of the task is caught, then its times are updated,
  outside the \<open>catch\<close>.\<close>

definition tasks_runOne :: "env \<Rightarrow> scheduledTask \<Rightarrow> unit io" where
  "tasks_runOne E task =
     tryFinally
       (tryCatch (tasks_execute E (st_serverId task) (st_action task) (st_payload task))
         (\<lambda>err. ret ()))
       (bnd (external (now E)) (\<lambda>t.
        bnd (tasks_computeNextRun E (st_cronExpr task)) (\<lambda>next.
        andThen (dbUpdate t_tasks t_tasks_update (\<lambda>x. st_id x = st_id task)
            (\<lambda>x. x\<lparr>st_lastRunAt := Some t, st_nextRunAt := Some next\<rparr>))
        (ret ()))))"

definition isDue :: "time \<Rightarrow> scheduledTask \<Rightarrow> bool" where
  "isDue t task \<longleftrightarrow> st_enabled task \<and>
     (case st_nextRunAt task of None \<Rightarrow> False | Some x \<Rightarrow> x \<le> t)"

definition tasks_runDueTasks :: "env \<Rightarrow> unit io" where
  "tasks_runDueTasks E =
     bnd (external (now E)) (\<lambda>t.
     bnd (dbFindMany t_tasks (isDue t)) (\<lambda>due.
     forEach due (tasks_runOne E)))"

end
