(* ===== verification/Files.thy ===== *)
theory Files
  imports Servers Auth
begin

text \<open>
  \<^verbatim>\<open>files/files.service.ts\<close>: the files of a server, through its daemon, and
  \<^verbatim>\<open>files/sftp-auth.service.ts\<close>: the authentication of an SFTP connection.
\<close>

subsection \<open>Files\<close>

definition files_list :: "env \<Rightarrow> id \<Rightarrow> string \<Rightarrow> authUser \<Rightarrow> fileEntry list io" where
  "files_list E sid path user =
     bnd (servers_findAccessibleOrThrow sid user) (\<lambda>v.
     bnd (callServer E (grpcFiles E) v ''ListFiles'' (FileRequest (s_uuid (sv_server v)) path)) (\<lambda>res.
     ret (orElse res [])))"

definition files_read :: "env \<Rightarrow> id \<Rightarrow> string \<Rightarrow> authUser \<Rightarrow> string io" where
  "files_read E sid path user =
     bnd (servers_findAccessibleOrThrow sid user) (\<lambda>v.
     callServer E (grpcContent E) v ''ReadFile'' (FileRequest (s_uuid (sv_server v)) path))"

definition fileEntryLog :: "authUser \<Rightarrow> string \<Rightarrow> id \<Rightarrow> string \<Rightarrow> auditEntry" where
  "fileEntryLog user action sid path = (auditEntry (au_id user) action ''Server'' sid)
     \<lparr>ae_metadata := Some (JObj [(''path'', JStr path)])\<rparr>"

definition files_write :: "env \<Rightarrow> id \<Rightarrow> string \<Rightarrow> string \<Rightarrow> authUser \<Rightarrow> unit io" where
  "files_write E sid path content user =
     bnd (servers_findAccessibleOrThrow sid user) (\<lambda>v.
     andThen (callServer E (grpcAction E) v ''WriteFile''
         (WriteFileRequest (s_uuid (sv_server v)) path content))
       (audit_log E (fileEntryLog user ''file.write'' sid path)))"

definition files_delete :: "env \<Rightarrow> id \<Rightarrow> string \<Rightarrow> authUser \<Rightarrow> unit io" where
  "files_delete E sid path user =
     bnd (servers_findAccessibleOrThrow sid user) (\<lambda>v.
     andThen (callServer E (grpcAction E) v ''DeleteFile'' (FileRequest (s_uuid (sv_server v)) path))
       (audit_log E (fileEntryLog user ''file.delete'' sid path)))"

definition files_rename :: "env \<Rightarrow> id \<Rightarrow> string \<Rightarrow> string \<Rightarrow> authUser \<Rightarrow> unit io" where
  "files_rename E sid fromPath toPath user =
     bnd (servers_findAccessibleOrThrow sid user) (\<lambda>v.
     andThen (callServer E (grpcAction E) v ''RenameFile''
         (RenameFileRequest (s_uuid (sv_server v)) fromPath toPath))
       (ret ()))"

definition files_mkdir :: "env \<Rightarrow> id \<Rightarrow> string \<Rightarrow> authUser \<Rightarrow> unit io" where
  "files_mkdir E sid path user =
     bnd (servers_findAccessibleOrThrow sid user) (\<lambda>v.
     andThen (callServer E (grpcAction E) v ''CreateDirectory''
         (FileRequest (s_uuid (sv_server v)) path))
       (audit_log E (fileEntryLog user ''file.mkdir'' sid path)))"

subsection \<open>SFTP\<close>

record sftpAuthResult =
  sa_allowed :: bool
  sa_serverUuid :: "id option"
  sa_readOnly :: "bool option"

definition sftpRefused :: sftpAuthResult where
  "sftpRefused = \<lparr>sa_allowed = False, sa_serverUuid = None, sa_readOnly = None\<rparr>"

definition sftpAllowed :: "id \<Rightarrow> bool \<Rightarrow> sftpAuthResult" where
  "sftpAllowed uuid ro = \<lparr>sa_allowed = True, sa_serverUuid = Some uuid, sa_readOnly = Some ro\<rparr>"

text \<open>The decision for the one candidate; \<open>perms\<close> are the permissions of the account.\<close>

definition sftpDecision :: "db \<Rightarrow> user \<Rightarrow> string list \<Rightarrow> server \<Rightarrow> sftpAuthResult" where
  "sftpDecision d u perms s =
     (if ''*'' \<in> set perms \<or> s_ownerId s = u_id u then sftpAllowed (s_uuid s) False
      else case filter (\<lambda>x. su_userId x = u_id u) (subUsersOf d (s_id s)) of
          [] \<Rightarrow> sftpRefused
        | x # _ \<Rightarrow> if ''files.read'' \<in> set (su_permissions x)
            then sftpAllowed (s_uuid s) (''files.write'' \<notin> set (su_permissions x))
            else sftpRefused)"

definition sftp_authenticate :: "env \<Rightarrow> string \<Rightarrow> string \<Rightarrow> sftpAuthResult io" where
  "sftp_authenticate E username password =
     (case lastIndexOf (CHR ''.'') username of
        None \<Rightarrow> ret sftpRefused
      | Some separatorIndex \<Rightarrow>
          if separatorIndex = 0 then ret sftpRefused
          else let accountUsername = take separatorIndex username;
                   serverShort = drop (separatorIndex + 1) username in
            if length serverShort < 4 then ret sftpRefused
            else bnd (auth_validateLocalUserByUsername E accountUsername password) (\<lambda>r. case r of
                None \<Rightarrow> ret sftpRefused
              | Some (u, perms) \<Rightarrow>
                  bnd (dbFindMany t_servers (\<lambda>s. startsWith (s_uuid s) serverShort)) (\<lambda>candidates.
                  bnd (gets w_db) (\<lambda>d. case candidates of
                      [s] \<Rightarrow> ret (sftpDecision d u perms s)
                    | _ \<Rightarrow> ret sftpRefused))))"

end
