(* ===== verification/Operations_Properties.thy ===== *)
theory Operations_Properties
  imports Backups Files Server_Properties Identity_Properties
begin

text \<open>
  The properties of backups, scheduled tasks, files and SFTP connections.
\<close>

subsection \<open>Access\<close>

lemma guarded_content:
  "guarded backups_listForServer"
  "guarded (\<lambda>sid. backups_create E sid name)"
  "guarded (\<lambda>sid. tasks_create E sid name cronExpr action payload)"
  "guarded tasks_listForServer"
  "guarded (\<lambda>sid. files_list E sid path)"
  "guarded (\<lambda>sid. files_read E sid path)"
  "guarded (\<lambda>sid. files_write E sid path content)"
  "guarded (\<lambda>sid. files_delete E sid path)"
  "guarded (\<lambda>sid. files_rename E sid path path')"
  "guarded (\<lambda>sid. files_mkdir E sid path)"
  unfolding backups_listForServer_def backups_create_def tasks_create_def tasks_listForServer_def
    files_list_def files_read_def files_write_def files_delete_def files_rename_def files_mkdir_def
    andThen_def [of "servers_findAccessibleOrThrow _ _"]
  by (rule guarded_bnd)+

text \<open>C21: the files, the backups and the tasks of a server are out of reach of a user who cannot
  act on the server: every operation throws, without a call to the daemon and without effect.\<close>

theorem inaccessible_content_untouched:
  assumes "List.find (\<lambda>s. s_id s = sid) (t_servers (w_db w)) = Some s"
    and "serverJoins (w_db w) s" and "\<not> canAccess (w_db w) user s"
  shows "refused (backups_listForServer sid user) w \<and> refused (backups_create E sid name user) w \<and>
    refused (tasks_create E sid name cronExpr action payload user) w \<and>
    refused (tasks_listForServer sid user) w \<and> refused (files_list E sid path user) w \<and>
    refused (files_read E sid path user) w \<and> refused (files_write E sid path content user) w \<and>
    refused (files_delete E sid path user) w \<and> refused (files_rename E sid path path' user) w \<and>
    refused (files_mkdir E sid path user) w"
  by (intro conjI; rule refused_guarded [OF _ assms], rule guarded_content)

theorem inaccessible_content_untouched_witness:
  "files_read sampleEnv ''srv'' ''server.properties'' (sampleAuth ''bob'' [''files.read'']) sampleWorld =
     (Inl (ForbiddenException ''Vous n'avez pas acces a ce serveur''), sampleWorld)"
  using inaccessible_content_untouched [of "''srv''" sampleWorld sampleServer
      "sampleAuth ''bob'' [''files.read'']" sampleEnv]
  by (simp add: sample_defs serverJoins_def node_exists_def template_exists_def canAccess_def
      isServerAdmin_def has_perm_def refused_def)

subsection \<open>Backups\<close>

lemma updateBackup_apply:
  "updateBackup bid f w = (case List.find (\<lambda>b. b_id b = bid) (t_backups (w_db w)) of
       None \<Rightarrow> (Inl P2025, w)
     | Some b \<Rightarrow> (Inr (f b), w\<lparr>w_db := t_backups_update (map (\<lambda>b. if b_id b = bid then f b else b)) (w_db w)\<rparr>))"
  by (simp add: updateBackup_def prog_simps)

lemma find_backup_updated:
  "(\<And>b. b_id (f b) = b_id b) \<Longrightarrow> List.find (\<lambda>b. b_id b = i) bs = Some b \<Longrightarrow>
   List.find (\<lambda>b. b_id b = i) (map (\<lambda>b. if b_id b = i then f b else b) bs) = Some (f b)"
  using find_map_key [of b_id f i "\<lambda>b. b_id b = i" bs] by (auto dest: find_SomeD)

text \<open>The state in which the daemon is called, the failure of a job, and its end after an answer.\<close>

definition inProgress :: "id \<Rightarrow> world \<Rightarrow> world" where
  "inProgress bid w = w\<lparr>w_db := t_backups_update
     (map (\<lambda>b. if b_id b = bid then b\<lparr>b_status := BK_IN_PROGRESS\<rparr> else b)) (w_db w)\<rparr>"

lemma find_inProgress:
  "List.find (\<lambda>b. b_id b = bid) (t_backups (w_db w)) = Some b \<Longrightarrow>
   List.find (\<lambda>b. b_id b = bid) (t_backups (w_db (inProgress bid w))) = Some (b\<lparr>b_status := BK_IN_PROGRESS\<rparr>)"
  using find_backup_updated [of "\<lambda>b. b\<lparr>b_status := BK_IN_PROGRESS\<rparr>" bid "t_backups (w_db w)" b]
  by (simp add: inProgress_def)

lemma backup_fail_tail:
  assumes "List.find (\<lambda>b. b_id b = bid) (t_backups (w_db v)) = Some b"
  shows "\<exists>w' b'. andThen (updateBackup bid (\<lambda>b. b\<lparr>b_status := BK_FAILED, b_failReason := Some m\<rparr>)) (ret ()) v =
      (Inr (), w') \<and>
    List.find (\<lambda>b. b_id b = bid) (t_backups (w_db w')) = Some b' \<and> b_status b' = BK_FAILED \<and> b_failReason b' \<noteq> None"
  using find_backup_updated [of "\<lambda>b. b\<lparr>b_status := BK_FAILED, b_failReason := Some m\<rparr>" bid "t_backups (w_db v)" b]
    assms by (simp add: updateBackup_apply andThen_apply ret_apply)

lemma backup_fails:
  assumes "List.find (\<lambda>b. b_id b = bid) (t_backups (w_db w)) = Some b"
    and "nodeCall E (grpcBackup E) nid (hostPort host port) ''CreateBackup''
      (CreateBackupRequest uuid bid (fst (driverAndConfig E)) (snd (driverAndConfig E))) (inProgress bid w) = (r, w2)"
    and "\<And>res. r = Inr res \<Longrightarrow> br_size_bytes res \<noteq> [] \<and> bigInt (br_size_bytes res) = None"
  shows "\<exists>m. backups_runBackup E bid nid uuid host port w =
    andThen (updateBackup bid (\<lambda>b. b\<lparr>b_status := BK_FAILED, b_failReason := Some m\<rparr>)) (ret ()) w2"
proof (cases r)
  case (Inl e)
  then show ?thesis using assms(1,2)
    by (simp add: backups_runBackup_def andThen_apply tryCatch_apply bnd_apply ret_apply Let_def
        updateBackup_apply [of bid "\<lambda>b. b\<lparr>b_status := BK_IN_PROGRESS\<rparr>"] inProgress_def [symmetric]) blast
next
  case (Inr res)
  then have "backups_runBackup E bid nid uuid host port w =
      andThen (updateBackup bid (\<lambda>b. b\<lparr>b_status := BK_FAILED, b_failReason := Some (exn_message
        (JsError (''Cannot convert '' @ br_size_bytes res @ '' to a BigInt'')))\<rparr>)) (ret ()) w2"
    using assms by (simp add: backups_runBackup_def andThen_apply tryCatch_apply bnd_apply ret_apply
        throw_apply Let_def updateBackup_apply [of bid "\<lambda>b. b\<lparr>b_status := BK_IN_PROGRESS\<rparr>"]
        inProgress_def [symmetric] del: append_Cons append_assoc exn_message.simps)
  then show ?thesis by blast
qed

lemma backup_answered:
  assumes "List.find (\<lambda>b. b_id b = bid) (t_backups (w_db w)) = Some b"
    and "nodeCall E (grpcBackup E) nid (hostPort host port) ''CreateBackup''
      (CreateBackupRequest uuid bid (fst (driverAndConfig E)) (snd (driverAndConfig E))) (inProgress bid w) = (Inr res, w2)"
    and "br_size_bytes res = [] \<and> sz = None \<or> br_size_bytes res \<noteq> [] \<and> map_option Some (bigInt (br_size_bytes res)) = Some sz"
  shows "\<exists>w' b'. backups_runBackup E bid nid uuid host port w = (Inr (), w') \<and>
    List.find (\<lambda>b. b_id b = bid) (t_backups (w_db w')) = Some b' \<and>
    (if br_success res then b_status b' = BK_COMPLETED \<and> b_completedAt b' \<noteq> None
     else b_status b' = BK_FAILED \<and> b_failReason b' \<noteq> None)"
proof -
  let ?f = "\<lambda>b. b\<lparr>b_status := (if br_success res then BK_COMPLETED else BK_FAILED),
        b_failReason := (if br_success res then b_failReason b else Some (br_message res)),
        b_sizeBytes := (case sz of None \<Rightarrow> b_sizeBytes b | Some i \<Rightarrow> Some i),
        b_checksum := Some (br_checksum res),
        b_remotePath := (if fst (driverAndConfig E) \<noteq> ''LOCAL'' then Some (uuid @ ''/'' @ bid @ ''.tar.gz'')
                         else b_remotePath b),
        b_completedAt := Some (now E (w_tick w2))\<rparr>"
  let ?w3 = "w2\<lparr>w_tick := Suc (w_tick w2),
      w_db := t_backups_update (map (\<lambda>b. if b_id b = bid then ?f b else b)) (w_db w2)\<rparr>"
  have b2: "List.find (\<lambda>b. b_id b = bid) (t_backups (w_db w2)) = Some (b\<lparr>b_status := BK_IN_PROGRESS\<rparr>)"
    using find_inProgress [OF assms(1)] nodeCall_db [OF assms(2)] by simp
  have read: "(if br_size_bytes res = [] then ret None else case bigInt (br_size_bytes res) of
      None \<Rightarrow> throw (JsError (''Cannot convert '' @ br_size_bytes res @ '' to a BigInt''))
    | Some i \<Rightarrow> ret (Some i)) = (ret sz :: int option io)"
    using assms(3) by auto
  have "backups_runBackup E bid nid uuid host port w = (Inr (), ?w3)"
    using assms(1,2) b2 read
    by (simp add: backups_runBackup_def andThen_apply tryCatch_apply bnd_apply ret_apply Let_def
        external_apply updateBackup_apply inProgress_def [symmetric] del: append_Cons append_assoc)
  moreover have "List.find (\<lambda>b. b_id b = bid) (t_backups (w_db ?w3)) = Some (?f (b\<lparr>b_status := BK_IN_PROGRESS\<rparr>))"
    using find_backup_updated [of ?f bid "t_backups (w_db w2)"] b2 by simp
  ultimately show ?thesis
    by (intro exI [where x = ?w3] exI [where x = "?f (b\<lparr>b_status := BK_IN_PROGRESS\<rparr>)"]) auto
qed

text \<open>C18: the job of a backup always ends, with the backup completed when the daemon answered
  with success and a readable size, and otherwise failed with a reason; it never stays pending
  or in progress.\<close>

theorem backup_job_settles:
  assumes "List.find (\<lambda>b. b_id b = bid) (t_backups (w_db w)) = Some b"
  shows "\<exists>w' b'. backups_runBackup E bid nid uuid host port w = (Inr (), w') \<and>
    List.find (\<lambda>b. b_id b = bid) (t_backups (w_db w')) = Some b' \<and>
    (b_status b' = BK_COMPLETED \<and> b_completedAt b' \<noteq> None \<and>
       (\<exists>k c res. gc_request c = CreateBackupRequest uuid bid (fst (driverAndConfig E)) (snd (driverAndConfig E)) \<and>
          gc_node c = nid \<and> grpcBackup E k c = Inr res \<and> br_success res) \<or>
     b_status b' = BK_FAILED \<and> b_failReason b' \<noteq> None)"
proof -
  let ?req = "CreateBackupRequest uuid bid (fst (driverAndConfig E)) (snd (driverAndConfig E))"
  obtain r w2 where call: "nodeCall E (grpcBackup E) nid (hostPort host port) ''CreateBackup'' ?req (inProgress bid w) = (r, w2)"
    by fastforce
  have b2: "List.find (\<lambda>b. b_id b = bid) (t_backups (w_db w2)) = Some (b\<lparr>b_status := BK_IN_PROGRESS\<rparr>)"
    using find_inProgress [OF assms] nodeCall_db [OF call] by simp
  show ?thesis
  proof (cases "\<exists>res sz. r = Inr res \<and> (br_size_bytes res = [] \<and> sz = None \<or>
      br_size_bytes res \<noteq> [] \<and> map_option Some (bigInt (br_size_bytes res)) = Some sz)")
    case True
    then obtain res sz where r: "r = Inr res" and known: "br_size_bytes res = [] \<and> sz = None \<or>
      br_size_bytes res \<noteq> [] \<and> map_option Some (bigInt (br_size_bytes res)) = Some sz" by blast
    have "\<exists>k c. gc_request c = ?req \<and> gc_node c = nid \<and> grpcBackup E k c = Inr res"
      using nodeCall_Inr [OF call [unfolded r]] by blast
    then show ?thesis using backup_answered [OF assms call [unfolded r] known] by (fastforce split: if_splits)
  next
    case False
    then have "r = Inr res \<Longrightarrow> br_size_bytes res \<noteq> [] \<and> bigInt (br_size_bytes res) = None" for res
      by (cases "bigInt (br_size_bytes res)") auto
    then obtain m where "backups_runBackup E bid nid uuid host port w =
        andThen (updateBackup bid (\<lambda>b. b\<lparr>b_status := BK_FAILED, b_failReason := Some m\<rparr>)) (ret ()) w2"
      using backup_fails [OF assms call] by blast
    then show ?thesis using backup_fail_tail [OF b2, of m] by (metis (no_types, lifting))
  qed
qed

definition sampleBackups :: world where
  "sampleBackups = sampleWorld\<lparr>w_db := sampleDb\<lparr>t_backups := [\<lparr>b_id = ''b1'', b_serverId = ''srv'',
     b_name = ''nightly'', b_driver = LOCAL, b_status = BK_PENDING, b_sizeBytes = None,
     b_checksum = None, b_remotePath = None, b_failReason = None, b_createdAt = 0,
     b_completedAt = None\<rparr>]\<rparr>\<rparr>"

theorem backup_job_settles_witness:
  "\<exists>w' b'. backups_runBackup sampleEnv ''b1'' ''node'' ''uuid'' ''10.0.0.1'' 9501 sampleBackups = (Inr (), w') \<and>
     List.find (\<lambda>b. b_id b = ''b1'') (t_backups (w_db w')) = Some b' \<and> b_status b' \<in> {BK_COMPLETED, BK_FAILED}"
proof -
  have "\<exists>b. List.find (\<lambda>b. b_id b = ''b1'') (t_backups (w_db sampleBackups)) = Some b"
    by (simp add: sampleBackups_def)
  then show ?thesis using backup_job_settles [of "''b1''" sampleBackups] by blast
qed


lemma map_twice:
  "(\<And>x. key (f x) = key x) \<Longrightarrow>
   map (\<lambda>x. if key x = i then g x else x) (map (\<lambda>x. if key x = i then f x else x) xs) =
   map (\<lambda>x. if key x = i then g (f x) else x) xs"
  by (induction xs) auto







definition failingEnv :: env where
  "failingEnv = sampleEnv\<lparr>grpcAction := (\<lambda>n c. Inl ''UNAVAILABLE'')\<rparr>"

lemma sampleRestore_fails:
  "fst (backups_restore failingEnv ''b1'' (sampleAuth ''alice'' []) sampleBackups) = Inl (JsError ''UNAVAILABLE'') \<and>
   map b_status (t_backups (w_db (snd (backups_restore failingEnv ''b1'' (sampleAuth ''alice'' []) sampleBackups)))) =
     [BK_RESTORING]"
  by code_simp


subsection \<open>Scheduled tasks\<close>

lemma tasks_frames:
  "frame (\<lambda>d. t_tasks d = T) t_servers_update" "frame (\<lambda>d. t_tasks d = T) t_backups_update"
  "frame (\<lambda>d. t_tasks d = T) t_auditLogs_update"
  by (auto simp: frame_def)

lemma execute_keeps_tasks: "keepsDb (\<lambda>d. t_tasks d = T) (tasks_execute E sid action payload)"
  unfolding tasks_execute_def servers_powerAction_def servers_sendCommand_def backups_create_def
    setServerStatus_def callServer_def
  by (cases action) (auto intro!: keepsDb_intros server_writes tasks_frames)

text \<open>A task whose times were updated after a run.\<close>

definition rescheduledBy :: "env \<Rightarrow> scheduledTask set \<Rightarrow> scheduledTask \<Rightarrow> scheduledTask \<Rightarrow> bool" where
  "rescheduledBy E due x y \<longleftrightarrow>
     (if st_id x \<in> st_id ` due
      then \<exists>t next k. y = x\<lparr>st_lastRunAt := Some t, st_nextRunAt := Some next\<rparr> \<and>
        (\<exists>task \<in> due. st_id task = st_id x \<and> cronNext E k (st_cronExpr task) = Inr next)
      else y = x)"

text \<open>What the action of a task is, whatever comes of it: the operation of that name on the server of
  the task, for the system.\<close>

definition performed :: "env \<Rightarrow> scheduledTask \<Rightarrow> world \<Rightarrow> world \<Rightarrow> bool" where
  "performed E task w w' \<longleftrightarrow> (let sid = st_serverId task in case st_action task of
       POWER_START \<Rightarrow> w' = snd (servers_powerAction E sid PowerStart SYSTEM_ACTOR w)
     | POWER_STOP \<Rightarrow> w' = snd (servers_powerAction E sid PowerStop SYSTEM_ACTOR w)
     | POWER_RESTART \<Rightarrow> w' = snd (servers_powerAction E sid PowerRestart SYSTEM_ACTOR w)
     | BACKUP_CREATE \<Rightarrow> w' = snd (backups_create E sid (''scheduled-'' @ show_int (now E (w_tick w))) SYSTEM_ACTOR
         (w\<lparr>w_tick := Suc (w_tick w)\<rparr>))
     | COMMAND_SEND \<Rightarrow> w' = snd (servers_sendCommand E sid
         (case st_payload task of None \<Rightarrow> [] | Some m \<Rightarrow> orElse (map_of m ''command'') []) SYSTEM_ACTOR w))"

text \<open>A run over the tasks that are due, in their order: each is performed, then its row gets the time
  and the next time of its cron expression.\<close>

inductive schedulerRun :: "env \<Rightarrow> scheduledTask list \<Rightarrow> world \<Rightarrow> world \<Rightarrow> bool" for E where
  Over: "schedulerRun E [] w w"
| Next: "performed E task w w1 \<Longrightarrow> cronNext E (Suc (w_tick w1)) (st_cronExpr task) = Inr next \<Longrightarrow>
    schedulerRun E due (w1\<lparr>w_tick := Suc (Suc (w_tick w1)), w_db := t_tasks_update (map (\<lambda>x.
        if st_id x = st_id task then x\<lparr>st_lastRunAt := Some (now E (w_tick w1)), st_nextRunAt := Some next\<rparr>
        else x)) (w_db w1)\<rparr>) w' \<Longrightarrow>
    schedulerRun E (task # due) w w'"

lemma execute_performed:
  "tasks_execute E (st_serverId task) (st_action task) (st_payload task) w = (r, w') \<Longrightarrow> performed E task w w'"
  by (cases "st_action task")
     (auto simp: performed_def tasks_execute_def payloadCommand_def Let_def bnd_apply andThen_apply external_apply
      ret_apply split: prod.splits sum.splits)

lemma runOne_updates:
  assumes "\<And>k. \<exists>t. cronNext E k (st_cronExpr task) = Inr t"
    and "st_id task \<in> st_id ` set (t_tasks (w_db w))"
  shows "\<exists>w1 next w'. tasks_runOne E task w = (Inr (), w') \<and> performed E task w w1 \<and>
    cronNext E (Suc (w_tick w1)) (st_cronExpr task) = Inr next \<and>
    w' = w1\<lparr>w_tick := Suc (Suc (w_tick w1)), w_db := t_tasks_update (map (\<lambda>x.
      if st_id x = st_id task then x\<lparr>st_lastRunAt := Some (now E (w_tick w1)), st_nextRunAt := Some next\<rparr>
      else x)) (w_db w1)\<rparr> \<and>
    list_all2 (rescheduledBy E {task}) (t_tasks (w_db w)) (t_tasks (w_db w'))"
proof -
  obtain r w1 where ex: "tasks_execute E (st_serverId task) (st_action task) (st_payload task) w = (r, w1)"
    by fastforce
  have t1: "t_tasks (w_db w1) = t_tasks (w_db w)" using keepsDbD [OF execute_keeps_tasks _ ex] by blast
  have caught: "tryCatch (tasks_execute E (st_serverId task) (st_action task) (st_payload task))
      (\<lambda>err. ret ()) w = (Inr (), w1)"
    using ex by (cases r) (simp_all add: tryCatch_apply ret_apply)
  obtain nx where nx: "cronNext E (Suc (w_tick w1)) (st_cronExpr task) = Inr nx"
    using assms(1) by blast
  let ?f = "\<lambda>x. x\<lparr>st_lastRunAt := Some (now E (w_tick w1)), st_nextRunAt := Some nx\<rparr>"
  let ?w = "w1\<lparr>w_tick := Suc (Suc (w_tick w1)),
    w_db := t_tasks_update (map (\<lambda>x. if st_id x = st_id task then ?f x else x)) (w_db w1)\<rparr>"
  obtain x where "List.find (\<lambda>x. st_id x = st_id task) (t_tasks (w_db w)) = Some x"
    using assms(2) find_Some_ex [of _ "t_tasks (w_db w)" "\<lambda>x. st_id x = st_id task"] by (metis imageE)
  then have run: "tasks_runOne E task w = (Inr (), ?w)"
    using caught t1 nx
    by (simp add: tasks_runOne_def tryFinally_apply bnd_apply andThen_apply ret_apply external_apply
        externalCall_apply tasks_computeNextRun_def dbUpdate_apply)
  have "list_all2 (rescheduledBy E {task}) ts
      (map (\<lambda>x. if st_id x = st_id task then ?f x else x) ts)" for ts
    using nx by (induction ts) (auto simp: rescheduledBy_def)
  then show ?thesis using run execute_performed [OF ex] nx t1
    by (intro exI [where x = w1] exI [where x = nx] exI [where x = ?w]) simp
qed

lemma rescheduledBy_trans:
  assumes "rescheduledBy E {task} x y" and "rescheduledBy E due y z"
  shows "rescheduledBy E (insert task due) x z"
proof -
  have "st_id y = st_id x" using assms(1) by (auto simp: rescheduledBy_def split: if_splits)
  then show ?thesis using assms
    by (auto simp: rescheduledBy_def split: if_splits)
qed

lemma map_key_all2: "list_all2 (\<lambda>x y. st_id y = st_id x) xs ys \<Longrightarrow> map st_id ys = map st_id xs"
  by (induction rule: list_all2_induct) auto

lemma runAll_updates:
  assumes "\<And>task k. task \<in> set due \<Longrightarrow> \<exists>t. cronNext E k (st_cronExpr task) = Inr t"
    and "st_id ` set due \<subseteq> st_id ` set (t_tasks (w_db w))"
  shows "\<exists>w'. forEach due (tasks_runOne E) w = (Inr (), w') \<and> schedulerRun E due w w' \<and>
    list_all2 (rescheduledBy E (set due)) (t_tasks (w_db w)) (t_tasks (w_db w'))"
  using assms
proof (induction due arbitrary: w)
  case Nil
  then show ?case by (simp add: ret_apply rescheduledBy_def list_all2_refl schedulerRun.Over)
next
  case (Cons task due)
  obtain w0 nx w1 where w1: "tasks_runOne E task w = (Inr (), w1)"
    and p: "performed E task w w0" "cronNext E (Suc (w_tick w0)) (st_cronExpr task) = Inr nx"
    and u: "w1 = w0\<lparr>w_tick := Suc (Suc (w_tick w0)), w_db := t_tasks_update (map (\<lambda>x.
      if st_id x = st_id task then x\<lparr>st_lastRunAt := Some (now E (w_tick w0)), st_nextRunAt := Some nx\<rparr>
      else x)) (w_db w0)\<rparr>"
    and l1: "list_all2 (rescheduledBy E {task}) (t_tasks (w_db w)) (t_tasks (w_db w1))"
    using runOne_updates [of E task w] Cons.prems by auto
  have "rescheduledBy E {task} x y \<Longrightarrow> st_id y = st_id x" for x y
    by (auto simp: rescheduledBy_def split: if_splits)
  then have "map st_id (t_tasks (w_db w1)) = map st_id (t_tasks (w_db w))"
    using map_key_all2 [OF list_all2_mono [OF l1]] by blast
  then have "st_id ` set (t_tasks (w_db w1)) = st_id ` set (t_tasks (w_db w))" by (metis set_map)
  then obtain w2 where w2: "forEach due (tasks_runOne E) w1 = (Inr (), w2)" "schedulerRun E due w1 w2"
    and l2: "list_all2 (rescheduledBy E (set due)) (t_tasks (w_db w1)) (t_tasks (w_db w2))"
    using Cons.IH [of w1] Cons.prems by auto
  have "list_all2 (rescheduledBy E (set (task # due))) (t_tasks (w_db w)) (t_tasks (w_db w2))"
    by (rule list_all2_trans [OF _ l1 l2]) (simp add: rescheduledBy_trans)
  moreover have "schedulerRun E (task # due) w w2"
    by (rule schedulerRun.Next [OF p w2(2) [unfolded u]])
  ultimately show ?case using w1 w2(1) by (simp add: andThen_apply)
qed

text \<open>C25: a run of the scheduler performs the action of every task that is due, one after the other:
  a task that fails does not stop the others, each is given its next time from its cron
  expression, and the tasks that are not due keep theirs.\<close>

theorem scheduler_runs_every_due_task:
  assumes "\<forall>task \<in> set (t_tasks (w_db w)). \<forall>k. \<exists>t. cronNext E k (st_cronExpr task) = Inr t"
  shows "\<exists>w'. tasks_runDueTasks E w = (Inr (), w') \<and>
    schedulerRun E (filter (\<lambda>task. st_enabled task \<and> (\<exists>x \<le> now E (w_tick w). st_nextRunAt task = Some x))
      (t_tasks (w_db w))) (w\<lparr>w_tick := Suc (w_tick w)\<rparr>) w' \<and>
    list_all2 (rescheduledBy E {task \<in> set (t_tasks (w_db w)). isDue (now E (w_tick w)) task})
      (t_tasks (w_db w)) (t_tasks (w_db w'))"
proof -
  let ?due = "filter (isDue (now E (w_tick w))) (t_tasks (w_db w))"
  let ?w = "w\<lparr>w_tick := Suc (w_tick w)\<rparr>"
  obtain w' where "forEach ?due (tasks_runOne E) ?w = (Inr (), w')" "schedulerRun E ?due ?w w'"
    and "list_all2 (rescheduledBy E (set ?due)) (t_tasks (w_db ?w)) (t_tasks (w_db w'))"
    using runAll_updates [of ?due E ?w] assms by auto
  moreover have "(\<lambda>task. st_enabled task \<and> (\<exists>x \<le> now E (w_tick w). st_nextRunAt task = Some x)) =
      isDue (now E (w_tick w))"
    by (rule ext) (auto simp: isDue_def split: option.splits)
  ultimately show ?thesis
    by (intro exI [where x = w']) (simp add: tasks_runDueTasks_def bnd_apply external_apply dbFindMany_apply)
qed

definition sampleTask :: "id \<Rightarrow> id \<Rightarrow> scheduledTask" where
  "sampleTask i sid = \<lparr>st_id = i, st_serverId = sid, st_name = i, st_cronExpr = ''* * * * *'',
     st_action = POWER_START, st_payload = None, st_enabled = True, st_lastRunAt = None,
     st_nextRunAt = Some 900, st_createdAt = 0\<rparr>"

text \<open>The first task is of a server that does not exist: it throws.\<close>

definition sampleTasks :: world where
  "sampleTasks = sampleWorld\<lparr>w_db := sampleDb\<lparr>t_tasks := [sampleTask ''k1'' ''gone'', sampleTask ''k2'' ''srv'']\<rparr>\<rparr>"

lemma sampleTasks_calls: "map gc_method (w_calls (snd (tasks_runDueTasks sampleEnv sampleTasks))) = [''StartServer'']"
  by code_simp

theorem scheduler_runs_every_due_task_witness:
  "\<exists>w' x y. tasks_runDueTasks sampleEnv sampleTasks = (Inr (), w') \<and> t_tasks (w_db w') = [x, y] \<and>
     st_lastRunAt x \<noteq> None \<and> st_lastRunAt y \<noteq> None \<and> map gc_method (w_calls w') = [''StartServer'']"
proof -
  have "\<forall>task \<in> set (t_tasks (w_db sampleTasks)). \<forall>k. \<exists>t. cronNext sampleEnv k (st_cronExpr task) = Inr t"
    by (simp add: sampleTasks_def sampleTask_def sampleEnv_def)
  from scheduler_runs_every_due_task [OF this]
  obtain w' where run: "tasks_runDueTasks sampleEnv sampleTasks = (Inr (), w')"
    and l: "list_all2 (rescheduledBy sampleEnv {task \<in> set (t_tasks (w_db sampleTasks)).
        isDue (now sampleEnv (w_tick sampleTasks)) task}) (t_tasks (w_db sampleTasks)) (t_tasks (w_db w'))"
    by blast
  have ts: "t_tasks (w_db sampleTasks) = [sampleTask ''k1'' ''gone'', sampleTask ''k2'' ''srv'']"
    by (simp add: sampleTasks_def)
  have due: "isDue (now sampleEnv (w_tick sampleTasks)) (sampleTask i sid)" for i sid
    by (simp add: isDue_def sampleTask_def sampleTasks_def sample_defs)
  have id: "st_id (sampleTask i sid) = i" for i sid by (simp add: sampleTask_def)
  have "{task \<in> set [sampleTask ''k1'' ''gone'', sampleTask ''k2'' ''srv'']. isDue (now sampleEnv
      (w_tick sampleTasks)) task} = {sampleTask ''k1'' ''gone'', sampleTask ''k2'' ''srv''}"
    using due by auto
  from l [unfolded ts this] show ?thesis using run sampleTasks_calls
    by (auto simp: list_all2_Cons1 rescheduledBy_def id)
qed

subsection \<open>SFTP\<close>

text \<open>What an SFTP login gives: the account of the name and password, active; the only server
  whose uuid starts with the given prefix of at least four characters; and writing for the
  administrator, the owner and the sub-users that have both permissions.\<close>

definition sftpGrant :: "env \<Rightarrow> db \<Rightarrow> string \<Rightarrow> string \<Rightarrow> user \<Rightarrow> server \<Rightarrow> bool \<Rightarrow> bool" where
  "sftpGrant E d username password u s ro \<longleftrightarrow>
     (\<exists>short. username = u_username u @ ''.'' @ short \<and> CHR ''.'' \<notin> set short \<and> 4 \<le> length short \<and>
        filter (\<lambda>s. prefix short (s_uuid s)) (t_servers d) = [s]) \<and>
     u \<in> set (t_users d) \<and> u_status u = ACTIVE \<and>
     (\<exists>h. u_passwordHash u = Some h \<and> h \<noteq> [] \<and> bcryptCompare E password h) \<and>
     (if ''*'' \<in> set (currentPermissions d u) \<or> s_ownerId s = u_id u then \<not> ro
      else \<exists>x \<in> set (t_subUsers d). su_serverId x = s_id s \<and> su_userId x = u_id u \<and>
        ''files.read'' \<in> set (su_permissions x) \<and> ro = (''files.write'' \<notin> set (su_permissions x)))"

lemma sftpDecision_allowed:
  assumes "sa_allowed (sftpDecision d u perms s)"
  shows "sftpDecision d u perms s = sftpAllowed (s_uuid s) (orElse (sa_readOnly (sftpDecision d u perms s)) False)"
    and "if ''*'' \<in> set perms \<or> s_ownerId s = u_id u
      then \<not> orElse (sa_readOnly (sftpDecision d u perms s)) False
      else \<exists>x \<in> set (t_subUsers d). su_serverId x = s_id s \<and> su_userId x = u_id u \<and>
        ''files.read'' \<in> set (su_permissions x) \<and>
        orElse (sa_readOnly (sftpDecision d u perms s)) False = (''files.write'' \<notin> set (su_permissions x))"
proof -
  have sub: "filter (\<lambda>x. su_userId x = u_id u) (subUsersOf d (s_id s)) = x # xs \<Longrightarrow>
      x \<in> set (t_subUsers d) \<and> su_serverId x = s_id s \<and> su_userId x = u_id u" for x xs
  proof -
    assume "filter (\<lambda>x. su_userId x = u_id u) (subUsersOf d (s_id s)) = x # xs"
    then have "x \<in> set (filter (\<lambda>x. su_userId x = u_id u) (subUsersOf d (s_id s)))" by simp
    then show ?thesis by (simp add: subUsersOf_def)
  qed
  show "sftpDecision d u perms s = sftpAllowed (s_uuid s) (orElse (sa_readOnly (sftpDecision d u perms s)) False)"
    using assms by (auto simp: sftpDecision_def sftpAllowed_def sftpRefused_def split: list.splits if_splits)
  show "if ''*'' \<in> set perms \<or> s_ownerId s = u_id u
      then \<not> orElse (sa_readOnly (sftpDecision d u perms s)) False
      else \<exists>x \<in> set (t_subUsers d). su_serverId x = s_id s \<and> su_userId x = u_id u \<and>
        ''files.read'' \<in> set (su_permissions x) \<and>
        orElse (sa_readOnly (sftpDecision d u perms s)) False = (''files.write'' \<notin> set (su_permissions x))"
    using assms by (auto simp: sftpDecision_def sftpAllowed_def sftpRefused_def
        split: list.splits if_splits dest: sub)
qed

lemma sftp_authenticate_allowed:
  assumes "sftp_authenticate E username password w = (Inr res, w')" and "sa_allowed res"
  obtains i u s perms where "lastIndexOf (CHR ''.'') username = Some i" and "4 \<le> length (drop (i + 1) username)"
    and "auth_validateLocalUserByUsername E (take i username) password w = (Inr (Some (u, perms)), w)"
    and "filter (\<lambda>s. prefix (drop (i + 1) username) (s_uuid s)) (t_servers (w_db w)) = [s]"
    and "res = sftpDecision (w_db w) u perms s" and "w' = w"
proof -
  have no: "\<not> sa_allowed sftpRefused" by (simp add: sftpRefused_def)
  obtain i where i: "lastIndexOf (CHR ''.'') username = Some i" "i \<noteq> 0"
    using assms no by (auto simp: sftp_authenticate_def ret_apply split: option.splits if_splits)
  have len: "\<not> length (drop (i + 1) username) < 4"
    using assms no i by (auto simp: sftp_authenticate_def ret_apply Let_def split: if_splits)
  obtain r where v: "auth_validateLocalUserByUsername E (take i username) password w = (Inr r, w)"
    by (cases "auth_validateLocalUserByUsername E (take i username) password w")
       (auto simp: auth_validateLocalUserByUsername_def prog_simps split: option.splits if_splits)
  let ?cs = "filter (\<lambda>s. prefix (drop (i + 1) username) (s_uuid s)) (t_servers (w_db w))"
  have run: "sftp_authenticate E username password w = (case r of None \<Rightarrow> (Inr sftpRefused, w)
      | Some (u, perms) \<Rightarrow> (case ?cs of [s] \<Rightarrow> (Inr (sftpDecision (w_db w) u perms s), w)
          | _ \<Rightarrow> (Inr sftpRefused, w)))"
    using v i len by (simp add: sftp_authenticate_def bnd_apply ret_apply Let_def dbFindMany_apply
        gets_apply split: option.split list.split)
  obtain u perms where r: "r = Some (u, perms)" using run assms no by (cases r) auto
  obtain s where "?cs = [s]" and "res = sftpDecision (w_db w) u perms s" and "w' = w"
    using run r assms no by (cases ?cs; cases "tl ?cs") auto
  then show ?thesis using that i(1) len v r by simp
qed

text \<open>C31: an SFTP login is accepted only for such a grant, and the answer names the server and
  says whether it is read-only.\<close>

theorem sftp_login_needs_grant:
  assumes "sftp_authenticate E username password w = (Inr res, w')" and "sa_allowed res"
  shows "w' = w \<and> (\<exists>u s ro. sftpGrant E (w_db w) username password u s ro \<and> res = sftpAllowed (s_uuid s) ro)"
proof -
  obtain i u s perms where i: "lastIndexOf (CHR ''.'') username = Some i" and len: "4 \<le> length (drop (i + 1) username)"
    and val: "auth_validateLocalUserByUsername E (take i username) password w = (Inr (Some (u, perms)), w)"
    and one: "filter (\<lambda>s. prefix (drop (i + 1) username) (s_uuid s)) (t_servers (w_db w)) = [s]"
    and res: "res = sftpDecision (w_db w) u perms s" and w': "w' = w"
    using sftp_authenticate_allowed [OF assms] .
  have u: "u \<in> set (t_users (w_db w))" "u_username u = take i username" "u_status u = ACTIVE"
    "perms = currentPermissions (w_db w) u"
    "\<exists>h. u_passwordHash u = Some h \<and> h \<noteq> [] \<and> bcryptCompare E password h"
    using val by (auto simp: auth_validateLocalUserByUsername_def run_Inr truthy_def
        split: option.splits dest: find_SomeD)
  have name: "username = u_username u @ ''.'' @ drop (i + 1) username" "CHR ''.'' \<notin> set (drop (i + 1) username)"
    using lastIndexOf_Some [OF i] u(2) by auto
  note allowed = sftpDecision_allowed [OF assms(2) [unfolded res]]
  have "sftpGrant E (w_db w) username password u s (orElse (sa_readOnly res) False)"
    unfolding sftpGrant_def
  proof (intro conjI)
    show "\<exists>short. username = u_username u @ ''.'' @ short \<and> CHR ''.'' \<notin> set short \<and> 4 \<le> length short \<and>
        filter (\<lambda>s. prefix short (s_uuid s)) (t_servers (w_db w)) = [s]"
      using name one len by (intro exI [where x = "drop (i + 1) username"]) simp
    show "if ''*'' \<in> set (currentPermissions (w_db w) u) \<or> s_ownerId s = u_id u
      then \<not> orElse (sa_readOnly res) False
      else \<exists>x \<in> set (t_subUsers (w_db w)). su_serverId x = s_id s \<and> su_userId x = u_id u \<and>
        ''files.read'' \<in> set (su_permissions x) \<and>
        orElse (sa_readOnly res) False = (''files.write'' \<notin> set (su_permissions x))"
      using allowed(2) unfolding res u(4) .
  qed (use u in simp_all)
  then show ?thesis using w' allowed(1) res by metis
qed

theorem sftp_login_needs_grant_witness:
  "\<exists>u s ro. sftpGrant sampleEnv sampleDb ''alice.uuid'' ''alice'' u s ro \<and> s_uuid s = ''uuid''"
proof -
  have "case sftp_authenticate sampleEnv ''alice.uuid'' ''alice'' sampleWorld of
      (Inr res, w) \<Rightarrow> sa_allowed res \<and> sa_serverUuid res = Some ''uuid'' | _ \<Rightarrow> False" by code_simp
  then obtain res w' where run: "sftp_authenticate sampleEnv ''alice.uuid'' ''alice'' sampleWorld = (Inr res, w')"
    and ok: "sa_allowed res" "sa_serverUuid res = Some ''uuid''"
    by (auto split: prod.splits sum.splits)
  then show ?thesis using sftp_login_needs_grant [OF run ok(1)]
    by (fastforce simp: sampleWorld_def sftpAllowed_def)
qed

end
