(* ===== verification/Marketplace.thy ===== *)
theory Marketplace
  imports Access "HOL-Library.List_Lexorder" "HOL-Library.Char_ord"
begin

text \<open>
  \<^verbatim>\<open>marketplace/marketplace.service.ts\<close> and \<^verbatim>\<open>templates/templates.service.ts\<close>: the items and
  the server templates administrators publish. The body of a publication is passed to the
  database as it is, so every column of the table can be given. A value the database client
  refuses (an unknown enumeration name, a missing column) is a validation error.
\<close>

abbreviation ValidationError :: exn where "ValidationError \<equiv> PrismaError ''validation''"

subsection \<open>Items\<close>

definition itemTypeOf :: "string \<Rightarrow> MarketplaceItemType option" where
  "itemTypeOf s = map_of [(''PLUGIN'', PLUGIN), (''THEME'', THEME), (''TEMPLATE'', TEMPLATE),
     (''DOCKER_IMAGE'', DOCKER_IMAGE), (''EXTENSION'', EXTENSION)] s"

definition marketplace_list :: "string option \<Rightarrow> marketplaceItem list io" where
  "marketplace_list type =
     (if \<not> truthy type
      then bnd (dbFindMany t_items (\<lambda>_. True)) (\<lambda>xs. ret (orderDesc mi_downloads xs))
      else case itemTypeOf (orElse type []) of
          None \<Rightarrow> throw ValidationError
        | Some t \<Rightarrow> bnd (dbFindMany t_items (\<lambda>x. mi_type x = t)) (\<lambda>xs.
            ret (orderDesc mi_downloads xs)))"

definition marketplace_get :: "string \<Rightarrow> marketplaceItem io" where
  "marketplace_get slug = dbFindOrThrow t_items (\<lambda>x. mi_slug x = slug)"

record publishBody =
  pb_id :: "id option"
  pb_type :: "string option"
  pb_name :: "string option"
  pb_slug :: "string option"
  pb_description :: "string option"
  pb_authorName :: "string option"
  pb_priceCents :: "int option"
  pb_version :: "string option"
  pb_downloadUrl :: "string option"
  pb_repoUrl :: "string option"
  pb_verified :: "bool option"
  pb_downloads :: "int option"

text \<open>The row of a body; \<open>None\<close> where a column without a default is missing.\<close>

definition newItem :: "id \<Rightarrow> publishBody \<Rightarrow> marketplaceItem option" where
  "newItem i b = (case (Option.bind (pb_type b) itemTypeOf, pb_name b, pb_slug b, pb_authorName b,
       pb_version b) of
     (Some t, Some name, Some slug, Some author, Some version) \<Rightarrow>
       if int4 (orElse (pb_priceCents b) 0) \<and> int4 (orElse (pb_downloads b) 0)
       then Some \<lparr>mi_id = orElse (pb_id b) i, mi_type = t, mi_name = name, mi_slug = slug,
         mi_description = pb_description b, mi_authorName = author,
         mi_priceCents = orElse (pb_priceCents b) 0, mi_version = version,
         mi_downloadUrl = pb_downloadUrl b, mi_repoUrl = pb_repoUrl b,
         mi_verified = orElse (pb_verified b) False, mi_downloads = orElse (pb_downloads b) 0\<rparr>
       else None
   | _ \<Rightarrow> None)"

text \<open>The audit entry of a publication is not awaited.\<close>

definition marketplace_publish :: "env \<Rightarrow> publishBody \<Rightarrow> id \<Rightarrow> marketplaceItem io" where
  "marketplace_publish E body actorId =
     bnd (external (newUuid E)) (\<lambda>i.
     case newItem i body of
       None \<Rightarrow> throw ValidationError
     | Some row \<Rightarrow>
         bnd (dbCreate t_items t_items_update item_conflict no_fk row) (\<lambda>item.
         andThen (detach (audit_log E (auditEntry actorId ''marketplace.publish''
             ''MarketplaceItem'' (mi_id item))))
         (ret item)))"

definition marketplace_incrementDownloads :: "string \<Rightarrow> marketplaceItem io" where
  "marketplace_incrementDownloads slug =
     bnd (dbFindOrThrow t_items (\<lambda>x. mi_slug x = slug)) (\<lambda>x.
     andThen (throwIf (\<not> int4 (mi_downloads x + 1)) OutOfRange)
     (dbUpdate t_items t_items_update (\<lambda>x. mi_slug x = slug)
        (\<lambda>x. x\<lparr>mi_downloads := mi_downloads x + 1\<rparr>)))"

definition marketplace_verify :: "env \<Rightarrow> id \<Rightarrow> id \<Rightarrow> marketplaceItem io" where
  "marketplace_verify E i actorId =
     bnd (dbUpdate t_items t_items_update (\<lambda>x. mi_id x = i) (\<lambda>x. x\<lparr>mi_verified := True\<rparr>)) (\<lambda>item.
     andThen (audit_log E (auditEntry actorId ''marketplace.verify'' ''MarketplaceItem'' i))
     (ret item))"

subsection \<open>Templates\<close>

definition gameTypeOf :: "string \<Rightarrow> GameType option" where
  "gameTypeOf s = map_of [(''MINECRAFT_JAVA'', MINECRAFT_JAVA),
     (''MINECRAFT_BEDROCK'', MINECRAFT_BEDROCK), (''DISCORD_BOT'', DISCORD_BOT),
     (''GENERIC_DOCKER'', GENERIC_DOCKER), (''WEB_HOSTING'', WEB_HOSTING), (''VPS'', VPS),
     (''FIVEM'', FIVEM), (''RUST'', RUST), (''TERRARIA'', TERRARIA), (''ARK'', ARK),
     (''CS2'', CS2), (''PALWORLD'', PALWORLD)] s"

definition templates_list :: "serverTemplate list io" where
  "templates_list =
     bnd (dbFindMany t_templates tp_isPublic) (\<lambda>ts. ret (orderAsc tp_name ts))"

text \<open>The stop command, a column that no code reads, is accepted and not kept in the row.\<close>

record templateBody =
  tb_id :: "id option"
  tb_name :: "string option"
  tb_gameType :: "string option"
  tb_description :: "string option"
  tb_dockerImage :: "string option"
  tb_startupCommand :: "string option"
  tb_stopCommand :: "string option"
  tb_installScript :: "string option"
  tb_minMemoryMb :: "int option"
  tb_isPublic :: "bool option"

definition newTemplate :: "id \<Rightarrow> templateBody \<Rightarrow> serverTemplate option" where
  "newTemplate i b = (case (tb_name b, Option.bind (tb_gameType b) gameTypeOf, tb_dockerImage b,
       tb_startupCommand b) of
     (Some name, Some g, Some img, Some startup) \<Rightarrow>
       if int4 (orElse (tb_minMemoryMb b) 1024)
       then Some \<lparr>tp_id = orElse (tb_id b) i, tp_name = name, tp_gameType = g,
         tp_description = tb_description b, tp_dockerImage = img, tp_startupCommand = startup,
         tp_installScript = tb_installScript b, tp_minMemoryMb = orElse (tb_minMemoryMb b) 1024,
         tp_isPublic = orElse (tb_isPublic b) True\<rparr>
       else None
   | _ \<Rightarrow> None)"

definition templates_create :: "env \<Rightarrow> templateBody \<Rightarrow> id \<Rightarrow> serverTemplate io" where
  "templates_create E body actorId =
     bnd (external (newUuid E)) (\<lambda>i.
     case newTemplate i body of
       None \<Rightarrow> throw ValidationError
     | Some row \<Rightarrow>
         bnd (dbCreate t_templates t_templates_update template_conflict no_fk row) (\<lambda>t.
         andThen (detach (audit_log E (auditEntry actorId ''template.create''
             ''ServerTemplate'' (tp_id t))))
         (ret t)))"

end
