(* ===== verification/Mods.thy ===== *)
theory Mods
  imports Servers Marketplace
begin

text \<open>
  \<^verbatim>\<open>mods/mods.service.ts\<close> with its two catalogues, \<^verbatim>\<open>mods/modrinth.service.ts\<close> and
  \<^verbatim>\<open>mods/curseforge.service.ts\<close>: a mod or a pack is fetched from a catalogue and its files are
  written to a server through its daemon.

  The catalogues, the HTTP client, the zip library, the JSON parser and the regular
  expressions are not code of the repository: \<open>modsEnv\<close> holds their answers. A body the code
  casts to an interface is given with the fields of that interface.
\<close>

subsection \<open>The catalogues\<close>

text \<open>A GET request as the clients send it: base URL, path, query parameters (those that are
  \<open>undefined\<close> are not sent) and headers.\<close>

record httpGet =
  hg_base :: string
  hg_path :: string
  hg_params :: "(string \<times> json) list"
  hg_headers :: "(string \<times> string) list"

record modrinthFile =
  mf_url :: string
  mf_filename :: string
  mf_primary :: bool

record modrinthVersion =
  mv_id :: string
  mv_name :: string
  mv_dependencies :: json
  mv_files :: "modrinthFile list"

record curseforgeFile =
  xf_id :: int
  xf_fileName :: string
  xf_downloadUrl :: string

record zipEntry =
  ze_name :: string
  ze_isDirectory :: bool
  ze_data :: string

record packFile =
  pf_path :: string
  pf_downloads :: "string list"
  pf_serverEnv :: "string option"

record curseforgeRef =
  cr_projectID :: int
  cr_fileID :: int

record modsEnv =
  mxVersion :: "nat \<Rightarrow> httpGet \<Rightarrow> string + modrinthVersion"
  mxFile :: "nat \<Rightarrow> httpGet \<Rightarrow> string + curseforgeFile"
  mxJson :: "nat \<Rightarrow> httpGet \<Rightarrow> string + json"
  mxDownload :: "nat \<Rightarrow> string \<Rightarrow> string + string"
  mxZip :: "string \<Rightarrow> string + zipEntry list"
  mxIndex :: "string \<Rightarrow> string + packFile list"
  mxManifest :: "string \<Rightarrow> string + curseforgeRef list \<times> string"
  mxStripDir :: "string \<Rightarrow> string \<Rightarrow> string + string"

definition modrinthGet :: "env \<Rightarrow> string \<Rightarrow> (string \<times> json) list \<Rightarrow> httpGet" where
  "modrinthGet E path params = \<lparr>hg_base = cf_modrinthApiUrl (cfg E), hg_path = path,
     hg_params = params,
     hg_headers = [(''User-Agent'', ''elysia-panel/1.0 (contact: support@elysia.local)'')]\<rparr>"

definition curseforgeGet :: "env \<Rightarrow> string \<Rightarrow> (string \<times> json) list \<Rightarrow> httpGet" where
  "curseforgeGet E path params = \<lparr>hg_base = cf_curseforgeApiUrl (cfg E), hg_path = path,
     hg_params = params,
     hg_headers = [(''x-api-key'', orElse (cf_curseforgeApiKey (cfg E)) [])]\<rparr>"

definition optParam :: "string \<Rightarrow> ('a \<Rightarrow> json) \<Rightarrow> 'a option \<Rightarrow> (string \<times> json) list" where
  "optParam name f x = (case x of None \<Rightarrow> [] | Some y \<Rightarrow> [(name, f y)])"

definition modrinth_search ::
  "env \<Rightarrow> modsEnv \<Rightarrow> string option \<Rightarrow> string option \<Rightarrow> json option \<Rightarrow> int option \<Rightarrow> json io" where
  "modrinth_search E X query facets limit offset = externalCall (\<lambda>n. mxJson X n
     (modrinthGet E ''/search'' (optParam ''query'' JStr query @ optParam ''facets'' JStr facets @
        optParam ''limit'' id limit @ optParam ''offset'' JNum offset)))"

definition modrinth_getProject :: "env \<Rightarrow> modsEnv \<Rightarrow> string \<Rightarrow> json io" where
  "modrinth_getProject E X projectId =
     externalCall (\<lambda>n. mxJson X n (modrinthGet E (''/project/'' @ projectId) []))"

text \<open>\<open>JSON.stringify\<close> of an array of strings: \<open>jsonEscape\<close> is what it prints for a character.\<close>

definition hexDigit :: "nat \<Rightarrow> char" where
  "hexDigit n = (if n < 10 then char_of (48 + n) else char_of (87 + n))"

definition jsonEscape :: "char \<Rightarrow> string" where
  "jsonEscape c = (let n = of_char c :: nat in
     if n = 0x22 \<or> n = 0x5C then [CHR 0x5C, c]
     else if n = 8 then [CHR 0x5C, CHR ''b''] else if n = 9 then [CHR 0x5C, CHR ''t'']
     else if n = 10 then [CHR 0x5C, CHR ''n''] else if n = 12 then [CHR 0x5C, CHR ''f'']
     else if n = 13 then [CHR 0x5C, CHR ''r'']
     else if n < 32 then [CHR 0x5C] @ ''u00'' @ [hexDigit (n div 16), hexDigit (n mod 16)]
     else [c])"

definition jsonQuote :: "string \<Rightarrow> string" where
  "jsonQuote s = [CHR 0x22] @ concat (map jsonEscape s) @ [CHR 0x22]"

definition jsonStrings :: "string list \<Rightarrow> string" where
  "jsonStrings xs = ''['' @ joinWith '','' (map jsonQuote xs) @ '']''"

definition modrinth_getVersions ::
  "env \<Rightarrow> modsEnv \<Rightarrow> string \<Rightarrow> string list option \<Rightarrow> string list option \<Rightarrow> json io" where
  "modrinth_getVersions E X projectId loaders gameVersions = externalCall (\<lambda>n. mxJson X n
     (modrinthGet E (''/project/'' @ projectId @ ''/version'')
       (optParam ''loaders'' (JStr \<circ> jsonStrings) loaders @
        optParam ''game_versions'' (JStr \<circ> jsonStrings) gameVersions)))"

definition modrinth_getVersion :: "env \<Rightarrow> modsEnv \<Rightarrow> string \<Rightarrow> modrinthVersion io" where
  "modrinth_getVersion E X versionId =
     externalCall (\<lambda>n. mxVersion X n (modrinthGet E (''/version/'' @ versionId) []))"

definition MINECRAFT_GAME_ID :: int where "MINECRAFT_GAME_ID = 432"

definition curseforge_search ::
  "env \<Rightarrow> modsEnv \<Rightarrow> string option \<Rightarrow> json option \<Rightarrow> string option \<Rightarrow> json io" where
  "curseforge_search E X searchFilter classId gameVersion = externalCall (\<lambda>n. mxJson X n
     (curseforgeGet E ''/mods/search'' ([(''gameId'', JNum MINECRAFT_GAME_ID)] @
        optParam ''searchFilter'' JStr searchFilter @ optParam ''gameVersion'' JStr gameVersion @
        optParam ''classId'' id classId)))"

definition curseforge_getMod :: "env \<Rightarrow> modsEnv \<Rightarrow> int \<Rightarrow> json io" where
  "curseforge_getMod E X modId =
     externalCall (\<lambda>n. mxJson X n (curseforgeGet E (''/mods/'' @ show_int modId) []))"

text \<open>A path segment made from \<open>parseInt\<close>: NaN is printed as such.\<close>

definition showNumber :: "int option \<Rightarrow> string" where
  "showNumber i = (case i of None \<Rightarrow> ''NaN'' | Some n \<Rightarrow> show_int n)"

definition curseforge_getFiles :: "env \<Rightarrow> modsEnv \<Rightarrow> int option \<Rightarrow> json io" where
  "curseforge_getFiles E X modId = externalCall (\<lambda>n. mxJson X n
     (curseforgeGet E (''/mods/'' @ showNumber modId @ ''/files'') []))"

definition curseforge_getFile :: "env \<Rightarrow> modsEnv \<Rightarrow> int \<Rightarrow> int \<Rightarrow> curseforgeFile io" where
  "curseforge_getFile E X modId fileId = externalCall (\<lambda>n. mxFile X n
     (curseforgeGet E (''/mods/'' @ show_int modId @ ''/files/'' @ show_int fileId) []))"

text \<open>The download of a file: the URL is checked, then fetched. The three clients that download
  differ in their headers only. The URL enters the trace \<open>w_fetches\<close>; the redirections the
  HTTP client follows do not.\<close>

definition fetchUrl :: "modsEnv \<Rightarrow> string \<Rightarrow> string io" where
  "fetchUrl X url = andThen (modify (\<lambda>w. w\<lparr>w_fetches := w_fetches w @ [url]\<rparr>))
     (externalCall (\<lambda>n. mxDownload X n url))"

definition downloadFile :: "env \<Rightarrow> modsEnv \<Rightarrow> string \<Rightarrow> string io" where
  "downloadFile E X url = andThen (assertSafeDownloadUrl E url) (fetchUrl X url)"

subsection \<open>One mod\<close>

definition mods_writeToServer :: "env \<Rightarrow> serverView \<Rightarrow> string \<Rightarrow> string \<Rightarrow> unit io" where
  "mods_writeToServer E v path content =
     andThen (callServer E (grpcAction E) v ''WriteFile''
         (WriteFileRequest (s_uuid (sv_server v)) path content))
       (ret ())"

text \<open>\<open>installedMod.upsert\<close>: the row of the unique key is updated, or one is created, whose key
  may be another.\<close>

definition upsertMod ::
  "env \<Rightarrow> id \<Rightarrow> string \<Rightarrow> (installedMod \<Rightarrow> installedMod) \<Rightarrow> (id \<Rightarrow> time \<Rightarrow> installedMod) \<Rightarrow>
   installedMod io" where
  "upsertMod E sid projectId upd new =
     bnd (dbFind t_mods (\<lambda>m. m_serverId m = sid \<and> m_projectId m = projectId)) (\<lambda>r. case r of
       Some m \<Rightarrow> dbUpdate t_mods t_mods_update
         (\<lambda>m. m_serverId m = sid \<and> m_projectId m = projectId) upd
     | None \<Rightarrow>
         bnd (external (newUuid E)) (\<lambda>i.
         bnd (external (now E)) (\<lambda>t.
         dbCreate t_mods t_mods_update mod_conflict mod_fk (new i t))))"

definition newMod ::
  "id \<Rightarrow> ModSource \<Rightarrow> string \<Rightarrow> string \<Rightarrow> string \<Rightarrow> string \<Rightarrow> json \<Rightarrow> id \<Rightarrow> time \<Rightarrow> installedMod" where
  "newMod sid src projectId versionId fileName name deps i t = \<lparr>m_id = i, m_serverId = sid,
     m_source = src, m_projectId = projectId, m_versionId = versionId, m_fileName = fileName,
     m_name = name, m_dependencies = deps, m_installedAt = t\<rparr>"

definition modInstallLog :: "authUser \<Rightarrow> id \<Rightarrow> (string \<times> json) list \<Rightarrow> auditEntry" where
  "modInstallLog user sid meta = (auditEntry (au_id user) ''mod.install'' ''Server'' sid)
     \<lparr>ae_metadata := Some (JObj meta)\<rparr>"

text \<open>\<open>files.find((f) => f.primary) ?? files[0]\<close>.\<close>

definition primaryFile :: "modrinthFile list \<Rightarrow> modrinthFile option" where
  "primaryFile fs = (case List.find mf_primary fs of
     Some f \<Rightarrow> Some f | None \<Rightarrow> (case fs of [] \<Rightarrow> None | f # _ \<Rightarrow> Some f))"

text \<open>\<open>version.id.split('.')[0] || versionId\<close>.\<close>

definition modrinthKey :: "string \<Rightarrow> string \<Rightarrow> string" where
  "modrinthKey vid versionId =
     (let h = hd (splitOn (CHR ''.'') vid) in if h = [] then versionId else h)"

definition mods_installFromModrinth ::
  "env \<Rightarrow> modsEnv \<Rightarrow> id \<Rightarrow> string \<Rightarrow> string \<Rightarrow> authUser \<Rightarrow> installedMod io" where
  "mods_installFromModrinth E X sid versionId targetDir user =
     bnd (servers_findAccessibleOrThrow sid user) (\<lambda>v.
     bnd (modrinth_getVersion E X versionId) (\<lambda>version.
     case primaryFile (mv_files version) of
       None \<Rightarrow> throw (BadRequestException ''Aucun fichier disponible pour cette version Modrinth'')
     | Some f \<Rightarrow>
         bnd (downloadFile E X (mf_url f)) (\<lambda>content.
         andThen (mods_writeToServer E v (targetDir @ ''/'' @ mf_filename f) content)
         (bnd (upsertMod E sid (modrinthKey (mv_id version) versionId)
             (\<lambda>m. m\<lparr>m_versionId := mv_id version, m_fileName := mf_filename f,
                    m_name := mv_name version\<rparr>)
             (newMod sid MODRINTH versionId (mv_id version) (mf_filename f) (mv_name version)
               (mv_dependencies version))) (\<lambda>record.
         andThen (audit_log E (modInstallLog user sid
             [(''source'', JStr ''MODRINTH''), (''versionId'', JStr versionId)]))
         (ret record))))))"

definition mods_installFromCurseforge ::
  "env \<Rightarrow> modsEnv \<Rightarrow> id \<Rightarrow> int \<Rightarrow> int \<Rightarrow> string \<Rightarrow> authUser \<Rightarrow> installedMod io" where
  "mods_installFromCurseforge E X sid modId fileId targetDir user =
     bnd (servers_findAccessibleOrThrow sid user) (\<lambda>v.
     bnd (curseforge_getFile E X modId fileId) (\<lambda>f.
     bnd (downloadFile E X (xf_downloadUrl f)) (\<lambda>content.
     andThen (mods_writeToServer E v (targetDir @ ''/'' @ xf_fileName f) content)
     (bnd (upsertMod E sid (show_int modId)
         (\<lambda>m. m\<lparr>m_versionId := show_int fileId, m_fileName := xf_fileName f\<rparr>)
         (newMod sid CURSEFORGE (show_int modId) (show_int fileId) (xf_fileName f)
           (xf_fileName f) JNull)) (\<lambda>record.
     andThen (audit_log E (modInstallLog user sid [(''source'', JStr ''CURSEFORGE''),
         (''modId'', JNum modId), (''fileId'', JNum fileId)]))
     (ret record))))))"

text \<open>The name of the file: the last segment of the path if it has a dot.\<close>

definition marketplaceFileName :: "url \<Rightarrow> marketplaceItem \<Rightarrow> string" where
  "marketplaceFileName url item = (let baseName = last (splitOn (CHR ''/'') (url_pathname url)) in
     if baseName \<noteq> [] \<and> CHR ''.'' \<in> set baseName then baseName
     else mi_slug item @ ''-'' @ mi_version item @ ''.jar'')"

definition mods_installFromMarketplace ::
  "env \<Rightarrow> modsEnv \<Rightarrow> id \<Rightarrow> string \<Rightarrow> string \<Rightarrow> authUser \<Rightarrow> installedMod io" where
  "mods_installFromMarketplace E X sid slug targetDir user =
     bnd (servers_findAccessibleOrThrow sid user) (\<lambda>v.
     bnd (marketplace_get slug) (\<lambda>item.
     andThen (throwIf (mi_type item \<noteq> PLUGIN) (BadRequestException
       ''Seuls les items de type PLUGIN peuvent etre installes automatiquement sur un serveur''))
     (andThen (throwIf (0 < mi_priceCents item) (BadRequestException
       ''Achat requis avant installation (paiement non disponible pour le moment)''))
     (andThen (throwIf (\<not> truthy (mi_downloadUrl item))
       (BadRequestException ''Cet item n'a pas de fichier associe''))
     (let downloadUrl = orElse (mi_downloadUrl item) [] in
      bnd (downloadFile E X downloadUrl) (\<lambda>content.
      case parseUrl E downloadUrl of
        None \<Rightarrow> throw (JsError ''Invalid URL'')
      | Some url \<Rightarrow>
          let fileName = marketplaceFileName url item in
          andThen (mods_writeToServer E v (targetDir @ ''/'' @ fileName) content)
          (bnd (upsertMod E sid (mi_id item)
              (\<lambda>m. m\<lparr>m_versionId := mi_version item, m_fileName := fileName,
                     m_name := mi_name item\<rparr>)
              (newMod sid MANUAL (mi_id item) (mi_version item) fileName (mi_name item) JNull))
            (\<lambda>record.
          andThen (marketplace_incrementDownloads slug)
          (andThen (audit_log E (modInstallLog user sid
              [(''source'', JStr ''MARKETPLACE''), (''slug'', JStr slug)]))
          (ret record))))))))))"

definition mods_uninstall :: "env \<Rightarrow> id \<Rightarrow> id \<Rightarrow> string \<Rightarrow> authUser \<Rightarrow> unit io" where
  "mods_uninstall E sid installedModId targetDir user =
     bnd (servers_findAccessibleOrThrow sid user) (\<lambda>v.
     bnd (dbFindOrThrow t_mods (\<lambda>m. m_id m = installedModId)) (\<lambda>m.
     andThen (callServer E (grpcAction E) v ''DeleteFile''
         (FileRequest (s_uuid (sv_server v)) (targetDir @ ''/'' @ m_fileName m)))
     (andThen (dbDelete t_mods t_mods_update (\<lambda>m. m_id m = installedModId))
       (audit_log E (auditEntry (au_id user) ''mod.remove'' ''Server'' sid)))))"

definition mods_listInstalled :: "id \<Rightarrow> installedMod list io" where
  "mods_listInstalled sid =
     bnd (dbFindMany t_mods (\<lambda>m. m_serverId m = sid)) (\<lambda>ms. ret (orderDesc m_installedAt ms))"

subsection \<open>Packs\<close>

definition liftJs :: "string + 'a \<Rightarrow> 'a io" where
  "liftJs x = (case x of Inl m \<Rightarrow> throw (JsError m) | Inr y \<Rightarrow> ret y)"

text \<open>The files of an index: unsupported ones and those without a URL are skipped.\<close>

definition packFileStep :: "env \<Rightarrow> modsEnv \<Rightarrow> serverView \<Rightarrow> packFile \<Rightarrow> nat \<Rightarrow> nat io" where
  "packFileStep E X v f installed =
     (if pf_serverEnv f = Some ''unsupported'' then ret installed
      else case pf_downloads f of
          [] \<Rightarrow> ret installed
        | url # _ \<Rightarrow> if url = [] then ret installed
            else bnd (downloadFile E X url) (\<lambda>content.
              andThen (mods_writeToServer E v (pf_path f) content) (ret (Suc installed))))"

definition packInstallLog :: "authUser \<Rightarrow> id \<Rightarrow> string \<Rightarrow> nat \<Rightarrow> auditEntry" where
  "packInstallLog user sid source installed =
     (auditEntry (au_id user) ''modpack.install'' ''Server'' sid)
     \<lparr>ae_metadata := Some (JObj [(''source'', JStr source), (''filesInstalled'', JNum (int installed))])\<rparr>"

definition mods_installModrinthModpack ::
  "env \<Rightarrow> modsEnv \<Rightarrow> id \<Rightarrow> string \<Rightarrow> authUser \<Rightarrow> nat io" where
  "mods_installModrinthModpack E X sid mrpackUrl user =
     bnd (servers_findAccessibleOrThrow sid user) (\<lambda>v.
     bnd (downloadFile E X mrpackUrl) (\<lambda>archive.
     bnd (liftJs (mxZip X archive)) (\<lambda>zip.
     case List.find (\<lambda>e. ze_name e = ''modrinth-index.json'') zip of
       None \<Rightarrow> throw (BadRequestException
         ''Fichier .mrpack invalide : modrinth-index.json manquant'')
     | Some indexEntry \<Rightarrow>
         bnd (liftJs (mxIndex X (ze_data indexEntry))) (\<lambda>files.
         bnd (foldEach files 0 (packFileStep E X v)) (\<lambda>installed.
         andThen (forEach (filter (\<lambda>e. startsWith (ze_name e) ''overrides/'' \<and> \<not> ze_isDirectory e) zip)
           (\<lambda>e. mods_writeToServer E v (drop (length ''overrides/'') (ze_name e)) (ze_data e)))
         (andThen (audit_log E (packInstallLog user sid ''MODRINTH_PACK'' installed))
         (ret installed)))))))"

text \<open>A file of a CurseForge pack that cannot be installed is logged and skipped.\<close>

definition curseforgeFileStep :: "env \<Rightarrow> modsEnv \<Rightarrow> serverView \<Rightarrow> curseforgeRef \<Rightarrow> nat \<Rightarrow> nat io" where
  "curseforgeFileStep E X v f installed = tryCatch
     (bnd (curseforge_getFile E X (cr_projectID f) (cr_fileID f)) (\<lambda>cfFile.
      bnd (downloadFile E X (xf_downloadUrl cfFile)) (\<lambda>content.
      andThen (mods_writeToServer E v (''mods/'' @ xf_fileName cfFile) content)
        (ret (Suc installed)))))
     (\<lambda>err. ret installed)"

definition mods_installCurseforgeModpack ::
  "env \<Rightarrow> modsEnv \<Rightarrow> id \<Rightarrow> string \<Rightarrow> authUser \<Rightarrow> nat io" where
  "mods_installCurseforgeModpack E X sid archive user =
     bnd (servers_findAccessibleOrThrow sid user) (\<lambda>v.
     bnd (liftJs (mxZip X archive)) (\<lambda>zip.
     case List.find (\<lambda>e. ze_name e = ''manifest.json'') zip of
       None \<Rightarrow> throw (BadRequestException ''Archive invalide : manifest.json manquant'')
     | Some manifestEntry \<Rightarrow>
         bnd (liftJs (mxManifest X (ze_data manifestEntry))) (\<lambda>(files, overrides).
         bnd (foldEach files 0 (curseforgeFileStep E X v)) (\<lambda>installed.
         let overridesDir = (if overrides = [] then ''overrides'' else overrides) in
         andThen (forEach (filter (\<lambda>e. startsWith (ze_name e) (overridesDir @ ''/'') \<and>
               \<not> ze_isDirectory e) zip)
           (\<lambda>e. bnd (liftJs (mxStripDir X overridesDir (ze_name e))) (\<lambda>relPath.
              mods_writeToServer E v relPath (ze_data e))))
         (andThen (audit_log E (packInstallLog user sid ''CURSEFORGE_PACK'' installed))
         (ret installed))))))"

end
