(* ===== verification/Billing.thy ===== *)
theory Billing
  imports Marketplace
begin

text \<open>
  \<^verbatim>\<open>billing/billing.service.ts\<close> and \<^verbatim>\<open>billing/stripe.service.ts\<close>: products, plans, coupons,
  invoices, the checkout and the webhook of Stripe.

  The Stripe library and the calendar are not code of the repository: \<open>stripeEnv\<close> holds the
  verification of an event's signature, the creation of a checkout session and the year of
  a time. The bodies of a plan and of a coupon are passed to the database as they are.
\<close>

subsection \<open>Stripe\<close>

record checkoutSession =
  sess_userId :: "id option"
  sess_planId :: "id option"
  sess_subscription :: "string option"

record stripeInvoice =
  sti_id :: string
  sti_subscription :: "string option"
  sti_subtotal :: int
  sti_total_taxes :: "int list option"
  sti_total :: int
  sti_currency :: string

datatype stripeEvent =
    CheckoutSessionCompleted checkoutSession
  | StripeInvoicePaid stripeInvoice
  | OtherEvent string

record checkoutRequest =
  cq_mode :: string
  cq_currency :: string
  cq_unit_amount :: int
  cq_product_name :: string
  cq_interval :: "string option"
  cq_success_url :: string
  cq_cancel_url :: string
  cq_client_reference_id :: id
  cq_userId :: id
  cq_planId :: id

record stripeEnv =
  sxConstructEvent :: "nat \<Rightarrow> string \<Rightarrow> string \<Rightarrow> string \<Rightarrow> string + stripeEvent"
  sxCreateSession :: "nat \<Rightarrow> checkoutRequest \<Rightarrow> string + string option"
  sxFullYear :: "time \<Rightarrow> nat"

subsection \<open>Products and plans\<close>

definition billing_listProducts :: "(product \<times> plan list) list io" where
  "billing_listProducts =
     bnd (dbFindMany t_products pr_active) (\<lambda>ps.
     bnd (gets w_db) (\<lambda>d.
     ret (map (\<lambda>p. (p, filter (\<lambda>x. pl_productId x = pr_id p \<and> pl_active x) (t_plans d))) ps)))"

text \<open>The audit entries of the creations are not awaited.\<close>

definition billing_createProduct :: "env \<Rightarrow> string \<Rightarrow> string option \<Rightarrow> id \<Rightarrow> product io" where
  "billing_createProduct E name description actorId =
     bnd (external (newUuid E)) (\<lambda>i.
     bnd (dbCreate t_products t_products_update product_conflict no_fk
         \<lparr>pr_id = i, pr_name = name, pr_description = description, pr_active = True\<rparr>) (\<lambda>p.
     andThen (detach (audit_log E (auditEntry actorId ''billing.product.create'' ''Product'' (pr_id p))))
     (ret p)))"

definition billingCycleOf :: "string \<Rightarrow> BillingCycle option" where
  "billingCycleOf s = map_of [(''HOURLY'', HOURLY), (''DAILY'', DAILY), (''WEEKLY'', WEEKLY),
     (''MONTHLY'', MONTHLY), (''QUARTERLY'', QUARTERLY), (''YEARLY'', YEARLY),
     (''ONE_TIME'', ONE_TIME)] s"

text \<open>The product identifier of the body replaces the one of the route.\<close>

record planBody =
  plb_id :: "id option"
  plb_productId :: "id option"
  plb_name :: "string option"
  plb_priceCents :: "int option"
  plb_currency :: "string option"
  plb_billingCycle :: "string option"
  plb_cpuLimitPct :: "int option"
  plb_memoryLimitMb :: "int option"
  plb_diskLimitMb :: "int option"
  plb_active :: "bool option"

definition newPlan :: "id \<Rightarrow> id \<Rightarrow> planBody \<Rightarrow> plan option" where
  "newPlan i productId b = (case (plb_name b, plb_priceCents b,
       (case plb_billingCycle b of None \<Rightarrow> Some MONTHLY | Some s \<Rightarrow> billingCycleOf s),
       plb_cpuLimitPct b, plb_memoryLimitMb b, plb_diskLimitMb b) of
     (Some name, Some price, Some cycle, Some cpu, Some mem, Some disk) \<Rightarrow>
       if int4 price \<and> int4 cpu \<and> int4 mem \<and> int4 disk
       then Some \<lparr>pl_id = orElse (plb_id b) i, pl_productId = orElse (plb_productId b) productId,
         pl_name = name, pl_priceCents = price, pl_currency = orElse (plb_currency b) ''EUR'',
         pl_billingCycle = cycle, pl_cpuLimitPct = cpu, pl_memoryLimitMb = mem,
         pl_diskLimitMb = disk, pl_active = orElse (plb_active b) True\<rparr>
       else None
   | _ \<Rightarrow> None)"

definition billing_createPlan :: "env \<Rightarrow> id \<Rightarrow> planBody \<Rightarrow> id \<Rightarrow> plan io" where
  "billing_createPlan E productId data actorId =
     bnd (external (newUuid E)) (\<lambda>i.
     case newPlan i productId data of
       None \<Rightarrow> throw ValidationError
     | Some row \<Rightarrow>
         bnd (dbCreate t_plans t_plans_update plan_conflict plan_fk row) (\<lambda>p.
         andThen (detach (audit_log E (auditEntry actorId ''billing.plan.create'' ''Plan'' (pl_id p))))
         (ret p)))"

subsection \<open>Coupons\<close>

record couponBody =
  cpb_id :: "id option"
  cpb_code :: "string option"
  cpb_percentOff :: "int option"
  cpb_amountOffCents :: "int option"
  cpb_maxRedemptions :: "int option"
  cpb_timesRedeemed :: "int option"
  cpb_expiresAt :: "time option"
  cpb_active :: "bool option"

definition newCoupon :: "id \<Rightarrow> couponBody \<Rightarrow> coupon option" where
  "newCoupon i b = (case cpb_code b of
     None \<Rightarrow> None
   | Some code \<Rightarrow>
       if opt_ok int4 (cpb_percentOff b) \<and> opt_ok int4 (cpb_amountOffCents b) \<and>
          opt_ok int4 (cpb_maxRedemptions b) \<and> opt_ok int4 (cpb_timesRedeemed b)
       then Some \<lparr>c_id = orElse (cpb_id b) i, c_code = code, c_percentOff = cpb_percentOff b,
         c_amountOffCents = cpb_amountOffCents b, c_maxRedemptions = cpb_maxRedemptions b,
         c_timesRedeemed = orElse (cpb_timesRedeemed b) 0, c_expiresAt = cpb_expiresAt b,
         c_active = orElse (cpb_active b) True\<rparr>
       else None)"

definition billing_createCoupon :: "env \<Rightarrow> couponBody \<Rightarrow> id \<Rightarrow> coupon io" where
  "billing_createCoupon E data actorId =
     bnd (external (newUuid E)) (\<lambda>i.
     case newCoupon i data of
       None \<Rightarrow> throw ValidationError
     | Some row \<Rightarrow>
         bnd (dbCreate t_coupons t_coupons_update coupon_conflict no_fk row) (\<lambda>c.
         andThen (detach (audit_log E (auditEntry actorId ''billing.coupon.create'' ''Coupon'' (c_id c))))
         (ret c)))"

text \<open>The clock is read when the coupon has an expiry date.\<close>

definition billing_validateCoupon :: "env \<Rightarrow> string \<Rightarrow> coupon option io" where
  "billing_validateCoupon E code =
     bnd (dbFind t_coupons (\<lambda>c. c_code c = code)) (\<lambda>r. case r of
       None \<Rightarrow> ret None
     | Some c \<Rightarrow>
         if \<not> c_active c then ret None
         else bnd (case c_expiresAt c of None \<Rightarrow> ret False
             | Some x \<Rightarrow> bnd (external (now E)) (\<lambda>t. ret (x < t))) (\<lambda>expired.
           if expired then ret None
           else if (case c_maxRedemptions c of None \<Rightarrow> False
               | Some m \<Rightarrow> m \<noteq> 0 \<and> m \<le> c_timesRedeemed c) then ret None
           else ret (Some c)))"

subsection \<open>Subscriptions and invoices\<close>

definition billing_listInvoicesForUser :: "id \<Rightarrow> invoice list io" where
  "billing_listInvoicesForUser userId =
     bnd (dbFindMany t_invoices (\<lambda>i. i_userId i = userId)) (\<lambda>is. ret (orderDesc i_createdAt is))"

definition billing_listSubscriptionsForUser ::
  "id \<Rightarrow> (subscription \<times> (plan \<times> product option) option) list io" where
  "billing_listSubscriptionsForUser userId =
     bnd (dbFindMany t_subscriptions (\<lambda>s. sb_userId s = userId)) (\<lambda>ss.
     bnd (gets w_db) (\<lambda>d.
     ret (map (\<lambda>s. (s, map_option
         (\<lambda>p. (p, List.find (\<lambda>x. pr_id x = pl_productId p) (t_products d)))
         (List.find (\<lambda>p. pl_id p = sb_planId s) (t_plans d)))) ss)))"

definition billing_refundInvoice :: "env \<Rightarrow> id \<Rightarrow> id \<Rightarrow> invoice io" where
  "billing_refundInvoice E invoiceId actorId =
     bnd (dbUpdate t_invoices t_invoices_update (\<lambda>i. i_id i = invoiceId)
         (\<lambda>i. i\<lparr>i_status := INV_VOID\<rparr>)) (\<lambda>invoice.
     andThen (audit_log E ((auditEntry actorId ''billing.invoice.refund'' ''Invoice'' invoiceId)
         \<lparr>ae_severity := Some WARNING\<rparr>))
     (ret invoice))"

definition invoiceNumber :: "nat \<Rightarrow> nat \<Rightarrow> string" where
  "invoiceNumber year n = ''ELY-'' @ show_nat year @ ''-'' @ padStart 6 (CHR ''0'') (show_nat n)"

definition billing_createInvoiceNumber :: "env \<Rightarrow> stripeEnv \<Rightarrow> string io" where
  "billing_createInvoiceNumber E S =
     bnd (dbCount t_invoices (\<lambda>_. True)) (\<lambda>count.
     bnd (external (now E)) (\<lambda>t.
     ret (invoiceNumber (sxFullYear S t) (count + 1))))"

subsection \<open>Checkout and webhook\<close>

definition requireStripe :: "env \<Rightarrow> unit io" where
  "requireStripe E = throwIf (\<not> truthy (cf_stripeSecretKey (cfg E)))
     (BadRequestException ''Stripe non configure (STRIPE_SECRET_KEY manquant)'')"

fun mapCycleToStripeInterval :: "BillingCycle \<Rightarrow> string" where
  "mapCycleToStripeInterval YEARLY = ''year''"
| "mapCycleToStripeInterval WEEKLY = ''week''"
| "mapCycleToStripeInterval DAILY = ''day''"
| "mapCycleToStripeInterval _ = ''month''"

text \<open>\<open>toLowerCase\<close> and \<open>toUpperCase\<close> on the letters of ASCII, which a currency code has.\<close>

definition lowerChar :: "char \<Rightarrow> char" where
  "lowerChar c = (if 65 \<le> (of_char c :: nat) \<and> (of_char c :: nat) \<le> 90
     then char_of ((of_char c :: nat) + 32) else c)"

definition upperChar :: "char \<Rightarrow> char" where
  "upperChar c = (if 97 \<le> (of_char c :: nat) \<and> (of_char c :: nat) \<le> 122
     then char_of ((of_char c :: nat) - 32) else c)"

definition checkoutFor :: "id \<Rightarrow> plan \<Rightarrow> product \<Rightarrow> string \<Rightarrow> string \<Rightarrow> checkoutRequest" where
  "checkoutFor userId plan product successUrl cancelUrl = \<lparr>
     cq_mode = (if pl_billingCycle plan = ONE_TIME then ''payment'' else ''subscription''),
     cq_currency = map lowerChar (pl_currency plan), cq_unit_amount = pl_priceCents plan,
     cq_product_name = pr_name product @ '' - '' @ pl_name plan,
     cq_interval = (if pl_billingCycle plan = ONE_TIME then None
                    else Some (mapCycleToStripeInterval (pl_billingCycle plan))),
     cq_success_url = successUrl, cq_cancel_url = cancelUrl, cq_client_reference_id = userId,
     cq_userId = userId, cq_planId = pl_id plan\<rparr>"

definition stripe_createCheckoutSession ::
  "env \<Rightarrow> stripeEnv \<Rightarrow> id \<Rightarrow> id \<Rightarrow> string \<Rightarrow> string \<Rightarrow> string option io" where
  "stripe_createCheckoutSession E S userId planId successUrl cancelUrl =
     andThen (requireStripe E)
     (bnd (dbFindOrThrow t_plans (\<lambda>p. pl_id p = planId)) (\<lambda>plan.
     bnd (dbFindOrThrow t_products (\<lambda>p. pr_id p = pl_productId plan)) (\<lambda>product.
     externalCall (\<lambda>n. sxCreateSession S n
       (checkoutFor userId plan product successUrl cancelUrl)))))"

definition stripe_onCheckoutCompleted :: "env \<Rightarrow> checkoutSession \<Rightarrow> unit io" where
  "stripe_onCheckoutCompleted E session =
     (if \<not> truthy (sess_userId session) \<or> \<not> truthy (sess_planId session) then ret ()
      else bnd (external (newUuid E)) (\<lambda>i.
        andThen (dbCreate t_subscriptions t_subscriptions_update subscription_conflict subscription_fk
            \<lparr>sb_id = i, sb_userId = orElse (sess_userId session) [],
             sb_planId = orElse (sess_planId session) [], sb_status = SUB_ACTIVE,
             sb_stripeSubscriptionId = sess_subscription session\<rparr>)
          (ret ())))"

definition newInvoice ::
  "id \<Rightarrow> time \<Rightarrow> time \<Rightarrow> subscription \<Rightarrow> string \<Rightarrow> stripeInvoice \<Rightarrow> invoice" where
  "newInvoice i paidAt createdAt sub number si = \<lparr>i_id = i, i_userId = sb_userId sub,
     i_subscriptionId = Some (sb_id sub), i_number = number, i_status = INV_PAID,
     i_subtotalCents = sti_subtotal si,
     i_taxCents = foldl (+) 0 (orElse (sti_total_taxes si) []),
     i_totalCents = sti_total si, i_currency = map upperChar (sti_currency si),
     i_provider = Some STRIPE, i_providerRef = Some (sti_id si), i_paidAt = Some paidAt,
     i_createdAt = createdAt\<rparr>"

definition stripe_onInvoicePaid :: "env \<Rightarrow> stripeEnv \<Rightarrow> stripeInvoice \<Rightarrow> unit io" where
  "stripe_onInvoicePaid E S si =
     (if \<not> truthy (sti_subscription si) then ret ()
      else bnd (dbFind t_subscriptions (\<lambda>s. sb_stripeSubscriptionId s = sti_subscription si))
        (\<lambda>r. case r of
          None \<Rightarrow> ret ()
        | Some sub \<Rightarrow>
            bnd (billing_createInvoiceNumber E S) (\<lambda>number.
            bnd (external (now E)) (\<lambda>paidAt.
            bnd (external (newUuid E)) (\<lambda>i.
            bnd (external (now E)) (\<lambda>createdAt.
            let row = newInvoice i paidAt createdAt sub number si in
            andThen (throwIf (\<not> (int4 (i_subtotalCents row) \<and> int4 (i_taxCents row) \<and>
                int4 (i_totalCents row))) OutOfRange)
            (andThen (dbCreate t_invoices t_invoices_update invoice_conflict invoice_fk row)
              (ret ()))))))))"

definition stripe_dispatch :: "env \<Rightarrow> stripeEnv \<Rightarrow> stripeEvent \<Rightarrow> unit io" where
  "stripe_dispatch E S event = (case event of
       CheckoutSessionCompleted session \<Rightarrow> stripe_onCheckoutCompleted E session
     | StripeInvoicePaid si \<Rightarrow> stripe_onInvoicePaid E S si
     | OtherEvent t \<Rightarrow> ret ())"

definition stripe_handleWebhook :: "env \<Rightarrow> stripeEnv \<Rightarrow> string \<Rightarrow> string \<Rightarrow> unit io" where
  "stripe_handleWebhook E S rawBody signature =
     andThen (requireStripe E)
     (andThen (throwIf (\<not> truthy (cf_stripeWebhookSecret (cfg E)))
         (BadRequestException ''STRIPE_WEBHOOK_SECRET manquant''))
     (bnd (externalCall (\<lambda>n. sxConstructEvent S n rawBody signature
         (orElse (cf_stripeWebhookSecret (cfg E)) []))) (\<lambda>event.
     stripe_dispatch E S event)))"

end
