(* ===== verification/Support.thy ===== *)
theory Support
  imports Marketplace
begin

text \<open>
  \<^verbatim>\<open>support/support.service.ts\<close>: tickets and their messages, and
  \<^verbatim>\<open>monitoring/monitoring.service.ts\<close>: the gauges and the summary of the panel.
\<close>

subsection \<open>Tickets\<close>

definition isSupportStaff :: "authUser \<Rightarrow> bool" where
  "isSupportStaff user \<longleftrightarrow> has_perm user ''*'' \<or> has_perm user ''support.read.any''"

definition userRef :: "db \<Rightarrow> id \<Rightarrow> (id \<times> string) option" where
  "userRef d i = map_option (\<lambda>u. (u_id u, u_username u)) (List.find (\<lambda>u. u_id u = i) (t_users d))"

definition support_listForUser :: "authUser \<Rightarrow> (supportTicket \<times> (id \<times> string) option) list io" where
  "support_listForUser user =
     bnd (dbFindMany t_tickets (\<lambda>t. isSupportStaff user \<or> tk_userId t = au_id user)) (\<lambda>ts.
     bnd (gets w_db) (\<lambda>d.
     ret (map (\<lambda>t. (t, userRef d (tk_userId t))) (orderDesc tk_updatedAt ts))))"

definition ticketMessages :: "db \<Rightarrow> id \<Rightarrow> ticketMessage list" where
  "ticketMessages d tid = orderAsc tm_createdAt (filter (\<lambda>m. tm_ticketId m = tid) (t_messages d))"

definition support_findAccessibleOrThrow ::
  "id \<Rightarrow> authUser \<Rightarrow> (supportTicket \<times> (ticketMessage \<times> (id \<times> string) option) list) io" where
  "support_findAccessibleOrThrow tid user =
     bnd (dbFindOrThrow t_tickets (\<lambda>t. tk_id t = tid)) (\<lambda>ticket.
     bnd (gets w_db) (\<lambda>d.
     andThen (throwIf (\<not> isSupportStaff user \<and> tk_userId ticket \<noteq> au_id user)
         (ForbiddenException ''Vous n'avez pas acces a ce ticket''))
     (ret (ticket, map (\<lambda>m. (m, userRef d (tm_authorId m))) (ticketMessages d tid)))))"

definition createMessage :: "env \<Rightarrow> id \<Rightarrow> string \<Rightarrow> id \<Rightarrow> bool \<Rightarrow> ticketMessage io" where
  "createMessage E tid body authorId isStaff =
     bnd (external (newUuid E)) (\<lambda>i.
     bnd (external (now E)) (\<lambda>t.
     dbCreate t_messages t_messages_update message_conflict message_fk
       \<lparr>tm_id = i, tm_ticketId = tid, tm_authorId = authorId, tm_body = body,
        tm_isStaff = isStaff, tm_createdAt = t\<rparr>))"

text \<open>The ticket and its first message are created together.\<close>

definition support_create :: "env \<Rightarrow> string \<Rightarrow> string \<Rightarrow> id \<Rightarrow> (supportTicket \<times> ticketMessage) io" where
  "support_create E subject message userId = transaction
     (bnd (external (newUuid E)) (\<lambda>i.
      bnd (external (now E)) (\<lambda>t.
      bnd (dbCreate t_tickets t_tickets_update ticket_conflict ticket_fk
          \<lparr>tk_id = i, tk_userId = userId, tk_subject = subject, tk_status = TK_OPEN,
           tk_updatedAt = t\<rparr>) (\<lambda>ticket.
      bnd (createMessage E (tk_id ticket) message userId False) (\<lambda>m.
      ret (ticket, m))))))"

definition support_reply :: "env \<Rightarrow> id \<Rightarrow> string \<Rightarrow> id \<Rightarrow> bool \<Rightarrow> ticketMessage io" where
  "support_reply E tid body authorId isStaff =
     bnd (external (now E)) (\<lambda>t.
     andThen (dbUpdate t_tickets t_tickets_update (\<lambda>x. tk_id x = tid)
         (\<lambda>x. x\<lparr>tk_status := (if isStaff then TK_PENDING else TK_OPEN), tk_updatedAt := t\<rparr>))
       (createMessage E tid body authorId isStaff))"

definition ticketStatusOf :: "string \<Rightarrow> TicketStatus option" where
  "ticketStatusOf s = map_of [(''OPEN'', TK_OPEN), (''PENDING'', TK_PENDING),
     (''RESOLVED'', TK_RESOLVED), (''CLOSED'', TK_CLOSED)] s"

text \<open>The column \<open>updatedAt\<close> is set by the client at every update.\<close>

definition support_setStatus :: "env \<Rightarrow> id \<Rightarrow> string \<Rightarrow> supportTicket io" where
  "support_setStatus E tid status =
     (case ticketStatusOf status of
        None \<Rightarrow> throw ValidationError
      | Some s \<Rightarrow> bnd (external (now E)) (\<lambda>t.
          dbUpdate t_tickets t_tickets_update (\<lambda>x. tk_id x = tid)
            (\<lambda>x. x\<lparr>tk_status := s, tk_updatedAt := t\<rparr>)))"

subsection \<open>Monitoring\<close>

record gauges =
  ga_nodesOnline :: nat
  ga_serversRunning :: nat
  ga_serversTotal :: nat

text \<open>The values the three gauges are set to.\<close>

definition monitoring_refreshGauges :: "gauges io" where
  "monitoring_refreshGauges =
     bnd (dbCount t_nodes (\<lambda>n. n_status n = NODE_ONLINE)) (\<lambda>nodesOnline.
     bnd (dbCount t_servers (\<lambda>s. s_status s = SRV_RUNNING)) (\<lambda>serversRunning.
     bnd (dbCount t_servers (\<lambda>_. True)) (\<lambda>serversTotal.
     ret \<lparr>ga_nodesOnline = nodesOnline, ga_serversRunning = serversRunning,
       ga_serversTotal = serversTotal\<rparr>)))"

record nodesSummary =
  ns_total :: nat
  ns_online :: nat
  ns_cpuAllocatedPct :: int
  ns_cpuCapacityPct :: int
  ns_memoryAllocatedMb :: int
  ns_memoryCapacityMb :: int
  ns_diskAllocatedMb :: int
  ns_diskCapacityMb :: int

record monitoringSummary =
  ms_nodes :: nodesSummary
  ms_servers :: "(ServerStatus \<times> nat) list"
  ms_users :: nat
  ms_invoicesUnpaid :: nat

definition sumOf :: "('r \<Rightarrow> int) \<Rightarrow> 'r list \<Rightarrow> int" where
  "sumOf f xs = foldl (\<lambda>s x. s + f x) 0 xs"

definition summarizeNodes :: "node list \<Rightarrow> nodesSummary" where
  "summarizeNodes ns = \<lparr>ns_total = length ns,
     ns_online = length (filter (\<lambda>n. n_status n = NODE_ONLINE) ns),
     ns_cpuAllocatedPct = sumOf n_cpuAllocatedPct ns,
     ns_cpuCapacityPct = sumOf (\<lambda>n. n_cpuCores n * 100) ns,
     ns_memoryAllocatedMb = sumOf n_memoryAllocatedMb ns,
     ns_memoryCapacityMb = sumOf n_memoryMb ns,
     ns_diskAllocatedMb = sumOf n_diskAllocatedMb ns,
     ns_diskCapacityMb = sumOf n_diskMb ns\<rparr>"

text \<open>One entry per status in use.\<close>

definition groupByStatus :: "server list \<Rightarrow> (ServerStatus \<times> nat) list" where
  "groupByStatus ss = map (\<lambda>st. (st, length (filter (\<lambda>s. s_status s = st) ss)))
     (remdups (map s_status ss))"

definition monitoring_summary :: "monitoringSummary io" where
  "monitoring_summary =
     bnd (dbFindMany t_nodes (\<lambda>_. True)) (\<lambda>nodes.
     bnd (dbFindMany t_servers (\<lambda>_. True)) (\<lambda>servers.
     bnd (dbCount t_users (\<lambda>_. True)) (\<lambda>users.
     bnd (dbCount t_invoices (\<lambda>i. i_status i = INV_OPEN)) (\<lambda>unpaid.
     ret \<lparr>ms_nodes = summarizeNodes nodes, ms_servers = groupByStatus servers,
       ms_users = users, ms_invoicesUnpaid = unpaid\<rparr>))))"

end
