(* ===== verification/Controllers.thy ===== *)
theory Controllers
  imports ApiKeys Users Backups Files Mods Billing Support
begin

text \<open>
  The controllers. For each one: a datatype of its routes, with the values a handler takes from
  the path, the query and the body; a datatype of its response bodies; the permissions its
  decorators declare; and the handler of each route. The user of the request is undefined on
  a public route.
\<close>

subsection \<open>Requests\<close>

record apiEnv =
  ax_mods :: modsEnv
  ax_stripe :: stripeEnv
  ax_isEmail :: "string \<Rightarrow> bool"
  ax_oauth :: "nat \<Rightarrow> OAuthProvider \<Rightarrow> oauthProfile option"

text \<open>Reading a property of an undefined user.\<close>

abbreviation TypeError :: exn where
  "TypeError \<equiv> JsError ''Cannot read properties of undefined''"

definition withUser :: "authUser option \<Rightarrow> (authUser \<Rightarrow> 'a io) \<Rightarrow> 'a io" where
  "withUser user f = (case user of None \<Rightarrow> throw TypeError | Some u \<Rightarrow> f u)"

definition respond :: "('a \<Rightarrow> 'b) \<Rightarrow> 'a io \<Rightarrow> 'b io" where
  "respond c m = bnd m (\<lambda>x. ret (c x))"

text \<open>The validation pipe.\<close>

definition validated :: "bool \<Rightarrow> 'a io \<Rightarrow> 'a io" where
  "validated ok m = andThen (throwIf (\<not> ok) (BadRequestException ''Bad Request'')) m"

text \<open>\<open>x ? parseInt(x, 10) : undefined\<close>; the database refuses NaN.\<close>

definition queryInt :: "string option \<Rightarrow> int option io" where
  "queryInt x = (if \<not> truthy x then ret None
     else case parseInt (orElse x []) of None \<Rightarrow> throw ValidationError | Some n \<Rightarrow> ret (Some n))"

text \<open>The same as a query parameter of a catalogue, where NaN is printed.\<close>

definition queryNumber :: "string option \<Rightarrow> json option" where
  "queryNumber x = (if \<not> truthy x then None
     else Some (case parseInt (orElse x []) of None \<Rightarrow> JStr ''NaN'' | Some n \<Rightarrow> JNum n))"

subsection \<open>auth/auth.controller.ts\<close>

datatype authRoute =
    AuthMe
  | AuthRegister registerDto
  | AuthLogin loginDto
  | AuthRefresh string
  | AuthLogout string
  | AuthChangePassword string string
  | AuthGenerateTwoFactor
  | AuthEnableTwoFactor string
  | AuthDisableTwoFactor string
  | AuthImpersonate id id
  | AuthOAuthStart OAuthProvider
  | AuthOAuthCallback OAuthProvider

datatype authResponse =
    RMe "authUser option" | RTokens tokenPair | RLogin loginResult | RSuccess
  | RSecret "string \<times> string" | RRecoveryCodes "string list" | RAccessToken string | RRedirect

fun auth_public :: "authRoute \<Rightarrow> bool" where
  "auth_public (AuthRegister _) = True"
| "auth_public (AuthLogin _) = True"
| "auth_public (AuthRefresh _) = True"
| "auth_public (AuthLogout _) = True"
| "auth_public (AuthOAuthStart _) = True"
| "auth_public (AuthOAuthCallback _) = True"
| "auth_public _ = False"

fun auth_required :: "authRoute \<Rightarrow> string list option" where
  "auth_required (AuthImpersonate _ _) = Some [''users.impersonate'']"
| "auth_required _ = None"

text \<open>\<open>@IsEmail\<close> is the only rule of the login body the types do not express.\<close>

definition valid_loginDto :: "(string \<Rightarrow> bool) \<Rightarrow> loginDto \<Rightarrow> bool" where
  "valid_loginDto isEmail d \<longleftrightarrow> isEmail (ld_email d)"

fun auth_handle ::
  "env \<Rightarrow> apiEnv \<Rightarrow> string option \<Rightarrow> string option \<Rightarrow> authRoute \<Rightarrow> authUser option \<Rightarrow>
   authResponse io" where
  "auth_handle E A ip agent AuthMe user = ret (RMe user)"
| "auth_handle E A ip agent (AuthRegister dto) user =
     validated (valid_registerDto (ax_isEmail A) dto) (respond RTokens (auth_register E dto ip))"
| "auth_handle E A ip agent (AuthLogin dto) user =
     validated (valid_loginDto (ax_isEmail A) dto) (respond RLogin (auth_loginRoute E dto ip agent))"
| "auth_handle E A ip agent (AuthRefresh token) user = respond RTokens (auth_refresh E token ip)"
| "auth_handle E A ip agent (AuthLogout token) user = respond (\<lambda>_. RSuccess) (auth_logout E token)"
| "auth_handle E A ip agent (AuthChangePassword cur new) user = withUser user (\<lambda>u.
     respond (\<lambda>_. RSuccess) (auth_changeOwnPassword E (au_id u) cur new))"
| "auth_handle E A ip agent AuthGenerateTwoFactor user = withUser user (\<lambda>u.
     respond RSecret (auth_generateTwoFactorSecret E (au_id u)))"
| "auth_handle E A ip agent (AuthEnableTwoFactor code) user = withUser user (\<lambda>u.
     respond RRecoveryCodes (auth_enableTwoFactor E (au_id u) code))"
| "auth_handle E A ip agent (AuthDisableTwoFactor code) user = withUser user (\<lambda>u.
     respond (\<lambda>_. RSuccess) (auth_disableTwoFactor E (au_id u) code))"
| "auth_handle E A ip agent (AuthImpersonate param userId) user = withUser user (\<lambda>u.
     respond RAccessToken (auth_impersonate E (au_id u) userId ip))"
| "auth_handle E A ip agent (AuthOAuthStart p) user = ret RRedirect"
| "auth_handle E A ip agent (AuthOAuthCallback p) user =
     bnd (external (\<lambda>n. ax_oauth A n p)) (\<lambda>profile. case profile of
       None \<Rightarrow> throw (UnauthorizedException ''Unauthorized'')
     | Some pr \<Rightarrow> respond RLogin (auth_oauthCallback E pr ip))"

subsection \<open>users/users.controller.ts\<close>

datatype usersRoute =
    UsersList "string option" "string option"
  | UsersLookup string
  | UsersGet id
  | UsersCreate createUserDto
  | UsersUpdate id updateUserDto
  | UsersResetPassword id string
  | UsersSuspend id string
  | UsersBan id string
  | UsersReactivate id
  | UsersDelete id

datatype usersResponse =
    RUsers "(user \<times> role option) list" | RUserRef "id \<times> string \<times> string"
  | RUser "user \<times> role option" | RUserRow user | RUsersDone

fun users_required :: "usersRoute \<Rightarrow> string list option" where
  "users_required (UsersList _ _) = Some [''users.read'']"
| "users_required (UsersLookup _) = None"
| "users_required (UsersGet _) = Some [''users.read'']"
| "users_required (UsersCreate _) = Some [''users.create'']"
| "users_required (UsersUpdate _ _) = Some [''users.update'']"
| "users_required (UsersResetPassword _ _) = Some [''users.update'']"
| "users_required (UsersSuspend _ _) = Some [''users.suspend'']"
| "users_required (UsersBan _ _) = Some [''users.ban'']"
| "users_required (UsersReactivate _) = Some [''users.update'']"
| "users_required (UsersDelete _) = Some [''users.delete'']"

fun users_handle :: "env \<Rightarrow> apiEnv \<Rightarrow> usersRoute \<Rightarrow> authUser option \<Rightarrow> usersResponse io" where
  "users_handle E A (UsersList skip n) user =
     bnd (queryInt skip) (\<lambda>s. bnd (queryInt n) (\<lambda>t. respond RUsers (users_list s t)))"
| "users_handle E A (UsersLookup email) user = respond RUserRef (users_lookupByEmail email)"
| "users_handle E A (UsersGet i) user = respond RUser (users_findByIdOrThrow i)"
| "users_handle E A (UsersCreate dto) user =
     validated (valid_createUserDto (ax_isEmail A) dto) (withUser user (\<lambda>u.
       respond RUserRow (users_create E dto (au_id u))))"
| "users_handle E A (UsersUpdate i dto) user = withUser user (\<lambda>u.
     respond RUserRow (users_update E i dto (au_id u)))"
| "users_handle E A (UsersResetPassword i pw) user = withUser user (\<lambda>u.
     respond (\<lambda>_. RUsersDone) (users_resetPassword E i pw (au_id u)))"
| "users_handle E A (UsersSuspend i reason) user = withUser user (\<lambda>u.
     respond RUserRow (users_suspend E i reason (au_id u)))"
| "users_handle E A (UsersBan i reason) user = withUser user (\<lambda>u.
     respond RUserRow (users_ban E i reason (au_id u)))"
| "users_handle E A (UsersReactivate i) user = withUser user (\<lambda>u.
     respond RUserRow (users_reactivate E i (au_id u)))"
| "users_handle E A (UsersDelete i) user = withUser user (\<lambda>u.
     respond (\<lambda>_. RUsersDone) (users_delete E i (au_id u)))"

subsection \<open>roles, api-keys, audit\<close>

datatype rolesRoute =
    RolesList
  | RolesListPermissions
  | RolesCreate string "string option"
  | RolesSetPermissions id "string list"
  | RolesDelete id

datatype rolesResponse =
    RRoles "(role \<times> string list) list" | RPermissions "permission list" | RRoleRow role
  | RRole "(role \<times> string list) option" | RRolesDone

fun roles_required :: "rolesRoute \<Rightarrow> string list option" where
  "roles_required RolesList = Some [''roles.read'']"
| "roles_required RolesListPermissions = Some [''roles.read'']"
| "roles_required (RolesCreate _ _) = Some [''roles.create'']"
| "roles_required (RolesSetPermissions _ _) = Some [''roles.update'']"
| "roles_required (RolesDelete _) = Some [''roles.delete'']"

fun roles_handle :: "env \<Rightarrow> rolesRoute \<Rightarrow> authUser option \<Rightarrow> rolesResponse io" where
  "roles_handle E RolesList user = respond RRoles roles_list"
| "roles_handle E RolesListPermissions user = respond RPermissions roles_listPermissions"
| "roles_handle E (RolesCreate name description) user = withUser user (\<lambda>u.
     respond RRoleRow (roles_create E name description (au_id u)))"
| "roles_handle E (RolesSetPermissions i keys) user = withUser user (\<lambda>u.
     respond RRole (roles_setPermissions E i keys (au_id u)))"
| "roles_handle E (RolesDelete i) user = withUser user (\<lambda>u.
     respond (\<lambda>_. RRolesDone) (roles_delete E i (au_id u)))"

datatype apiKeysRoute =
    ApiKeysList
  | ApiKeysCreate string "string list option" "time option"
  | ApiKeysRevoke id

datatype apiKeysResponse = RKeys "apiKeyItem list" | RCreatedKey createdKey | RKeysDone

text \<open>\<open>create\<close> is passed the user itself, which it reads after the check of the scopes.\<close>

fun apiKeys_handle :: "env \<Rightarrow> apiKeysRoute \<Rightarrow> authUser option \<Rightarrow> apiKeysResponse io" where
  "apiKeys_handle E ApiKeysList user = withUser user (\<lambda>u. respond RKeys (apiKeys_list (au_id u)))"
| "apiKeys_handle E (ApiKeysCreate name scopes expiresAt) user = (case user of
     Some u \<Rightarrow> respond RCreatedKey (apiKeys_create E u name (orElse scopes []) expiresAt)
   | None \<Rightarrow> andThen (throwIf (orElse scopes [] = [])
       (BadRequestException ''Selectionnez au moins une permission'')) (throw TypeError))"
| "apiKeys_handle E (ApiKeysRevoke i) user = (case user of
     Some u \<Rightarrow> respond (\<lambda>_. RKeysDone) (apiKeys_revoke E i u)
   | None \<Rightarrow> bnd (dbFind t_apiKeys (\<lambda>k. k_id k = i)) (\<lambda>r. case r of
       None \<Rightarrow> throw (NotFoundException ''Cle API introuvable'') | Some k \<Rightarrow> throw TypeError))"

datatype auditRoute = AuditList "string option" "string option" "id option" "string option"

fun audit_required :: "auditRoute \<Rightarrow> string list option" where
  "audit_required (AuditList _ _ _ _) = Some [''audit.read'']"

fun audit_handle ::
  "auditRoute \<Rightarrow> authUser option \<Rightarrow> (auditLog \<times> (id \<times> string \<times> string) option) list io" where
  "audit_handle (AuditList skip n actor ttype) user =
     bnd (queryInt skip) (\<lambda>s. bnd (queryInt n) (\<lambda>t.
       audit_list \<lparr>al_skip = s, al_take = t, al_actor = actor, al_targetType = ttype\<rparr>))"

subsection \<open>nodes, templates, monitoring\<close>

datatype nodesRoute =
    NodesList
  | NodesGet id
  | NodesHealth id
  | NodesCreate createNodeDto
  | NodesEnableMaintenance id
  | NodesDisableMaintenance id
  | NodesDelete id

datatype nodesResponse =
    RNodes "(node \<times> nat) list" | RNode node | RHealth healthResult | RNodesDone

fun nodes_required :: "nodesRoute \<Rightarrow> string list option" where
  "nodes_required NodesList = Some [''nodes.read'']"
| "nodes_required (NodesGet _) = Some [''nodes.read'']"
| "nodes_required (NodesHealth _) = Some [''nodes.read'']"
| "nodes_required (NodesCreate _) = Some [''nodes.create'']"
| "nodes_required (NodesEnableMaintenance _) = Some [''nodes.maintenance'']"
| "nodes_required (NodesDisableMaintenance _) = Some [''nodes.maintenance'']"
| "nodes_required (NodesDelete _) = Some [''nodes.delete'']"

fun nodes_handle :: "env \<Rightarrow> nodesRoute \<Rightarrow> authUser option \<Rightarrow> nodesResponse io" where
  "nodes_handle E NodesList user = respond RNodes nodes_list"
| "nodes_handle E (NodesGet i) user = respond RNode (nodes_findByIdOrThrow i)"
| "nodes_handle E (NodesHealth i) user = respond RHealth (nodes_healthCheck E i)"
| "nodes_handle E (NodesCreate dto) user = validated (valid_createNodeDto dto) (withUser user (\<lambda>u.
     respond RNode (nodes_create E dto (au_id u))))"
| "nodes_handle E (NodesEnableMaintenance i) user = withUser user (\<lambda>u.
     respond RNode (nodes_setMaintenance E i True (au_id u)))"
| "nodes_handle E (NodesDisableMaintenance i) user = withUser user (\<lambda>u.
     respond RNode (nodes_setMaintenance E i False (au_id u)))"
| "nodes_handle E (NodesDelete i) user = withUser user (\<lambda>u.
     respond (\<lambda>_. RNodesDone) (nodes_delete E i (au_id u)))"

datatype templatesRoute = TemplatesList | TemplatesCreate templateBody

datatype templatesResponse = RTemplates "serverTemplate list" | RTemplate serverTemplate

fun templates_required :: "templatesRoute \<Rightarrow> string list option" where
  "templates_required TemplatesList = Some [''servers.create'']"
| "templates_required (TemplatesCreate _) = Some [''nodes.create'']"

fun templates_handle :: "env \<Rightarrow> templatesRoute \<Rightarrow> authUser option \<Rightarrow> templatesResponse io" where
  "templates_handle E TemplatesList user = respond RTemplates templates_list"
| "templates_handle E (TemplatesCreate body) user = withUser user (\<lambda>u.
     respond RTemplate (templates_create E body (au_id u)))"

datatype monitoringRoute = MonitoringSummary

fun monitoring_required :: "monitoringRoute \<Rightarrow> string list option" where
  "monitoring_required MonitoringSummary = Some [''monitoring.read'']"

fun monitoring_handle :: "monitoringRoute \<Rightarrow> authUser option \<Rightarrow> monitoringSummary io" where
  "monitoring_handle MonitoringSummary user = monitoring_summary"

subsection \<open>servers/servers.controller.ts\<close>

datatype serversRoute =
    ServersList
  | ServersGet id
  | ServersCreate createServerDto
  | ServersUpdate id updateServerDto
  | ServersReinstall id
  | ServersAddAllocation id
  | ServersRemoveAllocation id id
  | ServersPower id powerAct
  | ServersCommand id string
  | ServersSuspend id string
  | ServersUnsuspend id
  | ServersDelete id
  | ServersAddSubUser id id "string list"
  | ServersRemoveSubUser id id

datatype serversResponse =
    RServers "serverListItem list" | RServer serverView | RCreated "server \<times> int"
  | RServerRow server | RAllocation networkAllocation | RAction actionResponse
  | RSubUser serverSubUser | RServersDone

fun servers_required :: "serversRoute \<Rightarrow> string list option" where
  "servers_required ServersList = Some [''servers.read'']"
| "servers_required (ServersGet _) = Some [''servers.read'']"
| "servers_required (ServersCreate _) = Some [''servers.create'']"
| "servers_required (ServersUpdate _ _) = Some [''servers.update'']"
| "servers_required (ServersReinstall _) = Some [''servers.update'']"
| "servers_required (ServersAddAllocation _) = Some [''servers.update'']"
| "servers_required (ServersRemoveAllocation _ _) = Some [''servers.update'']"
| "servers_required (ServersPower _ _) = Some [''servers.power'']"
| "servers_required (ServersCommand _ _) = Some [''servers.console'']"
| "servers_required (ServersSuspend _ _) = Some [''servers.suspend'']"
| "servers_required (ServersUnsuspend _) = Some [''servers.suspend'']"
| "servers_required (ServersDelete _) = Some [''servers.delete'']"
| "servers_required (ServersAddSubUser _ _ _) = Some [''servers.subusers'']"
| "servers_required (ServersRemoveSubUser _ _) = Some [''servers.subusers'']"

text \<open>The handlers are run with the user the guards let through; without one, reading a
  property of the user throws.\<close>

fun servers_handleFor :: "env \<Rightarrow> serversRoute \<Rightarrow> authUser \<Rightarrow> serversResponse io" where
  "servers_handleFor E ServersList u = respond RServers (servers_listForUser u)"
| "servers_handleFor E (ServersGet i) u = respond RServer (servers_findAccessibleOrThrow i u)"
| "servers_handleFor E (ServersCreate dto) u =
     validated (valid_createServerDto dto) (respond RCreated (servers_create E dto u))"
| "servers_handleFor E (ServersUpdate i dto) u = respond RServerRow (servers_update E i dto u)"
| "servers_handleFor E (ServersReinstall i) u = respond (\<lambda>_. RServersDone) (servers_reinstall E i u)"
| "servers_handleFor E (ServersAddAllocation i) u = respond RAllocation (servers_addAllocation E i u)"
| "servers_handleFor E (ServersRemoveAllocation i a) u =
     respond (\<lambda>_. RServersDone) (servers_removeAllocation E i a u)"
| "servers_handleFor E (ServersPower i act) u =
     respond (\<lambda>_. RServersDone) (servers_powerAction E i act u)"
| "servers_handleFor E (ServersCommand i c) u = respond RAction (servers_sendCommand E i c u)"
| "servers_handleFor E (ServersSuspend i reason) u =
     respond RServerRow (servers_suspend E i reason (au_id u))"
| "servers_handleFor E (ServersUnsuspend i) u = respond RServerRow (servers_unsuspend E i (au_id u))"
| "servers_handleFor E (ServersDelete i) u = respond (\<lambda>_. RServersDone) (servers_delete E i u)"
| "servers_handleFor E (ServersAddSubUser i x ps) u =
     respond RSubUser (servers_addSubUser E i x ps u)"
| "servers_handleFor E (ServersRemoveSubUser i x) u =
     respond (\<lambda>_. RServersDone) (servers_removeSubUser i x u)"

subsection \<open>backups, scheduled-tasks\<close>

text \<open>The server of the path is not read by the handlers that name a backup or a task.\<close>

datatype backupsRoute =
    BackupsList id
  | BackupsCreate id "string option"
  | BackupsRestore id id
  | BackupsDelete id id

datatype backupsResponse = RBackups "backup list" | RBackup backup | RBackupsDone

fun backups_required :: "backupsRoute \<Rightarrow> string list option" where
  "backups_required (BackupsList _) = Some [''backups.create'']"
| "backups_required (BackupsCreate _ _) = Some [''backups.create'']"
| "backups_required (BackupsRestore _ _) = Some [''backups.restore'']"
| "backups_required (BackupsDelete _ _) = Some [''backups.delete'']"

fun backups_handleFor :: "env \<Rightarrow> backupsRoute \<Rightarrow> authUser \<Rightarrow> backupsResponse io" where
  "backups_handleFor E (BackupsList sid) u = respond RBackups (backups_listForServer sid u)"
| "backups_handleFor E (BackupsCreate sid name) u =
     bnd (case name of Some n \<Rightarrow> ret n
          | None \<Rightarrow> bnd (external (now E)) (\<lambda>t. ret (''backup-'' @ show_int t))) (\<lambda>n.
     respond RBackup (backups_create E sid n u))"
| "backups_handleFor E (BackupsRestore sid bid) u =
     respond (\<lambda>_. RBackupsDone) (backups_restore E bid u)"
| "backups_handleFor E (BackupsDelete sid bid) u =
     respond (\<lambda>_. RBackupsDone) (backups_delete E bid u)"

datatype tasksRoute =
    TasksList id
  | TasksCreate id string string string "(string \<times> string) list option"
  | TasksEnable id id
  | TasksDisable id id
  | TasksDelete id id

datatype tasksResponse = RTasks "scheduledTask list" | RTask scheduledTask | RTasksDone

fun tasks_required :: "tasksRoute \<Rightarrow> string list option" where
  "tasks_required r = Some [''servers.update'']"

fun tasks_handleFor :: "env \<Rightarrow> tasksRoute \<Rightarrow> authUser \<Rightarrow> tasksResponse io" where
  "tasks_handleFor E (TasksList sid) u = respond RTasks (tasks_listForServer sid u)"
| "tasks_handleFor E (TasksCreate sid name cron act payload) u =
     respond RTask (tasks_create E sid name cron act payload u)"
| "tasks_handleFor E (TasksEnable sid tid) u = respond RTask (tasks_setEnabled E tid True u)"
| "tasks_handleFor E (TasksDisable sid tid) u = respond RTask (tasks_setEnabled E tid False u)"
| "tasks_handleFor E (TasksDelete sid tid) u = respond (\<lambda>_. RTasksDone) (tasks_delete E tid u)"

subsection \<open>files/files.controller.ts, files/sftp-auth.controller.ts\<close>

datatype filesRoute =
    FilesList id "string option"
  | FilesRead id string
  | FilesUpload id string string string
  | FilesMkdir id string
  | FilesWrite id string "string option"
  | FilesDelete id string
  | FilesRename id string string

text \<open>A download carries the name of the file and its content.\<close>

datatype filesResponse = RFiles "fileEntry list" | RDownload string string | RFilesDone

fun files_required :: "filesRoute \<Rightarrow> string list option" where
  "files_required (FilesList _ _) = Some [''files.read'']"
| "files_required (FilesRead _ _) = Some [''files.read'']"
| "files_required (FilesUpload _ _ _ _) = Some [''files.write'']"
| "files_required (FilesMkdir _ _) = Some [''files.write'']"
| "files_required (FilesWrite _ _ _) = Some [''files.write'']"
| "files_required (FilesDelete _ _) = Some [''files.write'']"
| "files_required (FilesRename _ _ _) = Some [''files.write'']"

text \<open>\<open>path.split('/').pop() || 'download'\<close>, and the target of an upload.\<close>

definition downloadName :: "string \<Rightarrow> string" where
  "downloadName path = (let f = last (splitOn (CHR ''/'') path) in
     if f = [] then ''download'' else f)"

definition uploadPath :: "string \<Rightarrow> string \<Rightarrow> string" where
  "uploadPath path originalname =
     rev (dropWhile (\<lambda>c. c = CHR ''/'') (rev path)) @ ''/'' @ originalname"

fun files_handleFor :: "env \<Rightarrow> filesRoute \<Rightarrow> authUser \<Rightarrow> filesResponse io" where
  "files_handleFor E (FilesList sid path) u = respond RFiles (files_list E sid (orElse path []) u)"
| "files_handleFor E (FilesRead sid path) u =
     respond (RDownload (downloadName path)) (files_read E sid path u)"
| "files_handleFor E (FilesUpload sid path originalname content) u =
     respond (\<lambda>_. RFilesDone) (files_write E sid (uploadPath path originalname) content u)"
| "files_handleFor E (FilesMkdir sid path) u = respond (\<lambda>_. RFilesDone) (files_mkdir E sid path u)"
| "files_handleFor E (FilesWrite sid path content) u =
     respond (\<lambda>_. RFilesDone) (files_write E sid path (orElse content []) u)"
| "files_handleFor E (FilesDelete sid path) u = respond (\<lambda>_. RFilesDone) (files_delete E sid path u)"
| "files_handleFor E (FilesRename sid a b) u = respond (\<lambda>_. RFilesDone) (files_rename E sid a b u)"

datatype sftpRoute = SftpAuth "string option" string string

text \<open>The secret of the header is checked by the guard of the controller.\<close>

fun sftp_handle :: "env \<Rightarrow> sftpRoute \<Rightarrow> sftpAuthResult io" where
  "sftp_handle E (SftpAuth secret username password) = (case nodeSecretGuard E secret of
     Inl e \<Rightarrow> throw e | Inr _ \<Rightarrow> sftp_authenticate E username password)"

end
