(* ===== verification/CommerceControllers.thy ===== *)
theory CommerceControllers
  imports Controllers
begin

text \<open>The controllers of the mods, the marketplace, the billing and the support.\<close>

subsection \<open>mods/mods.controller.ts\<close>

datatype modsRoute =
    ModrinthSearch "string option" "string option" "string option"
  | ModrinthVersions string "string option" "string option"
  | CurseforgeSearch "string option" "string option" "string option"
  | CurseforgeFiles string
  | ModsList id
  | ModsInstallModrinth id string "string option"
  | ModsInstallCurseforge id int int "string option"
  | ModsInstallMarketplace id string "string option"
  | ModsUninstall id id "string option"
  | ModpackModrinth id string
  | ModpackCurseforge id string

datatype modsResponse = RCatalogue json | RMods "installedMod list" | RMod installedMod
  | RPack nat | RModsDone

fun mods_required :: "modsRoute \<Rightarrow> string list option" where
  "mods_required (ModsList _) = Some [''mods.install'']"
| "mods_required (ModsInstallModrinth _ _ _) = Some [''mods.install'']"
| "mods_required (ModsInstallCurseforge _ _ _ _) = Some [''mods.install'']"
| "mods_required (ModsInstallMarketplace _ _ _) = Some [''mods.install'']"
| "mods_required (ModsUninstall _ _ _) = Some [''mods.remove'']"
| "mods_required (ModpackModrinth _ _) = Some [''mods.install'']"
| "mods_required (ModpackCurseforge _ _) = Some [''mods.install'']"
| "mods_required _ = None"

definition oneOf :: "string option \<Rightarrow> string list option" where
  "oneOf x = (if truthy x then Some [orElse x []] else None)"

text \<open>A handler that passes the user on to the access check of the server, which reads it after
  the server is found.\<close>

definition userForServer :: "id \<Rightarrow> authUser option \<Rightarrow> (authUser \<Rightarrow> 'a io) \<Rightarrow> 'a io" where
  "userForServer sid user f = (case user of
     Some u \<Rightarrow> f u
   | None \<Rightarrow> bnd (dbFind t_servers (\<lambda>s. s_id s = sid)) (\<lambda>r. case r of
       None \<Rightarrow> throw (NotFoundException ''Serveur introuvable'') | Some s \<Rightarrow> throw TypeError))"

fun mods_handle :: "env \<Rightarrow> apiEnv \<Rightarrow> modsRoute \<Rightarrow> authUser option \<Rightarrow> modsResponse io" where
  "mods_handle E A (ModrinthSearch query facets limit) user =
     respond RCatalogue (modrinth_search E (ax_mods A) query facets (queryNumber limit) None)"
| "mods_handle E A (ModrinthVersions projectId loader version) user =
     respond RCatalogue (modrinth_getVersions E (ax_mods A) projectId (oneOf loader) (oneOf version))"
| "mods_handle E A (CurseforgeSearch searchFilter version classId) user =
     respond RCatalogue (curseforge_search E (ax_mods A) searchFilter (queryNumber classId) version)"
| "mods_handle E A (CurseforgeFiles modId) user =
     respond RCatalogue (curseforge_getFiles E (ax_mods A) (parseInt modId))"
| "mods_handle E A (ModsList sid) user = respond RMods (mods_listInstalled sid)"
| "mods_handle E A (ModsInstallModrinth sid versionId dir) user = userForServer sid user (\<lambda>u.
     respond RMod (mods_installFromModrinth E (ax_mods A) sid versionId (orElse dir ''mods'') u))"
| "mods_handle E A (ModsInstallCurseforge sid modId fileId dir) user = userForServer sid user (\<lambda>u.
     respond RMod (mods_installFromCurseforge E (ax_mods A) sid modId fileId (orElse dir ''mods'') u))"
| "mods_handle E A (ModsInstallMarketplace sid slug dir) user = userForServer sid user (\<lambda>u.
     respond RMod (mods_installFromMarketplace E (ax_mods A) sid slug (orElse dir ''plugins'') u))"
| "mods_handle E A (ModsUninstall sid mid dir) user = userForServer sid user (\<lambda>u.
     respond (\<lambda>_. RModsDone) (mods_uninstall E sid mid (orElse dir ''mods'') u))"
| "mods_handle E A (ModpackModrinth sid url) user = userForServer sid user (\<lambda>u.
     respond RPack (mods_installModrinthModpack E (ax_mods A) sid url u))"
| "mods_handle E A (ModpackCurseforge sid archive) user = userForServer sid user (\<lambda>u.
     respond RPack (mods_installCurseforgeModpack E (ax_mods A) sid archive u))"

subsection \<open>marketplace/marketplace.controller.ts\<close>

datatype marketplaceRoute =
    MarketplaceList "string option"
  | MarketplaceGet string
  | MarketplaceDownload string
  | MarketplacePublish publishBody
  | MarketplaceVerify id

datatype marketplaceResponse = RItems "marketplaceItem list" | RItem marketplaceItem

fun marketplace_public :: "marketplaceRoute \<Rightarrow> bool" where
  "marketplace_public (MarketplaceList _) = True"
| "marketplace_public (MarketplaceGet _) = True"
| "marketplace_public _ = False"

fun marketplace_required :: "marketplaceRoute \<Rightarrow> string list option" where
  "marketplace_required (MarketplaceDownload _) = Some [''marketplace.read'']"
| "marketplace_required (MarketplacePublish _) = Some [''marketplace.publish'']"
| "marketplace_required (MarketplaceVerify _) = Some [''marketplace.publish'']"
| "marketplace_required _ = None"

fun marketplace_handle :: "env \<Rightarrow> marketplaceRoute \<Rightarrow> authUser option \<Rightarrow> marketplaceResponse io" where
  "marketplace_handle E (MarketplaceList type) user = respond RItems (marketplace_list type)"
| "marketplace_handle E (MarketplaceGet slug) user = respond RItem (marketplace_get slug)"
| "marketplace_handle E (MarketplaceDownload slug) user =
     respond RItem (marketplace_incrementDownloads slug)"
| "marketplace_handle E (MarketplacePublish body) user = withUser user (\<lambda>u.
     respond RItem (marketplace_publish E body (au_id u)))"
| "marketplace_handle E (MarketplaceVerify i) user = withUser user (\<lambda>u.
     respond RItem (marketplace_verify E i (au_id u)))"

subsection \<open>billing/billing.controller.ts\<close>

datatype billingRoute =
    BillingProducts
  | BillingCreateProduct string "string option"
  | BillingCreatePlan id planBody
  | BillingCreateCoupon couponBody
  | BillingInvoices
  | BillingSubscriptions
  | BillingRefund id
  | BillingCheckout id string string
  | StripeWebhook string string

datatype billingResponse =
    RProducts "(product \<times> plan list) list" | RProduct product | RPlan plan | RCoupon coupon
  | RInvoices "invoice list"
  | RSubscriptions "(subscription \<times> (plan \<times> product option) option) list"
  | RInvoice invoice | RCheckoutUrl "string option" | RReceived

fun billing_public :: "billingRoute \<Rightarrow> bool" where
  "billing_public (StripeWebhook _ _) = True"
| "billing_public _ = False"

fun billing_required :: "billingRoute \<Rightarrow> string list option" where
  "billing_required BillingProducts = Some [''billing.read'']"
| "billing_required (BillingCreateProduct _ _) = Some [''billing.manage'']"
| "billing_required (BillingCreatePlan _ _) = Some [''billing.manage'']"
| "billing_required (BillingCreateCoupon _) = Some [''billing.manage'']"
| "billing_required BillingInvoices = Some [''billing.read'']"
| "billing_required BillingSubscriptions = Some [''billing.read'']"
| "billing_required (BillingRefund _) = Some [''billing.refund'']"
| "billing_required (BillingCheckout _ _ _) = Some [''billing.read'']"
| "billing_required (StripeWebhook _ _) = None"

fun billing_handle ::
  "env \<Rightarrow> apiEnv \<Rightarrow> billingRoute \<Rightarrow> authUser option \<Rightarrow> billingResponse io" where
  "billing_handle E A BillingProducts user = respond RProducts billing_listProducts"
| "billing_handle E A (BillingCreateProduct name description) user = withUser user (\<lambda>u.
     respond RProduct (billing_createProduct E name description (au_id u)))"
| "billing_handle E A (BillingCreatePlan productId body) user = withUser user (\<lambda>u.
     respond RPlan (billing_createPlan E productId body (au_id u)))"
| "billing_handle E A (BillingCreateCoupon body) user = withUser user (\<lambda>u.
     respond RCoupon (billing_createCoupon E body (au_id u)))"
| "billing_handle E A BillingInvoices user = withUser user (\<lambda>u.
     respond RInvoices (billing_listInvoicesForUser (au_id u)))"
| "billing_handle E A BillingSubscriptions user = withUser user (\<lambda>u.
     respond RSubscriptions (billing_listSubscriptionsForUser (au_id u)))"
| "billing_handle E A (BillingRefund i) user = withUser user (\<lambda>u.
     respond RInvoice (billing_refundInvoice E i (au_id u)))"
| "billing_handle E A (BillingCheckout planId successUrl cancelUrl) user = withUser user (\<lambda>u.
     respond RCheckoutUrl
       (stripe_createCheckoutSession E (ax_stripe A) (au_id u) planId successUrl cancelUrl))"
| "billing_handle E A (StripeWebhook rawBody signature) user =
     respond (\<lambda>_. RReceived) (stripe_handleWebhook E (ax_stripe A) rawBody signature)"

subsection \<open>support/support.controller.ts\<close>

datatype supportRoute =
    SupportList
  | SupportGet id
  | SupportCreate string string
  | SupportReply id string
  | SupportSetStatus id string

datatype supportResponse =
    RTickets "(supportTicket \<times> (id \<times> string) option) list"
  | RTicket "supportTicket \<times> (ticketMessage \<times> (id \<times> string) option) list"
  | RNewTicket "supportTicket \<times> ticketMessage" | RMessage ticketMessage | RTicketRow supportTicket

fun support_required :: "supportRoute \<Rightarrow> string list option" where
  "support_required SupportList = Some [''support.create'']"
| "support_required (SupportGet _) = Some [''support.create'']"
| "support_required (SupportCreate _ _) = Some [''support.create'']"
| "support_required (SupportReply _ _) = Some [''support.create'']"
| "support_required (SupportSetStatus _ _) = Some [''support.reply'']"

text \<open>Whether a reply is from the staff.\<close>

definition repliesAsStaff :: "authUser \<Rightarrow> bool" where
  "repliesAsStaff u \<longleftrightarrow> has_perm u ''*'' \<or> has_perm u ''support.reply''"

fun support_handleFor :: "env \<Rightarrow> supportRoute \<Rightarrow> authUser \<Rightarrow> supportResponse io" where
  "support_handleFor E SupportList u = respond RTickets (support_listForUser u)"
| "support_handleFor E (SupportGet i) u = respond RTicket (support_findAccessibleOrThrow i u)"
| "support_handleFor E (SupportCreate subject message) u =
     respond RNewTicket (support_create E subject message (au_id u))"
| "support_handleFor E (SupportReply i body) u =
     respond RMessage (support_reply E i body (au_id u) (repliesAsStaff u))"
| "support_handleFor E (SupportSetStatus i status) u =
     respond RTicketRow (support_setStatus E i status)"

end
