(* ===== verification/Api.thy ===== *)
theory Api
  imports CommerceControllers
begin

text \<open>
  The application: a request passes the authentication guard, the permissions guard and the
  handler of its route, in this order (\<^verbatim>\<open>main.ts\<close>). The guard that limits the rate of requests
  and the parsing of requests belong to the framework. The requests, the jobs they leave
  behind and the scheduler are the steps of the system.
\<close>

datatype route =
    AuthR authRoute
  | UsersR usersRoute
  | RolesR rolesRoute
  | ApiKeysR apiKeysRoute
  | AuditR auditRoute
  | NodesR nodesRoute
  | TemplatesR templatesRoute
  | MonitoringR monitoringRoute
  | ServersR serversRoute
  | BackupsR backupsRoute
  | TasksR tasksRoute
  | FilesR filesRoute
  | SftpR sftpRoute
  | ModsR modsRoute
  | MarketplaceR marketplaceRoute
  | BillingR billingRoute
  | SupportR supportRoute

datatype response =
    AuthRes authResponse
  | UsersRes usersResponse
  | RolesRes rolesResponse
  | ApiKeysRes apiKeysResponse
  | AuditRes "(auditLog \<times> (id \<times> string \<times> string) option) list"
  | NodesRes nodesResponse
  | TemplatesRes templatesResponse
  | MonitoringRes monitoringSummary
  | ServersRes serversResponse
  | BackupsRes backupsResponse
  | TasksRes tasksResponse
  | FilesRes filesResponse
  | SftpRes sftpAuthResult
  | ModsRes modsResponse
  | MarketplaceRes marketplaceResponse
  | BillingRes billingResponse
  | SupportRes supportResponse

fun isPublic :: "route \<Rightarrow> bool" where
  "isPublic (AuthR r) = auth_public r"
| "isPublic (MarketplaceR r) = marketplace_public r"
| "isPublic (BillingR r) = billing_public r"
| "isPublic (SftpR r) = True"
| "isPublic _ = False"

fun requiredPermissions :: "route \<Rightarrow> string list option" where
  "requiredPermissions (AuthR r) = auth_required r"
| "requiredPermissions (UsersR r) = users_required r"
| "requiredPermissions (RolesR r) = roles_required r"
| "requiredPermissions (ApiKeysR r) = None"
| "requiredPermissions (AuditR r) = audit_required r"
| "requiredPermissions (NodesR r) = nodes_required r"
| "requiredPermissions (TemplatesR r) = templates_required r"
| "requiredPermissions (MonitoringR r) = monitoring_required r"
| "requiredPermissions (ServersR r) = servers_required r"
| "requiredPermissions (BackupsR r) = backups_required r"
| "requiredPermissions (TasksR r) = tasks_required r"
| "requiredPermissions (FilesR r) = files_required r"
| "requiredPermissions (SftpR r) = None"
| "requiredPermissions (ModsR r) = mods_required r"
| "requiredPermissions (MarketplaceR r) = marketplace_required r"
| "requiredPermissions (BillingR r) = billing_required r"
| "requiredPermissions (SupportR r) = support_required r"

fun handle :: "env \<Rightarrow> apiEnv \<Rightarrow> httpRequest \<Rightarrow> route \<Rightarrow> authUser option \<Rightarrow> response io" where
  "handle E A rq (AuthR r) user =
     respond AuthRes (auth_handle E A (hq_ip rq) (hq_userAgent rq) r user)"
| "handle E A rq (UsersR r) user = respond UsersRes (users_handle E A r user)"
| "handle E A rq (RolesR r) user = respond RolesRes (roles_handle E r user)"
| "handle E A rq (ApiKeysR r) user = respond ApiKeysRes (apiKeys_handle E r user)"
| "handle E A rq (AuditR r) user = respond AuditRes (audit_handle r user)"
| "handle E A rq (NodesR r) user = respond NodesRes (nodes_handle E r user)"
| "handle E A rq (TemplatesR r) user = respond TemplatesRes (templates_handle E r user)"
| "handle E A rq (MonitoringR r) user = respond MonitoringRes (monitoring_handle r user)"
| "handle E A rq (ServersR r) user = withUser user (\<lambda>u. respond ServersRes (servers_handleFor E r u))"
| "handle E A rq (BackupsR r) user = withUser user (\<lambda>u. respond BackupsRes (backups_handleFor E r u))"
| "handle E A rq (TasksR r) user = withUser user (\<lambda>u. respond TasksRes (tasks_handleFor E r u))"
| "handle E A rq (FilesR r) user = withUser user (\<lambda>u. respond FilesRes (files_handleFor E r u))"
| "handle E A rq (SftpR r) user = respond SftpRes (sftp_handle E r)"
| "handle E A rq (ModsR r) user = respond ModsRes (mods_handle E A r user)"
| "handle E A rq (MarketplaceR r) user = respond MarketplaceRes (marketplace_handle E r user)"
| "handle E A rq (BillingR r) user = respond BillingRes (billing_handle E A r user)"
| "handle E A rq (SupportR r) user = withUser user (\<lambda>u. respond SupportRes (support_handleFor E r u))"

definition liftGuard :: "exn + bool \<Rightarrow> unit io" where
  "liftGuard g = (case g of Inl e \<Rightarrow> throw e
     | Inr ok \<Rightarrow> throwIf (\<not> ok) (ForbiddenException ''Forbidden resource''))"

definition api_dispatch :: "env \<Rightarrow> apiEnv \<Rightarrow> httpRequest \<Rightarrow> route \<Rightarrow> response io" where
  "api_dispatch E A rq r =
     bnd (jwtAuthGuard E (isPublic r) rq) (\<lambda>user.
     andThen (liftGuard (permissionsGuard (requiredPermissions r) user))
     (handle E A rq r user))"

text \<open>The exception filter turns the outcome into a response.\<close>

definition api_request :: "env \<Rightarrow> apiEnv \<Rightarrow> httpRequest \<Rightarrow> route \<Rightarrow> (errorBody + response) io" where
  "api_request E A rq r = tryCatch
     (bnd (api_dispatch E A rq r) (\<lambda>x. ret (Inr x)))
     (\<lambda>e. bnd (exceptionFilter E e) (\<lambda>b. ret (Inl b)))"

subsection \<open>The system\<close>

text \<open>A job runs once, some time after the request that started it; its exceptions are logged.\<close>

definition runJob :: "env \<Rightarrow> job \<Rightarrow> unit io" where
  "runJob E j = (case j of
       ProvisionJob sid nid host port \<Rightarrow> servers_provisionOnNode E sid nid host port
     | BackupJob bid nid uuid host port \<Rightarrow> backups_runBackup E bid nid uuid host port)"

definition takeJob :: "env \<Rightarrow> nat \<Rightarrow> unit io" where
  "takeJob E k = bnd (gets w_jobs) (\<lambda>js.
     if k < length js
     then andThen (modify (\<lambda>w. w\<lparr>w_jobs := take k js @ drop (Suc k) js\<rparr>))
       (tryCatch (runJob E (js ! k)) (\<lambda>e. ret ()))
     else ret ())"

text \<open>The steps of the system. The handlers run one after the other here, except that the two
  halves of a creation of a server may be separated by other steps: the first half has a
  request choose a node, and the second commits what some first half chose.\<close>

inductive systemStep :: "env \<Rightarrow> apiEnv \<Rightarrow> world \<Rightarrow> world \<Rightarrow> bool" for E A where
  request: "api_request E A rq r w = (x, w') \<Longrightarrow> systemStep E A w w'"
| createCommit: "servers_createCommit E dto actor sel w = (x, w') \<Longrightarrow> systemStep E A w w'"
| runJob: "takeJob E k w = (x, w') \<Longrightarrow> systemStep E A w w'"
| scheduler: "tasks_runDueTasks E w = (x, w') \<Longrightarrow> systemStep E A w w'"

inductive systemReach :: "env \<Rightarrow> apiEnv \<Rightarrow> world \<Rightarrow> world \<Rightarrow> bool" for E A w where
  start: "systemReach E A w w"
| step: "systemReach E A w x \<Longrightarrow> systemStep E A x y \<Longrightarrow> systemReach E A w y"

end
