(* ===== verification/System.thy ===== *)
theory System
  imports Api Server_Facts
begin

text \<open>
  What every request, job and run of the scheduler keeps: the counters of the nodes match the
  servers placed on them, and no two allocations share a port. The operations that do not
  touch nodes, servers or allocations keep any property of these three tables.
\<close>

definition infraOnly :: "(db \<Rightarrow> bool) \<Rightarrow> bool" where
  "infraOnly J \<longleftrightarrow> (\<forall>d d'. t_nodes d' = t_nodes d \<and> t_servers d' = t_servers d \<and>
     t_allocations d' = t_allocations d \<longrightarrow> J d' = J d)"

lemma infraOnlyD:
  "infraOnly J \<Longrightarrow> J d \<Longrightarrow> t_nodes d' = t_nodes d \<Longrightarrow> t_servers d' = t_servers d \<Longrightarrow>
   t_allocations d' = t_allocations d \<Longrightarrow> J d'"
  unfolding infraOnly_def by blast

lemma infraOnly_frameI:
  "infraOnly J \<Longrightarrow> (\<And>g d. t_nodes (upd g d) = t_nodes d) \<Longrightarrow>
   (\<And>g d. t_servers (upd g d) = t_servers d) \<Longrightarrow>
   (\<And>g d. t_allocations (upd g d) = t_allocations d) \<Longrightarrow> frame J upd"
  unfolding frame_def by (metis infraOnlyD)

lemma infraOnly_frames:
  assumes "infraOnly J"
  shows "frame J t_users_update" "frame J t_roles_update" "frame J t_permissions_update"
    "frame J t_rolePermissions_update" "frame J t_refreshTokens_update" "frame J t_apiKeys_update"
    "frame J t_auditLogs_update" "frame J t_templates_update" "frame J t_subUsers_update"
    "frame J t_tasks_update" "frame J t_backups_update" "frame J t_mods_update"
    "frame J t_products_update" "frame J t_plans_update" "frame J t_subscriptions_update"
    "frame J t_invoices_update" "frame J t_coupons_update" "frame J t_tickets_update"
    "frame J t_messages_update" "frame J t_items_update"
  by (rule infraOnly_frameI [OF assms]; simp)+

lemma infraOnly_deletes:
  assumes "infraOnly J"
  shows "J d \<Longrightarrow> J (drop_user i d)" and "J d \<Longrightarrow> J (drop_role i d)"
  by (rule infraOnlyD [OF assms]; simp add: drop_user_def drop_role_def)+

lemma infraOnly_writes:
  assumes "infraOnly J"
  shows "keepsDb J (audit_log E e)" and "keepsDb J (dbDeleteUser i)" and "keepsDb J (dbDeleteRole i)"
  by (rule keepsDb_audit_log [OF infraOnly_frames(7) [OF assms]])
     (simp_all add: keepsDb_def keeps_def prog_simps infraOnly_deletes [OF assms])

lemma keepsDb_case_sum [keepsDb_intros]:
  "(\<And>a. x = Inl a \<Longrightarrow> keepsDb J (f a)) \<Longrightarrow> (\<And>b. x = Inr b \<Longrightarrow> keepsDb J (g b)) \<Longrightarrow>
   keepsDb J (case x of Inl a \<Rightarrow> f a | Inr b \<Rightarrow> g b)"
  by (cases x) auto

lemma keepsDb_steps [keepsDb_intros]:
  "keepsDb J (callServer E orc v method req)"
  "keepsDb J (liftJs x)"
  "keepsDb J (fetchUrl X url)"
  unfolding callServer_def liftJs_def fetchUrl_def
  by (intro keepsDb_intros keepsDb_modify; simp)+

lemma keepsDb_case_event [keepsDb_intros]:
  "(\<And>a. x = CheckoutSessionCompleted a \<Longrightarrow> keepsDb J (f a)) \<Longrightarrow>
   (\<And>b. x = StripeInvoicePaid b \<Longrightarrow> keepsDb J (g b)) \<Longrightarrow>
   (\<And>c. x = OtherEvent c \<Longrightarrow> keepsDb J (h c)) \<Longrightarrow>
   keepsDb J (case x of CheckoutSessionCompleted a \<Rightarrow> f a | StripeInvoicePaid b \<Rightarrow> g b
     | OtherEvent c \<Rightarrow> h c)"
  by (cases x) auto

lemmas infra_rules = keepsDb_intros infraOnly_writes infraOnly_frames keepsDb_write_frame
  keepsDb_assertSafeDownloadUrl

subsection \<open>Identity\<close>

lemma infra_randomCodes: "keepsDb J (randomCodes E k)"
  by (induction k) (auto intro!: keepsDb_intros)

lemma infra_auth:
  assumes J: "infraOnly J"
  shows "keepsDb J (auth_register E rdto ip)" "keepsDb J (auth_loginRoute E ldto ip agent)"
    "keepsDb J (auth_refresh E token ip)" "keepsDb J (auth_logout E token)"
    "keepsDb J (auth_changeOwnPassword E i a b)" "keepsDb J (auth_generateTwoFactorSecret E i)"
    "keepsDb J (auth_enableTwoFactor E i code)" "keepsDb J (auth_disableTwoFactor E i code)"
    "keepsDb J (auth_impersonate E i target ip)" "keepsDb J (auth_oauthCallback E profile ip)"
  unfolding auth_register_def auth_loginRoute_def auth_login_def auth_secondFactor_def
    auth_validateLocalUser_def auth_verifyTotp_def auth_refresh_def auth_logout_def
    auth_changeOwnPassword_def auth_generateTwoFactorSecret_def auth_enableTwoFactor_def
    auth_disableTwoFactor_def auth_impersonate_def auth_oauthCallback_def
    auth_validateOAuthLogin_def auth_issueTokenPair_def signAccess_def revokeTokensOf_def Let_def
  by (intro infra_rules infra_randomCodes J)+

lemma infra_users:
  assumes J: "infraOnly J"
  shows "keepsDb J (users_list skip n)" "keepsDb J (users_lookupByEmail email)"
    "keepsDb J (users_findByIdOrThrow i)" "keepsDb J (users_create E cdto a)"
    "keepsDb J (users_update E i udto a)" "keepsDb J (users_resetPassword E i pw a)"
    "keepsDb J (users_suspend E i reason a)" "keepsDb J (users_ban E i reason a)"
    "keepsDb J (users_reactivate E i a)" "keepsDb J (users_delete E i a)"
    "keepsDb J roles_list" "keepsDb J roles_listPermissions"
    "keepsDb J (roles_create E name description a)" "keepsDb J (roles_setPermissions E i keys a)"
    "keepsDb J (roles_delete E i a)"
    "keepsDb J (apiKeys_list i)" "keepsDb J (apiKeys_create E u name scopes expiresAt)"
    "keepsDb J (apiKeys_revoke E i u)" "keepsDb J (apiKeys_validateAndGetUser E token)"
    "keepsDb J (passportJwt E auth)" "keepsDb J (audit_list ps)"
  unfolding users_list_def users_lookupByEmail_def users_findByIdOrThrow_def users_create_def
    users_update_def users_resetPassword_def users_suspend_def users_ban_def users_reactivate_def
    users_delete_def roles_list_def roles_listPermissions_def roles_create_def
    roles_setPermissions_def createMany_rolePermissions_def roles_delete_def apiKeys_list_def
    apiKeys_create_def apiKeys_revoke_def apiKeys_validateAndGetUser_def passportJwt_def
    jwt_validate_def audit_list_def revokeTokensOf_def Let_def
  by (intro infra_rules J)+

subsection \<open>The content of servers\<close>

lemma infra_content:
  assumes J: "infraOnly J"
  shows "keepsDb J (files_list E sid path u)" "keepsDb J (files_read E sid path u)"
    "keepsDb J (files_write E sid path content u)" "keepsDb J (files_delete E sid path u)"
    "keepsDb J (files_rename E sid path b u)" "keepsDb J (files_mkdir E sid path u)"
    "keepsDb J (sftp_authenticate E name pw)"
    "keepsDb J (backups_listForServer sid u)" "keepsDb J (backups_create E sid name u)"
    "keepsDb J (backups_delete E bid u)" "keepsDb J (backups_runBackup E bid nid uuid host port)"
    "keepsDb J (tasks_listForServer sid u)" "keepsDb J (tasks_create E sid name cron act payload u)"
    "keepsDb J (tasks_setEnabled E tid b1 u)" "keepsDb J (tasks_delete E tid u)"
  unfolding files_list_def files_read_def files_write_def files_delete_def files_rename_def
    files_mkdir_def sftp_authenticate_def auth_validateLocalUserByUsername_def
    backups_listForServer_def backups_create_def backups_delete_def backupServer_def
    backups_runBackup_def updateBackup_def tasks_listForServer_def tasks_create_def
    tasks_setEnabled_def tasks_delete_def tasks_computeNextRun_def Let_def
  by (intro infra_rules J)+

lemma infra_mods:
  assumes J: "infraOnly J"
  shows "keepsDb J (modrinth_search E X query facets limit offset)"
    "keepsDb J (modrinth_getVersions E X project loaders versions)"
    "keepsDb J (curseforge_search E X filter' class' version)" "keepsDb J (curseforge_getFiles E X m)"
    "keepsDb J (mods_listInstalled sid)" "keepsDb J (mods_installFromModrinth E X sid ver dir u)"
    "keepsDb J (mods_installFromCurseforge E X sid m' f' dir u)"
    "keepsDb J (mods_installFromMarketplace E X sid slug dir u)"
    "keepsDb J (mods_uninstall E sid mid dir u)"
    "keepsDb J (mods_installModrinthModpack E X sid url u)"
    "keepsDb J (mods_installCurseforgeModpack E X sid archive u)"
  unfolding modrinth_search_def modrinth_getVersions_def curseforge_search_def
    curseforge_getFiles_def mods_listInstalled_def mods_installFromModrinth_def
    mods_installFromCurseforge_def mods_installFromMarketplace_def mods_uninstall_def
    mods_installModrinthModpack_def mods_installCurseforgeModpack_def modrinth_getVersion_def
    curseforge_getFile_def downloadFile_def mods_writeToServer_def upsertMod_def
    marketplace_get_def marketplace_incrementDownloads_def packFileStep_def
    curseforgeFileStep_def Let_def
  by (intro infra_rules J)+

subsection \<open>Marketplace, billing, support\<close>

lemma infra_commerce:
  assumes J: "infraOnly J"
  shows "keepsDb J (marketplace_list type)" "keepsDb J (marketplace_get slug)"
    "keepsDb J (marketplace_publish E pbody a)" "keepsDb J (marketplace_incrementDownloads slug)"
    "keepsDb J (marketplace_verify E i a)" "keepsDb J templates_list"
    "keepsDb J (templates_create E tbody a)" "keepsDb J billing_listProducts"
    "keepsDb J (billing_createProduct E name description a)"
    "keepsDb J (billing_createPlan E i plbody a)" "keepsDb J (billing_createCoupon E cbody a)"
    "keepsDb J (billing_validateCoupon E code)" "keepsDb J (billing_listInvoicesForUser i)"
    "keepsDb J (billing_listSubscriptionsForUser i)" "keepsDb J (billing_refundInvoice E i a)"
    "keepsDb J (stripe_createCheckoutSession E S i plan' url1 url2)"
    "keepsDb J (stripe_handleWebhook E S raw signature)"
  unfolding marketplace_list_def marketplace_get_def marketplace_publish_def
    marketplace_incrementDownloads_def marketplace_verify_def templates_list_def
    templates_create_def billing_listProducts_def billing_createProduct_def billing_createPlan_def
    billing_createCoupon_def billing_validateCoupon_def billing_listInvoicesForUser_def
    billing_listSubscriptionsForUser_def billing_refundInvoice_def stripe_createCheckoutSession_def
    stripe_handleWebhook_def stripe_dispatch_def stripe_onCheckoutCompleted_def
    stripe_onInvoicePaid_def billing_createInvoiceNumber_def requireStripe_def Let_def
  by (intro infra_rules J)+

lemma infra_support:
  assumes J: "infraOnly J"
  shows "keepsDb J (support_listForUser u)" "keepsDb J (support_findAccessibleOrThrow i u)"
    "keepsDb J (support_create E subject message i)" "keepsDb J (support_reply E i body a staff)"
    "keepsDb J (support_setStatus E i status)" "keepsDb J monitoring_summary"
  unfolding support_listForUser_def support_findAccessibleOrThrow_def support_create_def
    createMessage_def support_reply_def support_setStatus_def monitoring_summary_def
  by (intro infra_rules J)+

subsection \<open>The invariant of the infrastructure\<close>

definition infraInv :: "db \<Rightarrow> bool" where
  "infraInv d \<longleftrightarrow> accounting d \<and> portsUnique d"

lemma infraOnly_infraInv: "infraOnly infraInv"
  by (auto simp: infraOnly_def infraInv_def accounting_def portsUnique_def countersMatch_def
      nodeUsage_def node_exists_def)

lemma keepsDb_infraInv: "keepsDb accounting m \<Longrightarrow> keepsDb portsUnique m \<Longrightarrow> keepsDb infraInv m"
  by (simp add: infraInv_def keepsDb_def keeps_def)

lemma portsUnique_frames: "frame portsUnique t_nodes_update" "frame portsUnique t_servers_update"
  by (simp_all add: frame_def portsUnique_def)

lemma portsUnique_nodes:
  "keepsDb portsUnique nodes_list" "keepsDb portsUnique (nodes_findByIdOrThrow i)"
  "keepsDb portsUnique (nodes_setMaintenance E i enabled a)"
  "keepsDb portsUnique (nodes_healthCheck E i)" "keepsDb portsUnique (nodes_create E dto a)"
  unfolding nodes_list_def nodes_findByIdOrThrow_def nodes_setMaintenance_def
    nodes_healthCheck_def nodes_create_def
  by (intro keepsDb_intros keepsDb_write_frame keepsDb_audit_log portsUnique_frame)+

lemma portsUnique_dropNode: "keepsDb portsUnique (dbDeleteNode i)"
  by (rule keepsDbI) (simp add: prog_simps portsUnique_def drop_node_def distinct_map_filter)

lemma portsUnique_nodes_delete: "keepsDb portsUnique (nodes_delete E i a)"
  unfolding nodes_delete_def
  by (intro keepsDb_intros keepsDb_audit_log portsUnique_frame portsUnique_dropNode)

lemma portsUnique_createCommit: "keepsDb portsUnique (servers_createCommit E dto actor sel)"
  unfolding servers_createCommit_def servers_createTx_def servers_insert_def node_increment_def
  by (intro keepsDb_intros server_writes portsUnique_frame keepsDb_portsUnique_create)

lemma infra_servers:
  "keepsDb infraInv (servers_createCommit E dto actor sel)"
  "keepsDb infraInv (servers_create E dto actor)" "keepsDb infraInv (servers_delete E sid actor)"
  "keepsDb infraInv (servers_powerAction E sid action actor)"
  "keepsDb infraInv (servers_sendCommand E sid command actor)"
  "keepsDb infraInv (servers_suspend E sid reason a)" "keepsDb infraInv (servers_unsuspend E sid a)"
  "keepsDb infraInv (servers_update E sid udto actor)"
  "keepsDb infraInv (servers_reinstall E sid actor)"
  "keepsDb infraInv (servers_addAllocation E sid actor)"
  "keepsDb infraInv (servers_removeAllocation E sid aid actor)"
  "keepsDb infraInv (servers_addSubUser E sid i ps actor)"
  "keepsDb infraInv (servers_removeSubUser sid i actor)"
  "keepsDb infraInv (servers_provisionOnNode E sid nid host port)"
  by (intro keepsDb_infraInv accounting_createCommit portsUnique_createCommit accounting_create
      portsUnique_create accounting_delete portsUnique_delete accounting_ops portsUnique_ops)+

lemma infra_nodes:
  "keepsDb infraInv nodes_list" "keepsDb infraInv (nodes_findByIdOrThrow i)"
  "keepsDb infraInv (nodes_healthCheck E i)" "keepsDb infraInv (nodes_create E ndto a)"
  "keepsDb infraInv (nodes_setMaintenance E i enabled a)" "keepsDb infraInv (nodes_delete E i a)"
  by (intro keepsDb_infraInv accounting_nodes accounting_nodes_create accounting_nodes_delete
      portsUnique_nodes portsUnique_nodes_delete)+

lemma infra_status: "keepsDb infraInv (setServerStatus sid st)"
  by (rule keepsDb_infraInv [OF keepsDb_accounting_status])
     (simp add: setServerStatus_def keepsDb_write_frame portsUnique_frames)

lemma infra_list: "keepsDb infraInv (servers_listForUser u)"
  unfolding servers_listForUser_def by (intro keepsDb_intros)

lemma infra_restore: "keepsDb infraInv (backups_restore E bid u)"
  unfolding backups_restore_def backupServer_def updateBackup_def
  by (intro infra_rules infra_status infraOnly_infraInv)

lemma infra_scheduler: "keepsDb infraInv (tasks_runDueTasks E)"
proof -
  have "keepsDb infraInv (tasks_execute E sid act payload)" for sid act payload
    unfolding tasks_execute_def
    by (cases act) (auto intro!: keepsDb_intros infra_servers
        infra_content [OF infraOnly_infraInv])
  then show ?thesis
    unfolding tasks_runDueTasks_def tasks_runOne_def tasks_computeNextRun_def
    by (intro infra_rules infraOnly_infraInv)
qed

end
