(* ===== verification/Sample_Services.thy ===== *)
theory Sample_Services
  imports Api Sample
begin

text \<open>Concrete catalogues, a concrete payment service and a request, for the witnesses.\<close>

definition sampleVersion :: modrinthVersion where
  "sampleVersion = \<lparr>mv_id = ''v1'', mv_name = ''Mod'', mv_dependencies = JArr [],
     mv_files = [\<lparr>mf_url = ''/mod.jar'', mf_filename = ''mod.jar'', mf_primary = True\<rparr>]\<rparr>"

text \<open>The archive of every download is a pack with one file and one override.\<close>

definition sampleMods :: modsEnv where
  "sampleMods = \<lparr>mxVersion = (\<lambda>n g. Inr (sampleVersion\<lparr>mv_id := drop 9 (hg_path g)\<rparr>)),
     mxFile = (\<lambda>n g. Inr \<lparr>xf_id = 1, xf_fileName = ''f.jar'', xf_downloadUrl = ''/f.jar''\<rparr>),
     mxJson = (\<lambda>n g. Inr JNull), mxDownload = (\<lambda>n u. Inr u),
     mxZip = (\<lambda>a. Inr [\<lparr>ze_name = ''modrinth-index.json'', ze_isDirectory = False, ze_data = []\<rparr>,
       \<lparr>ze_name = ''manifest.json'', ze_isDirectory = False, ze_data = []\<rparr>,
       \<lparr>ze_name = ''overrides/x'', ze_isDirectory = False, ze_data = ''x''\<rparr>]),
     mxIndex = (\<lambda>s. Inr [\<lparr>pf_path = ''mods/a.jar'', pf_downloads = [''/a.jar''], pf_serverEnv = None\<rparr>]),
     mxManifest = (\<lambda>s. Inr ([\<lparr>cr_projectID = 1, cr_fileID = 1\<rparr>], [])),
     mxStripDir = (\<lambda>d n. Inr (drop (length d + 1) n))\<rparr>"

definition sampleStripeInvoice :: stripeInvoice where
  "sampleStripeInvoice = \<lparr>sti_id = ''in_1'', sti_subscription = Some ''sub_1'',
     sti_subtotal = 1000, sti_total_taxes = Some [200], sti_total = 1200, sti_currency = ''eur''\<rparr>"

definition sampleStripe :: stripeEnv where
  "sampleStripe = \<lparr>sxConstructEvent = (\<lambda>n raw sig secret.
       if sig = ''sig'' then Inr (StripeInvoicePaid sampleStripeInvoice) else Inl ''bad signature''),
     sxCreateSession = (\<lambda>n r. Inr (Some ''https://pay'')), sxFullYear = (\<lambda>t. 2026)\<rparr>"

definition sampleApi :: apiEnv where
  "sampleApi = \<lparr>ax_mods = sampleMods, ax_stripe = sampleStripe, ax_isEmail = (\<lambda>s. True),
     ax_oauth = (\<lambda>n p. None)\<rparr>"

definition tokenRequest :: "id \<Rightarrow> string \<Rightarrow> httpRequest" where
  "tokenRequest i url = \<lparr>hq_url = url, hq_authorization = Some (''Bearer T:'' @ i),
     hq_ip = Some ''1.2.3.4'', hq_userAgent = None\<rparr>"

definition anonymousRequest :: "string \<Rightarrow> httpRequest" where
  "anonymousRequest url = \<lparr>hq_url = url, hq_authorization = None, hq_ip = None, hq_userAgent = None\<rparr>"

end
