(* ===== verification/System_Properties.thy ===== *)
theory System_Properties
  imports System Sample_Services Server_Properties
begin

text \<open>
  Properties of the application as a whole: who reaches a handler, what a response reveals of
  an error, and the invariant of the infrastructure over every run of the system.
\<close>

subsection \<open>Every handler keeps the invariant\<close>

lemma keepsDb_request_rules [keepsDb_intros]:
  "(\<And>u. user = Some u \<Longrightarrow> keepsDb J (g u)) \<Longrightarrow> keepsDb J (withUser user g)"
  "keepsDb J m \<Longrightarrow> keepsDb J (respond c m)"
  "keepsDb J m \<Longrightarrow> keepsDb J (validated ok m)"
  "(\<And>u. user = Some u \<Longrightarrow> keepsDb J (g u)) \<Longrightarrow> keepsDb J (userForServer sid user g)"
  "keepsDb J (queryInt x)"
  "keepsDb J (liftGuard gd)"
  unfolding withUser_def respond_def validated_def userForServer_def queryInt_def liftGuard_def
  by (intro keepsDb_intros; assumption)+

lemmas infra_ops = infra_servers infra_nodes infra_list infra_restore
  infra_auth [OF infraOnly_infraInv] infra_users [OF infraOnly_infraInv]
  infra_content [OF infraOnly_infraInv] infra_mods [OF infraOnly_infraInv]
  infra_commerce [OF infraOnly_infraInv] infra_support [OF infraOnly_infraInv]

lemma infra_handle_auth: "keepsDb infraInv (auth_handle E A ip agent r user)"
  by (cases r) (simp_all, (intro keepsDb_intros infra_ops)+)

lemma infra_handle_users: "keepsDb infraInv (users_handle E A r user)"
  by (cases r) (simp_all, (intro keepsDb_intros infra_ops)+)

lemma infra_handle_roles: "keepsDb infraInv (roles_handle E r user)"
  by (cases r) (simp_all, (intro keepsDb_intros infra_ops)+)

lemma infra_handle_keys: "keepsDb infraInv (apiKeys_handle E r user)"
  by (cases r) (simp_all, (intro keepsDb_intros infra_ops)+)

lemma infra_handle_nodes: "keepsDb infraInv (nodes_handle E r user)"
  by (cases r) (simp_all, (intro keepsDb_intros infra_ops)+)

lemma infra_handle_servers: "keepsDb infraInv (servers_handleFor E r u)"
  by (cases r) (simp_all, (intro keepsDb_intros infra_ops keepsDb_findAccessible)+)

lemma infra_handle_backups: "keepsDb infraInv (backups_handleFor E r u)"
  by (cases r) (simp_all, (intro keepsDb_intros infra_ops)+)

lemma infra_handle_tasks: "keepsDb infraInv (tasks_handleFor E r u)"
  by (cases r) (simp_all, (intro keepsDb_intros infra_ops)+)

lemma infra_handle_files: "keepsDb infraInv (files_handleFor E r u)"
  by (cases r) (simp_all, (intro keepsDb_intros infra_ops)+)

lemma infra_handle_mods: "keepsDb infraInv (mods_handle E A r user)"
  by (cases r) (simp_all, (intro keepsDb_intros infra_ops)+)

lemma infra_handle_marketplace: "keepsDb infraInv (marketplace_handle E r user)"
  by (cases r) (simp_all, (intro keepsDb_intros infra_ops)+)

lemma infra_handle_billing: "keepsDb infraInv (billing_handle E A r user)"
  by (cases r) (simp_all, (intro keepsDb_intros infra_ops)+)

lemma infra_handle_support: "keepsDb infraInv (support_handleFor E r u)"
  by (cases r) (simp_all, (intro keepsDb_intros infra_ops)+)

lemma infra_handle_small:
  "keepsDb infraInv (audit_handle ra user)" "keepsDb infraInv (templates_handle E rt user)"
  "keepsDb infraInv (monitoring_handle rm user)" "keepsDb infraInv (sftp_handle E rs)"
  by (cases ra; simp; intro keepsDb_intros infra_ops)
     (cases rt; simp; intro keepsDb_intros infra_ops
      | cases rm; simp; intro keepsDb_intros infra_ops
      | cases rs; simp; intro keepsDb_intros infra_ops)+

lemma infra_handle: "keepsDb infraInv (handle E A rq r user)"
  by (cases r) (simp_all, (intro keepsDb_intros infra_handle_auth infra_handle_users
      infra_handle_roles infra_handle_keys infra_handle_nodes infra_handle_servers
      infra_handle_backups infra_handle_tasks infra_handle_files infra_handle_mods
      infra_handle_marketplace infra_handle_billing infra_handle_support infra_handle_small)+)

lemma infra_request: "keepsDb infraInv (api_request E A rq r)"
  unfolding api_request_def api_dispatch_def jwtAuthGuard_def exceptionFilter_def
  by (intro keepsDb_intros infra_ops infra_handle)

lemma infra_job: "keepsDb infraInv (takeJob E k)"
proof -
  have "keepsDb infraInv (runJob E j)" for j
    by (cases j) (simp_all add: runJob_def infra_ops)
  then show ?thesis unfolding takeJob_def
    by (intro keepsDb_intros keepsDb_modify; simp)
qed

subsection \<open>Runs of the system\<close>

lemma systemStep_keeps:
  assumes "systemStep E A w w'" and "infraInv (w_db w)"
  shows "infraInv (w_db w')"
  using assms
proof cases
  case (request rq r x)
  then show ?thesis using keepsDbD [OF infra_request assms(2)] by blast
next
  case (createCommit dto actor sel x)
  then show ?thesis using keepsDbD [OF infra_servers(1) assms(2)] by blast
next
  case (runJob k x)
  then show ?thesis using keepsDbD [OF infra_job assms(2)] by blast
next
  case (scheduler x)
  then show ?thesis using keepsDbD [OF infra_scheduler assms(2)] by blast
qed

text \<open>C1: whatever requests, jobs and runs of the scheduler happen, and in whatever order, the
  allocation counters of every node are the sums of the limits of its servers, every server
  is on a node that exists, and no two allocations of a node share an address and a port.
  Creations may choose their node long before they commit.\<close>

theorem system_keeps_infrastructure:
  assumes "systemReach E A w w'" and "infraInv (w_db w)"
  shows "infraInv (w_db w')"
  using assms by (induction rule: systemReach.induct) (auto intro: systemStep_keeps)

definition createdWorld :: world where
  "createdWorld = snd (api_request sampleEnv sampleApi (tokenRequest ''root'' ''/api/servers'')
     (ServersR (ServersCreate sampleCreate)) sampleWorld)"

definition provisionedWorld :: world where
  "provisionedWorld = snd (takeJob sampleEnv 0 createdWorld)"

lemma sampleRun: "systemReach sampleEnv sampleApi sampleWorld provisionedWorld"
  unfolding provisionedWorld_def createdWorld_def
  by (rule systemReach.step [OF systemReach.step [OF systemReach.start systemStep.request]
        systemStep.runJob]) (rule surjective_pairing)+

lemma sampleRun_servers: "map s_status (t_servers (w_db provisionedWorld)) = [SRV_OFFLINE, SRV_OFFLINE]"
  unfolding provisionedWorld_def createdWorld_def by code_simp

lemma sampleDb_infraInv: "infraInv sampleDb"
  by (simp add: infraInv_def accounting_def countersMatch_def nodeUsage_def node_exists_def
      portsUnique_def sample_defs)

theorem system_keeps_infrastructure_witness:
  "infraInv (w_db provisionedWorld) \<and> length (t_servers (w_db provisionedWorld)) = 2"
  using system_keeps_infrastructure [OF sampleRun] sampleDb_infraInv
    arg_cong [OF sampleRun_servers, of length] by (simp add: sampleWorld_def)

subsection \<open>Who reaches a handler\<close>

lemma public_needs_nothing: "isPublic r \<Longrightarrow> requiredPermissions r = None"
proof (cases r)
  case (AuthR x)
  then show "isPublic r \<Longrightarrow> ?thesis" by (cases x) simp_all
next
  case (MarketplaceR x)
  then show "isPublic r \<Longrightarrow> ?thesis" by (cases x) simp_all
next
  case (BillingR x)
  then show "isPublic r \<Longrightarrow> ?thesis" by (cases x) simp_all
qed simp_all

lemma liftGuard_Inr: "liftGuard g w = (Inr x, w') \<longleftrightarrow> g = Inr True \<and> w' = w"
  by (auto simp: liftGuard_def prog_simps split: sum.splits)

text \<open>All a guard may leave: a key's date of last use, and the clock.\<close>

definition onlyKeyUsed :: "world \<Rightarrow> world \<Rightarrow> bool" where
  "onlyKeyUsed w w' \<longleftrightarrow> (\<exists>t used. w' = w\<lparr>w_tick := t, w_db := (w_db w)
     \<lparr>t_apiKeys := map (\<lambda>k. k\<lparr>k_lastUsedAt := used k\<rparr>) (t_apiKeys (w_db w))\<rparr>\<rparr>)"

lemma onlyKeyUsed_tick: "onlyKeyUsed w (w\<lparr>w_tick := t\<rparr>)"
  unfolding onlyKeyUsed_def by (rule exI [where x = t], rule exI [where x = k_lastUsedAt]) simp

lemma onlyKeyUsed_refl: "onlyKeyUsed w w"
  using onlyKeyUsed_tick [of w "w_tick w"] by simp

lemma onlyKeyUsed_key:
  "onlyKeyUsed w (w\<lparr>w_tick := t, w_db := t_apiKeys_update
     (map (\<lambda>x. if k_id x = i then x\<lparr>k_lastUsedAt := v\<rparr> else x)) (w_db w)\<rparr>)"
proof -
  let ?used = "\<lambda>x. if k_id x = i then v else k_lastUsedAt x"
  have "map (\<lambda>x. if k_id x = i then x\<lparr>k_lastUsedAt := v\<rparr> else x) ks =
      map (\<lambda>x. x\<lparr>k_lastUsedAt := ?used x\<rparr>) ks" for ks :: "apiKey list" by simp
  then show ?thesis unfolding onlyKeyUsed_def
    by (intro exI [where x = t] exI [where x = ?used]) simp
qed

lemma passportJwt_world: "snd (passportJwt E h w) \<in> {w, w\<lparr>w_tick := Suc (w_tick w)\<rparr>}"
  by (auto simp: passportJwt_def jwt_validate_def prog_simps split: option.splits)

lemma validateKey_world: "onlyKeyUsed w (snd (apiKeys_validateAndGetUser E raw w))"
  by (auto simp: apiKeys_validateAndGetUser_def prog_simps onlyKeyUsed_refl onlyKeyUsed_tick onlyKeyUsed_key
      split: option.splits)

lemma jwtAuthGuard_world: "jwtAuthGuard E b rq w = (x, w') \<Longrightarrow> onlyKeyUsed w w'"
  using validateKey_world [of w E] passportJwt_world [of E "hq_authorization rq" w]
    onlyKeyUsed_refl [of w] onlyKeyUsed_tick [of w]
  by (auto simp: jwtAuthGuard_def bnd_def ret_def split: option.splits if_splits sum.splits prod.splits)
    (metis insert_iff singletonD snd_conv)+

text \<open>C3: a route that requires permissions runs its handler exactly for the users the
  authentication guard has let in and who have the wildcard or every permission of the route:
  either the request is such a user's, and what happens is what the handler does, or it fails
  before the handler: nothing has changed but perhaps the date of the last use of an API key.\<close>

theorem dispatch_requires_permissions:
  assumes "requiredPermissions r = Some ps" and "ps \<noteq> []"
    and "api_dispatch E A rq r w = (x, w')"
  shows "(\<exists>u w1. jwtAuthGuard E False rq w = (Inr (Some u), w1) \<and>
      (has_perm u ''*'' \<or> (\<forall>p \<in> set ps. has_perm u p)) \<and> handle E A rq r (Some u) w1 = (x, w')) \<or>
    ((\<nexists>u w1. jwtAuthGuard E False rq w = (Inr (Some u), w1) \<and>
        (has_perm u ''*'' \<or> (\<forall>p \<in> set ps. has_perm u p))) \<and>
      (\<exists>e. x = Inl e) \<and> onlyKeyUsed w w')"
proof -
  have pub: "\<not> isPublic r" using assms(1) public_needs_nothing [of r] by auto
  obtain g w1 where g: "jwtAuthGuard E False rq w = (g, w1)" by fastforce
  note w1 = jwtAuthGuard_world [OF g]
  show ?thesis
  proof (cases g)
    case (Inl e)
    then show ?thesis using assms(3) pub g w1 by (auto simp: api_dispatch_def prog_simps)
  next
    case (Inr user)
    show ?thesis
    proof (cases user)
      case None
      then show ?thesis using assms pub g w1 Inr
        by (auto simp: api_dispatch_def prog_simps liftGuard_def permissionsGuard_def)
    next
      case (Some u)
      have perm: "permissionsGuard (Some ps) (Some u) = Inr True \<longleftrightarrow>
          has_perm u ''*'' \<or> (\<forall>p \<in> set ps. has_perm u p)"
        using permissionsGuard_user [OF assms(2), of u] by (simp add: WILDCARD_def)
      show ?thesis
      proof (cases "permissionsGuard (Some ps) (Some u) = Inr True")
        case True
        then show ?thesis using assms pub g Inr Some perm
          by (auto simp: api_dispatch_def prog_simps liftGuard_def)
      next
        case False
        then show ?thesis using assms pub g w1 Inr Some perm
          by (auto simp: api_dispatch_def prog_simps liftGuard_def split: sum.splits)
      qed
    qed
  qed
qed

lemma sampleList_runs:
  "case jwtAuthGuard sampleEnv False (tokenRequest ''alice'' ''/api/servers'') sampleWorld of
     (Inr (Some u), w) \<Rightarrow> has_perm u ''servers.read'' \<and> \<not> has_perm u ''*'' \<and> \<not> has_perm u ''servers.create''
   | _ \<Rightarrow> False"
  by code_simp

text \<open>Alice may list the servers, and her creation of one fails before its handler.\<close>

theorem dispatch_requires_permissions_witness:
  "(\<exists>u w1. handle sampleEnv sampleApi (tokenRequest ''alice'' ''/api/servers'') (ServersR ServersList) (Some u) w1 =
     api_dispatch sampleEnv sampleApi (tokenRequest ''alice'' ''/api/servers'') (ServersR ServersList) sampleWorld) \<and>
   onlyKeyUsed sampleWorld (snd (api_dispatch sampleEnv sampleApi (tokenRequest ''alice'' ''/api/servers'')
     (ServersR (ServersCreate sampleCreate)) sampleWorld))"
proof -
  let ?rq = "tokenRequest ''alice'' ''/api/servers''"
  obtain u w1 where g: "jwtAuthGuard sampleEnv False ?rq sampleWorld = (Inr (Some u), w1)"
    and p: "has_perm u ''servers.read''" "\<not> has_perm u ''*''" "\<not> has_perm u ''servers.create''"
    using sampleList_runs by (auto split: prod.splits sum.splits option.splits)
  obtain x w2 where run: "api_dispatch sampleEnv sampleApi ?rq (ServersR ServersList) sampleWorld = (x, w2)"
    by fastforce
  obtain y w3 where refused: "api_dispatch sampleEnv sampleApi ?rq (ServersR (ServersCreate sampleCreate)) sampleWorld = (y, w3)"
    by fastforce
  show ?thesis
    using dispatch_requires_permissions [OF _ _ run, of "[''servers.read'']"]
      dispatch_requires_permissions [OF _ _ refused, of "[''servers.create'']"] g p
    by (simp add: run refused) metis
qed

text \<open>The authentication guard lets a request without any credentials through when its URL,
  the query string included, ends in \<open>/metrics\<close>: a route that declares permissions still
  refuses it, but any other protected route runs its handler without a user. The route that
  looks an account up by its address needs no user and answers.\<close>

theorem metrics_suffix_skips_authentication:
  assumes "endsWith (hq_url rq) ''/metrics''"
  shows "api_dispatch E A rq r w = (case requiredPermissions r of
      None \<Rightarrow> handle E A rq r None w
    | Some ps \<Rightarrow> if ps = [] then handle E A rq r None w
        else (Inl (ForbiddenException ''Utilisateur non authentifie''), w)) \<and>
    api_dispatch E A rq (UsersR (UsersLookup email)) w =
      respond UsersRes (respond RUserRef (users_lookupByEmail email)) w"
proof -
  have g: "jwtAuthGuard E b rq w = (Inr None, w)" for b
    using assms by (simp add: jwtAuthGuard_def prog_simps)
  have all: "api_dispatch E A rq r w = (case requiredPermissions r of
      None \<Rightarrow> handle E A rq r None w
    | Some ps \<Rightarrow> if ps = [] then handle E A rq r None w
        else (Inl (ForbiddenException ''Utilisateur non authentifie''), w))" for r
    by (auto simp: api_dispatch_def prog_simps g liftGuard_def permissionsGuard_def
        split: option.splits)
  show ?thesis using all by simp
qed

theorem metrics_suffix_skips_authentication_witness:
  "fst (api_dispatch sampleEnv sampleApi
      (anonymousRequest ''/api/users/lookup?email=alice@x&x=/metrics'')
      (UsersR (UsersLookup ''alice@x'')) sampleWorld) =
    Inr (UsersRes (RUserRef (''alice'', ''alice'', ''alice@x'')))"
proof -
  have "endsWith (hq_url (anonymousRequest ''/api/users/lookup?email=alice@x&x=/metrics'')) ''/metrics''"
    by code_simp
  note metrics_suffix_skips_authentication [OF this, of sampleEnv sampleApi "MonitoringR MonitoringSummary" sampleWorld "''alice@x''"]
  moreover have "fst (respond UsersRes (respond RUserRef (users_lookupByEmail ''alice@x'')) sampleWorld) =
    Inr (UsersRes (RUserRef (''alice'', ''alice'', ''alice@x'')))" by code_simp
  ultimately show ?thesis by simp
qed

subsection \<open>Errors\<close>

text \<open>Every request gets a response: the result of its handler, or an error body whose
  status is the one of the exception; the message of an exception that is not an HTTP
  exception, a database error for instance, is replaced by a fixed one.\<close>

theorem every_request_is_answered:
  "\<exists>x w'. api_request E A rq r w = (Inr x, w') \<and>
     (case fst (api_dispatch E A rq r w) of
        Inr res \<Rightarrow> x = Inr res
      | Inl e \<Rightarrow> \<exists>b. x = Inl b \<and> eb_statusCode b = httpStatus e \<and>
          eb_message b = (if isHttpException e then exn_message e
                          else ''Erreur interne du serveur''))"
proof (cases "api_dispatch E A rq r w")
  case (Pair o' w1)
  have status: "\<not> isHttpException e \<Longrightarrow> httpStatus e = 500" for e by (cases e) simp_all
  show ?thesis
    by (cases o') (auto simp: Pair api_request_def prog_simps exceptionFilter_def status)
qed

end
