(* ===== verification/Mods_Properties.thy ===== *)
theory Mods_Properties
  imports Sample_Services Server_Facts
begin

text \<open>
  Properties of the installation of mods: which URLs are fetched, which servers are written
  to, and which rows record it.
\<close>

subsection \<open>Fetches\<close>

text \<open>An invariant of the trace of the fetched URLs.\<close>

definition keepsFetches :: "(string list \<Rightarrow> bool) \<Rightarrow> 'a io \<Rightarrow> bool" where
  "keepsFetches P m \<longleftrightarrow> keeps (\<lambda>w. P (w_fetches w)) m"

named_theorems fetch_intros "rules that show that a program keeps a property of the fetched URLs"

lemma keepsFetchesI: "(\<And>w. w_fetches (snd (m w)) = w_fetches w) \<Longrightarrow> keepsFetches P m"
  by (simp add: keepsFetches_def keeps_def)

lemma fetches_prog [fetch_intros]:
  "keepsFetches P (ret x)" "keepsFetches P (throw e)" "keepsFetches P (gets f)"
  "keepsFetches P (throwIf c e)" "keepsFetches P (external g)" "keepsFetches P (externalCall h)"
  "keepsFetches P (dbFind t p)" "keepsFetches P (dbFindOrThrow t p)"
  "keepsFetches P (dbFindMany t p)" "keepsFetches P (liftJs y)"
  "keepsFetches P (dbUpdate t u p k)" "keepsFetches P (dbDelete t u p)"
  "keepsFetches P (dbCreate t u cf fk row)" "keepsFetches P (assertSafeDownloadUrl E raw)"
  by (rule keepsFetchesI;
      simp add: prog_simps liftJs_def assertSafeDownloadUrl_world split: sum.splits option.splits)+

lemma fetches_bnd [fetch_intros]:
  "keepsFetches P m \<Longrightarrow> (\<And>x. keepsFetches P (f x)) \<Longrightarrow> keepsFetches P (bnd m f)"
  unfolding keepsFetches_def by (rule keeps_bnd)

lemma fetches_andThen [fetch_intros]:
  "keepsFetches P m \<Longrightarrow> keepsFetches P k \<Longrightarrow> keepsFetches P (andThen m k)"
  unfolding keepsFetches_def by (rule keeps_andThen)

lemma fetches_tryCatch [fetch_intros]:
  "keepsFetches P m \<Longrightarrow> (\<And>e. keepsFetches P (h e)) \<Longrightarrow> keepsFetches P (tryCatch m h)"
  unfolding keepsFetches_def by (rule keeps_tryCatch)

lemma fetches_loops [fetch_intros]:
  "(\<And>x. keepsFetches P (body x)) \<Longrightarrow> keepsFetches P (forEach xs body)"
  "(\<And>x a. keepsFetches P (body' x a)) \<Longrightarrow> keepsFetches P (foldEach xs acc body')"
  unfolding keepsFetches_def by (simp_all add: keeps_forEach keeps_foldEach)

lemma fetches_cases [fetch_intros]:
  "keepsFetches P m \<Longrightarrow> (\<And>y. keepsFetches P (f y)) \<Longrightarrow>
     keepsFetches P (case x of None \<Rightarrow> m | Some y \<Rightarrow> f y)"
  "keepsFetches P m \<Longrightarrow> (\<And>y ys. keepsFetches P (g y ys)) \<Longrightarrow>
     keepsFetches P (case l of [] \<Rightarrow> m | y # ys \<Rightarrow> g y ys)"
  "(\<And>a b. keepsFetches P (h a b)) \<Longrightarrow> keepsFetches P (case p of (a, b) \<Rightarrow> h a b)"
  "keepsFetches P m \<Longrightarrow> keepsFetches P k \<Longrightarrow> keepsFetches P (if c then m else k)"
  by (simp_all split: option.splits list.splits prod.splits)

lemma fetches_nodeCall [fetch_intros]: "keepsFetches P (nodeCall E orc nid params method req)"
  unfolding nodeCall_def getOrCreateClient_def loadProto_def clientCredentials_def sendCall_def Let_def
  by (intro fetch_intros keepsFetchesI; simp add: prog_simps)

lemma fetches_calls [fetch_intros]:
  "keepsFetches P (callServer E orc v method req)" "keepsFetches P (audit_log E e)"
  "keepsFetches P (servers_findAccessibleOrThrow sid user)"
  by (simp add: callServer_def fetch_intros, simp add: audit_log_def, intro fetch_intros)
     (rule keepsFetchesI, simp add: findAccessible_snd)

text \<open>A download adds its URL to the trace once it is checked.\<close>

definition fetchesSafe :: "env \<Rightarrow> string list \<Rightarrow> bool" where
  "fetchesSafe E urls \<longleftrightarrow> (\<forall>u \<in> set urls. safeDownloadUrl E u)"

lemma fetches_download [fetch_intros]: "keepsFetches (fetchesSafe E) (downloadFile E X url)"
proof -
  have "keeps (\<lambda>w. fetchesSafe E (w_fetches w)) (downloadFile E X url)"
  proof (rule keepsI)
    fix w :: world
    assume safe: "fetchesSafe E (w_fetches w)"
    show "fetchesSafe E (w_fetches (snd (downloadFile E X url w)))"
    proof (cases "assertSafeDownloadUrl E url w")
      case (Pair r w1)
      then have w1: "w1 = w" using assertSafeDownloadUrl_world [of E url w] by simp
      show ?thesis
      proof (cases r)
        case (Inl e)
        then show ?thesis using safe Pair w1 by (simp add: downloadFile_def prog_simps)
      next
        case (Inr x)
        then have "safeDownloadUrl E url" using Pair assertSafeDownloadUrl_Inr by metis
        then show ?thesis using safe Pair w1 Inr
          by (auto simp: downloadFile_def fetchUrl_def prog_simps fetchesSafe_def split: sum.splits)
      qed
    qed
  qed
  then show ?thesis by (simp add: keepsFetches_def)
qed

lemma fetches_mods:
  "keepsFetches (fetchesSafe E) (mods_installFromModrinth E X sid versionId dir user)"
  "keepsFetches (fetchesSafe E) (mods_installFromCurseforge E X sid m f dir user)"
  "keepsFetches (fetchesSafe E) (mods_installFromMarketplace E X sid slug dir user)"
  "keepsFetches (fetchesSafe E) (mods_installModrinthModpack E X sid url user)"
  "keepsFetches (fetchesSafe E) (mods_installCurseforgeModpack E X sid archive user)"
  unfolding mods_installFromModrinth_def mods_installFromCurseforge_def
    mods_installFromMarketplace_def mods_installModrinthModpack_def
    mods_installCurseforgeModpack_def mods_writeToServer_def upsertMod_def modrinth_getVersion_def
    curseforge_getFile_def packFileStep_def curseforgeFileStep_def marketplace_get_def
    marketplace_incrementDownloads_def Let_def
  by (intro fetch_intros)+

text \<open>C15: whatever a catalogue, an index, a manifest or a marketplace item says, the URLs fetched
  to install a mod or a pack are HTTPS URLs on one of the allowed hosts or a subdomain of
  one, whether the installation succeeds or not.\<close>

theorem only_safe_urls_are_fetched:
  assumes "\<forall>u \<in> set (w_fetches w). safeDownloadUrl E u"
  shows "\<forall>w' \<in> {snd (mods_installFromModrinth E X sid versionId dir user w),
      snd (mods_installFromCurseforge E X sid m f dir user w),
      snd (mods_installFromMarketplace E X sid slug dir user w),
      snd (mods_installModrinthModpack E X sid url user w),
      snd (mods_installCurseforgeModpack E X sid archive user w)}.
    \<forall>u \<in> set (w_fetches w'). safeDownloadUrl E u"
proof -
  have snd: "fetchesSafe E (w_fetches (snd (k w)))" if "keepsFetches (fetchesSafe E) k" for k :: "installedMod io"
    using that assms by (simp add: keepsFetches_def keeps_def fetchesSafe_def)
  have pack: "fetchesSafe E (w_fetches (snd (k w)))" if "keepsFetches (fetchesSafe E) k" for k :: "nat io"
    using that assms by (simp add: keepsFetches_def keeps_def fetchesSafe_def)
  show ?thesis unfolding fetchesSafe_def [symmetric]
    by (intro ballI) (elim insertE emptyE; hypsubst; intro snd pack fetches_mods)
qed

theorem only_safe_urls_are_fetched_witness:
  "w_fetches (snd (mods_installModrinthModpack sampleEnv sampleMods ''srv'' ''/p.mrpack''
     (sampleAuth ''alice'' []) sampleWorld)) = [''/p.mrpack'', ''/a.jar''] \<and>
   safeDownloadUrl sampleEnv ''/a.jar''"
proof -
  have "w_fetches (snd (mods_installModrinthModpack sampleEnv sampleMods ''srv'' ''/p.mrpack''
     (sampleAuth ''alice'' []) sampleWorld)) = [''/p.mrpack'', ''/a.jar'']" by code_simp
  moreover have "\<forall>u \<in> set (w_fetches sampleWorld). safeDownloadUrl sampleEnv u"
    by (simp add: sample_defs)
  note only_safe_urls_are_fetched [OF this, of sampleMods "''srv''" _ _ "sampleAuth ''alice'' []" _ _ _
      "''/p.mrpack''"]
  ultimately show ?thesis by auto
qed

subsection \<open>Packs\<close>

lemma liftJs_Inr [run_Inr]: "liftJs x w = (Inr y, w') \<longleftrightarrow> x = Inr y \<and> w' = w"
  by (auto simp: liftJs_def prog_simps split: sum.splits)

text \<open>Where a call writes: the server and the path.\<close>

definition writeTarget :: "grpcCall \<Rightarrow> (id \<times> string) option" where
  "writeTarget c = (case gc_request c of WriteFileRequest u p content \<Rightarrow> Some (u, p) | _ \<Rightarrow> None)"

definition targetsOf :: "world \<Rightarrow> (id \<times> string) option list" where
  "targetsOf w = map writeTarget (w_calls w)"

lemma targets_write:
  assumes "mods_writeToServer E v path content w = (Inr x, w')"
  shows "targetsOf w' = targetsOf w @ [Some (s_uuid (sv_server v), path)]"
proof -
  obtain y where "nodeCall E (grpcAction E) (s_nodeId (sv_server v)) (nodeParams (sv_node v))
      ''WriteFile'' (WriteFileRequest (s_uuid (sv_server v)) path content) w = (Inr y, w')"
    using assms by (auto simp: mods_writeToServer_def callServer_def run_Inr)
  from nodeCall_Inr [OF this] show ?thesis by (auto simp: targetsOf_def writeTarget_def)
qed

lemma targets_download:
  "downloadFile E X url w = (Inr x, w') \<Longrightarrow> targetsOf w' = targetsOf w"
  by (auto simp: downloadFile_def fetchUrl_def run_Inr assertSafeDownloadUrl_Inr targetsOf_def)

lemma targets_overrides:
  "forEach es (\<lambda>e. mods_writeToServer E v (f e) (ze_data e)) w = (Inr x, w') \<Longrightarrow>
   targetsOf w' = targetsOf w @ map (\<lambda>e. Some (s_uuid (sv_server v), f e)) es"
proof (induction es arbitrary: w)
  case Nil
  then show ?case by (simp add: run_Inr)
next
  case (Cons e es)
  then show ?case by (fastforce simp: run_Inr dest: targets_write)
qed

definition supportedFile :: "packFile \<Rightarrow> bool" where
  "supportedFile f \<longleftrightarrow> pf_serverEnv f \<noteq> Some ''unsupported'' \<and>
     (\<exists>u us. pf_downloads f = u # us \<and> u \<noteq> [])"

lemma packFileStep_Inr:
  assumes "packFileStep E X v f k w = (Inr n, w')"
  shows "n = (if supportedFile f then Suc k else k) \<and> targetsOf w' = targetsOf w @
    (if supportedFile f then [Some (s_uuid (sv_server v), pf_path f)] else [])"
proof (cases "supportedFile f")
  case True
  then obtain u us where "pf_serverEnv f \<noteq> Some ''unsupported''" "pf_downloads f = u # us" "u \<noteq> []"
    by (auto simp: supportedFile_def)
  with assms True show ?thesis
    by (auto simp: packFileStep_def run_Inr dest!: targets_download targets_write)
next
  case False
  with assms show ?thesis
    by (auto simp: packFileStep_def supportedFile_def run_Inr split: list.splits if_splits)
qed

lemma packFiles_Inr:
  "foldEach files k (packFileStep E X v) w = (Inr n, w') \<Longrightarrow>
   n = k + length (filter supportedFile files) \<and> targetsOf w' = targetsOf w @
     map (\<lambda>f. Some (s_uuid (sv_server v), pf_path f)) (filter supportedFile files)"
proof (induction files arbitrary: k w)
  case Nil
  then show ?case by (simp add: run_Inr)
next
  case (Cons f files)
  then show ?case by (fastforce simp: run_Inr dest: packFileStep_Inr)
qed

lemma targets_same: "w_calls w' = w_calls w \<Longrightarrow> targetsOf w' = targetsOf w"
  by (simp add: targetsOf_def)

text \<open>C33: the installation of a Modrinth pack that succeeds writes, in this order, every file of
  the index that the server supports and every file of the overrides, each once, under its
  path, to the server the user can access and to no other; the result is the number of files
  of the index.\<close>

theorem modrinth_pack_installs_supported_files:
  assumes "mods_installModrinthModpack E X sid url user w = (Inr n, w')"
  shows "\<exists>v archive zip index files. servers_findAccessibleOrThrow sid user w = (Inr v, w) \<and>
    mxZip X archive = Inr zip \<and> index \<in> set zip \<and> ze_name index = ''modrinth-index.json'' \<and>
    mxIndex X (ze_data index) = Inr files \<and> n = length (filter supportedFile files) \<and>
    targetsOf w' = targetsOf w @
      map (\<lambda>f. Some (s_uuid (sv_server v), pf_path f)) (filter supportedFile files) @
      map (\<lambda>e. Some (s_uuid (sv_server v), drop (length ''overrides/'') (ze_name e)))
        (filter (\<lambda>e. startsWith (ze_name e) ''overrides/'' \<and> \<not> ze_isDirectory e) zip)"
proof -
  obtain v archive zip index files w0 w1 w2 w3 where
    v: "servers_findAccessibleOrThrow sid user w = (Inr v, w0)"
    and a: "downloadFile E X url w0 = (Inr archive, w1)"
    and z: "mxZip X archive = Inr zip"
    and i: "List.find (\<lambda>e. ze_name e = ''modrinth-index.json'') zip = Some index"
    and fs: "mxIndex X (ze_data index) = Inr files"
    and f: "foldEach files 0 (packFileStep E X v) w1 = (Inr n, w2)"
    and o': "forEach (filter (\<lambda>e. startsWith (ze_name e) ''overrides/'' \<and> \<not> ze_isDirectory e) zip)
      (\<lambda>e. mods_writeToServer E v (drop (length ''overrides/'') (ze_name e)) (ze_data e)) w2 = (Inr (), w3)"
    and l: "audit_log E (packInstallLog user sid ''MODRINTH_PACK'' n) w3 = (Inr (), w')"
    using assms unfolding mods_installModrinthModpack_def
    by (auto simp: run_Inr simp del: list.size)
  have w0: "w0 = w" using findAccessible_snd [of sid user w] v by simp
  have "targetsOf w' = targetsOf w3" using audit_log_Inr [OF l] by (auto intro: targets_same)
  then show ?thesis
    using v w0 z fs packFiles_Inr [OF f] targets_overrides [OF o'] targets_download [OF a] i
    by (intro exI conjI) (auto simp: find_Some_iff)
qed

lemma samplePack_runs:
  "mods_installModrinthModpack sampleEnv sampleMods ''srv'' ''/p.mrpack'' (sampleAuth ''alice'' [])
     sampleWorld = (Inr 1, snd (mods_installModrinthModpack sampleEnv sampleMods ''srv''
       ''/p.mrpack'' (sampleAuth ''alice'' []) sampleWorld))"
proof -
  have "(case fst (mods_installModrinthModpack sampleEnv sampleMods ''srv'' ''/p.mrpack''
     (sampleAuth ''alice'' []) sampleWorld) of Inr n \<Rightarrow> n = 1 | Inl e \<Rightarrow> False)" by code_simp
  then show ?thesis by (auto simp: prod_eq_iff split: sum.splits)
qed

theorem modrinth_pack_installs_supported_files_witness:
  "\<exists>v. servers_findAccessibleOrThrow ''srv'' (sampleAuth ''alice'' []) sampleWorld = (Inr v, sampleWorld) \<and>
     targetsOf (snd (mods_installModrinthModpack sampleEnv sampleMods ''srv'' ''/p.mrpack''
       (sampleAuth ''alice'' []) sampleWorld)) =
     [Some (s_uuid (sv_server v), ''mods/a.jar''), Some (s_uuid (sv_server v), ''x'')]"
  using modrinth_pack_installs_supported_files [OF samplePack_runs]
  by (auto simp: sampleMods_def supportedFile_def targetsOf_def sample_defs)

subsection \<open>One mod\<close>

text \<open>A marketplace item is installed only if it is a free plugin with a file; the file is
  written to the server of the user, one row of the server records the item and its
  version, and the downloads of the item go up by one.\<close>

theorem marketplace_install_outcome:
  assumes "mods_installFromMarketplace E X sid slug dir user w = (Inr rec, w')"
  shows "\<exists>v item fileName. servers_findAccessibleOrThrow sid user w = (Inr v, w) \<and>
    List.find (\<lambda>x. mi_slug x = slug) (t_items (w_db w)) = Some item \<and>
    mi_type item = PLUGIN \<and> mi_priceCents item \<le> 0 \<and> truthy (mi_downloadUrl item) \<and>
    targetsOf w' = targetsOf w @ [Some (s_uuid (sv_server v), dir @ ''/'' @ fileName)] \<and>
    m_fileName rec = fileName \<and> m_versionId rec = mi_version item \<and>
    t_items (w_db w') = map (\<lambda>x. if mi_slug x = slug
      then x\<lparr>mi_downloads := mi_downloads x + 1\<rparr> else x) (t_items (w_db w))"
proof -
  obtain v item url content fileName w0 w1 w2 w3 w4 row where
    v: "servers_findAccessibleOrThrow sid user w = (Inr v, w0)"
    and item: "List.find (\<lambda>x. mi_slug x = slug) (t_items (w_db w0)) = Some item"
    and ok: "mi_type item = PLUGIN" "\<not> 0 < mi_priceCents item" "truthy (mi_downloadUrl item)"
    and dl: "downloadFile E X (orElse (mi_downloadUrl item) []) w0 = (Inr content, w1)"
    and f: "fileName = marketplaceFileName url item"
    and wr: "mods_writeToServer E v (dir @ ''/'' @ fileName) content w1 = (Inr (), w2)"
    and up: "upsertMod E sid (mi_id item) (\<lambda>m. m\<lparr>m_versionId := mi_version item,
        m_fileName := fileName, m_name := mi_name item\<rparr>)
        (newMod sid MANUAL (mi_id item) (mi_version item) fileName (mi_name item) JNull) w2 = (Inr rec, w3)"
    and inc: "marketplace_incrementDownloads slug w3 = (Inr row, w4)"
    and log: "audit_log E (modInstallLog user sid
        [(''source'', JStr ''MARKETPLACE''), (''slug'', JStr slug)]) w4 = (Inr (), w')"
    using assms unfolding mods_installFromMarketplace_def marketplace_get_def Let_def
    by (auto simp: run_Inr)
  have w0: "w0 = w" using findAccessible_snd [of sid user w] v by simp
  have d1: "w_db w1 = w_db w0" using dl by (auto simp: downloadFile_def fetchUrl_def run_Inr assertSafeDownloadUrl_Inr)
  have d2: "w_db w2 = w_db w1"
    using wr by (auto simp: mods_writeToServer_def callServer_def run_Inr dest: nodeCall_db)
  have d3: "t_items (w_db w3) = t_items (w_db w2) \<and> w_calls w3 = w_calls w2 \<and>
      m_fileName rec = fileName \<and> m_versionId rec = mi_version item"
    using up by (auto simp: upsertMod_def run_Inr newMod_def)
  have d4: "t_items (w_db w4) = map (\<lambda>x. if mi_slug x = slug
      then x\<lparr>mi_downloads := mi_downloads x + 1\<rparr> else x) (t_items (w_db w3)) \<and> w_calls w4 = w_calls w3"
    using inc by (auto simp: marketplace_incrementDownloads_def run_Inr)
  have d5: "t_items (w_db w') = t_items (w_db w4) \<and> w_calls w' = w_calls w4"
    using audit_log_Inr [OF log] by auto
  have "targetsOf w' = targetsOf w2" using d3 d4 d5 by (simp add: targetsOf_def)
  then have t: "targetsOf w' = targetsOf w @ [Some (s_uuid (sv_server v), dir @ ''/'' @ fileName)]"
    using targets_write [OF wr] targets_download [OF dl] w0 by simp
  show ?thesis
    using v item ok t d1 d2 d3 d4 d5 w0 by (intro exI [of _ v] exI [of _ item] exI [of _ fileName]) simp
qed

definition sampleItem :: marketplaceItem where
  "sampleItem = \<lparr>mi_id = ''it'', mi_type = PLUGIN, mi_name = ''Item'', mi_slug = ''item'',
     mi_description = None, mi_authorName = ''x'', mi_priceCents = 0, mi_version = ''1'',
     mi_downloadUrl = Some ''/item.jar'', mi_repoUrl = None, mi_verified = False, mi_downloads = 7\<rparr>"

definition sampleShop :: world where
  "sampleShop = sampleWorld\<lparr>w_db := sampleDb\<lparr>t_items := [sampleItem]\<rparr>\<rparr>"

definition sampleInstall :: "(exn + installedMod) \<times> world" where
  "sampleInstall = mods_installFromMarketplace sampleEnv sampleMods ''srv'' ''item'' ''plugins''
     (sampleAuth ''alice'' []) sampleShop"

lemma sampleInstall_runs: "\<exists>rec. sampleInstall = (Inr rec, snd sampleInstall)"
proof -
  have "(case fst sampleInstall of Inr r \<Rightarrow> True | Inl e \<Rightarrow> False)" by code_simp
  then show ?thesis by (auto simp: prod_eq_iff split: sum.splits)
qed

theorem marketplace_install_outcome_witness:
  "map mi_downloads (t_items (w_db (snd sampleInstall))) = [8] \<and>
   targetsOf (snd sampleInstall) \<noteq> []"
proof -
  obtain rec where run: "mods_installFromMarketplace sampleEnv sampleMods ''srv'' ''item'' ''plugins''
     (sampleAuth ''alice'' []) sampleShop = (Inr rec, snd sampleInstall)"
    using sampleInstall_runs by (auto simp: sampleInstall_def)
  show ?thesis using marketplace_install_outcome [OF run]
    by (auto simp: sampleShop_def sampleItem_def)
qed

text \<open>Removing a mod that succeeds deletes its row and has the daemon of the named server
  delete the file of that name there. The row is found by its identifier alone: nothing
  requires it to be a row of that server.\<close>

theorem uninstall_outcome:
  assumes "mods_uninstall E sid mid dir user w = (Inr x, w')"
  shows "\<exists>v m c. servers_findAccessibleOrThrow sid user w = (Inr v, w) \<and>
    List.find (\<lambda>m. m_id m = mid) (t_mods (w_db w)) = Some m \<and>
    t_mods (w_db w') = filter (\<lambda>m. m_id m \<noteq> mid) (t_mods (w_db w)) \<and>
    w_calls w' = w_calls w @ [c] \<and> gc_method c = ''DeleteFile'' \<and>
    gc_request c = FileRequest (s_uuid (sv_server v)) (dir @ ''/'' @ m_fileName m)"
proof -
  obtain v m w0 w1 w2 y where
    v: "servers_findAccessibleOrThrow sid user w = (Inr v, w0)"
    and m: "List.find (\<lambda>m. m_id m = mid) (t_mods (w_db w0)) = Some m"
    and c: "nodeCall E (grpcAction E) (s_nodeId (sv_server v)) (nodeParams (sv_node v)) ''DeleteFile''
      (FileRequest (s_uuid (sv_server v)) (dir @ ''/'' @ m_fileName m)) w0 = (Inr y, w1)"
    and d: "w2 = w1\<lparr>w_db := t_mods_update (filter (\<lambda>m. m_id m \<noteq> mid)) (w_db w1)\<rparr>"
    and l: "audit_log E (auditEntry (au_id user) ''mod.remove'' ''Server'' sid) w2 = (Inr x, w')"
    using assms by (auto simp: mods_uninstall_def callServer_def run_Inr)
  have "w0 = w" using findAccessible_snd [of sid user w] v by simp
  then show ?thesis using v m d nodeCall_Inr [OF c] nodeCall_db [OF c] audit_log_Inr [OF l] by auto
qed

text \<open>Alice removes, through her own server, the row of a mod of another server.\<close>

definition foreignMod :: installedMod where
  "foreignMod = \<lparr>m_id = ''m'', m_serverId = ''other'', m_source = MANUAL, m_projectId = ''p'',
     m_versionId = ''1'', m_fileName = ''a.jar'', m_name = ''a'', m_dependencies = JNull,
     m_installedAt = 0\<rparr>"

definition sampleForeign :: world where
  "sampleForeign = sampleWorld\<lparr>w_db := sampleDb\<lparr>
     t_servers := [sampleServer, sampleServer\<lparr>s_id := ''other'', s_uuid := ''u2'', s_ownerId := ''bob''\<rparr>],
     t_mods := [foreignMod]\<rparr>\<rparr>"

definition foreignUninstall :: "(exn + unit) \<times> world" where
  "foreignUninstall = mods_uninstall sampleEnv ''srv'' ''m'' ''mods'' (sampleAuth ''alice'' []) sampleForeign"

theorem uninstall_outcome_witness:
  "m_serverId foreignMod \<noteq> ''srv'' \<and> fst foreignUninstall = Inr () \<and>
   t_mods (w_db (snd foreignUninstall)) = []"
proof -
  have ok: "fst foreignUninstall = Inr ()" by code_simp
  then have "mods_uninstall sampleEnv ''srv'' ''m'' ''mods'' (sampleAuth ''alice'' []) sampleForeign =
      (Inr (), snd foreignUninstall)" by (simp add: foreignUninstall_def prod_eq_iff)
  from uninstall_outcome [OF this] ok show ?thesis
    by (auto simp: sampleForeign_def foreignMod_def)
qed

text \<open>The key of the row of a Modrinth mod is the identifier of its version, so that installing
  a newer version of a mod adds a row and leaves the old one.\<close>

definition upgradedMods :: "(id \<times> string) list" where
  "upgradedMods = (let install = (\<lambda>v. mods_installFromModrinth sampleEnv sampleMods ''srv'' v ''mods''
       (sampleAuth ''alice'' [])) in
     map (\<lambda>m. (m_serverId m, m_projectId m))
       (t_mods (w_db (snd (install ''v2'' (snd (install ''v1'' sampleWorld)))))))"

lemma modrinth_upgrade_adds_row: "upgradedMods = [(''srv'', ''v1''), (''srv'', ''v2'')]"
  by code_simp

end
