(* ===== verification/Billing_Properties.thy ===== *)
theory Billing_Properties
  imports Sample_Services Support
begin

text \<open>
  Properties of the billing and of the support: which coupons are valid, what the webhook of
  Stripe writes, the numbers of the invoices, and who reads and writes a ticket.
\<close>

subsection \<open>Coupons\<close>

text \<open>A code is accepted exactly when a coupon has it that is active, not past its expiry
  date, and not used up; a limit of zero redemptions is no limit. Nothing is written.\<close>

theorem coupon_is_valid_iff:
  assumes "billing_validateCoupon E code w = (r, w')"
  shows "w_db w' = w_db w \<and> (\<exists>res. r = Inr res) \<and>
    (r = Inr (Some c) \<longleftrightarrow> List.find (\<lambda>x. c_code x = code) (t_coupons (w_db w)) = Some c \<and> c_active c \<and>
       (case c_expiresAt c of None \<Rightarrow> True | Some x \<Rightarrow> now E (w_tick w) \<le> x) \<and>
       (case c_maxRedemptions c of None \<Rightarrow> True | Some m \<Rightarrow> m = 0 \<or> c_timesRedeemed c < m))"
  using assms by (auto simp: billing_validateCoupon_def prog_simps split: option.splits if_splits)

definition sampleCoupon :: coupon where
  "sampleCoupon = \<lparr>c_id = ''c'', c_code = ''FREE'', c_percentOff = Some 100, c_amountOffCents = None,
     c_maxRedemptions = Some 0, c_timesRedeemed = 500, c_expiresAt = None, c_active = True\<rparr>"

definition sampleCoupons :: world where
  "sampleCoupons = sampleWorld\<lparr>w_db := sampleDb\<lparr>t_coupons := [sampleCoupon]\<rparr>\<rparr>"

text \<open>A coupon limited to no redemption at all, redeemed five hundred times, is accepted.\<close>

theorem coupon_is_valid_iff_witness:
  "fst (billing_validateCoupon sampleEnv ''FREE'' sampleCoupons) = Inr (Some sampleCoupon)"
  using coupon_is_valid_iff [OF surjective_pairing, of sampleEnv "''FREE''" sampleCoupons sampleCoupon]
  by (simp add: sampleCoupons_def sampleCoupon_def)

subsection \<open>Invoice numbers\<close>

text \<open>The numbers given so far: of the form the code makes, the counters distinct and none
  beyond the number of invoices.\<close>

definition numbered :: "db \<Rightarrow> bool" where
  "numbered d \<longleftrightarrow> (\<forall>i \<in> set (t_invoices d). \<exists>y k. i_number i = invoiceNumber y k \<and>
     k \<le> length (t_invoices d)) \<and> distinct (map i_number (t_invoices d))"

lemma digits_no_dash: "list_all is_digit s \<Longrightarrow> CHR ''-'' \<notin> set s"
  by (auto simp: list_all_iff is_digit_def)

lemma padded_digits: "list_all is_digit (padStart k (CHR ''0'') (show_nat n))"
  using show_nat_digits [of n] by (auto simp: padStart_def list_all_iff is_digit_def)

lemma append_dash_inj:
  "CHR ''-'' \<notin> set a \<Longrightarrow> CHR ''-'' \<notin> set b \<Longrightarrow> a @ ''-'' @ c = b @ ''-'' @ d \<Longrightarrow> a = b \<and> c = d"
proof (induction a arbitrary: b)
  case Nil
  then show ?case by (cases b) auto
next
  case (Cons x a)
  then show ?case by (cases b) auto
qed

lemma invoiceNumber_inj: "invoiceNumber y k = invoiceNumber y' k' \<Longrightarrow> y = y' \<and> k = k'"
proof -
  assume "invoiceNumber y k = invoiceNumber y' k'"
  then have "show_nat y = show_nat y' \<and>
      padStart 6 (CHR ''0'') (show_nat k) = padStart 6 (CHR ''0'') (show_nat k')"
    using append_dash_inj [of "show_nat y" "show_nat y'"] digits_no_dash [OF show_nat_digits]
    by (simp add: invoiceNumber_def)
  then show ?thesis using padStart_zero_inj parse_show_nat by metis
qed

text \<open>The number of an invoice determines its year and its counter: the two numbers are the
  same exactly when the years and the counters are, however many digits the counter has.\<close>

theorem invoice_number_roundtrip:
  "(invoiceNumber y k = invoiceNumber y' k') = (y = y' \<and> k = k') \<and>
   take 4 (invoiceNumber y k) = ''ELY-'' \<and> 6 \<le> length (invoiceNumber y k) - 5 - length (show_nat y) \<and>
   parse_nat (drop (5 + length (show_nat y)) (invoiceNumber y k)) = k"
proof -
  have "drop (5 + length (show_nat y)) (invoiceNumber y k) = padStart 6 (CHR ''0'') (show_nat k)"
  proof -
    have "invoiceNumber y k = (''ELY-'' @ show_nat y @ ''-'') @ padStart 6 (CHR ''0'') (show_nat k)"
      by (simp add: invoiceNumber_def)
    moreover have "length (''ELY-'' @ show_nat y @ ''-'') = 5 + length (show_nat y)" by simp
    ultimately show ?thesis by (metis append_eq_conv_conj)
  qed
  then show ?thesis using invoiceNumber_inj [of y k y' k']
    by (auto simp: invoiceNumber_def padStart_def parse_nat_zeros parse_show_nat)
qed

lemma numbered_fresh:
  assumes "numbered d" and "i \<in> set (t_invoices d)"
  shows "i_number i \<noteq> invoiceNumber y (length (t_invoices d) + 1)"
  using assms invoiceNumber_inj unfolding numbered_def by fastforce

lemma numbered_append:
  assumes "numbered d" and "i_number row = invoiceNumber y (length (t_invoices d) + 1)"
  shows "numbered (t_invoices_update (\<lambda>t. t @ [row]) d)"
  using assms numbered_fresh [OF assms(1), of _ y] unfolding numbered_def
  by (fastforce simp: image_iff)

lemma numbered_frames: "frame numbered t_subscriptions_update" "frame numbered t_auditLogs_update"
  by (simp_all add: frame_def numbered_def)


subsection \<open>The webhook\<close>

text \<open>An event whose signature Stripe's library does not accept, and an event received while no
  secret is configured, throw and write nothing.\<close>

theorem unsigned_webhook_is_refused:
  assumes "stripe_handleWebhook E S raw sig w = (r, w')"
    and "\<not> (truthy (cf_stripeSecretKey (cfg E)) \<and> truthy (cf_stripeWebhookSecret (cfg E)) \<and>
      (\<exists>event. sxConstructEvent S (w_tick w) raw sig (orElse (cf_stripeWebhookSecret (cfg E)) []) =
        Inr event))"
  shows "(\<exists>e. r = Inl e) \<and> w_db w' = w_db w"
  using assms
  by (auto simp: stripe_handleWebhook_def requireStripe_def prog_simps split: if_splits sum.splits)

theorem unsigned_webhook_is_refused_witness:
  "w_db (snd (stripe_handleWebhook sampleEnv sampleStripe ''{}'' ''forged'' sampleWorld)) = sampleDb"
  using unsigned_webhook_is_refused [OF surjective_pairing, of sampleEnv sampleStripe sampleWorld "''{}''" "''forged''"]
  by (simp add: sampleStripe_def sampleWorld_def)

lemma onInvoicePaid_run:
  assumes "truthy (sti_subscription si)"
    and "List.find (\<lambda>s. sb_stripeSubscriptionId s = sti_subscription si) (t_subscriptions (w_db w)) = Some sub"
    and "stripe_onInvoicePaid E S si w = (Inr x, w')"
  shows "\<exists>row. w_db w' = t_invoices_update (\<lambda>t. t @ [row]) (w_db w) \<and> i_userId row = sb_userId sub \<and>
    i_subscriptionId row = Some (sb_id sub) \<and> i_status row = INV_PAID \<and>
    i_totalCents row = sti_total si \<and> i_taxCents row = sum_list (orElse (sti_total_taxes si) []) \<and>
    i_providerRef row = Some (sti_id si) \<and>
    i_number row = invoiceNumber (sxFullYear S (now E (w_tick w))) (length (t_invoices (w_db w)) + 1)"
proof -
  have acc: "foldl (+) a xs = a + sum_list (xs :: int list)" for a xs
    by (induction xs arbitrary: a) simp_all
  then have sum: "foldl (+) 0 xs = sum_list (xs :: int list)" for xs by simp
  show ?thesis using assms
    by (auto simp: stripe_onInvoicePaid_def billing_createInvoiceNumber_def run_Inr Let_def
        newInvoice_def sum)
qed

text \<open>An accepted event that an invoice of a known subscription is paid records one paid
  invoice, of the owner of the subscription, with the amounts of the event, the sum of its
  taxes, and the next number. A second delivery of the event records a second one.\<close>

theorem webhook_records_paid_invoice:
  assumes "stripe_handleWebhook E S raw sig w = (Inr (), w')"
    and "sxConstructEvent S (w_tick w) raw sig (orElse (cf_stripeWebhookSecret (cfg E)) []) =
      Inr (StripeInvoicePaid si)"
    and "sti_subscription si = Some subId" and "subId \<noteq> []"
    and "List.find (\<lambda>s. sb_stripeSubscriptionId s = Some subId) (t_subscriptions (w_db w)) = Some sub"
  shows "\<exists>row. w_db w' = t_invoices_update (\<lambda>t. t @ [row]) (w_db w) \<and> i_userId row = sb_userId sub \<and>
    i_subscriptionId row = Some (sb_id sub) \<and> i_status row = INV_PAID \<and>
    i_totalCents row = sti_total si \<and> i_taxCents row = sum_list (orElse (sti_total_taxes si) []) \<and>
    i_providerRef row = Some (sti_id si) \<and>
    i_number row = invoiceNumber (sxFullYear S (now E (Suc (w_tick w)))) (length (t_invoices (w_db w)) + 1)"
proof -
  have "stripe_onInvoicePaid E S si (w\<lparr>w_tick := Suc (w_tick w)\<rparr>) = (Inr (), w')"
    using assms(1,2) by (auto simp: stripe_handleWebhook_def requireStripe_def run_Inr stripe_dispatch_def)
  from onInvoicePaid_run [OF _ _ this, of sub] assms(3-5) show ?thesis by simp
qed

definition sampleSubscribed :: world where
  "sampleSubscribed = sampleWorld\<lparr>w_db := sampleDb\<lparr>t_subscriptions :=
     [\<lparr>sb_id = ''s'', sb_userId = ''alice'', sb_planId = ''p'', sb_status = SUB_ACTIVE,
       sb_stripeSubscriptionId = Some ''sub_1''\<rparr>]\<rparr>\<rparr>"

definition sampleDelivery :: "world \<Rightarrow> (exn + unit) \<times> world" where
  "sampleDelivery w = stripe_handleWebhook sampleEnv sampleStripe ''{}'' ''sig'' w"

definition sampleRedelivered :: world where
  "sampleRedelivered = snd (sampleDelivery (snd (sampleDelivery sampleSubscribed)))"

theorem webhook_records_paid_invoice_witness:
  "length (t_invoices (w_db (snd (sampleDelivery sampleSubscribed)))) = 1 \<and>
   map i_providerRef (t_invoices (w_db sampleRedelivered)) = [Some ''in_1'', Some ''in_1'']"
proof -
  have "(case fst (sampleDelivery sampleSubscribed) of Inr u \<Rightarrow> True | Inl e \<Rightarrow> False)" by code_simp
  then have run: "stripe_handleWebhook sampleEnv sampleStripe ''{}'' ''sig'' sampleSubscribed =
      (Inr (), snd (sampleDelivery sampleSubscribed))"
    by (auto simp: sampleDelivery_def prod_eq_iff split: sum.splits)
  have "map i_providerRef (t_invoices (w_db sampleRedelivered)) = [Some ''in_1'', Some ''in_1'']"
    by code_simp
  then show ?thesis
    using webhook_records_paid_invoice [OF run, of sampleStripeInvoice "''sub_1''"]
    by (auto simp: sampleStripe_def sampleStripeInvoice_def sampleSubscribed_def sampleWorld_def
        sampleDb_def empty_db_def)
qed

text \<open>The table of the invoices is as it was, or has one more row, whose number is the next and that of
  no other row.\<close>

definition nextInvoice :: "db \<Rightarrow> db \<Rightarrow> bool" where
  "nextInvoice d d' \<longleftrightarrow> t_invoices d' = t_invoices d \<or> (\<exists>row year. t_invoices d' = t_invoices d @ [row] \<and>
     i_number row = invoiceNumber year (length (t_invoices d) + 1) \<and>
     i_number row \<notin> i_number ` set (t_invoices d))"

lemma numbered_next: "numbered d \<Longrightarrow> nextInvoice d d' \<Longrightarrow> numbered d'"
  using numbered_append [of d _ _] by (auto simp: nextInvoice_def numbered_def)

lemma onInvoicePaid_next:
  assumes "numbered (w_db w)" and "\<forall>n \<ge> w_tick w. newUuid E n \<notin> i_id ` set (t_invoices (w_db w))"
    and "stripe_onInvoicePaid E S si w = (r, w')"
  shows "nextInvoice (w_db w) (w_db w') \<and> r \<noteq> Inl P2002"
proof -
  let ?is = "t_invoices (w_db w)"
  let ?n = "invoiceNumber (sxFullYear S (now E (w_tick w))) (Suc (length ?is))"
  have fresh: "?n \<notin> i_number ` set ?is" using numbered_fresh [OF assms(1)] by (metis Suc_eq_plus1 imageE)
  have id: "newUuid E (Suc (Suc (w_tick w))) \<notin> i_id ` set ?is" using assms(2) by simp
  have number: "i_number (newInvoice i p c sub n si) = n" for i p c sub n by (simp add: newInvoice_def)
  have clash: "\<not> list_ex (invoice_conflict (newInvoice (newUuid E (Suc (Suc (w_tick w)))) p c sub ?n si)) ?is" for p c sub
    using fresh id by (auto simp: list_ex_iff invoice_conflict_def newInvoice_def image_iff)
  show ?thesis using assms(3)
    by (auto simp: stripe_onInvoicePaid_def billing_createInvoiceNumber_def prog_simps Let_def
        clash nextInvoice_def number fresh split: option.splits if_splits)
qed

lemma checkout_keeps_invoices: "keepsDb (\<lambda>d. t_invoices d = T) (stripe_onCheckoutCompleted E session)"
  unfolding stripe_onCheckoutCompleted_def
  by (auto intro!: keepsDb_intros keepsDb_write_frame simp: frame_def)

text \<open>C32: while the invoices are numbered in order and identifiers are new, a delivery that records an
  invoice gives it the next number, which no other invoice has, and keeps that order; an event
  of a paid invoice is never refused because the number is taken.\<close>

theorem invoice_numbers_never_collide:
  assumes "numbered (w_db w)" and "\<forall>n \<ge> w_tick w. newUuid E n \<notin> i_id ` set (t_invoices (w_db w))"
    and "stripe_handleWebhook E S raw sig w = (r, w')"
  shows "numbered (w_db w') \<and>
    (t_invoices (w_db w') = t_invoices (w_db w) \<or>
     (\<exists>row year. t_invoices (w_db w') = t_invoices (w_db w) @ [row] \<and>
        i_number row = invoiceNumber year (length (t_invoices (w_db w)) + 1) \<and>
        i_number row \<notin> i_number ` set (t_invoices (w_db w)))) \<and>
    (\<forall>si. sxConstructEvent S (w_tick w) raw sig (orElse (cf_stripeWebhookSecret (cfg E)) []) =
        Inr (StripeInvoicePaid si) \<longrightarrow> r \<noteq> Inl P2002)"
proof -
  let ?w = "w\<lparr>w_tick := Suc (w_tick w)\<rparr>"
  let ?event = "sxConstructEvent S (w_tick w) raw sig (orElse (cf_stripeWebhookSecret (cfg E)) [])"
  have same: "nextInvoice (w_db w) (w_db w)" by (simp add: nextInvoice_def)
  have "nextInvoice (w_db w) (w_db w') \<and> (\<forall>si. ?event = Inr (StripeInvoicePaid si) \<longrightarrow> r \<noteq> Inl P2002)"
  proof (cases "truthy (cf_stripeSecretKey (cfg E)) \<and> truthy (cf_stripeWebhookSecret (cfg E)) \<and> (\<exists>e. ?event = Inr e)")
    case False
    then show ?thesis using assms(3) same
      by (auto simp: stripe_handleWebhook_def requireStripe_def prog_simps split: if_splits sum.splits)
  next
    case True
    then obtain event where event: "?event = Inr event" by blast
    then have run: "stripe_dispatch E S event ?w = (r, w')"
      using True assms(3) by (simp add: stripe_handleWebhook_def requireStripe_def prog_simps)
    show ?thesis
    proof (cases event)
      case (StripeInvoicePaid si)
      then show ?thesis using onInvoicePaid_next [of ?w E S si r w'] run assms(1,2) event
        by (simp add: stripe_dispatch_def)
    next
      case (CheckoutSessionCompleted session)
      then have "t_invoices (w_db w') = t_invoices (w_db w)"
        using keepsDbD [OF checkout_keeps_invoices, of ?w "t_invoices (w_db w)"] run
        by (simp add: stripe_dispatch_def)
      then show ?thesis using event CheckoutSessionCompleted by (simp add: nextInvoice_def)
    next
      case (OtherEvent t)
      then show ?thesis using run event same by (auto simp: stripe_dispatch_def ret_apply)
    qed
  qed
  then show ?thesis using numbered_next [OF assms(1)] unfolding nextInvoice_def by blast
qed

lemma sampleSubscribed_numbered: "numbered (w_db sampleSubscribed)"
  by (simp add: numbered_def sampleSubscribed_def sample_defs)

theorem invoice_numbers_never_collide_witness:
  "map i_number (t_invoices (w_db sampleRedelivered)) = [''ELY-2026-000001'', ''ELY-2026-000002''] \<and>
   fst (sampleDelivery (snd (sampleDelivery sampleSubscribed))) \<noteq> Inl P2002"
proof -
  let ?w = "snd (sampleDelivery sampleSubscribed)"
  have event: "sxConstructEvent sampleStripe n ''{}'' ''sig'' (orElse (cf_stripeWebhookSecret (cfg sampleEnv)) []) =
      Inr (StripeInvoicePaid sampleStripeInvoice)" for n
    by (simp add: sampleStripe_def)
  have numbers: "map i_number (t_invoices (w_db sampleRedelivered)) = [''ELY-2026-000001'', ''ELY-2026-000002'']"
    by code_simp
  have "t_invoices (w_db sampleSubscribed) = []" by (simp add: sampleSubscribed_def sample_defs)
  then have "numbered (w_db ?w)"
    using invoice_numbers_never_collide [OF sampleSubscribed_numbered _ surjective_pairing]
    by (simp add: sampleDelivery_def)
  moreover have "map i_id (t_invoices (w_db ?w)) = [newUuid sampleEnv 3] \<and> w_tick ?w = 5" by code_simp
  then have "\<forall>n \<ge> w_tick ?w. newUuid sampleEnv n \<notin> i_id ` set (t_invoices (w_db ?w))"
    by (auto simp: map_eq_Cons_conv sampleEnv_def simp flip: replicate_Suc)
  ultimately show ?thesis using numbers
    invoice_numbers_never_collide [OF _ _ surjective_pairing, of ?w sampleEnv sampleStripe "''{}''" "''sig''"] event
    by (simp add: sampleDelivery_def)
qed

text \<open>Two deliveries that overlap read the same count: the second invoice is refused.\<close>

definition overlappingInvoices :: "(exn + invoice) \<times> world" where
  "overlappingInvoices = (let
     sub = hd (t_subscriptions (w_db sampleSubscribed));
     number = (case fst (billing_createInvoiceNumber sampleEnv sampleStripe sampleSubscribed) of
       Inr n \<Rightarrow> n | Inl e \<Rightarrow> []);
     create = (\<lambda>i. dbCreate t_invoices t_invoices_update invoice_conflict invoice_fk
       (newInvoice i 0 0 sub number sampleStripeInvoice))
     in create ''i2'' (snd (create ''i1'' sampleSubscribed)))"

lemma overlapping_invoices_collide: "fst overlappingInvoices = Inl P2002"
  by code_simp

subsection \<open>Tickets\<close>

text \<open>A user reads a ticket exactly when it is the user's own or the user is staff. A reply
  has no such condition: it adds a message to any ticket and reopens it.\<close>

theorem ticket_access:
  assumes "List.find (\<lambda>t. tk_id t = tid) (t_tickets (w_db w)) = Some ticket"
  shows "((\<exists>res. support_findAccessibleOrThrow tid u w = (Inr res, w)) \<longleftrightarrow>
      isSupportStaff u \<or> tk_userId ticket = au_id u) \<and>
    (\<forall>m w'. support_reply E tid body (au_id u) staff w = (Inr m, w') \<longrightarrow>
      t_messages (w_db w') = t_messages (w_db w) @ [m] \<and> tm_ticketId m = tid \<and>
      tm_authorId m = au_id u \<and> tm_body m = body \<and> tm_isStaff m = staff \<and>
      map tk_status (filter (\<lambda>t. tk_id t = tid) (t_tickets (w_db w'))) =
        map (\<lambda>_. if staff then TK_PENDING else TK_OPEN) (filter (\<lambda>t. tk_id t = tid) (t_tickets (w_db w))))"
proof
  show "(\<exists>res. support_findAccessibleOrThrow tid u w = (Inr res, w)) \<longleftrightarrow>
      isSupportStaff u \<or> tk_userId ticket = au_id u"
    using assms by (auto simp: support_findAccessibleOrThrow_def prog_simps)
  have st: "map tk_status (filter (\<lambda>t. tk_id t = tid) (map (\<lambda>x. if tk_id x = tid
      then x\<lparr>tk_status := s, tk_updatedAt := z\<rparr> else x) ts)) =
      map (\<lambda>_. s) (filter (\<lambda>t. tk_id t = tid) ts)" for s z ts
    by (induction ts) simp_all
  show "\<forall>m w'. support_reply E tid body (au_id u) staff w = (Inr m, w') \<longrightarrow>
      t_messages (w_db w') = t_messages (w_db w) @ [m] \<and> tm_ticketId m = tid \<and>
      tm_authorId m = au_id u \<and> tm_body m = body \<and> tm_isStaff m = staff \<and>
      map tk_status (filter (\<lambda>t. tk_id t = tid) (t_tickets (w_db w'))) =
        map (\<lambda>_. if staff then TK_PENDING else TK_OPEN) (filter (\<lambda>t. tk_id t = tid) (t_tickets (w_db w)))"
    by (auto simp: support_reply_def createMessage_def run_Inr st)
qed

definition sampleTickets :: world where
  "sampleTickets = sampleWorld\<lparr>w_db := sampleDb\<lparr>t_tickets := [\<lparr>tk_id = ''t'', tk_userId = ''alice'',
     tk_subject = ''help'', tk_status = TK_CLOSED, tk_updatedAt = 0\<rparr>]\<rparr>\<rparr>"

definition strangerReply :: "(exn + ticketMessage) \<times> world" where
  "strangerReply = support_reply sampleEnv ''t'' ''hello'' ''bob'' False sampleTickets"

text \<open>Bob can neither read nor list Alice's closed ticket, and reopens it with a message.\<close>

theorem ticket_access_witness:
  "(\<nexists>res. support_findAccessibleOrThrow ''t'' (sampleAuth ''bob'' [''support.create'']) sampleTickets =
     (Inr res, sampleTickets)) \<and>
   map tm_body (t_messages (w_db (snd strangerReply))) = [''hello''] \<and>
   map tk_status (t_tickets (w_db (snd strangerReply))) = [TK_OPEN]"
proof -
  have "List.find (\<lambda>t. tk_id t = ''t'') (t_tickets (w_db sampleTickets)) = Some (hd (t_tickets (w_db sampleTickets)))"
    by (simp add: sampleTickets_def)
  note ticket_access [OF this, of "sampleAuth ''bob'' [''support.create'']"]
  moreover have "map tm_body (t_messages (w_db (snd strangerReply))) = [''hello'']"
    "map tk_status (t_tickets (w_db (snd strangerReply))) = [TK_OPEN]" by code_simp+
  ultimately show ?thesis
    by (simp add: sampleTickets_def sampleAuth_def isSupportStaff_def has_perm_def)
qed

end
