(* ===== verification/Gateway.thy ===== *)
theory Gateway
  imports Servers Auth "HOL-Library.AList"
begin

text \<open>
  \<^verbatim>\<open>websocket/console.gateway.ts\<close> and \<open>NodeClientService.streamCall\<close>: a socket subscribes to
  the console and to the statistics of servers; each subscription holds a stream of a daemon,
  and a map of the socket holds the functions that cancel them.

  A subscription awaits the access check before it opens its stream, and other events of the
  socket, a disconnection included, may be handled in between. The state machine has one step
  for each part of a handler that runs without interruption.
\<close>

subsection \<open>Streams\<close>

record daemonStream =
  ds_id :: nat
  ds_call :: grpcCall

text \<open>A socket, with the streams of the daemons it opened that are neither cancelled nor
  ended, and the subscriptions that await their access check.\<close>

datatype topic = ConsoleTopic | StatsTopic

record socket =
  sk_user :: authUser
  sk_connected :: bool
  sk_cancelStreams :: "(string \<times> nat) list"
  sk_open :: "daemonStream list"
  sk_next :: nat
  sk_pending :: "(topic \<times> serverView) list"

fun topicName :: "topic \<Rightarrow> string" where
  "topicName ConsoleTopic = ''console:''"
| "topicName StatsTopic = ''stats:''"

fun streamMethod :: "topic \<Rightarrow> string" where
  "streamMethod ConsoleTopic = ''StreamConsole''"
| "streamMethod StatsTopic = ''StreamStats''"

definition streamKey :: "topic \<Rightarrow> id \<Rightarrow> string" where
  "streamKey t sid = topicName t @ sid"

text \<open>\<open>streamCall\<close>: the client of the node, then the call, which is sent at once. Its result
  stands for the function that cancels it.\<close>

definition streamCall ::
  "env \<Rightarrow> id \<Rightarrow> connectionParams \<Rightarrow> string \<Rightarrow> grpcRequest \<Rightarrow> grpcCall io" where
  "streamCall E nodeId params method req =
     bnd (getOrCreateClient E nodeId params) (\<lambda>client.
       if method \<notin> set nodeServiceMethods
       then throw (JsError (''Methode gRPC streaming inconnue: '' @ method))
       else let c = \<lparr>gc_node = nodeId, gc_client = client, gc_method = method, gc_request = req\<rparr>
         in andThen (modify (\<lambda>w. w\<lparr>w_calls := w_calls w @ [c]\<rparr>)) (ret c))"

text \<open>Cancelling the stream under a key, if the map has one.\<close>

definition cancelKey :: "string \<Rightarrow> socket \<Rightarrow> socket" where
  "cancelKey key s = (case map_of (sk_cancelStreams s) key of
       None \<Rightarrow> s
     | Some i \<Rightarrow> s\<lparr>sk_open := filter (\<lambda>x. ds_id x \<noteq> i) (sk_open s)\<rparr>)"

definition openStream :: "string \<Rightarrow> grpcCall \<Rightarrow> socket \<Rightarrow> socket" where
  "openStream key c s = s\<lparr>sk_open := sk_open s @ [\<lparr>ds_id = sk_next s, ds_call = c\<rparr>],
     sk_cancelStreams := AList.update key (sk_next s) (sk_cancelStreams s),
     sk_next := Suc (sk_next s)\<rparr>"

subsection \<open>Handlers\<close>

text \<open>The middleware of the namespace: the token of the handshake, or of the query.\<close>

definition gateway_authenticate :: "env \<Rightarrow> string option \<Rightarrow> string option \<Rightarrow> socket io" where
  "gateway_authenticate E authToken queryToken =
     (case (case authToken of Some t \<Rightarrow> Some t | None \<Rightarrow> queryToken) of
        None \<Rightarrow> throw (UnauthorizedException ''Token manquant'')
      | Some token \<Rightarrow> bnd (auth_resolveUserFromAccessToken E token) (\<lambda>u.
          ret \<lparr>sk_user = u, sk_connected = True, sk_cancelStreams = [], sk_open = [],
            sk_next = 0, sk_pending = []\<rparr>))"

definition gateway_disconnect :: "socket \<Rightarrow> socket" where
  "gateway_disconnect s = (fold (\<lambda>(key, i). cancelKey key) (sk_cancelStreams s) s)
     \<lparr>sk_cancelStreams := [], sk_connected := False\<rparr>"

text \<open>A subscription: the access check of the user of the socket, after which the handler
  resumes; then the old stream of the key is cancelled and a new one opened.\<close>

definition gateway_subscribe ::
  "env \<Rightarrow> topic \<Rightarrow> id \<Rightarrow> world \<times> socket \<Rightarrow> (exn + unit) \<times> world \<times> socket" where
  "gateway_subscribe E t sid = (\<lambda>(w, s).
     case servers_findAccessibleOrThrow sid (sk_user s) w of
       (Inl e, w') \<Rightarrow> (Inl e, w', s)
     | (Inr v, w') \<Rightarrow> (Inr (), w', s\<lparr>sk_pending := sk_pending s @ [(t, v)]\<rparr>))"

definition gateway_resume ::
  "env \<Rightarrow> topic \<Rightarrow> serverView \<Rightarrow> world \<times> socket \<Rightarrow> (exn + unit) \<times> world \<times> socket" where
  "gateway_resume E t v = (\<lambda>(w, s).
     let key = streamKey t (s_id (sv_server v));
         s1 = cancelKey key (s\<lparr>sk_pending := remove1 (t, v) (sk_pending s)\<rparr>)
     in case streamCall E (s_nodeId (sv_server v)) (nodeParams (sv_node v)) (streamMethod t)
            (ServerIdRequest (s_uuid (sv_server v))) w of
         (Inl e, w') \<Rightarrow> (Inl e, w', s1)
       | (Inr c, w') \<Rightarrow> (Inr (), w', openStream key c s1))"

definition gateway_unsubscribe :: "topic \<Rightarrow> id \<Rightarrow> socket \<Rightarrow> socket" where
  "gateway_unsubscribe t sid s = (let key = streamKey t sid in
     (cancelKey key s)\<lparr>sk_cancelStreams := AList.delete key (sk_cancelStreams s)\<rparr>)"

definition gateway_sendCommand ::
  "env \<Rightarrow> id \<Rightarrow> string \<Rightarrow> world \<times> socket \<Rightarrow> (exn + actionResponse) \<times> world \<times> socket" where
  "gateway_sendCommand E sid command = (\<lambda>(w, s).
     case servers_sendCommand E sid command (sk_user s) w of (r, w') \<Rightarrow> (r, w', s))"

text \<open>The daemon ends a stream, or its channel breaks: the map keeps the entry.\<close>

definition gateway_streamEnd :: "nat \<Rightarrow> socket \<Rightarrow> socket" where
  "gateway_streamEnd i s = s\<lparr>sk_open := filter (\<lambda>x. ds_id x \<noteq> i) (sk_open s)\<rparr>"

subsection \<open>The state machine\<close>

text \<open>The client's messages arrive while it is connected; the other steps may happen at any
  time.\<close>

inductive gatewayStep :: "env \<Rightarrow> world \<times> socket \<Rightarrow> world \<times> socket \<Rightarrow> bool" for E where
  subscribe: "sk_connected s \<Longrightarrow> gateway_subscribe E t sid (w, s) = (r, w', s') \<Longrightarrow>
    gatewayStep E (w, s) (w', s')"
| resume: "(t, v) \<in> set (sk_pending s) \<Longrightarrow> gateway_resume E t v (w, s) = (r, w', s') \<Longrightarrow>
    gatewayStep E (w, s) (w', s')"
| unsubscribe: "sk_connected s \<Longrightarrow> gatewayStep E (w, s) (w, gateway_unsubscribe t sid s)"
| command: "sk_connected s \<Longrightarrow> gateway_sendCommand E sid c (w, s) = (r, w', s') \<Longrightarrow>
    gatewayStep E (w, s) (w', s')"
| disconnect: "sk_connected s \<Longrightarrow> gatewayStep E (w, s) (w, gateway_disconnect s)"
| streamEnd: "gatewayStep E (w, s) (w, gateway_streamEnd i s)"
| other: "gatewayStep E (w, s) (w', s)"

text \<open>A socket in a world, with the worlds it has passed through since its handshake.\<close>

inductive gatewayReach :: "env \<Rightarrow> world list \<Rightarrow> world \<times> socket \<Rightarrow> bool" for E where
  handshake: "gateway_authenticate E a q w = (Inr s, w') \<Longrightarrow> gatewayReach E [w'] (w', s)"
| step: "gatewayReach E h x \<Longrightarrow> gatewayStep E x y \<Longrightarrow> gatewayReach E (fst y # h) y"

inductive_cases gatewayStepE: "gatewayStep E (w, s) (w', s')"

end
