(* ===== verification/Gateway_Properties.thy ===== *)
theory Gateway_Properties
  imports Gateway Sample_Services Server_Facts
begin

text \<open>
  Properties of the console gateway: the streams a socket holds, who they are opened for, and
  what a disconnection closes.
\<close>

subsection \<open>The invariant of a socket\<close>

text \<open>The access check gave this view, in one of the worlds passed through.\<close>

definition checked :: "world list \<Rightarrow> authUser \<Rightarrow> serverView \<Rightarrow> bool" where
  "checked h u v \<longleftrightarrow>
     list_ex (\<lambda>w. servers_findAccessibleOrThrow (s_id (sv_server v)) u w = (Inr v, w)) h"

lemma checked_mono: "checked h u v \<Longrightarrow> set h \<subseteq> set h' \<Longrightarrow> checked h' u v"
  by (auto simp: checked_def list_ex_iff)

text \<open>A stream is held under a key: the map leads from the key to it, and it is a stream of the
  topic and the server of the key, which the user could access.\<close>

definition heldUnder :: "world list \<Rightarrow> socket \<Rightarrow> daemonStream \<Rightarrow> string \<Rightarrow> bool" where
  "heldUnder h s x key \<longleftrightarrow> map_of (sk_cancelStreams s) key = Some (ds_id x) \<and>
     (\<exists>t v. key = streamKey t (s_id (sv_server v)) \<and> checked h (sk_user s) v \<and>
        gc_node (ds_call x) = s_nodeId (sv_server v) \<and> gc_method (ds_call x) = streamMethod t \<and>
        gc_request (ds_call x) = ServerIdRequest (s_uuid (sv_server v)))"

definition socketInv :: "world list \<Rightarrow> socket \<Rightarrow> bool" where
  "socketInv h s \<longleftrightarrow> (\<forall>x \<in> set (sk_open s). \<exists>key. heldUnder h s x key) \<and>
     distinct (map ds_id (sk_open s)) \<and> distinct (map fst (sk_cancelStreams s)) \<and>
     (\<forall>x \<in> set (sk_open s). ds_id x < sk_next s) \<and>
     (\<forall>p \<in> set (sk_cancelStreams s). snd p < sk_next s) \<and>
     (\<forall>(t, v) \<in> set (sk_pending s). checked h (sk_user s) v)"

lemma streamCall_Inr:
  assumes "streamCall E nid ps method req w = (Inr c, w')"
  shows "gc_node c = nid \<and> gc_method c = method \<and> gc_request c = req"
  using assms by (auto simp: streamCall_def run_Inr Let_def)

lemma cancelKey_simps [simp]:
  "sk_user (cancelKey k s) = sk_user s" "sk_connected (cancelKey k s) = sk_connected s"
  "sk_cancelStreams (cancelKey k s) = sk_cancelStreams s" "sk_next (cancelKey k s) = sk_next s"
  "sk_pending (cancelKey k s) = sk_pending s"
  by (simp_all add: cancelKey_def split: option.splits)

lemma cancelKey_open:
  "set (sk_open (cancelKey k s)) = {x \<in> set (sk_open s). map_of (sk_cancelStreams s) k \<noteq> Some (ds_id x)}"
  "distinct (map ds_id (sk_open s)) \<Longrightarrow> distinct (map ds_id (sk_open (cancelKey k s)))"
  by (auto simp: cancelKey_def distinct_map_filter split: option.splits)

text \<open>Fewer open streams, and the same map, keep the invariant.\<close>

lemma socketInv_fewer:
  assumes "socketInv h s" and "set (sk_open s') \<subseteq> set (sk_open s)" and "distinct (map ds_id (sk_open s'))"
    and "sk_user s' = sk_user s" and "sk_cancelStreams s' = sk_cancelStreams s"
    and "sk_next s' = sk_next s" and "set (sk_pending s') \<subseteq> set (sk_pending s)"
  shows "socketInv h s'"
  using assms unfolding socketInv_def heldUnder_def by (auto 0 3)

lemma socketInv_cancelKey: "socketInv h s \<Longrightarrow> socketInv h (cancelKey k s)"
  by (rule socketInv_fewer) (auto simp: cancelKey_open socketInv_def)

lemma socketInv_openStream:
  assumes "socketInv h s" and "\<forall>x \<in> set (sk_open s). map_of (sk_cancelStreams s) key \<noteq> Some (ds_id x)"
    and "key = streamKey t (s_id (sv_server v))" and "checked h (sk_user s) v"
    and "gc_node c = s_nodeId (sv_server v)" and "gc_method c = streamMethod t"
    and "gc_request c = ServerIdRequest (s_uuid (sv_server v))"
  shows "socketInv h (openStream key c s)"
proof -
  let ?s = "openStream key c s" and ?new = "\<lparr>ds_id = sk_next s, ds_call = c\<rparr>"
  have m: "map_of (sk_cancelStreams ?s) = (map_of (sk_cancelStreams s))(key \<mapsto> sk_next s)"
    by (simp add: openStream_def update_conv')
  have old: "\<exists>k. heldUnder h ?s x k" if x: "x \<in> set (sk_open s)" for x
  proof -
    obtain k where k: "heldUnder h s x k" using assms(1) x by (auto simp: socketInv_def)
    then have "k \<noteq> key" using assms(2) x by (auto simp: heldUnder_def)
    then show ?thesis using k by (intro exI [of _ k]) (simp add: heldUnder_def m, simp add: openStream_def)
  qed
  have new: "heldUnder h ?s ?new key" unfolding heldUnder_def m using assms(3-7)
    by (auto simp: openStream_def)
  have vals: "set (AList.update k i al) \<subseteq> insert (k, i) (set al)" for k and i :: nat and al
    by (induction al) auto
  show ?thesis
    using assms(1) old new vals [of key "sk_next s" "sk_cancelStreams s"]
    by (fastforce simp: socketInv_def openStream_def distinct_update less_Suc_eq)
qed

lemma socketInv_mono: "socketInv h s \<Longrightarrow> set h \<subseteq> set h' \<Longrightarrow> socketInv h' s"
  unfolding socketInv_def heldUnder_def using checked_mono by blast

lemma subscribe_keeps:
  assumes "socketInv h s" and "w \<in> set h" and "gateway_subscribe E t sid (w, s) = (r, w', s')"
  shows "socketInv h s'"
proof (cases "servers_findAccessibleOrThrow sid (sk_user s) w")
  case (Pair r0 w0)
  show ?thesis
  proof (cases r0)
    case (Inl e)
    then show ?thesis using assms Pair by (simp add: gateway_subscribe_def)
  next
    case (Inr v)
    then have "checked h (sk_user s) v"
      using findAccessible_Inr [OF Pair [unfolded Inr]] Pair assms(2)
      by (auto simp: checked_def list_ex_iff)
    moreover have "s' = s\<lparr>sk_pending := sk_pending s @ [(t, v)]\<rparr>"
      using assms(3) Pair Inr by (simp add: gateway_subscribe_def)
    ultimately show ?thesis using assms(1)
      by (auto simp: socketInv_def heldUnder_def simp del: map_of_eq_Some_iff)
  qed
qed

lemma resume_keeps:
  assumes "socketInv h s" and "(t, v) \<in> set (sk_pending s)"
    and "gateway_resume E t v (w, s) = (r, w', s')"
  shows "socketInv h s'"
proof -
  let ?key = "streamKey t (s_id (sv_server v))"
  let ?p = "s\<lparr>sk_pending := remove1 (t, v) (sk_pending s)\<rparr>"
  let ?s1 = "cancelKey ?key ?p"
  have p: "socketInv h ?p"
    by (rule socketInv_fewer [OF assms(1)]) (use assms(1) in \<open>auto simp: socketInv_def dest: set_remove1_subset [THEN subsetD]\<close>)
  have i1: "socketInv h ?s1" by (rule socketInv_cancelKey [OF p])
  have may: "checked h (sk_user s) v" using assms(1,2) by (auto simp: socketInv_def)
  obtain q w0 where c: "streamCall E (s_nodeId (sv_server v)) (nodeParams (sv_node v)) (streamMethod t)
      (ServerIdRequest (s_uuid (sv_server v))) w = (q, w0)" by fastforce
  show ?thesis
  proof (cases q)
    case (Inl e)
    then show ?thesis using assms(3) c i1 by (simp add: gateway_resume_def Let_def)
  next
    case (Inr d)
    then have s': "s' = openStream ?key d ?s1" using assms(3) c by (simp add: gateway_resume_def Let_def)
    show ?thesis unfolding s'
      by (rule socketInv_openStream [OF i1 _ refl])
         (use may streamCall_Inr [OF c [unfolded Inr]] in \<open>auto simp: cancelKey_open\<close>)
  qed
qed

lemma unsubscribe_keeps:
  assumes "socketInv h s"
  shows "socketInv h (gateway_unsubscribe t sid s)"
proof -
  let ?key = "streamKey t sid" and ?s = "gateway_unsubscribe t sid s"
  have m: "map_of (sk_cancelStreams ?s) = (map_of (sk_cancelStreams s))(?key := None)"
    by (simp add: gateway_unsubscribe_def Let_def delete_conv')
  have "\<exists>k. heldUnder h ?s x k" if x: "x \<in> set (sk_open ?s)" for x
  proof -
    have x': "x \<in> set (sk_open s)" "map_of (sk_cancelStreams s) ?key \<noteq> Some (ds_id x)"
      using x by (auto simp: gateway_unsubscribe_def Let_def cancelKey_open)
    then obtain k where k: "heldUnder h s x k" using assms by (auto simp: socketInv_def)
    then have "k \<noteq> ?key" using x' by (auto simp: heldUnder_def)
    then show ?thesis using k
      by (intro exI [of _ k]) (simp add: heldUnder_def m, simp add: gateway_unsubscribe_def Let_def)
  qed
  then show ?thesis using assms
    by (auto simp: socketInv_def gateway_unsubscribe_def Let_def cancelKey_open distinct_map_filter
        AList.delete_eq)
qed

subsection \<open>Disconnection\<close>

lemma cancelAll_open:
  assumes "\<And>k i. (k, i) \<in> set ks \<Longrightarrow> map_of (sk_cancelStreams s) k = Some i"
  shows "set (sk_open (fold (\<lambda>(key, i). cancelKey key) ks s)) =
      {x \<in> set (sk_open s). ds_id x \<notin> snd ` set ks} \<and>
    sk_cancelStreams (fold (\<lambda>(key, i). cancelKey key) ks s) = sk_cancelStreams s \<and>
    sk_pending (fold (\<lambda>(key, i). cancelKey key) ks s) = sk_pending s \<and>
    sk_user (fold (\<lambda>(key, i). cancelKey key) ks s) = sk_user s \<and>
    sk_next (fold (\<lambda>(key, i). cancelKey key) ks s) = sk_next s"
  using assms
proof (induction ks arbitrary: s)
  case Nil
  then show ?case by simp
next
  case (Cons p ks)
  obtain k i where p: "p = (k, i)" by (cases p)
  have m: "map_of (sk_cancelStreams s) k = Some i" using Cons.prems p by simp
  have ks: "(k', i') \<in> set ks \<Longrightarrow> map_of (sk_cancelStreams (cancelKey k s)) k' = Some i'" for k' i'
    using Cons.prems by simp
  show ?case using Cons.IH [of "cancelKey k s", OF ks] by (auto simp: p cancelKey_open m)
qed

lemma disconnect_closes:
  assumes "socketInv h s"
  shows "sk_open (gateway_disconnect s) = [] \<and> sk_cancelStreams (gateway_disconnect s) = [] \<and>
    sk_pending (gateway_disconnect s) = sk_pending s \<and> sk_user (gateway_disconnect s) = sk_user s"
proof -
  have "(k, i) \<in> set (sk_cancelStreams s) \<Longrightarrow> map_of (sk_cancelStreams s) k = Some i" for k i
    using assms by (simp add: socketInv_def)
  note c = cancelAll_open [of "sk_cancelStreams s" s, OF this]
  have "ds_id x \<in> snd ` set (sk_cancelStreams s)" if "x \<in> set (sk_open s)" for x
  proof -
    obtain key where "map_of (sk_cancelStreams s) key = Some (ds_id x)"
      using assms \<open>x \<in> set (sk_open s)\<close> unfolding socketInv_def heldUnder_def by blast
    from map_of_SomeD [OF this] show ?thesis by (rule rev_image_eqI) simp
  qed
  then have "set (sk_open (fold (\<lambda>(key, i). cancelKey key) (sk_cancelStreams s) s)) = {}"
    using c by auto
  then have "sk_open (fold (\<lambda>(key, i). cancelKey key) (sk_cancelStreams s) s) = []"
    by (simp only: set_empty)
  then show ?thesis using c by (simp add: gateway_disconnect_def)
qed

lemma disconnect_keeps: "socketInv h s \<Longrightarrow> socketInv h (gateway_disconnect s)"
  using disconnect_closes [of h s] by (auto simp: socketInv_def)

lemmas gatewayStep_cases = gatewayStepE [consumes 1,
  case_names subscribe resume unsubscribe command disconnect streamEnd other]

lemma gatewayStep_keeps:
  assumes "gatewayStep E (w, s) (w', s')" and "socketInv h s" and "w \<in> set h"
  shows "socketInv h s' \<and> sk_user s' = sk_user s"
  using assms(1)
proof (cases rule: gatewayStep_cases)
  case (subscribe t sid r)
  then show ?thesis using subscribe_keeps [OF assms(2,3)]
    by (auto simp: gateway_subscribe_def split: prod.splits sum.splits)
next
  case (resume t v r)
  then show ?thesis using resume_keeps [OF assms(2)]
    by (auto simp: gateway_resume_def openStream_def Let_def split: prod.splits sum.splits)
next
  case (unsubscribe t sid)
  then show ?thesis using unsubscribe_keeps [OF assms(2)] by (simp add: gateway_unsubscribe_def Let_def)
next
  case (command sid c r)
  then show ?thesis using assms(2) by (simp add: gateway_sendCommand_def split: prod.splits)
next
  case disconnect
  then show ?thesis using assms(2) disconnect_keeps disconnect_closes by simp
next
  case (streamEnd i)
  then show ?thesis using assms(2) socketInv_fewer [OF assms(2), where s' = s']
    by (auto simp: gateway_streamEnd_def socketInv_def distinct_map_filter)
next
  case other
  then show ?thesis using assms(2) by simp
qed

lemma gatewayReach_inv: "gatewayReach E h x \<Longrightarrow> socketInv h (snd x) \<and> fst x \<in> set h"
proof (induction rule: gatewayReach.induct)
  case (handshake a q w s w')
  then show ?case
    by (auto simp: gateway_authenticate_def run_Inr throw_Inr socketInv_def)
next
  case (step h x y)
  have "socketInv h (snd y)"
    using gatewayStep_keeps [of E "fst x" "snd x" "fst y" "snd y"] step by simp
  then show ?case using socketInv_mono [of h "snd y" "fst y # h"] by auto
qed

text \<open>C16: at any time, each stream a socket holds is the console or the statistics of a server that
  the user of the socket could access in one of the worlds passed through since the handshake;
  it is a stream of the daemon of that server, it is held under the key of its topic and
  server, and no key holds two.\<close>

theorem gateway_streams_are_authorized:
  assumes "gatewayReach E h (w, s)"
  shows "\<forall>x \<in> set (sk_open s). \<exists>t v w0. w0 \<in> set h \<and>
      servers_findAccessibleOrThrow (s_id (sv_server v)) (sk_user s) w0 = (Inr v, w0) \<and>
      canAccess (w_db w0) (sk_user s) (sv_server v) \<and>
      gc_node (ds_call x) = s_nodeId (sv_server v) \<and> gc_method (ds_call x) = streamMethod t \<and>
      gc_request (ds_call x) = ServerIdRequest (s_uuid (sv_server v)) \<and>
      map_of (sk_cancelStreams s) (streamKey t (s_id (sv_server v))) = Some (ds_id x) \<and>
      (\<forall>y \<in> set (sk_open s). map_of (sk_cancelStreams s) (streamKey t (s_id (sv_server v))) =
        Some (ds_id y) \<longrightarrow> y = x)"
    (is "\<forall>x \<in> _. \<exists>t v w0. ?P x t v w0")
proof
  fix x assume x: "x \<in> set (sk_open s)"
  have inv: "socketInv h s" using gatewayReach_inv [OF assms] by simp
  then obtain t v where held: "heldUnder h s x (streamKey t (s_id (sv_server v)))"
    and c: "checked h (sk_user s) v" and d: "gc_node (ds_call x) = s_nodeId (sv_server v)"
      "gc_method (ds_call x) = streamMethod t"
      "gc_request (ds_call x) = ServerIdRequest (s_uuid (sv_server v))"
    using x unfolding socketInv_def heldUnder_def by blast
  have one: "y \<in> set (sk_open s) \<Longrightarrow> ds_id y = ds_id x \<Longrightarrow> y = x" for y
    using inv x by (auto simp: socketInv_def distinct_map dest: inj_onD)
  obtain w0 where w0: "w0 \<in> set h"
      "servers_findAccessibleOrThrow (s_id (sv_server v)) (sk_user s) w0 = (Inr v, w0)"
    using c by (auto simp: checked_def list_ex_iff)
  have "?P x t v w0" using w0 findAccessible_Inr(5) [OF w0(2)] d held one
    by (auto simp: heldUnder_def simp del: map_of_eq_Some_iff)
  then show "\<exists>t v w0. ?P x t v w0" by blast
qed

text \<open>A run of a socket: the handshake, a subscription, and its continuation.\<close>

definition sampleHandshake :: "world \<times> socket" where
  "sampleHandshake = (case gateway_authenticate sampleEnv (Some ''T:alice'') None sampleWorld of
     (Inr s, w) \<Rightarrow> (w, s) | (Inl e, w) \<Rightarrow> (w, \<lparr>sk_user = sampleAuth [] [], sk_connected = False,
       sk_cancelStreams = [], sk_open = [], sk_next = 0, sk_pending = []\<rparr>))"

definition sampleSubscription :: "world \<times> socket" where
  "sampleSubscription = snd (gateway_subscribe sampleEnv ConsoleTopic ''srv'' sampleHandshake)"

definition sampleView :: serverView where
  "sampleView = snd (hd (sk_pending (snd sampleSubscription)))"

definition sampleStream :: "world \<times> socket" where
  "sampleStream = snd (gateway_resume sampleEnv ConsoleTopic sampleView sampleSubscription)"

definition sampleLeft :: "world \<times> socket" where
  "sampleLeft = (fst sampleSubscription, gateway_disconnect (snd sampleSubscription))"

definition sampleLeak :: "world \<times> socket" where
  "sampleLeak = snd (gateway_resume sampleEnv ConsoleTopic sampleView sampleLeft)"

lemma sampleHandshake_reach: "gatewayReach sampleEnv [fst sampleHandshake] sampleHandshake"
proof -
  have "(case fst (gateway_authenticate sampleEnv (Some ''T:alice'') None sampleWorld) of
      Inr s \<Rightarrow> True | Inl e \<Rightarrow> False)" by code_simp
  then show ?thesis
    by (auto simp: sampleHandshake_def split: prod.splits sum.splits intro: gatewayReach.handshake)
qed

lemma sampleSubscription_reach: "gatewayReach sampleEnv [fst sampleSubscription, fst sampleHandshake] sampleSubscription"
proof -
  have c: "sk_connected (snd sampleHandshake)" by code_simp
  have "gatewayStep sampleEnv (fst sampleHandshake, snd sampleHandshake)
      (fst sampleSubscription, snd sampleSubscription)"
    by (rule gatewayStep.subscribe [OF c, of _ ConsoleTopic "''srv''" _
          "fst (gateway_subscribe sampleEnv ConsoleTopic ''srv'' sampleHandshake)"])
       (simp add: sampleSubscription_def)
  then show ?thesis using gatewayReach.step [OF sampleHandshake_reach] by simp
qed

definition sampleHistory :: "world list" where
  "sampleHistory = [fst sampleStream, fst sampleSubscription, fst sampleHandshake]"

lemma sampleStream_reach: "gatewayReach sampleEnv sampleHistory sampleStream"
proof -
  have c: "map fst (sk_pending (snd sampleSubscription)) = [ConsoleTopic]" by code_simp
  then have "(ConsoleTopic, sampleView) \<in> set (sk_pending (snd sampleSubscription))"
    by (auto simp: sampleView_def)
  from gatewayStep.resume [OF this, of sampleEnv "fst sampleSubscription"
      "fst (gateway_resume sampleEnv ConsoleTopic sampleView sampleSubscription)"
      "fst sampleStream" "snd sampleStream"]
  have "gatewayStep sampleEnv sampleSubscription sampleStream" by (simp add: sampleStream_def)
  then show ?thesis unfolding sampleHistory_def by (rule gatewayReach.step [OF sampleSubscription_reach])
qed

theorem gateway_streams_are_authorized_witness:
  "\<exists>x (v :: serverView) w0. sk_open (snd sampleStream) = [x] \<and> gc_method (ds_call x) = ''StreamConsole'' \<and>
     w0 \<in> set sampleHistory \<and> canAccess (w_db w0) (sk_user (snd sampleStream)) (sv_server v) \<and>
     gc_request (ds_call x) = ServerIdRequest (s_uuid (sv_server v))"
proof -
  have one: "map (gc_method \<circ> ds_call) (sk_open (snd sampleStream)) = [''StreamConsole'']" by code_simp
  then obtain x where x: "sk_open (snd sampleStream) = [x]" by (auto simp: map_eq_Cons_conv)
  have "gatewayReach sampleEnv sampleHistory (fst sampleStream, snd sampleStream)"
    using sampleStream_reach by simp
  from bspec [OF gateway_streams_are_authorized [OF this], of x] x obtain v :: serverView and w0 where "w0 \<in> set sampleHistory"
      "canAccess (w_db w0) (sk_user (snd sampleStream)) (sv_server v)"
      "gc_request (ds_call x) = ServerIdRequest (s_uuid (sv_server v))"
    by (metis list.set_intros(1))
  then show ?thesis using one x by (intro exI [of _ x] exI [of _ v] exI [of _ w0]) simp
qed

text \<open>A disconnection cancels every stream of the socket, and none is opened afterwards,
  provided no subscription was awaiting its access check.\<close>

theorem disconnect_ends_streams:
  assumes "gatewayReach E h (w, s)" and "sk_pending s = []"
    and "(gatewayStep E)\<^sup>*\<^sup>* (w, gateway_disconnect s) (w', s')"
  shows "sk_open s' = [] \<and> sk_cancelStreams s' = []"
proof -
  have "\<not> sk_connected (snd x) \<and> sk_pending (snd x) = [] \<and> sk_open (snd x) = [] \<and>
      sk_cancelStreams (snd x) = []" if "(gatewayStep E)\<^sup>*\<^sup>* (w, gateway_disconnect s) x" for x
    using that
  proof (induction rule: rtranclp_induct)
    case base
    then show ?case using gatewayReach_inv [OF assms(1)] disconnect_closes [of h s] assms(2)
      by (simp add: gateway_disconnect_def)
  next
    case (step y z)
    obtain w1 s1 w2 s2 where yz: "y = (w1, s1)" "z = (w2, s2)" by (cases y, cases z)
    from step.hyps(2) [unfolded yz] show ?case
      by (cases rule: gatewayStepE) (use step.IH yz in \<open>auto simp: gateway_streamEnd_def\<close>)
  qed
  from this [OF assms(3)] show ?thesis by simp
qed

theorem disconnect_ends_streams_witness:
  "sk_open (snd sampleStream) \<noteq> [] \<and> sk_open (gateway_disconnect (snd sampleStream)) = []"
proof -
  have "length (sk_open (snd sampleStream)) = 1 \<and> length (sk_pending (snd sampleStream)) = 0" by code_simp
  then show ?thesis
    using disconnect_ends_streams [of sampleEnv sampleHistory "fst sampleStream" "snd sampleStream"]
      sampleStream_reach by fastforce
qed

text \<open>A subscription that awaits its check while the socket disconnects opens its stream
  afterwards, and nothing cancels it.\<close>

theorem pending_subscription_leaks_stream:
  "(\<exists>h. gatewayReach sampleEnv h sampleLeak) \<and> \<not> sk_connected (snd sampleLeak) \<and>
   map (gc_method \<circ> ds_call) (sk_open (snd sampleLeak)) = [''StreamConsole'']"
proof -
  have c: "map fst (sk_pending (snd sampleSubscription)) = [ConsoleTopic]"
    "sk_connected (snd sampleSubscription)" by code_simp+
  have left: "gatewayReach sampleEnv [fst sampleLeft, fst sampleSubscription, fst sampleHandshake] sampleLeft"
    by (rule gatewayReach.step [OF sampleSubscription_reach])
       (use gatewayStep.disconnect [OF c(2), of sampleEnv "fst sampleSubscription"]
        in \<open>simp add: sampleLeft_def\<close>)
  have "sk_pending (snd sampleLeft) = sk_pending (snd sampleSubscription)"
    using disconnect_closes [OF conjunct1 [OF gatewayReach_inv [OF sampleSubscription_reach]]] by (simp add: sampleLeft_def)
  then have "(ConsoleTopic, sampleView) \<in> set (sk_pending (snd sampleLeft))"
    using c(1) by (auto simp: sampleView_def)
  from gatewayStep.resume [OF this, of sampleEnv "fst sampleLeft"
      "fst (gateway_resume sampleEnv ConsoleTopic sampleView sampleLeft)"
      "fst sampleLeak" "snd sampleLeak"]
  have "gatewayStep sampleEnv sampleLeft sampleLeak" by (simp add: sampleLeak_def)
  then have "\<exists>h. gatewayReach sampleEnv h sampleLeak" using gatewayReach.step [OF left] by blast
  moreover have "\<not> sk_connected (snd sampleLeak)"
    "map (gc_method \<circ> ds_call) (sk_open (snd sampleLeak)) = [''StreamConsole'']" by code_simp+
  ultimately show ?thesis by simp
qed

text \<open>A socket keeps the user of its handshake: a suspended account still reads the console, and
  a command needs no permission, where the route for it requires \<open>servers.console\<close>.\<close>

definition suspendedWorld :: world where
  "suspendedWorld = snd (users_suspend sampleEnv ''alice'' ''abuse'' ''root'' (fst sampleHandshake))"

lemma suspended_socket_sends_commands:
  "(case fst (gateway_sendCommand sampleEnv ''srv'' ''stop'' (suspendedWorld, snd sampleHandshake)) of
      Inr r \<Rightarrow> ar_success r | Inl e \<Rightarrow> False)"
  by code_simp

lemma command_route_needs_permission:
  "fst (api_dispatch sampleEnv sampleApi (tokenRequest ''alice'' ''/api/servers/srv/command'')
     (ServersR (ServersCommand ''srv'' ''stop'')) sampleWorld) =
   Inl (ForbiddenException ''Permissions manquantes: servers.console'')"
  by code_simp

end
