(* ===== verification/Config.thy ===== *)
theory Config
  imports World
begin

text \<open>
  \<^verbatim>\<open>config/configuration.ts\<close>: the configuration read from the variables of the environment,
  and the check of \<^verbatim>\<open>main.ts\<close> that refuses to start in production with the default secrets.
\<close>

type_synonym environ = "string \<Rightarrow> string option"

definition oauthFrom :: "environ \<Rightarrow> string \<Rightarrow> oauthConfig" where
  "oauthFrom env provider = \<lparr>oa_clientId = env (''OAUTH_'' @ provider @ ''_CLIENT_ID''),
     oa_clientSecret = env (''OAUTH_'' @ provider @ ''_CLIENT_SECRET''),
     oa_callbackUrl = env (''OAUTH_'' @ provider @ ''_CALLBACK_URL'')\<rparr>"

definition configuration :: "environ \<Rightarrow> config" where
  "configuration env = \<lparr>cf_env = orElse (env ''ELYSIA_ENV'') ''development'',
     cf_httpPort = parseInt (orElse (env ''BACKEND_HTTP_PORT'') ''9401''),
     cf_wsPort = parseInt (orElse (env ''BACKEND_WS_PORT'') ''9402''),
     cf_accessSecret = orElse (env ''JWT_ACCESS_SECRET'') ''dev_access_secret'',
     cf_refreshSecret = orElse (env ''JWT_REFRESH_SECRET'') ''dev_refresh_secret'',
     cf_accessTtl = orElse (env ''JWT_ACCESS_TTL'') ''15m'',
     cf_refreshTtl = orElse (env ''JWT_REFRESH_TTL'') ''30d'',
     cf_redisHost = orElse (env ''REDIS_HOST'') ''127.0.0.1'',
     cf_redisPort = parseInt (orElse (env ''REDIS_PORT'') ''63790''),
     cf_redisPassword = env ''REDIS_PASSWORD'',
     cf_discord = oauthFrom env ''DISCORD'', cf_google = oauthFrom env ''GOOGLE'',
     cf_github = oauthFrom env ''GITHUB'', cf_stripeSecretKey = env ''STRIPE_SECRET_KEY'',
     cf_stripeWebhookSecret = env ''STRIPE_WEBHOOK_SECRET'',
     cf_modrinthApiUrl = orElse (env ''MODRINTH_API_URL'') ''https://api.modrinth.com/v2'',
     cf_curseforgeApiUrl = orElse (env ''CURSEFORGE_API_URL'') ''https://api.curseforge.com/v1'',
     cf_curseforgeApiKey = env ''CURSEFORGE_API_KEY'',
     cf_nodeSecret = orElse (env ''NODE_INTERNAL_SECRET'') ''dev_node_internal_secret'',
     cf_backupDriver = (if truthy (env ''BACKUP_S3_BUCKET'')
       then orElse (env ''BACKUP_DRIVER'') ''S3'' else ''LOCAL''),
     cf_s3 = \<lparr>s3_endpoint = env ''BACKUP_S3_ENDPOINT'', s3_bucket = env ''BACKUP_S3_BUCKET'',
       s3_accessKey = env ''BACKUP_S3_ACCESS_KEY'', s3_secretKey = env ''BACKUP_S3_SECRET_KEY'',
       s3_useSsl = (env ''BACKUP_S3_USE_SSL'' \<noteq> Some ''false'')\<rparr>\<rparr>"

definition isInsecureDefault :: "string option \<Rightarrow> bool" where
  "isInsecureDefault s \<longleftrightarrow>
     s \<in> {Some ''dev_access_secret'', Some ''dev_refresh_secret'', None, Some []}"

definition assertProductionSecretsAreSet :: "environ \<Rightarrow> exn + unit" where
  "assertProductionSecretsAreSet env =
     (if orElse (env ''ELYSIA_ENV'') ''development'' \<noteq> ''production'' then Inr ()
      else if isInsecureDefault (env ''JWT_ACCESS_SECRET'') \<or> isInsecureDefault (env ''JWT_REFRESH_SECRET'')
      then Inl (JsError
        ''JWT_ACCESS_SECRET / JWT_REFRESH_SECRET doivent etre definis a des valeurs fortes en production (ELYSIA_ENV=production).'')
      else Inr ())"

text \<open>The start of the backend: the check, then the configuration.\<close>

definition bootstrap :: "environ \<Rightarrow> exn + config" where
  "bootstrap env = (case assertProductionSecretsAreSet env of
     Inl e \<Rightarrow> Inl e | Inr _ \<Rightarrow> Inr (configuration env))"

subsection \<open>Secrets\<close>

text \<open>A backend that starts in production signs its tokens with secrets that were given and
  are neither empty nor one of the two defaults of the repository. The secret shared with the
  nodes has no such check.\<close>

theorem production_has_own_secrets:
  assumes "bootstrap env = Inr c" and "cf_env c = ''production''"
  shows "env ''JWT_ACCESS_SECRET'' = Some (cf_accessSecret c) \<and>
    env ''JWT_REFRESH_SECRET'' = Some (cf_refreshSecret c) \<and>
    {cf_accessSecret c, cf_refreshSecret c} \<inter>
      {''dev_access_secret'', ''dev_refresh_secret'', []} = {}"
proof -
  have start: "assertProductionSecretsAreSet env = Inr ()" and c: "c = configuration env"
    using assms(1) by (auto simp: bootstrap_def split: sum.splits)
  have "orElse (env ''ELYSIA_ENV'') ''development'' = ''production''"
    using assms(2) c by (simp add: configuration_def)
  then have "\<not> isInsecureDefault (env ''JWT_ACCESS_SECRET'')" "\<not> isInsecureDefault (env ''JWT_REFRESH_SECRET'')"
    using start by (auto simp: assertProductionSecretsAreSet_def split: if_splits)
  then obtain a r where "env ''JWT_ACCESS_SECRET'' = Some a" "env ''JWT_REFRESH_SECRET'' = Some r"
      "a \<notin> {''dev_access_secret'', ''dev_refresh_secret'', []}"
      "r \<notin> {''dev_access_secret'', ''dev_refresh_secret'', []}"
    by (cases "env ''JWT_ACCESS_SECRET''"; cases "env ''JWT_REFRESH_SECRET''")
       (auto simp: isInsecureDefault_def)
  then show ?thesis by (simp add: c configuration_def)
qed

definition sampleEnviron :: environ where
  "sampleEnviron = map_of [(''ELYSIA_ENV'', ''production''), (''JWT_ACCESS_SECRET'', ''a1''),
     (''JWT_REFRESH_SECRET'', ''r1'')]"

lemma sampleEnviron_boot: "bootstrap sampleEnviron = Inr (configuration sampleEnviron)"
  by (simp add: bootstrap_def assertProductionSecretsAreSet_def sampleEnviron_def isInsecureDefault_def)

theorem production_has_own_secrets_witness:
  "cf_accessSecret (configuration sampleEnviron) \<noteq> ''dev_access_secret'' \<and>
   cf_nodeSecret (configuration sampleEnviron) = ''dev_node_internal_secret''"
proof -
  have "cf_env (configuration sampleEnviron) = ''production''"
    by (simp add: configuration_def sampleEnviron_def)
  from production_has_own_secrets [OF sampleEnviron_boot this] show ?thesis
    by (simp add: configuration_def sampleEnviron_def)
qed

end
