(* ===== verification/Seed.thy ===== *)
theory Seed
  imports Users
begin

text \<open>
  \<^verbatim>\<open>prisma/seed.ts\<close>, which the installer runs: the catalogue of permissions, the two system
  roles, the permissions of clients, the system account and the templates. Each row is
  upserted, so that the script can be run again. An accented letter of the script is its
  Latin-1 character; the \<open>defaultVariables\<close> of the templates, a column that no code reads, are
  left out of the row as they are of the type.
\<close>

definition dbUpsert ::
  "(db \<Rightarrow> 'r list) \<Rightarrow> (('r list \<Rightarrow> 'r list) \<Rightarrow> db \<Rightarrow> db) \<Rightarrow> ('r \<Rightarrow> 'r \<Rightarrow> bool) \<Rightarrow>
   (db \<Rightarrow> 'r \<Rightarrow> bool) \<Rightarrow> ('r \<Rightarrow> bool) \<Rightarrow> ('r \<Rightarrow> 'r) \<Rightarrow> 'r io \<Rightarrow> 'r io"
where
  "dbUpsert tbl upd conflict fk p f new =
     bnd (dbFind tbl p) (\<lambda>r. case r of
       Some _ \<Rightarrow> dbUpdate tbl upd p f
     | None \<Rightarrow> bnd new (dbCreate tbl upd conflict fk))"

subsection \<open>Permissions and roles\<close>

text \<open>Each permission with its group.\<close>

definition PERMISSIONS :: "(string \<times> string) list" where
  "PERMISSIONS = [
     (''users.read'', ''users''), (''users.create'', ''users''), (''users.update'', ''users''),
     (''users.suspend'', ''users''), (''users.ban'', ''users''), (''users.delete'', ''users''),
     (''users.impersonate'', ''users''), (''roles.read'', ''roles''),
     (''roles.create'', ''roles''), (''roles.update'', ''roles''), (''roles.delete'', ''roles''),
     (''audit.read'', ''audit''), (''nodes.read'', ''nodes''), (''nodes.create'', ''nodes''),
     (''nodes.update'', ''nodes''), (''nodes.delete'', ''nodes''),
     (''nodes.maintenance'', ''nodes''), (''servers.read.any'', ''servers''),
     (''servers.update.any'', ''servers''), (''servers.delete.any'', ''servers''),
     (''servers.suspend'', ''servers''), (''servers.create'', ''servers''),
     (''servers.read'', ''servers''), (''servers.update'', ''servers''),
     (''servers.delete'', ''servers''), (''servers.power'', ''servers''),
     (''servers.console'', ''servers''), (''servers.subusers'', ''servers''),
     (''files.read'', ''files''), (''files.write'', ''files''),
     (''backups.create'', ''backups''), (''backups.restore'', ''backups''),
     (''backups.delete'', ''backups''), (''mods.install'', ''mods''),
     (''mods.remove'', ''mods''), (''billing.read'', ''billing''),
     (''billing.manage'', ''billing''), (''billing.refund'', ''billing''),
     (''marketplace.read'', ''marketplace''), (''marketplace.publish'', ''marketplace''),
     (''support.read.any'', ''support''), (''support.reply'', ''support''),
     (''support.create'', ''support''), (''monitoring.read'', ''monitoring'')]"

definition CLIENT_PERMISSIONS :: "string list" where
  "CLIENT_PERMISSIONS = [
     ''servers.create'', ''servers.read'', ''servers.update'', ''servers.delete'',
     ''servers.power'', ''servers.console'', ''servers.subusers'', ''files.read'',
     ''files.write'', ''backups.create'', ''backups.restore'', ''backups.delete'',
     ''mods.install'', ''mods.remove'', ''billing.read'', ''marketplace.read'',
     ''support.create'']"

definition seed_permission :: "env \<Rightarrow> string \<times> string \<Rightarrow> unit io" where
  "seed_permission E = (\<lambda>(key, group).
     andThen (dbUpsert t_permissions t_permissions_update permission_conflict no_fk
         (\<lambda>p. p_key p = key) (\<lambda>p. p\<lparr>p_group := group\<rparr>)
         (bnd (external (newUuid E)) (\<lambda>i. ret \<lparr>p_id = i, p_key = key, p_group = group\<rparr>)))
       (ret ()))"

definition seed_role :: "env \<Rightarrow> string \<Rightarrow> string \<Rightarrow> role io" where
  "seed_role E name description =
     dbUpsert t_roles t_roles_update role_conflict no_fk (\<lambda>r. r_name r = name) (\<lambda>r. r)
       (bnd (external (newUuid E)) (\<lambda>i.
        ret \<lparr>r_id = i, r_name = name, r_description = Some description, r_isSystem = True\<rparr>))"

text \<open>\<open>createMany\<close> with \<open>skipDuplicates\<close>.\<close>

definition createManySkip :: "rolePermission list \<Rightarrow> unit io" where
  "createManySkip rows = forEach rows (\<lambda>r.
     bnd (gets w_db) (\<lambda>d.
     if list_ex (rolePermission_conflict r) (t_rolePermissions d) then ret ()
     else andThen (dbCreate t_rolePermissions t_rolePermissions_update rolePermission_conflict
       rolePermission_fk r) (ret ())))"

definition seed_clientPermissions :: "id \<Rightarrow> unit io" where
  "seed_clientPermissions roleId =
     bnd (dbFindMany t_permissions (\<lambda>p. p_key p \<in> set CLIENT_PERMISSIONS)) (\<lambda>clientPerms.
     andThen (dbDeleteMany t_rolePermissions_update (\<lambda>rp. rp_roleId rp = roleId))
       (createManySkip (map (\<lambda>p. \<lparr>rp_roleId = roleId, rp_permissionId = p_id p\<rparr>) clientPerms)))"

subsection \<open>System account and templates\<close>

definition seed_systemUser :: "env \<Rightarrow> id \<Rightarrow> user io" where
  "seed_systemUser E roleId =
     dbUpsert t_users t_users_update user_conflict user_fk (\<lambda>u. u_id u = SYSTEM_USER_ID) (\<lambda>u. u)
       (bnd (external (now E)) (\<lambda>t.
        ret (newUser SYSTEM_USER_ID t ''system@elysia.local'' ''system'' None (Some roleId))))"

record templateSeed =
  sd_name :: string
  sd_gameType :: GameType
  sd_description :: string
  sd_dockerImage :: string
  sd_startupCommand :: string
  sd_minMemoryMb :: int

definition seedTemplates :: "templateSeed list" where
  "seedTemplates = [
     \<lparr>sd_name = ''Minecraft Paper (derni'' @ CHR 0xE8 # ''re version)'', sd_gameType = MINECRAFT_JAVA,
      sd_description = ''Serveur Paper haute performance, compatible plugins Bukkit/Spigot.'',
      sd_dockerImage = ''itzg/minecraft-server:latest'',
      sd_startupCommand = ''java -Xms{{MEMORY}}M -Xmx{{MEMORY}}M -jar server.jar nogui'',
      sd_minMemoryMb = 1024\<rparr>,
     \<lparr>sd_name = ''Minecraft Fabric'', sd_gameType = MINECRAFT_JAVA,
      sd_description = ''Serveur Fabric pour mods l'' @ CHR 0xE9 # ''gers/performants.'',
      sd_dockerImage = ''itzg/minecraft-server:latest'',
      sd_startupCommand = ''java -Xms{{MEMORY}}M -Xmx{{MEMORY}}M -jar server.jar nogui'',
      sd_minMemoryMb = 1024\<rparr>,
     \<lparr>sd_name = ''Minecraft Bedrock'', sd_gameType = MINECRAFT_BEDROCK,
      sd_description = ''Serveur Bedrock officiel (Geyser-compatible c'' @ CHR 0xF4 # ''t'' @ CHR 0xE9 # '' proxy Java).'',
      sd_dockerImage = ''itzg/minecraft-bedrock-server:latest'',
      sd_startupCommand = ''/bedrock_server'', sd_minMemoryMb = 512\<rparr>,
     \<lparr>sd_name = ''Velocity (proxy)'', sd_gameType = MINECRAFT_JAVA,
      sd_description = ''Proxy Velocity pour relier plusieurs serveurs backend.'',
      sd_dockerImage = ''itzg/mc-proxy:latest'',
      sd_startupCommand = ''java -Xms{{MEMORY}}M -Xmx{{MEMORY}}M -jar velocity.jar'',
      sd_minMemoryMb = 256\<rparr>,
     \<lparr>sd_name = ''Docker g'' @ CHR 0xE9 # ''n'' @ CHR 0xE9 # ''rique'', sd_gameType = GENERIC_DOCKER,
      sd_description = ''Fait tourner n'importe quelle image Docker fournie par le client (bot Discord, app web, ...).'',
      sd_dockerImage = ''alpine:latest'', sd_startupCommand = ''{{STARTUP_COMMAND}}'',
      sd_minMemoryMb = 256\<rparr>]"

definition seed_template :: "env \<Rightarrow> templateSeed \<Rightarrow> unit io" where
  "seed_template E t =
     andThen (dbUpsert t_templates t_templates_update template_conflict no_fk
         (\<lambda>x. tp_name x = sd_name t) (\<lambda>x. x)
         (bnd (external (newUuid E)) (\<lambda>i.
          ret \<lparr>tp_id = i, tp_name = sd_name t, tp_gameType = sd_gameType t,
            tp_description = Some (sd_description t), tp_dockerImage = sd_dockerImage t,
            tp_startupCommand = sd_startupCommand t, tp_installScript = None,
            tp_minMemoryMb = sd_minMemoryMb t, tp_isPublic = True\<rparr>)))
       (ret ())"

definition seed_main :: "env \<Rightarrow> unit io" where
  "seed_main E =
     andThen (forEach PERMISSIONS (seed_permission E))
     (bnd (seed_role E ''admin'' (''Acc'' @ CHR 0xE8 # ''s total (bypass RBAC)'')) (\<lambda>adminRole.
     bnd (seed_role E ''client'' ''Utilisateur self-service'') (\<lambda>clientRole.
     andThen (seed_clientPermissions (r_id clientRole))
     (andThen (seed_systemUser E (r_id adminRole))
       (forEach seedTemplates (seed_template E))))))"

end
