(* ===== verification/Seed_Properties.thy ===== *)
theory Seed_Properties
  imports Seed Api Sample Identity_Properties
begin

text \<open>What the installation leaves.\<close>

subsection \<open>The steps of the script\<close>

text \<open>An upsert: the row exists afterwards, whether it was there or not.\<close>

lemma dbUpsert_Inr:
  assumes "dbUpsert tbl upd conflict fk p f new w = (Inr x, w')"
  shows "(\<exists>r. List.find p (tbl (w_db w)) = Some r \<and> x = f r \<and>
      w' = w\<lparr>w_db := upd (map (\<lambda>x. if p x then f x else x)) (w_db w)\<rparr>) \<or>
    List.find p (tbl (w_db w)) = None \<and> (\<exists>w1. new w = (Inr x, w1) \<and>
      \<not> list_ex (conflict x) (tbl (w_db w1)) \<and> fk (w_db w1) x \<and>
      w' = w1\<lparr>w_db := upd (\<lambda>t. t @ [x]) (w_db w1)\<rparr>)"
  using assms by (auto simp: dbUpsert_def run_Inr split: option.splits)

lemmas dbUpsert_cases = dbUpsert_Inr [THEN disjE, consumes 1, case_names found created]

text \<open>A step that writes one table.\<close>

lemma one_table:
  "\<exists>t. t_permissions_update f d = d\<lparr>t_permissions := t\<rparr>" "\<exists>t. d = d\<lparr>t_permissions := t\<rparr>"
  "\<exists>t. t_roles_update g d = d\<lparr>t_roles := t\<rparr>" "\<exists>t. d = d\<lparr>t_roles := t\<rparr>"
  "\<exists>t. t_rolePermissions_update h d = d\<lparr>t_rolePermissions := t\<rparr>" "\<exists>t. d = d\<lparr>t_rolePermissions := t\<rparr>"
  "\<exists>t. t_users_update i d = d\<lparr>t_users := t\<rparr>" "\<exists>t. d = d\<lparr>t_users := t\<rparr>"
  "\<exists>t. t_templates_update j d = d\<lparr>t_templates := t\<rparr>" "\<exists>t. d = d\<lparr>t_templates := t\<rparr>"
  by (rule exI [of _ "f (t_permissions d)"] exI [of _ "t_permissions d"]
      exI [of _ "g (t_roles d)"] exI [of _ "t_roles d"]
      exI [of _ "h (t_rolePermissions d)"] exI [of _ "t_rolePermissions d"]
      exI [of _ "i (t_users d)"] exI [of _ "t_users d"]
      exI [of _ "j (t_templates d)"] exI [of _ "t_templates d"]; simp; fail)+

lemma seed_permission_Inr:
  assumes "seed_permission E (k, g) w = (Inr x, w')"
  shows "(\<exists>t. w_db w' = (w_db w)\<lparr>t_permissions := t\<rparr>) \<and>
    p_key ` set (t_permissions (w_db w')) = insert k (p_key ` set (t_permissions (w_db w))) \<and>
    (distinct (map p_id (t_permissions (w_db w))) \<longrightarrow> distinct (map p_id (t_permissions (w_db w'))))"
proof -
  obtain y where run: "dbUpsert t_permissions t_permissions_update permission_conflict no_fk
      (\<lambda>p. p_key p = k) (\<lambda>p. p\<lparr>p_group := g\<rparr>)
      (bnd (external (newUuid E)) (\<lambda>i. ret \<lparr>p_id = i, p_key = k, p_group = g\<rparr>)) w = (Inr y, w')"
    using assms by (auto simp: seed_permission_def run_Inr)
  let ?f = "\<lambda>p. if p_key p = k then p\<lparr>p_group := g\<rparr> else p"
  have ids: "map (p_id \<circ> ?f) ps = map p_id ps" "map (p_key \<circ> ?f) ps = map p_key ps" for ps
    by simp_all
  have keys: "p_key ` set (map ?f ps) = p_key ` set ps" for ps
    using arg_cong [OF ids(2), of set ps] by (simp only: set_map image_comp)
  from run show ?thesis
  proof (cases rule: dbUpsert_cases)
    case found
    then obtain r where r: "List.find (\<lambda>p. p_key p = k) (t_permissions (w_db w)) = Some r"
      and w': "w' = w\<lparr>w_db := t_permissions_update (map ?f) (w_db w)\<rparr>" by blast
    have "k \<in> p_key ` set (t_permissions (w_db w))" using find_SomeD [OF r] by auto
    have "t_permissions (w_db w') = map ?f (t_permissions (w_db w))" unfolding w' by simp
    then have "p_key ` set (t_permissions (w_db w')) = p_key ` set (t_permissions (w_db w))"
      "map p_id (t_permissions (w_db w')) = map p_id (t_permissions (w_db w))"
      by (simp_all only: keys ids map_map)
    moreover have "\<exists>t. w_db w' = (w_db w)\<lparr>t_permissions := t\<rparr>" unfolding w' by (simp add: one_table)
    ultimately show ?thesis using \<open>k \<in> _\<close> by (simp only: insert_absorb simp_thms)
  next
    case created
    then show ?thesis by (auto simp: run_Inr permission_conflict_def list_ex_iff one_table)
  qed
qed

lemma seed_permissions_Inr:
  assumes "forEach ps (seed_permission E) w = (Inr x, w')"
  shows "(\<exists>t. w_db w' = (w_db w)\<lparr>t_permissions := t\<rparr>) \<and>
    p_key ` set (t_permissions (w_db w')) = fst ` set ps \<union> p_key ` set (t_permissions (w_db w)) \<and>
    (distinct (map p_id (t_permissions (w_db w))) \<longrightarrow> distinct (map p_id (t_permissions (w_db w'))))"
  using assms
proof (induction ps arbitrary: w)
  case Nil
  then show ?case by (simp add: run_Inr one_table)
next
  case (Cons p ps)
  obtain k g where p: "p = (k, g)" by (cases p)
  obtain w1 where 1: "seed_permission E (k, g) w = (Inr (), w1)"
    and 2: "forEach ps (seed_permission E) w1 = (Inr x, w')"
    using Cons.prems by (auto simp: p run_Inr)
  show ?case using seed_permission_Inr [OF 1] Cons.IH [OF 2] by (auto simp: p)
qed

lemma find_append:
  "List.find P (xs @ ys) = (case List.find P xs of Some x \<Rightarrow> Some x | None \<Rightarrow> List.find P ys)"
  by (induction xs) auto

lemma seed_role_Inr:
  assumes "seed_role E n desc w = (Inr r, w')"
  shows "(\<exists>t. w_db w' = (w_db w)\<lparr>t_roles := t\<rparr>) \<and> r_name r = n \<and>
    (List.find (\<lambda>r. r_name r = n) (t_roles (w_db w)) = Some r \<and> t_roles (w_db w') = t_roles (w_db w) \<or>
     List.find (\<lambda>r. r_name r = n) (t_roles (w_db w)) = None \<and> r_isSystem r \<and>
     r_id r \<notin> r_id ` set (t_roles (w_db w)) \<and> t_roles (w_db w') = t_roles (w_db w) @ [r])"
  using assms unfolding seed_role_def
  by (cases rule: dbUpsert_cases)
     (auto simp: run_Inr role_conflict_def list_ex_iff one_table dest: find_SomeD)

text \<open>A row of the same key is the same row.\<close>

lemma createManySkip_Inr:
  assumes "createManySkip rows w = (Inr x, w')"
  shows "(\<exists>t. w_db w' = (w_db w)\<lparr>t_rolePermissions := t\<rparr>) \<and>
    set (t_rolePermissions (w_db w')) = set (t_rolePermissions (w_db w)) \<union> set rows"
  using assms
proof (induction rows arbitrary: w)
  case Nil
  then show ?case by (simp add: createManySkip_def run_Inr one_table)
next
  case (Cons r rows)
  have same: "rolePermission_conflict r y \<longleftrightarrow> y = r" for y
    by (auto simp: rolePermission_conflict_def)
  obtain w1 where rest: "createManySkip rows w1 = (Inr x, w')"
    and w1: "(w1 = w \<and> r \<in> set (t_rolePermissions (w_db w))) \<or>
      w1 = w\<lparr>w_db := t_rolePermissions_update (\<lambda>t. t @ [r]) (w_db w)\<rparr>"
    using Cons.prems unfolding createManySkip_def
    by (cases "r \<in> set (t_rolePermissions (w_db w))") (auto simp: run_Inr list_ex_iff same)
  from w1 show ?case
  proof
    assume "w1 = w \<and> r \<in> set (t_rolePermissions (w_db w))"
    then show ?thesis using Cons.IH [OF rest] by auto
  next
    assume w1: "w1 = w\<lparr>w_db := t_rolePermissions_update (\<lambda>t. t @ [r]) (w_db w)\<rparr>"
    show ?thesis using Cons.IH [OF rest] unfolding w1 by auto
  qed
qed

lemma seed_systemUser_Inr:
  assumes "seed_systemUser E roleId w = (Inr u, w')"
  shows "(\<exists>t. w_db w' = (w_db w)\<lparr>t_users := t\<rparr>) \<and> u_id u = SYSTEM_USER_ID \<and>
    (u \<in> set (t_users (w_db w)) \<and> t_users (w_db w') = t_users (w_db w) \<or>
     u_roleId u = Some roleId \<and> t_users (w_db w') = t_users (w_db w) @ [u])"
  using assms unfolding seed_systemUser_def
  by (cases rule: dbUpsert_cases) (auto simp: run_Inr newUser_def one_table dest: find_SomeD)

lemma seed_templates_Inr:
  assumes "forEach ts (seed_template E) w = (Inr x, w')"
  shows "(\<exists>t. w_db w' = (w_db w)\<lparr>t_templates := t\<rparr>)"
  using assms
proof (induction ts arbitrary: w)
  case Nil
  then show ?case by (simp add: run_Inr one_table)
next
  case (Cons t ts)
  obtain w1 where 1: "seed_template E t w = (Inr (), w1)"
    and 2: "forEach ts (seed_template E) w1 = (Inr x, w')"
    using Cons.prems by (auto simp: run_Inr)
  have "\<exists>t. w_db w1 = (w_db w)\<lparr>t_templates := t\<rparr>"
    using 1 unfolding seed_template_def by (auto simp: run_Inr one_table dest!: dbUpsert_Inr)
  then show ?case using Cons.IH [OF 2] by auto
qed

lemmas required_elims = auth_required.elims users_required.elims roles_required.elims
  audit_required.elims nodes_required.elims templates_required.elims monitoring_required.elims
  servers_required.elims backups_required.elims tasks_required.elims files_required.elims
  mods_required.elims marketplace_required.elims billing_required.elims support_required.elims

text \<open>The catalogue, one permission at a time.\<close>

lemma known_permissions:
  "list_all (\<lambda>k. k \<in> fst ` set PERMISSIONS) (map fst PERMISSIONS)"
  by (simp add: list_all_iff)

lemmas known_permission = known_permissions
  [unfolded arg_cong [OF PERMISSIONS_def, of "map fst"], simplified list.map fst_conv list.pred_inject]

lemma required_in_catalogue:
  "requiredPermissions r = Some ps \<Longrightarrow> set ps \<subseteq> fst ` set PERMISSIONS"
  by (erule requiredPermissions.elims; (elim required_elims [OF sym])?; simp add: known_permission; fail)

text \<open>C35: the catalogue has every permission a route can require, so that each route can be
  opened to a role, and every permission of the clients; no permission is listed twice.\<close>

theorem catalogue_covers_routes:
  "set (orElse (requiredPermissions r) []) \<subseteq> fst ` set PERMISSIONS \<and>
   set CLIENT_PERMISSIONS \<subseteq> fst ` set PERMISSIONS \<and> distinct (map fst PERMISSIONS)"
proof (intro conjI)
  show "set CLIENT_PERMISSIONS \<subseteq> fst ` set PERMISSIONS" by code_simp
  show "distinct (map fst PERMISSIONS)" by code_simp
  show "set (orElse (requiredPermissions r) []) \<subseteq> fst ` set PERMISSIONS"
    using required_in_catalogue by (cases "requiredPermissions r") auto
qed

text \<open>The script, run on any database, leaves every permission of the catalogue, the two roles,
  the system account and a role \<open>client\<close> with exactly the permissions of the clients, whatever
  an administrator had changed there; it writes no other table. On empty tables, nothing else is
  there.\<close>

lemma seed_main_Inr:
  assumes "seed_main E w = (Inr (), w')" and "distinct (map p_id (t_permissions (w_db w)))"
  shows "fst ` set PERMISSIONS \<subseteq> p_key ` set (t_permissions (w_db w')) \<and>
    distinct (map p_id (t_permissions (w_db w'))) \<and> user_exists (w_db w') SYSTEM_USER_ID \<and>
    (\<exists>admin client. r_name client = ''client'' \<and> List.find (\<lambda>r. r_name r = ''admin'') (t_roles (w_db w')) = Some admin \<and>
       List.find (\<lambda>r. r_name r = ''client'') (t_roles (w_db w')) = Some client \<and>
       set (rolePermissionKeys (w_db w') (r_id client)) = set CLIENT_PERMISSIONS \<and>
       (t_roles (w_db w) = [] \<longrightarrow> t_roles (w_db w') = [admin, client] \<and>
         r_id admin \<noteq> r_id client \<and> r_isSystem admin \<and> r_name admin = ''admin'')) \<and>
    (t_users (w_db w) = [] \<longrightarrow> (\<exists>sys. t_users (w_db w') = [sys] \<and> u_id sys = SYSTEM_USER_ID)) \<and>
    (\<exists>ps rs rps us ts. w_db w' = (w_db w)\<lparr>t_permissions := ps, t_roles := rs,
       t_rolePermissions := rps, t_users := us, t_templates := ts\<rparr>)"
proof -
  obtain w1 w2 w3 w4 w5 admin client u desc where
    1: "forEach PERMISSIONS (seed_permission E) w = (Inr (), w1)" and
    2: "seed_role E ''admin'' desc w1 = (Inr admin, w2)" and
    3: "seed_role E ''client'' ''Utilisateur self-service'' w2 = (Inr client, w3)" and
    4: "seed_clientPermissions (r_id client) w3 = (Inr (), w4)" and
    5: "seed_systemUser E (r_id admin) w4 = (Inr u, w5)" and
    6: "forEach seedTemplates (seed_template E) w5 = (Inr (), w')"
    using assms(1) unfolding seed_main_def by (auto simp: run_Inr)
  let ?ps = "filter (\<lambda>p. p_key p \<in> set CLIENT_PERMISSIONS) (t_permissions (w_db w1))"
  let ?row = "\<lambda>p. \<lparr>rp_roleId = r_id client, rp_permissionId = p_id p\<rparr>"
  obtain ps where p: "w_db w1 = (w_db w)\<lparr>t_permissions := ps\<rparr>"
      "fst ` set PERMISSIONS \<subseteq> p_key ` set ps" "distinct (map p_id ps)"
    using seed_permissions_Inr [OF 1] assms(2) by auto
  obtain rs where r: "w_db w3 = (w_db w1)\<lparr>t_roles := rs\<rparr>"
      "List.find (\<lambda>r. r_name r = ''admin'') rs = Some admin"
      "List.find (\<lambda>r. r_name r = ''client'') rs = Some client"
      "r_name client = ''client''"
      "t_roles (w_db w1) = [] \<longrightarrow> rs = [admin, client] \<and> r_id admin \<noteq> r_id client \<and>
        r_isSystem admin \<and> r_name admin = ''admin''"
    using seed_role_Inr [OF 2] seed_role_Inr [OF 3]
    by (intro that [of "t_roles (w_db w3)"]) (auto simp: find_append split: option.splits)
  obtain rps where rp: "w_db w4 = (w_db w3)\<lparr>t_rolePermissions := rps\<rparr>"
      "set rps = {x \<in> set (t_rolePermissions (w_db w3)). rp_roleId x \<noteq> r_id client} \<union> ?row ` set ?ps"
    using 4 p r unfolding seed_clientPermissions_def
    by (auto simp: run_Inr dest!: createManySkip_Inr)
  obtain us where us: "w_db w5 = (w_db w4)\<lparr>t_users := us\<rparr>" "\<exists>x \<in> set us. u_id x = SYSTEM_USER_ID"
      "t_users (w_db w4) = [] \<longrightarrow> us = [u]" "u_id u = SYSTEM_USER_ID"
    using seed_systemUser_Inr [OF 5] by fastforce
  obtain ts where ts: "w_db w' = (w_db w5)\<lparr>t_templates := ts\<rparr>"
    using seed_templates_Inr [OF 6] by blast
  have all: "w_db w' = (w_db w)\<lparr>t_permissions := ps, t_roles := rs, t_rolePermissions := rps,
      t_users := us, t_templates := ts\<rparr>"
    using p r rp us ts by simp
  have "set (rolePermissionKeys (w_db w') (r_id client)) = p_key ` set ?ps"
    by (rule rolePermissionKeys_assigned) (use p rp all in \<open>auto simp: image_iff\<close>)
  also have "\<dots> = set CLIENT_PERMISSIONS"
  proof -
    have "set CLIENT_PERMISSIONS \<subseteq> fst ` set PERMISSIONS" by code_simp
    then show ?thesis using p by (auto simp: image_iff) (metis imageE subsetD)
  qed
  finally have "set (rolePermissionKeys (w_db w') (r_id client)) = set CLIENT_PERMISSIONS" .
  moreover have "user_exists (w_db w') SYSTEM_USER_ID"
    using us all by (auto simp: user_exists_def list_ex_iff)
  ultimately show ?thesis using p r rp us all by (intro conjI exI; simp; blast)
qed

subsection \<open>The first accounts\<close>

lemma currentPermissions_tables:
  assumes "t_roles d' = t_roles d" "t_rolePermissions d' = t_rolePermissions d"
    "t_permissions d' = t_permissions d"
  shows "currentPermissions d' u = currentPermissions d u"
  using assms
  by (auto simp: currentPermissions_def permissionsForRole_def roleOf_def rolePermissionKeys_def
      split: option.splits)

text \<open>C36: the script on an empty database, then two registrations: the first account may do
  everything, the second has exactly the permissions of the clients, and the system account is
  the only other one.\<close>

theorem fresh_install:
  assumes "seed_main E w = (Inr (), w1)" and "w_db w = empty_db"
    and "auth_register E a ip w1 = (Inr p, w2)" and "auth_register E b ip' w2 = (Inr q, w3)"
  shows "\<exists>sys u v. t_users (w_db w3) = [sys, u, v] \<and> u_id sys = SYSTEM_USER_ID \<and>
    u_email u = rd_email a \<and> currentPermissions (w_db w3) u = [''*''] \<and>
    u_email v = rd_email b \<and> set (currentPermissions (w_db w3) v) = set CLIENT_PERMISSIONS"
proof -
  have empty: "t_users (w_db w) = []" "t_roles (w_db w) = []" "t_permissions (w_db w) = []"
    by (simp_all add: assms(2) empty_db_def)
  obtain admin client sys where roles: "t_roles (w_db w1) = [admin, client]"
      "r_id admin \<noteq> r_id client" "r_isSystem admin" "r_name admin = ''admin''" "r_name client = ''client''"
      "set (rolePermissionKeys (w_db w1) (r_id client)) = set CLIENT_PERMISSIONS"
    and users: "t_users (w_db w1) = [sys]" "u_id sys = SYSTEM_USER_ID"
    using seed_main_Inr [OF assms(1)] empty by auto
  obtain i t h ls ts where i: "i \<notin> u_id ` set (t_users (w_db w1))" and 2: "w_db w2 = (w_db w1)\<lparr>
      t_users := [sys, newUser i t (rd_email a) (rd_username a) (Some h) (Some (r_id admin))],
      t_auditLogs := ls, t_refreshTokens := ts\<rparr>"
    using register_Inr(1) [OF assms(3)] by (auto simp: roles users)
  let ?u = "newUser i t (rd_email a) (rd_username a) (Some h) (Some (r_id admin))"
  have "i \<noteq> SYSTEM_USER_ID" using i users by auto
  then obtain j t' h' ls' ts' where 3: "w_db w3 = (w_db w2)\<lparr>
      t_users := [sys, ?u, newUser j t' (rd_email b) (rd_username b) (Some h') (Some (r_id client))],
      t_auditLogs := ls', t_refreshTokens := ts'\<rparr>"
    using register_Inr(1) [OF assms(4)] by (auto simp: roles users 2 newUser_def)
  have perms: "currentPermissions (w_db w3) x = currentPermissions (w_db w1) x" for x
    by (rule currentPermissions_tables) (simp_all add: 2 3)
  show ?thesis unfolding perms
    using 3 users roles
    by (auto simp: currentPermissions_def permissionsForRole_def roleOf_def newUser_def)
qed

text \<open>A run of the three steps, with identifiers of two digits.\<close>

definition freshDto :: "string \<Rightarrow> registerDto" where
  "freshDto n = \<lparr>rd_email = n @ ''@x'', rd_username = n, rd_password = ''secret''\<rparr>"

definition seedEnv :: env where
  "seedEnv = sampleEnv\<lparr>newUuid :=
     (\<lambda>n. [''0123456789abcdef'' ! (n div 16), ''0123456789abcdef'' ! (n mod 16)])\<rparr>"

fun installRun :: "(exn + unit) \<times> world \<Rightarrow> bool" where
  "installRun (Inr _, w1) = (case auth_register seedEnv (freshDto ''ann'') None w1 of
     (Inr _, w2) \<Rightarrow> (case auth_register seedEnv (freshDto ''bob'') None w2 of
       (Inr _, _) \<Rightarrow> True | (Inl _, _) \<Rightarrow> False) | (Inl _, _) \<Rightarrow> False)"
| "installRun (Inl _, _) = False"

lemma install_succeeds: "installRun (seed_main seedEnv empty_world)"
  by code_simp

theorem fresh_install_witness:
  "\<exists>(w3 :: world) sys u v. t_users (w_db w3) = [sys, u, v] \<and> u_id sys = SYSTEM_USER_ID \<and>
    u_email u = ''ann@x'' \<and> currentPermissions (w_db w3) u = [''*''] \<and>
    u_email v = ''bob@x'' \<and> set (currentPermissions (w_db w3) v) = set CLIENT_PERMISSIONS"
proof -
  obtain w1 p w2 q w3 where 1: "seed_main seedEnv empty_world = (Inr (), w1)"
    and 2: "auth_register seedEnv (freshDto ''ann'') None w1 = (Inr p, w2)"
    and 3: "auth_register seedEnv (freshDto ''bob'') None w2 = (Inr q, w3)"
    using install_succeeds by (cases "seed_main seedEnv empty_world" rule: installRun.cases)
      (auto split: prod.splits sum.splits)
  have 0: "w_db empty_world = empty_db" by (simp add: empty_world_def)
  have "rd_email (freshDto n) = n @ ''@x''" for n by (simp add: freshDto_def)
  then show ?thesis using fresh_install [OF 1 0 2 3] by (simp only: append.simps) blast
qed

end
