(* ===== verification/Routes.thy ===== *)
theory Routes
  imports Api
begin

text \<open>
  The HTTP routes: what the decorators of the controllers declare (\<^verbatim>\<open>@Controller\<close>, \<^verbatim>\<open>@Get\<close>,
  \<^verbatim>\<open>@Post\<close>, \<^verbatim>\<open>@Patch\<close>, \<^verbatim>\<open>@Put\<close>, \<^verbatim>\<open>@Delete\<close>), in the order of the modules in \<^verbatim>\<open>app.module.ts\<close>
  and of the methods in each class. The framework serves a request with the first declaration
  whose pattern matches; how it matches is a parameter. The handler of each route of the model
  and the path that leads to it are stated here, and that no declaration hides another.
\<close>

datatype httpMethod = GET | POST | PUT | PATCH | DELETE

text \<open>The class and the path of a controller, and its handlers: method, path, name.\<close>

type_synonym controller = "string \<times> string \<times> (httpMethod \<times> string \<times> string) list"

subsection \<open>The declarations\<close>

definition authController_routes :: controller where
  "authController_routes = (''AuthController'', ''auth'', [
     (GET, ''me'', ''me''), (POST, ''register'', ''register''), (POST, ''login'', ''login''),
     (POST, ''refresh'', ''refresh''), (POST, ''logout'', ''logout''),
     (POST, ''change-password'', ''changePassword''),
     (POST, ''2fa/generate'', ''generateTwoFactor''),
     (POST, ''2fa/enable'', ''enableTwoFactor''), (POST, ''2fa/disable'', ''disableTwoFactor''),
     (POST, ''impersonate/:userId'', ''impersonate''), (GET, ''discord'', ''discordAuth''),
     (GET, ''discord/callback'', ''discordCallback''), (GET, ''google'', ''googleAuth''),
     (GET, ''google/callback'', ''googleCallback''), (GET, ''github'', ''githubAuth''),
     (GET, ''github/callback'', ''githubCallback'')])"

definition usersController_routes :: controller where
  "usersController_routes = (''UsersController'', ''users'', [
     (GET, '''', ''list''), (GET, ''lookup'', ''lookupByEmail''), (GET, '':id'', ''get''),
     (POST, '''', ''create''), (PATCH, '':id'', ''update''),
     (POST, '':id/reset-password'', ''resetPassword''), (POST, '':id/suspend'', ''suspend''),
     (POST, '':id/ban'', ''ban''), (POST, '':id/reactivate'', ''reactivate''),
     (DELETE, '':id'', ''delete'')])"

definition rolesController_routes :: controller where
  "rolesController_routes = (''RolesController'', ''roles'', [
     (GET, '''', ''list''), (GET, ''permissions'', ''listPermissions''),
     (POST, '''', ''create''), (PUT, '':id/permissions'', ''setPermissions''),
     (DELETE, '':id'', ''delete'')])"

definition nodesController_routes :: controller where
  "nodesController_routes = (''NodesController'', ''nodes'', [
     (GET, '''', ''list''), (GET, '':id'', ''get''), (GET, '':id/health'', ''health''),
     (POST, '''', ''create''), (POST, '':id/maintenance/enable'', ''enableMaintenance''),
     (POST, '':id/maintenance/disable'', ''disableMaintenance''),
     (DELETE, '':id'', ''delete'')])"

definition serversController_routes :: controller where
  "serversController_routes = (''ServersController'', ''servers'', [
     (GET, '''', ''list''), (GET, '':id'', ''get''), (POST, '''', ''create''),
     (PATCH, '':id'', ''update''), (POST, '':id/reinstall'', ''reinstall''),
     (POST, '':id/allocations'', ''addAllocation''),
     (DELETE, '':id/allocations/:allocationId'', ''removeAllocation''),
     (POST, '':id/power/start'', ''start''), (POST, '':id/power/stop'', ''stop''),
     (POST, '':id/power/restart'', ''restart''), (POST, '':id/power/kill'', ''kill''),
     (POST, '':id/command'', ''sendCommand''), (POST, '':id/suspend'', ''suspend''),
     (POST, '':id/unsuspend'', ''unsuspend''), (DELETE, '':id'', ''delete''),
     (POST, '':id/subusers'', ''addSubUser''),
     (DELETE, '':id/subusers/:userId'', ''removeSubUser'')])"

definition templatesController_routes :: controller where
  "templatesController_routes = (''TemplatesController'', ''server-templates'', [
     (GET, '''', ''list''), (POST, '''', ''create'')])"

definition filesController_routes :: controller where
  "filesController_routes = (''FilesController'', ''servers/:serverId/files'', [
     (GET, '''', ''list''), (GET, ''content'', ''read''), (POST, ''upload'', ''upload''),
     (POST, ''mkdir'', ''mkdir''), (POST, '''', ''write''), (POST, ''delete'', ''delete''),
     (POST, ''rename'', ''rename'')])"

definition sftpAuthController_routes :: controller where
  "sftpAuthController_routes = (''SftpAuthController'', ''internal/sftp'', [
     (POST, ''auth'', ''auth'')])"

definition backupsController_routes :: controller where
  "backupsController_routes = (''BackupsController'', ''servers/:serverId/backups'', [
     (GET, '''', ''list''), (POST, '''', ''create''), (POST, '':backupId/restore'', ''restore''),
     (DELETE, '':backupId'', ''delete'')])"

definition scheduledTasksController_routes :: controller where
  "scheduledTasksController_routes = (''ScheduledTasksController'', ''servers/:serverId/scheduled-tasks'', [
     (GET, '''', ''list''), (POST, '''', ''create''), (POST, '':id/enable'', ''enable''),
     (POST, '':id/disable'', ''disable''), (DELETE, '':id'', ''delete'')])"

definition modsController_routes :: controller where
  "modsController_routes = (''ModsController'', '''', [
     (GET, ''mods/modrinth/search'', ''searchModrinth''),
     (GET, ''mods/modrinth/:projectId/versions'', ''modrinthVersions''),
     (GET, ''mods/curseforge/search'', ''searchCurseforge''),
     (GET, ''mods/curseforge/:modId/files'', ''curseforgeFiles''),
     (GET, ''servers/:serverId/mods'', ''listInstalled''),
     (POST, ''servers/:serverId/mods/modrinth'', ''installModrinth''),
     (POST, ''servers/:serverId/mods/curseforge'', ''installCurseforge''),
     (POST, ''servers/:serverId/mods/marketplace'', ''installMarketplace''),
     (DELETE, ''servers/:serverId/mods/:installedModId'', ''uninstall''),
     (POST, ''servers/:serverId/modpacks/modrinth'', ''installModrinthPack''),
     (POST, ''servers/:serverId/modpacks/curseforge'', ''installCurseforgePack'')])"

definition billingController_routes :: controller where
  "billingController_routes = (''BillingController'', ''billing'', [
     (GET, ''products'', ''listProducts''), (POST, ''products'', ''createProduct''),
     (POST, ''products/:productId/plans'', ''createPlan''),
     (POST, ''coupons'', ''createCoupon''), (GET, ''invoices'', ''myInvoices''),
     (GET, ''subscriptions'', ''mySubscriptions''), (POST, ''invoices/:id/refund'', ''refund''),
     (POST, ''checkout/:planId'', ''checkout''),
     (POST, ''webhooks/stripe'', ''stripeWebhook'')])"

definition marketplaceController_routes :: controller where
  "marketplaceController_routes = (''MarketplaceController'', ''marketplace'', [
     (GET, ''items'', ''list''), (GET, ''items/:slug'', ''get''),
     (POST, ''items/:slug/download'', ''download''), (POST, ''items'', ''publish''),
     (POST, ''items/:id/verify'', ''verify'')])"

definition supportController_routes :: controller where
  "supportController_routes = (''SupportController'', ''support/tickets'', [
     (GET, '''', ''list''), (GET, '':id'', ''get''), (POST, '''', ''create''),
     (POST, '':id/reply'', ''reply''), (POST, '':id/status'', ''setStatus'')])"

definition monitoringController_routes :: controller where
  "monitoringController_routes = (''MonitoringController'', ''monitoring'', [
     (GET, ''summary'', ''summary'')])"

definition apiKeysController_routes :: controller where
  "apiKeysController_routes = (''ApiKeysController'', ''api-keys'', [
     (GET, '''', ''list''), (POST, '''', ''create''), (DELETE, '':id'', ''revoke'')])"

definition auditController_routes :: controller where
  "auditController_routes = (''AuditController'', ''audit-logs'', [
     (GET, '''', ''list'')])"

definition controllers :: "controller list" where
  "controllers = [
    authController_routes, usersController_routes, rolesController_routes,
     nodesController_routes, serversController_routes, templatesController_routes,
     filesController_routes, sftpAuthController_routes, backupsController_routes,
     scheduledTasksController_routes, modsController_routes, billingController_routes,
     marketplaceController_routes, supportController_routes, monitoringController_routes,
     apiKeysController_routes, auditController_routes]"

subsection \<open>Patterns\<close>

text \<open>A segment of a pattern is a literal or a parameter, written with a colon; the framework
  joins the paths of the controller and of the handler with a slash.\<close>

datatype segment = Literal string | Param

definition segmentOf :: "string \<Rightarrow> segment" where
  "segmentOf s = (if startsWith s '':'' then Param else Literal s)"

definition segments :: "string \<Rightarrow> string list" where
  "segments path = filter (\<lambda>s. s \<noteq> []) (splitOn (CHR ''/'') path)"

definition patternOf :: "string \<Rightarrow> string \<Rightarrow> segment list" where
  "patternOf ctl path = map segmentOf (segments (ctl @ ''/'' @ path))"

record routeDecl =
  dl_method :: httpMethod
  dl_pattern :: "segment list"
  dl_handler :: "string \<times> string"

fun declarations :: "controller \<Rightarrow> routeDecl list" where
  "declarations (cls, ctl, hs) = map (\<lambda>(m, path, h).
     \<lparr>dl_method = m, dl_pattern = patternOf ctl path, dl_handler = (cls, h)\<rparr>) hs"

definition routeTable :: "routeDecl list" where
  "routeTable = concat (map declarations controllers)"

text \<open>The handler of a request, for a matcher of patterns.\<close>

definition resolve ::
  "(segment list \<Rightarrow> string list \<Rightarrow> bool) \<Rightarrow> httpMethod \<Rightarrow> string list \<Rightarrow> (string \<times> string) option"
where
  "resolve mt m path = map_option dl_handler
     (List.find (\<lambda>d. dl_method d = m \<and> mt (dl_pattern d) path) routeTable)"

subsection \<open>The handler of a route\<close>

text \<open>The name of the handler and the parameters of its path.\<close>

fun auth_endpoint :: "authRoute \<Rightarrow> string \<times> string list" where
  "auth_endpoint AuthMe = (''me'', [])"
| "auth_endpoint (AuthRegister _) = (''register'', [])"
| "auth_endpoint (AuthLogin _) = (''login'', [])"
| "auth_endpoint (AuthRefresh _) = (''refresh'', [])"
| "auth_endpoint (AuthLogout _) = (''logout'', [])"
| "auth_endpoint (AuthChangePassword _ _) = (''changePassword'', [])"
| "auth_endpoint AuthGenerateTwoFactor = (''generateTwoFactor'', [])"
| "auth_endpoint (AuthEnableTwoFactor _) = (''enableTwoFactor'', [])"
| "auth_endpoint (AuthDisableTwoFactor _) = (''disableTwoFactor'', [])"
| "auth_endpoint (AuthImpersonate i _) = (''impersonate'', [i])"
| "auth_endpoint (AuthOAuthStart Discord) = (''discordAuth'', [])"
| "auth_endpoint (AuthOAuthStart Google) = (''googleAuth'', [])"
| "auth_endpoint (AuthOAuthStart Github) = (''githubAuth'', [])"
| "auth_endpoint (AuthOAuthCallback Discord) = (''discordCallback'', [])"
| "auth_endpoint (AuthOAuthCallback Google) = (''googleCallback'', [])"
| "auth_endpoint (AuthOAuthCallback Github) = (''githubCallback'', [])"

fun users_endpoint :: "usersRoute \<Rightarrow> string \<times> string list" where
  "users_endpoint (UsersList _ _) = (''list'', [])"
| "users_endpoint (UsersLookup _) = (''lookupByEmail'', [])"
| "users_endpoint (UsersGet i) = (''get'', [i])"
| "users_endpoint (UsersCreate _) = (''create'', [])"
| "users_endpoint (UsersUpdate i _) = (''update'', [i])"
| "users_endpoint (UsersResetPassword i _) = (''resetPassword'', [i])"
| "users_endpoint (UsersSuspend i _) = (''suspend'', [i])"
| "users_endpoint (UsersBan i _) = (''ban'', [i])"
| "users_endpoint (UsersReactivate i) = (''reactivate'', [i])"
| "users_endpoint (UsersDelete i) = (''delete'', [i])"

fun roles_endpoint :: "rolesRoute \<Rightarrow> string \<times> string list" where
  "roles_endpoint RolesList = (''list'', [])"
| "roles_endpoint RolesListPermissions = (''listPermissions'', [])"
| "roles_endpoint (RolesCreate _ _) = (''create'', [])"
| "roles_endpoint (RolesSetPermissions i _) = (''setPermissions'', [i])"
| "roles_endpoint (RolesDelete i) = (''delete'', [i])"

fun apiKeys_endpoint :: "apiKeysRoute \<Rightarrow> string \<times> string list" where
  "apiKeys_endpoint ApiKeysList = (''list'', [])"
| "apiKeys_endpoint (ApiKeysCreate _ _ _) = (''create'', [])"
| "apiKeys_endpoint (ApiKeysRevoke i) = (''revoke'', [i])"

fun nodes_endpoint :: "nodesRoute \<Rightarrow> string \<times> string list" where
  "nodes_endpoint NodesList = (''list'', [])"
| "nodes_endpoint (NodesGet i) = (''get'', [i])"
| "nodes_endpoint (NodesHealth i) = (''health'', [i])"
| "nodes_endpoint (NodesCreate _) = (''create'', [])"
| "nodes_endpoint (NodesEnableMaintenance i) = (''enableMaintenance'', [i])"
| "nodes_endpoint (NodesDisableMaintenance i) = (''disableMaintenance'', [i])"
| "nodes_endpoint (NodesDelete i) = (''delete'', [i])"

fun templates_endpoint :: "templatesRoute \<Rightarrow> string \<times> string list" where
  "templates_endpoint TemplatesList = (''list'', [])"
| "templates_endpoint (TemplatesCreate _) = (''create'', [])"

fun servers_endpoint :: "serversRoute \<Rightarrow> string \<times> string list" where
  "servers_endpoint ServersList = (''list'', [])"
| "servers_endpoint (ServersGet i) = (''get'', [i])"
| "servers_endpoint (ServersCreate _) = (''create'', [])"
| "servers_endpoint (ServersUpdate i _) = (''update'', [i])"
| "servers_endpoint (ServersReinstall i) = (''reinstall'', [i])"
| "servers_endpoint (ServersAddAllocation i) = (''addAllocation'', [i])"
| "servers_endpoint (ServersRemoveAllocation i a) = (''removeAllocation'', [i, a])"
| "servers_endpoint (ServersPower i PowerStart) = (''start'', [i])"
| "servers_endpoint (ServersPower i PowerStop) = (''stop'', [i])"
| "servers_endpoint (ServersPower i PowerRestart) = (''restart'', [i])"
| "servers_endpoint (ServersPower i PowerKill) = (''kill'', [i])"
| "servers_endpoint (ServersCommand i _) = (''sendCommand'', [i])"
| "servers_endpoint (ServersSuspend i _) = (''suspend'', [i])"
| "servers_endpoint (ServersUnsuspend i) = (''unsuspend'', [i])"
| "servers_endpoint (ServersDelete i) = (''delete'', [i])"
| "servers_endpoint (ServersAddSubUser i _ _) = (''addSubUser'', [i])"
| "servers_endpoint (ServersRemoveSubUser i u) = (''removeSubUser'', [i, u])"

fun backups_endpoint :: "backupsRoute \<Rightarrow> string \<times> string list" where
  "backups_endpoint (BackupsList s) = (''list'', [s])"
| "backups_endpoint (BackupsCreate s _) = (''create'', [s])"
| "backups_endpoint (BackupsRestore s b) = (''restore'', [s, b])"
| "backups_endpoint (BackupsDelete s b) = (''delete'', [s, b])"

fun tasks_endpoint :: "tasksRoute \<Rightarrow> string \<times> string list" where
  "tasks_endpoint (TasksList s) = (''list'', [s])"
| "tasks_endpoint (TasksCreate s _ _ _ _) = (''create'', [s])"
| "tasks_endpoint (TasksEnable s t) = (''enable'', [s, t])"
| "tasks_endpoint (TasksDisable s t) = (''disable'', [s, t])"
| "tasks_endpoint (TasksDelete s t) = (''delete'', [s, t])"

fun files_endpoint :: "filesRoute \<Rightarrow> string \<times> string list" where
  "files_endpoint (FilesList s _) = (''list'', [s])"
| "files_endpoint (FilesRead s _) = (''read'', [s])"
| "files_endpoint (FilesUpload s _ _ _) = (''upload'', [s])"
| "files_endpoint (FilesMkdir s _) = (''mkdir'', [s])"
| "files_endpoint (FilesWrite s _ _) = (''write'', [s])"
| "files_endpoint (FilesDelete s _) = (''delete'', [s])"
| "files_endpoint (FilesRename s _ _) = (''rename'', [s])"

fun mods_endpoint :: "modsRoute \<Rightarrow> string \<times> string list" where
  "mods_endpoint (ModrinthSearch _ _ _) = (''searchModrinth'', [])"
| "mods_endpoint (ModrinthVersions p _ _) = (''modrinthVersions'', [p])"
| "mods_endpoint (CurseforgeSearch _ _ _) = (''searchCurseforge'', [])"
| "mods_endpoint (CurseforgeFiles m) = (''curseforgeFiles'', [m])"
| "mods_endpoint (ModsList s) = (''listInstalled'', [s])"
| "mods_endpoint (ModsInstallModrinth s _ _) = (''installModrinth'', [s])"
| "mods_endpoint (ModsInstallCurseforge s _ _ _) = (''installCurseforge'', [s])"
| "mods_endpoint (ModsInstallMarketplace s _ _) = (''installMarketplace'', [s])"
| "mods_endpoint (ModsUninstall s m _) = (''uninstall'', [s, m])"
| "mods_endpoint (ModpackModrinth s _) = (''installModrinthPack'', [s])"
| "mods_endpoint (ModpackCurseforge s _) = (''installCurseforgePack'', [s])"

fun billing_endpoint :: "billingRoute \<Rightarrow> string \<times> string list" where
  "billing_endpoint BillingProducts = (''listProducts'', [])"
| "billing_endpoint (BillingCreateProduct _ _) = (''createProduct'', [])"
| "billing_endpoint (BillingCreatePlan p _) = (''createPlan'', [p])"
| "billing_endpoint (BillingCreateCoupon _) = (''createCoupon'', [])"
| "billing_endpoint BillingInvoices = (''myInvoices'', [])"
| "billing_endpoint BillingSubscriptions = (''mySubscriptions'', [])"
| "billing_endpoint (BillingRefund i) = (''refund'', [i])"
| "billing_endpoint (BillingCheckout p _ _) = (''checkout'', [p])"
| "billing_endpoint (StripeWebhook _ _) = (''stripeWebhook'', [])"

fun marketplace_endpoint :: "marketplaceRoute \<Rightarrow> string \<times> string list" where
  "marketplace_endpoint (MarketplaceList _) = (''list'', [])"
| "marketplace_endpoint (MarketplaceGet s) = (''get'', [s])"
| "marketplace_endpoint (MarketplaceDownload s) = (''download'', [s])"
| "marketplace_endpoint (MarketplacePublish _) = (''publish'', [])"
| "marketplace_endpoint (MarketplaceVerify i) = (''verify'', [i])"

fun support_endpoint :: "supportRoute \<Rightarrow> string \<times> string list" where
  "support_endpoint SupportList = (''list'', [])"
| "support_endpoint (SupportGet i) = (''get'', [i])"
| "support_endpoint (SupportCreate _ _) = (''create'', [])"
| "support_endpoint (SupportReply i _) = (''reply'', [i])"
| "support_endpoint (SupportSetStatus i _) = (''setStatus'', [i])"

fun endpoint :: "route \<Rightarrow> controller \<times> string \<times> string list" where
  "endpoint (AuthR r) = (authController_routes, auth_endpoint r)"
| "endpoint (UsersR r) = (usersController_routes, users_endpoint r)"
| "endpoint (RolesR r) = (rolesController_routes, roles_endpoint r)"
| "endpoint (ApiKeysR r) = (apiKeysController_routes, apiKeys_endpoint r)"
| "endpoint (AuditR _) = (auditController_routes, ''list'', [])"
| "endpoint (NodesR r) = (nodesController_routes, nodes_endpoint r)"
| "endpoint (TemplatesR r) = (templatesController_routes, templates_endpoint r)"
| "endpoint (MonitoringR _) = (monitoringController_routes, ''summary'', [])"
| "endpoint (ServersR r) = (serversController_routes, servers_endpoint r)"
| "endpoint (BackupsR r) = (backupsController_routes, backups_endpoint r)"
| "endpoint (TasksR r) = (scheduledTasksController_routes, tasks_endpoint r)"
| "endpoint (FilesR r) = (filesController_routes, files_endpoint r)"
| "endpoint (SftpR _) = (sftpAuthController_routes, ''auth'', [])"
| "endpoint (ModsR r) = (modsController_routes, mods_endpoint r)"
| "endpoint (MarketplaceR r) = (marketplaceController_routes, marketplace_endpoint r)"
| "endpoint (BillingR r) = (billingController_routes, billing_endpoint r)"
| "endpoint (SupportR r) = (supportController_routes, support_endpoint r)"

text \<open>The path of a route: the pattern of its declaration with the parameters filled in.\<close>

fun fill :: "segment list \<Rightarrow> string list \<Rightarrow> string list" where
  "fill [] ps = []"
| "fill (Literal l # segs) ps = l # fill segs ps"
| "fill (Param # segs) (p # ps) = p # fill segs ps"
| "fill (Param # segs) [] = fill segs []"

definition declarationOf :: "route \<Rightarrow> routeDecl option" where
  "declarationOf r = (case endpoint r of (c, h, _) \<Rightarrow>
     List.find (\<lambda>d. snd (dl_handler d) = h) (declarations c))"

definition paramsOf :: "route \<Rightarrow> string list" where
  "paramsOf r = snd (snd (endpoint r))"

definition handlerOf :: "route \<Rightarrow> string \<times> string" where
  "handlerOf r = (fst (fst (endpoint r)), fst (snd (endpoint r)))"

definition pathOf :: "route \<Rightarrow> string list" where
  "pathOf r = (case declarationOf r of None \<Rightarrow> [] | Some d \<Rightarrow> fill (dl_pattern d) (paramsOf r))"

definition methodOf :: "route \<Rightarrow> httpMethod" where
  "methodOf r = (case declarationOf r of None \<Rightarrow> GET | Some d \<Rightarrow> dl_method d)"

subsection \<open>Requests and routes\<close>

text \<open>What the framework documents of its matcher: a pattern matches what fills it in with
  non-empty segments, and matches a path only if they have the same segments, up to the case of
  letters, where the pattern is literal.\<close>

fun params :: "segment list \<Rightarrow> nat" where
  "params [] = 0"
| "params (Literal _ # segs) = params segs"
| "params (Param # segs) = Suc (params segs)"

definition properParam :: "string \<Rightarrow> bool" where
  "properParam s \<longleftrightarrow> s \<noteq> [] \<and> CHR ''/'' \<notin> set s"

fun sameSegment :: "segment \<Rightarrow> string \<Rightarrow> bool" where
  "sameSegment (Literal l) s \<longleftrightarrow> map lowerChar l = map lowerChar s"
| "sameSegment Param s \<longleftrightarrow> True"

definition isMatcher :: "(segment list \<Rightarrow> string list \<Rightarrow> bool) \<Rightarrow> bool" where
  "isMatcher mt \<longleftrightarrow>
     (\<forall>pat ps. length ps = params pat \<and> list_all properParam ps \<longrightarrow> mt pat (fill pat ps)) \<and>
     (\<forall>pat path. mt pat path \<longrightarrow> list_all2 sameSegment pat path)"

text \<open>Two patterns a path can match both, when their literals are in lower case.\<close>

fun overlap :: "segment list \<Rightarrow> segment list \<Rightarrow> bool" where
  "overlap [] [] = True"
| "overlap (Literal a # p) (Literal b # q) = (if a = b then overlap p q else False)"
| "overlap (Literal a # p) (Param # q) = overlap p q"
| "overlap (Param # p) (b # q) = overlap p q"
| "overlap [] (b # q) = False"
| "overlap (a # p) [] = False"

definition pathLetters :: string where
  "pathLetters = ''abcdefghijklmnopqrstuvwxyz0123456789-''"

definition inLowerCase :: "segment list \<Rightarrow> bool" where
  "inLowerCase = list_all (\<lambda>s. case s of Literal l \<Rightarrow> list_all (\<lambda>c. c \<in> set pathLetters) l | Param \<Rightarrow> True)"

lemma pathLetters_lower: "list_all (\<lambda>c. lowerChar c = c) pathLetters"
  by code_simp

lemma lower_id: "list_all (\<lambda>c. c \<in> set pathLetters) l \<Longrightarrow> map lowerChar l = l"
  using pathLetters_lower by (induction l) (auto simp: list_all_iff)

lemma matches_overlap:
  "list_all2 sameSegment p path \<Longrightarrow> list_all2 sameSegment q path \<Longrightarrow>
   inLowerCase p \<Longrightarrow> inLowerCase q \<Longrightarrow> overlap p q"
proof (induction path arbitrary: p q)
  case Nil
  then show ?case by simp
next
  case (Cons x path)
  then obtain a p' b q' where pq: "p = a # p'" "q = b # q'" by (auto simp: list_all2_Cons2)
  then have "overlap p' q'" using Cons by (simp add: inLowerCase_def)
  moreover have "l = m" if "a = Literal l" "b = Literal m" for l m
    using Cons.prems pq that lower_id [of l] lower_id [of m] by (simp add: inLowerCase_def)
  then have "case a of Literal l \<Rightarrow> (case b of Literal m \<Rightarrow> l = m | Param \<Rightarrow> True) | Param \<Rightarrow> True"
    by (simp split: segment.split)
  ultimately show ?case by (simp add: pq split: segment.splits)
qed

lemma fill_inject:
  "length ps = params pat \<Longrightarrow> length qs = params pat \<Longrightarrow> fill pat ps = fill pat qs \<Longrightarrow> ps = qs"
proof (induction pat arbitrary: ps qs)
  case (Cons s pat)
  then show ?case by (cases s) (cases ps; cases qs; force)+
qed simp

lemma find_first:
  "xs = as @ d # bs \<Longrightarrow> P d \<Longrightarrow> (\<And>x. x \<in> set as \<Longrightarrow> \<not> P x) \<Longrightarrow> List.find P xs = Some d"
  by (induction as arbitrary: xs) auto

text \<open>A declaration that matches what a later one matches hides it: the search of a user by
  address is the only one.\<close>

definition hides :: "routeDecl \<Rightarrow> routeDecl \<Rightarrow> bool" where
  "hides e d = (if dl_method e = dl_method d then overlap (dl_pattern e) (dl_pattern d) else False)"

definition lookupHides :: "routeDecl \<Rightarrow> routeDecl \<Rightarrow> bool" where
  "lookupHides e d \<longleftrightarrow> dl_pattern e = [Literal ''users'', Literal ''lookup''] \<and>
     dl_handler d = (''UsersController'', ''get'') \<and> dl_pattern d = [Literal ''users'', Param]"

definition clear :: "routeDecl \<Rightarrow> routeDecl \<Rightarrow> bool" where
  "clear e d = (if hides e d then lookupHides e d else True)"

definition clearOf :: "routeDecl list \<Rightarrow> routeDecl list \<Rightarrow> bool" where
  "clearOf as bs = list_all (\<lambda>e. list_all (clear e) bs) as"

text \<open>Declarations whose paths start differently do not meet.\<close>

definition headed :: "string \<Rightarrow> routeDecl \<Rightarrow> bool" where
  "headed l d = (case dl_pattern d of Literal m # _ \<Rightarrow> m = l | _ \<Rightarrow> False)"

lemma headed_declarations:
  "list_all (headed ''auth'') (declarations authController_routes)"
  "list_all (headed ''users'') (declarations usersController_routes)"
  "list_all (headed ''roles'') (declarations rolesController_routes)"
  "list_all (headed ''nodes'') (declarations nodesController_routes)"
  "list_all (headed ''servers'') (declarations serversController_routes)"
  "list_all (headed ''server-templates'') (declarations templatesController_routes)"
  "list_all (headed ''servers'') (declarations filesController_routes)"
  "list_all (headed ''internal'') (declarations sftpAuthController_routes)"
  "list_all (headed ''servers'') (declarations backupsController_routes)"
  "list_all (headed ''servers'') (declarations scheduledTasksController_routes)"
  "list_all (headed ''billing'') (declarations billingController_routes)"
  "list_all (headed ''marketplace'') (declarations marketplaceController_routes)"
  "list_all (headed ''support'') (declarations supportController_routes)"
  "list_all (headed ''monitoring'') (declarations monitoringController_routes)"
  "list_all (headed ''api-keys'') (declarations apiKeysController_routes)"
  "list_all (headed ''audit-logs'') (declarations auditController_routes)"
  "list_all (\<lambda>d. headed ''mods'' d \<or> headed ''servers'' d) (declarations modsController_routes)"
  by code_simp+

lemma unshadowed_within:
  "sorted_wrt clear (declarations authController_routes)"
  "sorted_wrt clear (declarations usersController_routes)"
  "sorted_wrt clear (declarations rolesController_routes)"
  "sorted_wrt clear (declarations nodesController_routes)"
  "sorted_wrt clear (declarations serversController_routes)"
  "sorted_wrt clear (declarations templatesController_routes)"
  "sorted_wrt clear (declarations filesController_routes)"
  "sorted_wrt clear (declarations sftpAuthController_routes)"
  "sorted_wrt clear (declarations backupsController_routes)"
  "sorted_wrt clear (declarations scheduledTasksController_routes)"
  "sorted_wrt clear (declarations modsController_routes)"
  "sorted_wrt clear (declarations billingController_routes)"
  "sorted_wrt clear (declarations marketplaceController_routes)"
  "sorted_wrt clear (declarations supportController_routes)"
  "sorted_wrt clear (declarations monitoringController_routes)"
  "sorted_wrt clear (declarations apiKeysController_routes)"
  "sorted_wrt clear (declarations auditController_routes)"
  by code_simp+

lemma unshadowed_servers:
  "clearOf (declarations serversController_routes) (declarations filesController_routes)"
  "clearOf (declarations serversController_routes) (declarations backupsController_routes)"
  "clearOf (declarations serversController_routes) (declarations scheduledTasksController_routes)"
  "clearOf (declarations serversController_routes) (declarations modsController_routes)"
  "clearOf (declarations filesController_routes) (declarations backupsController_routes)"
  "clearOf (declarations filesController_routes) (declarations scheduledTasksController_routes)"
  "clearOf (declarations filesController_routes) (declarations modsController_routes)"
  "clearOf (declarations backupsController_routes) (declarations scheduledTasksController_routes)"
  "clearOf (declarations backupsController_routes) (declarations modsController_routes)"
  "clearOf (declarations scheduledTasksController_routes) (declarations modsController_routes)"
  by code_simp+

lemma headed_overlap:
  "headed a e \<Longrightarrow> headed b d \<Longrightarrow> a \<noteq> b \<Longrightarrow> \<not> overlap (dl_pattern e) (dl_pattern d)"
  by (auto simp: headed_def split: list.splits segment.splits)

lemma headed_clear:
  "list_all (headed a) as \<Longrightarrow> list_all (headed b) bs \<Longrightarrow> a \<noteq> b \<Longrightarrow> clearOf as bs"
  "list_all (headed a) as \<Longrightarrow> list_all (\<lambda>d. headed b d \<or> headed c d) bs \<Longrightarrow> a \<noteq> b \<and> a \<noteq> c \<Longrightarrow>
     clearOf as bs"
  "list_all (\<lambda>d. headed b d \<or> headed c d) bs \<Longrightarrow> list_all (headed a) as \<Longrightarrow> b \<noteq> a \<and> c \<noteq> a \<Longrightarrow>
     clearOf bs as"
  unfolding clearOf_def list_all_iff clear_def hides_def using headed_overlap by metis+

lemma sorted_wrt_concat:
  "(\<And>x. x \<in> set xs \<Longrightarrow> sorted_wrt P (f x)) \<Longrightarrow>
   sorted_wrt (\<lambda>x y. \<forall>a \<in> set (f x). \<forall>b \<in> set (f y). P a b) xs \<Longrightarrow> sorted_wrt P (concat (map f xs))"
  by (induction xs) (auto simp: sorted_wrt_append)

lemma routes_unshadowed: "sorted_wrt clear routeTable"
  unfolding routeTable_def
proof (rule sorted_wrt_concat)
  show "sorted_wrt clear (declarations c)" if "c \<in> set controllers" for c
    using that unshadowed_within unfolding controllers_def by (simp only: list.set insert_iff empty_iff) blast
  have "(\<forall>a \<in> set as. \<forall>b \<in> set bs. clear a b) \<longleftrightarrow> clearOf as bs" for as bs
    by (simp add: clearOf_def list_all_iff)
  moreover have "sorted_wrt (\<lambda>x y. clearOf (declarations x) (declarations y)) controllers"
    unfolding controllers_def sorted_wrt.simps list.set ball_simps
    by (intro conjI TrueI; (rule unshadowed_servers | rule headed_clear, (rule headed_declarations)+, simp))
  ultimately show "sorted_wrt (\<lambda>x y. \<forall>a \<in> set (declarations x). \<forall>b \<in> set (declarations y). clear a b) controllers"
    by simp
qed

text \<open>The handlers of a controller, with the number of their parameters.\<close>

fun arities :: "controller \<Rightarrow> (string \<times> nat) list" where
  "arities (cls, ctl, hs) = map (\<lambda>(m, path, h). (h, params (patternOf ctl path))) hs"

lemma controllers_proper:
  "distinct (map fst (arities authController_routes)) \<and>
     list_all (\<lambda>d. inLowerCase (dl_pattern d)) (declarations authController_routes)"
  "distinct (map fst (arities usersController_routes)) \<and>
     list_all (\<lambda>d. inLowerCase (dl_pattern d)) (declarations usersController_routes)"
  "distinct (map fst (arities rolesController_routes)) \<and>
     list_all (\<lambda>d. inLowerCase (dl_pattern d)) (declarations rolesController_routes)"
  "distinct (map fst (arities nodesController_routes)) \<and>
     list_all (\<lambda>d. inLowerCase (dl_pattern d)) (declarations nodesController_routes)"
  "distinct (map fst (arities serversController_routes)) \<and>
     list_all (\<lambda>d. inLowerCase (dl_pattern d)) (declarations serversController_routes)"
  "distinct (map fst (arities templatesController_routes)) \<and>
     list_all (\<lambda>d. inLowerCase (dl_pattern d)) (declarations templatesController_routes)"
  "distinct (map fst (arities filesController_routes)) \<and>
     list_all (\<lambda>d. inLowerCase (dl_pattern d)) (declarations filesController_routes)"
  "distinct (map fst (arities sftpAuthController_routes)) \<and>
     list_all (\<lambda>d. inLowerCase (dl_pattern d)) (declarations sftpAuthController_routes)"
  "distinct (map fst (arities backupsController_routes)) \<and>
     list_all (\<lambda>d. inLowerCase (dl_pattern d)) (declarations backupsController_routes)"
  "distinct (map fst (arities scheduledTasksController_routes)) \<and>
     list_all (\<lambda>d. inLowerCase (dl_pattern d)) (declarations scheduledTasksController_routes)"
  "distinct (map fst (arities modsController_routes)) \<and>
     list_all (\<lambda>d. inLowerCase (dl_pattern d)) (declarations modsController_routes)"
  "distinct (map fst (arities billingController_routes)) \<and>
     list_all (\<lambda>d. inLowerCase (dl_pattern d)) (declarations billingController_routes)"
  "distinct (map fst (arities marketplaceController_routes)) \<and>
     list_all (\<lambda>d. inLowerCase (dl_pattern d)) (declarations marketplaceController_routes)"
  "distinct (map fst (arities supportController_routes)) \<and>
     list_all (\<lambda>d. inLowerCase (dl_pattern d)) (declarations supportController_routes)"
  "distinct (map fst (arities monitoringController_routes)) \<and>
     list_all (\<lambda>d. inLowerCase (dl_pattern d)) (declarations monitoringController_routes)"
  "distinct (map fst (arities apiKeysController_routes)) \<and>
     list_all (\<lambda>d. inLowerCase (dl_pattern d)) (declarations apiKeysController_routes)"
  "distinct (map fst (arities auditController_routes)) \<and>
     list_all (\<lambda>d. inLowerCase (dl_pattern d)) (declarations auditController_routes)"
  by code_simp+

lemmas patternOf_eval = patternOf_def segments_def segmentOf_def prefix_code

lemma auth_arity: "(fst (auth_endpoint r), length (snd (auth_endpoint r))) \<in> set (arities authController_routes)"
  by (simp add: authController_routes_def patternOf_eval) (cases r rule: auth_endpoint.cases; simp)

lemma users_arity: "(fst (users_endpoint r), length (snd (users_endpoint r))) \<in> set (arities usersController_routes)"
  by (simp add: usersController_routes_def patternOf_eval) (cases r rule: users_endpoint.cases; simp)

lemma roles_arity: "(fst (roles_endpoint r), length (snd (roles_endpoint r))) \<in> set (arities rolesController_routes)"
  by (simp add: rolesController_routes_def patternOf_eval) (cases r rule: roles_endpoint.cases; simp)

lemma apiKeys_arity: "(fst (apiKeys_endpoint r), length (snd (apiKeys_endpoint r))) \<in> set (arities apiKeysController_routes)"
  by (simp add: apiKeysController_routes_def patternOf_eval) (cases r rule: apiKeys_endpoint.cases; simp)

lemma nodes_arity: "(fst (nodes_endpoint r), length (snd (nodes_endpoint r))) \<in> set (arities nodesController_routes)"
  by (simp add: nodesController_routes_def patternOf_eval) (cases r rule: nodes_endpoint.cases; simp)

lemma templates_arity: "(fst (templates_endpoint r), length (snd (templates_endpoint r))) \<in> set (arities templatesController_routes)"
  by (simp add: templatesController_routes_def patternOf_eval) (cases r rule: templates_endpoint.cases; simp)

lemma servers_arity: "(fst (servers_endpoint r), length (snd (servers_endpoint r))) \<in> set (arities serversController_routes)"
  by (simp add: serversController_routes_def patternOf_eval) (cases r rule: servers_endpoint.cases; simp)

lemma backups_arity: "(fst (backups_endpoint r), length (snd (backups_endpoint r))) \<in> set (arities backupsController_routes)"
  by (simp add: backupsController_routes_def patternOf_eval) (cases r rule: backups_endpoint.cases; simp)

lemma tasks_arity: "(fst (tasks_endpoint r), length (snd (tasks_endpoint r))) \<in> set (arities scheduledTasksController_routes)"
  by (simp add: scheduledTasksController_routes_def patternOf_eval) (cases r rule: tasks_endpoint.cases; simp)

lemma files_arity: "(fst (files_endpoint r), length (snd (files_endpoint r))) \<in> set (arities filesController_routes)"
  by (simp add: filesController_routes_def patternOf_eval) (cases r rule: files_endpoint.cases; simp)

lemma mods_arity: "(fst (mods_endpoint r), length (snd (mods_endpoint r))) \<in> set (arities modsController_routes)"
  by (simp add: modsController_routes_def patternOf_eval) (cases r rule: mods_endpoint.cases; simp)

lemma marketplace_arity: "(fst (marketplace_endpoint r), length (snd (marketplace_endpoint r))) \<in> set (arities marketplaceController_routes)"
  by (simp add: marketplaceController_routes_def patternOf_eval) (cases r rule: marketplace_endpoint.cases; simp)

lemma billing_arity: "(fst (billing_endpoint r), length (snd (billing_endpoint r))) \<in> set (arities billingController_routes)"
  by (simp add: billingController_routes_def patternOf_eval) (cases r rule: billing_endpoint.cases; simp)

lemma support_arity: "(fst (support_endpoint r), length (snd (support_endpoint r))) \<in> set (arities supportController_routes)"
  by (simp add: supportController_routes_def patternOf_eval) (cases r rule: support_endpoint.cases; simp)

lemmas endpoint_arities = auth_arity users_arity roles_arity apiKeys_arity nodes_arity
  templates_arity servers_arity backups_arity tasks_arity files_arity mods_arity
  marketplace_arity billing_arity support_arity

lemma endpoint_declared:
  assumes "endpoint r = (c, h, ps)"
  shows "c \<in> set controllers" and "(h, length ps) \<in> set (arities c)"
proof -
  show "c \<in> set controllers" using assms by (cases r) (auto simp: controllers_def)
  have "(''list'', 0) \<in> set (arities auditController_routes)"
    "(''summary'', 0) \<in> set (arities monitoringController_routes)"
    "(''auth'', 0) \<in> set (arities sftpAuthController_routes)"
    by code_simp+
  then have "(fst (snd (endpoint r)), length (snd (snd (endpoint r)))) \<in> set (arities (fst (endpoint r)))"
    by (cases r) (simp_all add: endpoint_arities del: arities.simps)
  then show "(h, length ps) \<in> set (arities c)" by (simp add: assms)
qed

lemma find_distinct:
  "x \<in> set xs \<Longrightarrow> distinct (map f xs) \<Longrightarrow> List.find (\<lambda>y. f y = f x) xs = Some x"
  by (induction xs) (auto simp: image_iff)

lemma arities_declarations:
  "arities c = map (\<lambda>d. (snd (dl_handler d), params (dl_pattern d))) (declarations c)"
  "d \<in> set (declarations c) \<Longrightarrow> fst (dl_handler d) = fst c"
  by (cases c rule: declarations.cases; auto)+

lemma declared:
  obtains d where "d \<in> set routeTable" "declarationOf r = Some d" "dl_handler d = handlerOf r"
    "params (dl_pattern d) = length (paramsOf r)" "inLowerCase (dl_pattern d)"
proof -
  obtain c h ps where e: "endpoint r = (c, h, ps)" by (cases "endpoint r")
  note c = endpoint_declared [OF e]
  obtain d where d: "d \<in> set (declarations c)" "snd (dl_handler d) = h"
      "params (dl_pattern d) = length ps"
    using c(2) by (auto simp: arities_declarations(1))
  have "distinct (map fst (arities c)) \<and> list_all (\<lambda>d. inLowerCase (dl_pattern d)) (declarations c)"
    using c(1) controllers_proper unfolding controllers_def
    by (simp only: list.set insert_iff empty_iff) blast
  then have "distinct (map (\<lambda>d. snd (dl_handler d)) (declarations c))" "inLowerCase (dl_pattern d)"
    using d(1) by (simp_all add: arities_declarations(1) comp_def list_all_iff)
  moreover from find_distinct [OF d(1) this(1)] have "declarationOf r = Some d"
    by (simp add: declarationOf_def e d(2))
  moreover have "dl_handler d = handlerOf r"
    using arities_declarations(2) [OF d(1)] d(2) by (simp add: handlerOf_def e prod_eq_iff)
  moreover have "d \<in> set routeTable" using c(1) d(1) by (auto simp: routeTable_def)
  ultimately show ?thesis using that d(3) by (simp add: paramsOf_def e)
qed

lemma table_lower: "d \<in> set routeTable \<Longrightarrow> inLowerCase (dl_pattern d)"
  using controllers_proper unfolding routeTable_def controllers_def
  by (simp only: set_concat set_map list.set) (auto simp: list_all_iff)

text \<open>The one path that reaches another handler: the account of the identifier \<open>lookup\<close>.\<close>

fun hiddenRoute :: "route \<Rightarrow> bool" where
  "hiddenRoute (UsersR (UsersGet i)) \<longleftrightarrow> map lowerChar i = ''lookup''"
| "hiddenRoute _ \<longleftrightarrow> False"

lemma userGet_only:
  "handlerOf r = (''UsersController'', ''get'') \<Longrightarrow> \<exists>i. r = UsersR (UsersGet i)"
proof -
  assume h: "handlerOf r = (''UsersController'', ''get'')"
  then obtain x where x: "r = UsersR x"
    by (cases r) (auto simp: handlerOf_def authController_routes_def rolesController_routes_def
      apiKeysController_routes_def auditController_routes_def nodesController_routes_def
      templatesController_routes_def monitoringController_routes_def serversController_routes_def
      backupsController_routes_def scheduledTasksController_routes_def filesController_routes_def
      sftpAuthController_routes_def modsController_routes_def marketplaceController_routes_def
      billingController_routes_def supportController_routes_def)
  from h show ?thesis by (cases x rule: users_endpoint.cases) (auto simp: handlerOf_def x)
qed

text \<open>The first declaration that matches the path of a route is its own.\<close>

lemma route_found:
  assumes mt: "isMatcher mt" and ps: "list_all properParam (paramsOf r)" and r: "\<not> hiddenRoute r"
    and d: "d \<in> set routeTable" "declarationOf r = Some d" "dl_handler d = handlerOf r"
      "params (dl_pattern d) = length (paramsOf r)" "inLowerCase (dl_pattern d)"
  shows "List.find (\<lambda>e. dl_method e = methodOf r \<and> mt (dl_pattern e) (pathOf r)) routeTable = Some d"
proof -
  have path: "pathOf r = fill (dl_pattern d) (paramsOf r)" and m: "methodOf r = dl_method d"
    by (simp_all add: pathOf_def methodOf_def d(2))
  have hit: "mt (dl_pattern d) (pathOf r)" using mt ps d(4) by (simp add: path isMatcher_def)
  have same: "list_all2 sameSegment p (pathOf r)" if "mt p (pathOf r)" for p
    using mt that by (auto simp: isMatcher_def)
  obtain as bs where split: "routeTable = as @ d # bs" using d(1) by (meson split_list)
  show ?thesis
  proof (rule find_first [OF split])
    show "dl_method d = methodOf r \<and> mt (dl_pattern d) (pathOf r)" using m hit by simp
    fix e assume e: "e \<in> set as"
    show "\<not> (dl_method e = methodOf r \<and> mt (dl_pattern e) (pathOf r))"
    proof
      assume a: "dl_method e = methodOf r \<and> mt (dl_pattern e) (pathOf r)"
      have "e \<in> set routeTable" unfolding split using e by auto
      then have "hides e d" unfolding hides_def
        using matches_overlap [OF same same] a m hit d(5) table_lower by auto
      moreover have "clear e d" using routes_unshadowed e by (auto simp: split sorted_wrt_append)
      ultimately have look: "lookupHides e d" by (simp add: clear_def split: if_splits)
      then obtain i where i: "r = UsersR (UsersGet i)"
        using userGet_only d(3) by (auto simp: lookupHides_def)
      have "pathOf r = [''users'', i]" unfolding path using look by (simp add: lookupHides_def i paramsOf_def)
      then have "map lowerChar i = map lowerChar ''lookup''"
        using same [OF conjunct2 [OF a]] look by (simp add: lookupHides_def del: list.map)
      also have "\<dots> = ''lookup''" by code_simp
      finally show False using r i by simp
    qed
  qed
qed

lemma route_resolves:
  assumes "isMatcher mt" and "list_all properParam (paramsOf r)" and "\<not> hiddenRoute r"
  shows "resolve mt (methodOf r) (pathOf r) = Some (handlerOf r)"
  by (rule declared [of r]) (simp add: resolve_def route_found [OF assms])

text \<open>C12: no handler hides another: a request with the method and the path of a route reaches
  the handler of that route, for any matcher that does what the framework documents, unless it
  asks for the account \<open>lookup\<close>. The method and the path determine the handler and the
  parameters.\<close>

theorem routes_are_reached:
  assumes "isMatcher mt" and "list_all properParam (paramsOf r)" and "\<not> hiddenRoute r"
  shows "resolve mt (methodOf r) (pathOf r) = Some (handlerOf r) \<and>
    (\<forall>r'. list_all properParam (paramsOf r') \<and> \<not> hiddenRoute r' \<and>
       methodOf r' = methodOf r \<and> pathOf r' = pathOf r \<longrightarrow>
       handlerOf r' = handlerOf r \<and> paramsOf r' = paramsOf r)"
proof (intro conjI allI impI)
  show found: "resolve mt (methodOf r) (pathOf r) = Some (handlerOf r)"
    by (rule route_resolves [OF assms])
  fix r' assume r': "list_all properParam (paramsOf r') \<and> \<not> hiddenRoute r' \<and>
    methodOf r' = methodOf r \<and> pathOf r' = pathOf r"
  obtain d where d: "d \<in> set routeTable" "declarationOf r = Some d" "dl_handler d = handlerOf r"
    "params (dl_pattern d) = length (paramsOf r)" "inLowerCase (dl_pattern d)" by (rule declared)
  obtain e where e: "e \<in> set routeTable" "declarationOf r' = Some e" "dl_handler e = handlerOf r'"
    "params (dl_pattern e) = length (paramsOf r')" "inLowerCase (dl_pattern e)" by (rule declared)
  from r' have same: "methodOf r' = methodOf r" "pathOf r' = pathOf r" by blast+
  from r' have "list_all properParam (paramsOf r')" "\<not> hiddenRoute r'" by blast+
  from route_found [OF assms(1) this e] route_found [OF assms d] have ed: "e = d"
    unfolding same by (simp only: option.inject)
  then show h: "handlerOf r' = handlerOf r" using d(3) e(3) by simp
  show "paramsOf r' = paramsOf r"
  proof (rule fill_inject)
    show "length (paramsOf r') = params (dl_pattern d)" "length (paramsOf r) = params (dl_pattern d)"
      using d(4) e(4) unfolding ed by (simp_all only:)
    show "fill (dl_pattern d) (paramsOf r') = fill (dl_pattern d) (paramsOf r)"
      using same(2) unfolding pathOf_def d(2) e(2) [unfolded ed] option.case .
  qed
qed

text \<open>A matcher of the documented kind.\<close>

definition exactMatcher :: "segment list \<Rightarrow> string list \<Rightarrow> bool" where
  "exactMatcher = list_all2 (\<lambda>s x. case s of Literal l \<Rightarrow> l = x | Param \<Rightarrow> properParam x)"

lemma exactMatcher_fill:
  "length ps = params pat \<Longrightarrow> list_all properParam ps \<Longrightarrow> exactMatcher pat (fill pat ps)"
proof (induction pat arbitrary: ps)
  case Nil
  then show ?case by (simp add: exactMatcher_def)
next
  case (Cons s pat)
  then show ?case by (cases s; cases ps) (auto simp: exactMatcher_def)
qed

lemma exactMatcher_isMatcher: "isMatcher exactMatcher"
proof -
  have "sameSegment s x" if "case s of Literal l \<Rightarrow> l = x | Param \<Rightarrow> properParam x" for s x
    using that by (cases s) auto
  then show ?thesis
    unfolding isMatcher_def by (auto simp: exactMatcher_fill) (auto simp: exactMatcher_def elim: list_all2_mono)
qed

theorem routes_are_reached_witness:
  "resolve exactMatcher GET [''servers'', ''s1''] = Some (''ServersController'', ''get'')"
proof -
  let ?r = "ServersR (ServersGet ''s1'')"
  have r: "list_all properParam (paramsOf ?r)" "\<not> hiddenRoute ?r" by code_simp+
  have e: "pathOf ?r = [''servers'', ''s1'']" "methodOf ?r = GET"
    "handlerOf ?r = (''ServersController'', ''get'')"
    by code_simp+
  show ?thesis by (rule routes_are_reached [OF exactMatcher_isMatcher r, unfolded e, THEN conjunct1])
qed

end
