(* ===== verification/Route_Paths.thy ===== *)
theory Route_Paths
  imports Routes
begin

text \<open>
  The method and the path of each route, computed from the declarations of \<open>Routes\<close>, and the
  segments of a path that a client puts together from literals and identifiers.
\<close>

subsection \<open>The routes\<close>

lemma auth_paths:
  "pathOf (AuthR AuthMe) = [''auth'', ''me'']" "methodOf (AuthR AuthMe) = GET"
  "pathOf (AuthR (AuthRegister x2)) = [''auth'', ''register'']"
  "methodOf (AuthR (AuthRegister x2)) = POST"
  "pathOf (AuthR (AuthLogin x3)) = [''auth'', ''login'']" "methodOf (AuthR (AuthLogin x3)) = POST"
  "pathOf (AuthR (AuthRefresh x4)) = [''auth'', ''refresh'']"
  "methodOf (AuthR (AuthRefresh x4)) = POST"
  "pathOf (AuthR (AuthLogout x5)) = [''auth'', ''logout'']"
  "methodOf (AuthR (AuthLogout x5)) = POST"
  "pathOf (AuthR (AuthChangePassword x6 y6)) = [''auth'', ''change-password'']"
  "methodOf (AuthR (AuthChangePassword x6 y6)) = POST"
  "pathOf (AuthR AuthGenerateTwoFactor) = [''auth'', ''2fa'', ''generate'']"
  "methodOf (AuthR AuthGenerateTwoFactor) = POST"
  "pathOf (AuthR (AuthEnableTwoFactor x8)) = [''auth'', ''2fa'', ''enable'']"
  "methodOf (AuthR (AuthEnableTwoFactor x8)) = POST"
  "pathOf (AuthR (AuthDisableTwoFactor x9)) = [''auth'', ''2fa'', ''disable'']"
  "methodOf (AuthR (AuthDisableTwoFactor x9)) = POST"
  "pathOf (AuthR (AuthImpersonate i x10)) = [''auth'', ''impersonate'', i]"
  "methodOf (AuthR (AuthImpersonate i x10)) = POST"
  "pathOf (AuthR (AuthOAuthStart Discord)) = [''auth'', ''discord'']"
  "methodOf (AuthR (AuthOAuthStart Discord)) = GET"
  "pathOf (AuthR (AuthOAuthStart Google)) = [''auth'', ''google'']"
  "methodOf (AuthR (AuthOAuthStart Google)) = GET"
  "pathOf (AuthR (AuthOAuthStart Github)) = [''auth'', ''github'']"
  "methodOf (AuthR (AuthOAuthStart Github)) = GET"
  "pathOf (AuthR (AuthOAuthCallback Discord)) = [''auth'', ''discord'', ''callback'']"
  "methodOf (AuthR (AuthOAuthCallback Discord)) = GET"
  "pathOf (AuthR (AuthOAuthCallback Google)) = [''auth'', ''google'', ''callback'']"
  "methodOf (AuthR (AuthOAuthCallback Google)) = GET"
  "pathOf (AuthR (AuthOAuthCallback Github)) = [''auth'', ''github'', ''callback'']"
  "methodOf (AuthR (AuthOAuthCallback Github)) = GET"
  by code_simp+

lemma users_paths:
  "pathOf (UsersR (UsersList x1 y1)) = [''users'']" "methodOf (UsersR (UsersList x1 y1)) = GET"
  "pathOf (UsersR (UsersLookup x2)) = [''users'', ''lookup'']"
  "methodOf (UsersR (UsersLookup x2)) = GET"
  "pathOf (UsersR (UsersGet i)) = [''users'', i]" "methodOf (UsersR (UsersGet i)) = GET"
  "pathOf (UsersR (UsersCreate x4)) = [''users'']" "methodOf (UsersR (UsersCreate x4)) = POST"
  "pathOf (UsersR (UsersUpdate i x5)) = [''users'', i]"
  "methodOf (UsersR (UsersUpdate i x5)) = PATCH"
  "pathOf (UsersR (UsersResetPassword i x6)) = [''users'', i, ''reset-password'']"
  "methodOf (UsersR (UsersResetPassword i x6)) = POST"
  "pathOf (UsersR (UsersSuspend i x7)) = [''users'', i, ''suspend'']"
  "methodOf (UsersR (UsersSuspend i x7)) = POST"
  "pathOf (UsersR (UsersBan i x8)) = [''users'', i, ''ban'']"
  "methodOf (UsersR (UsersBan i x8)) = POST"
  "pathOf (UsersR (UsersReactivate i)) = [''users'', i, ''reactivate'']"
  "methodOf (UsersR (UsersReactivate i)) = POST"
  "pathOf (UsersR (UsersDelete i)) = [''users'', i]" "methodOf (UsersR (UsersDelete i)) = DELETE"
  by code_simp+

lemma roles_paths:
  "pathOf (RolesR RolesList) = [''roles'']" "methodOf (RolesR RolesList) = GET"
  "pathOf (RolesR RolesListPermissions) = [''roles'', ''permissions'']"
  "methodOf (RolesR RolesListPermissions) = GET"
  "pathOf (RolesR (RolesCreate x3 y3)) = [''roles'']" "methodOf (RolesR (RolesCreate x3 y3)) = POST"
  "pathOf (RolesR (RolesSetPermissions i x4)) = [''roles'', i, ''permissions'']"
  "methodOf (RolesR (RolesSetPermissions i x4)) = PUT"
  "pathOf (RolesR (RolesDelete i)) = [''roles'', i]" "methodOf (RolesR (RolesDelete i)) = DELETE"
  by code_simp+

lemma apiKeys_paths:
  "pathOf (ApiKeysR ApiKeysList) = [''api-keys'']" "methodOf (ApiKeysR ApiKeysList) = GET"
  "pathOf (ApiKeysR (ApiKeysCreate x2 y2 z2)) = [''api-keys'']"
  "methodOf (ApiKeysR (ApiKeysCreate x2 y2 z2)) = POST"
  "pathOf (ApiKeysR (ApiKeysRevoke i)) = [''api-keys'', i]"
  "methodOf (ApiKeysR (ApiKeysRevoke i)) = DELETE"
  by code_simp+

lemma nodes_paths:
  "pathOf (NodesR NodesList) = [''nodes'']" "methodOf (NodesR NodesList) = GET"
  "pathOf (NodesR (NodesGet i)) = [''nodes'', i]" "methodOf (NodesR (NodesGet i)) = GET"
  "pathOf (NodesR (NodesHealth i)) = [''nodes'', i, ''health'']"
  "methodOf (NodesR (NodesHealth i)) = GET"
  "pathOf (NodesR (NodesCreate x4)) = [''nodes'']" "methodOf (NodesR (NodesCreate x4)) = POST"
  "pathOf (NodesR (NodesEnableMaintenance i)) = [''nodes'', i, ''maintenance'', ''enable'']"
  "methodOf (NodesR (NodesEnableMaintenance i)) = POST"
  "pathOf (NodesR (NodesDisableMaintenance i)) = [''nodes'', i, ''maintenance'', ''disable'']"
  "methodOf (NodesR (NodesDisableMaintenance i)) = POST"
  "pathOf (NodesR (NodesDelete i)) = [''nodes'', i]" "methodOf (NodesR (NodesDelete i)) = DELETE"
  by code_simp+

lemma templates_paths:
  "pathOf (TemplatesR TemplatesList) = [''server-templates'']"
  "methodOf (TemplatesR TemplatesList) = GET"
  "pathOf (TemplatesR (TemplatesCreate x2)) = [''server-templates'']"
  "methodOf (TemplatesR (TemplatesCreate x2)) = POST"
  by code_simp+

lemma servers_paths:
  "pathOf (ServersR ServersList) = [''servers'']" "methodOf (ServersR ServersList) = GET"
  "pathOf (ServersR (ServersGet i)) = [''servers'', i]" "methodOf (ServersR (ServersGet i)) = GET"
  "pathOf (ServersR (ServersCreate x3)) = [''servers'']"
  "methodOf (ServersR (ServersCreate x3)) = POST"
  "pathOf (ServersR (ServersUpdate i x4)) = [''servers'', i]"
  "methodOf (ServersR (ServersUpdate i x4)) = PATCH"
  "pathOf (ServersR (ServersReinstall i)) = [''servers'', i, ''reinstall'']"
  "methodOf (ServersR (ServersReinstall i)) = POST"
  "pathOf (ServersR (ServersAddAllocation i)) = [''servers'', i, ''allocations'']"
  "methodOf (ServersR (ServersAddAllocation i)) = POST"
  "pathOf (ServersR (ServersRemoveAllocation i a)) = [''servers'', i, ''allocations'', a]"
  "methodOf (ServersR (ServersRemoveAllocation i a)) = DELETE"
  "pathOf (ServersR (ServersPower i PowerStart)) = [''servers'', i, ''power'', ''start'']"
  "methodOf (ServersR (ServersPower i PowerStart)) = POST"
  "pathOf (ServersR (ServersPower i PowerStop)) = [''servers'', i, ''power'', ''stop'']"
  "methodOf (ServersR (ServersPower i PowerStop)) = POST"
  "pathOf (ServersR (ServersPower i PowerRestart)) = [''servers'', i, ''power'', ''restart'']"
  "methodOf (ServersR (ServersPower i PowerRestart)) = POST"
  "pathOf (ServersR (ServersPower i PowerKill)) = [''servers'', i, ''power'', ''kill'']"
  "methodOf (ServersR (ServersPower i PowerKill)) = POST"
  "pathOf (ServersR (ServersCommand i x12)) = [''servers'', i, ''command'']"
  "methodOf (ServersR (ServersCommand i x12)) = POST"
  "pathOf (ServersR (ServersSuspend i x13)) = [''servers'', i, ''suspend'']"
  "methodOf (ServersR (ServersSuspend i x13)) = POST"
  "pathOf (ServersR (ServersUnsuspend i)) = [''servers'', i, ''unsuspend'']"
  "methodOf (ServersR (ServersUnsuspend i)) = POST"
  "pathOf (ServersR (ServersDelete i)) = [''servers'', i]"
  "methodOf (ServersR (ServersDelete i)) = DELETE"
  "pathOf (ServersR (ServersAddSubUser i x16 y16)) = [''servers'', i, ''subusers'']"
  "methodOf (ServersR (ServersAddSubUser i x16 y16)) = POST"
  "pathOf (ServersR (ServersRemoveSubUser i u)) = [''servers'', i, ''subusers'', u]"
  "methodOf (ServersR (ServersRemoveSubUser i u)) = DELETE"
  by code_simp+

lemma backups_paths:
  "pathOf (BackupsR (BackupsList s)) = [''servers'', s, ''backups'']"
  "methodOf (BackupsR (BackupsList s)) = GET"
  "pathOf (BackupsR (BackupsCreate s x2)) = [''servers'', s, ''backups'']"
  "methodOf (BackupsR (BackupsCreate s x2)) = POST"
  "pathOf (BackupsR (BackupsRestore s b)) = [''servers'', s, ''backups'', b, ''restore'']"
  "methodOf (BackupsR (BackupsRestore s b)) = POST"
  "pathOf (BackupsR (BackupsDelete s b)) = [''servers'', s, ''backups'', b]"
  "methodOf (BackupsR (BackupsDelete s b)) = DELETE"
  by code_simp+

lemma tasks_paths:
  "pathOf (TasksR (TasksList s)) = [''servers'', s, ''scheduled-tasks'']"
  "methodOf (TasksR (TasksList s)) = GET"
  "pathOf (TasksR (TasksCreate s x2 y2 z2 u2)) = [''servers'', s, ''scheduled-tasks'']"
  "methodOf (TasksR (TasksCreate s x2 y2 z2 u2)) = POST"
  "pathOf (TasksR (TasksEnable s t)) = [''servers'', s, ''scheduled-tasks'', t, ''enable'']"
  "methodOf (TasksR (TasksEnable s t)) = POST"
  "pathOf (TasksR (TasksDisable s t)) = [''servers'', s, ''scheduled-tasks'', t, ''disable'']"
  "methodOf (TasksR (TasksDisable s t)) = POST"
  "pathOf (TasksR (TasksDelete s t)) = [''servers'', s, ''scheduled-tasks'', t]"
  "methodOf (TasksR (TasksDelete s t)) = DELETE"
  by code_simp+

lemma files_paths:
  "pathOf (FilesR (FilesList s x1)) = [''servers'', s, ''files'']"
  "methodOf (FilesR (FilesList s x1)) = GET"
  "pathOf (FilesR (FilesRead s x2)) = [''servers'', s, ''files'', ''content'']"
  "methodOf (FilesR (FilesRead s x2)) = GET"
  "pathOf (FilesR (FilesUpload s x3 y3 z3)) = [''servers'', s, ''files'', ''upload'']"
  "methodOf (FilesR (FilesUpload s x3 y3 z3)) = POST"
  "pathOf (FilesR (FilesMkdir s x4)) = [''servers'', s, ''files'', ''mkdir'']"
  "methodOf (FilesR (FilesMkdir s x4)) = POST"
  "pathOf (FilesR (FilesWrite s x5 y5)) = [''servers'', s, ''files'']"
  "methodOf (FilesR (FilesWrite s x5 y5)) = POST"
  "pathOf (FilesR (FilesDelete s x6)) = [''servers'', s, ''files'', ''delete'']"
  "methodOf (FilesR (FilesDelete s x6)) = POST"
  "pathOf (FilesR (FilesRename s x7 y7)) = [''servers'', s, ''files'', ''rename'']"
  "methodOf (FilesR (FilesRename s x7 y7)) = POST"
  by code_simp+

lemma mods_paths:
  "pathOf (ModsR (ModrinthSearch x1 y1 z1)) = [''mods'', ''modrinth'', ''search'']"
  "methodOf (ModsR (ModrinthSearch x1 y1 z1)) = GET"
  "pathOf (ModsR (ModrinthVersions p x2 y2)) = [''mods'', ''modrinth'', p, ''versions'']"
  "methodOf (ModsR (ModrinthVersions p x2 y2)) = GET"
  "pathOf (ModsR (CurseforgeSearch x3 y3 z3)) = [''mods'', ''curseforge'', ''search'']"
  "methodOf (ModsR (CurseforgeSearch x3 y3 z3)) = GET"
  "pathOf (ModsR (CurseforgeFiles m)) = [''mods'', ''curseforge'', m, ''files'']"
  "methodOf (ModsR (CurseforgeFiles m)) = GET"
  "pathOf (ModsR (ModsList s)) = [''servers'', s, ''mods'']" "methodOf (ModsR (ModsList s)) = GET"
  "pathOf (ModsR (ModsInstallModrinth s x6 y6)) = [''servers'', s, ''mods'', ''modrinth'']"
  "methodOf (ModsR (ModsInstallModrinth s x6 y6)) = POST"
  "pathOf (ModsR (ModsInstallCurseforge s x7 y7 z7)) = [''servers'', s, ''mods'', ''curseforge'']"
  "methodOf (ModsR (ModsInstallCurseforge s x7 y7 z7)) = POST"
  "pathOf (ModsR (ModsInstallMarketplace s x8 y8)) = [''servers'', s, ''mods'', ''marketplace'']"
  "methodOf (ModsR (ModsInstallMarketplace s x8 y8)) = POST"
  "pathOf (ModsR (ModsUninstall s m x9)) = [''servers'', s, ''mods'', m]"
  "methodOf (ModsR (ModsUninstall s m x9)) = DELETE"
  "pathOf (ModsR (ModpackModrinth s x10)) = [''servers'', s, ''modpacks'', ''modrinth'']"
  "methodOf (ModsR (ModpackModrinth s x10)) = POST"
  "pathOf (ModsR (ModpackCurseforge s x11)) = [''servers'', s, ''modpacks'', ''curseforge'']"
  "methodOf (ModsR (ModpackCurseforge s x11)) = POST"
  by code_simp+

lemma marketplace_paths:
  "pathOf (MarketplaceR (MarketplaceList x1)) = [''marketplace'', ''items'']"
  "methodOf (MarketplaceR (MarketplaceList x1)) = GET"
  "pathOf (MarketplaceR (MarketplaceGet s)) = [''marketplace'', ''items'', s]"
  "methodOf (MarketplaceR (MarketplaceGet s)) = GET"
  "pathOf (MarketplaceR (MarketplaceDownload s)) = [''marketplace'', ''items'', s, ''download'']"
  "methodOf (MarketplaceR (MarketplaceDownload s)) = POST"
  "pathOf (MarketplaceR (MarketplacePublish x4)) = [''marketplace'', ''items'']"
  "methodOf (MarketplaceR (MarketplacePublish x4)) = POST"
  "pathOf (MarketplaceR (MarketplaceVerify i)) = [''marketplace'', ''items'', i, ''verify'']"
  "methodOf (MarketplaceR (MarketplaceVerify i)) = POST"
  by code_simp+

lemma billing_paths:
  "pathOf (BillingR BillingProducts) = [''billing'', ''products'']"
  "methodOf (BillingR BillingProducts) = GET"
  "pathOf (BillingR (BillingCreateProduct x2 y2)) = [''billing'', ''products'']"
  "methodOf (BillingR (BillingCreateProduct x2 y2)) = POST"
  "pathOf (BillingR (BillingCreatePlan p x3)) = [''billing'', ''products'', p, ''plans'']"
  "methodOf (BillingR (BillingCreatePlan p x3)) = POST"
  "pathOf (BillingR (BillingCreateCoupon x4)) = [''billing'', ''coupons'']"
  "methodOf (BillingR (BillingCreateCoupon x4)) = POST"
  "pathOf (BillingR BillingInvoices) = [''billing'', ''invoices'']"
  "methodOf (BillingR BillingInvoices) = GET"
  "pathOf (BillingR BillingSubscriptions) = [''billing'', ''subscriptions'']"
  "methodOf (BillingR BillingSubscriptions) = GET"
  "pathOf (BillingR (BillingRefund i)) = [''billing'', ''invoices'', i, ''refund'']"
  "methodOf (BillingR (BillingRefund i)) = POST"
  "pathOf (BillingR (BillingCheckout p x8 y8)) = [''billing'', ''checkout'', p]"
  "methodOf (BillingR (BillingCheckout p x8 y8)) = POST"
  "pathOf (BillingR (StripeWebhook x9 y9)) = [''billing'', ''webhooks'', ''stripe'']"
  "methodOf (BillingR (StripeWebhook x9 y9)) = POST"
  by code_simp+

lemma support_paths:
  "pathOf (SupportR SupportList) = [''support'', ''tickets'']"
  "methodOf (SupportR SupportList) = GET"
  "pathOf (SupportR (SupportGet i)) = [''support'', ''tickets'', i]"
  "methodOf (SupportR (SupportGet i)) = GET"
  "pathOf (SupportR (SupportCreate x3 y3)) = [''support'', ''tickets'']"
  "methodOf (SupportR (SupportCreate x3 y3)) = POST"
  "pathOf (SupportR (SupportReply i x4)) = [''support'', ''tickets'', i, ''reply'']"
  "methodOf (SupportR (SupportReply i x4)) = POST"
  "pathOf (SupportR (SupportSetStatus i x5)) = [''support'', ''tickets'', i, ''status'']"
  "methodOf (SupportR (SupportSetStatus i x5)) = POST"
  by code_simp+

lemmas route_paths = auth_paths users_paths roles_paths apiKeys_paths nodes_paths templates_paths servers_paths backups_paths tasks_paths files_paths mods_paths marketplace_paths billing_paths support_paths

subsection \<open>Paths of clients\<close>

text \<open>A character a client may put in a path without encoding it.\<close>

definition urlSafeChar :: "char \<Rightarrow> bool" where
  "urlSafeChar c \<longleftrightarrow> c \<notin> set ''/?#%''"

definition cleanParam :: "string \<Rightarrow> bool" where
  "cleanParam s \<longleftrightarrow> s \<noteq> [] \<and> list_all urlSafeChar s"

text \<open>The path of a request target: what is before the query.\<close>

definition targetPath :: "string \<Rightarrow> string list" where
  "targetPath t = segments (takeWhile (\<lambda>c. c \<noteq> CHR ''?'') t)"

lemma cleanParam_proper: "cleanParam s \<Longrightarrow> properParam s"
  by (auto simp: cleanParam_def properParam_def urlSafeChar_def list_all_iff)

lemma splitOn_single: "c \<notin> set s \<Longrightarrow> splitOn c s = [s]"
  by (induction s) auto

lemma splitOn_param: "c \<notin> set s \<Longrightarrow> splitOn c (s @ c # r) = s # splitOn c r"
  by (induction s) auto

lemma cleanParam_chars:
  "cleanParam s \<Longrightarrow> s \<noteq> []" "cleanParam s \<Longrightarrow> CHR ''/'' \<notin> set s" "cleanParam s \<Longrightarrow> CHR ''?'' \<notin> set s"
  by (auto simp: cleanParam_def urlSafeChar_def list_all_iff)

lemma takeWhile_param:
  "cleanParam s \<Longrightarrow> takeWhile (\<lambda>c. c \<noteq> CHR ''?'') (s @ r) = s @ takeWhile (\<lambda>c. c \<noteq> CHR ''?'') r"
  "cleanParam s \<Longrightarrow> takeWhile (\<lambda>c. c \<noteq> CHR ''?'') s = s"
  using cleanParam_chars(3) by (auto simp: takeWhile_append)

lemmas targetPath_eval = targetPath_def segments_def takeWhile_param splitOn_single splitOn_param
  cleanParam_chars

end
