(* ===== verification/Requests.thy ===== *)
theory Requests
  imports Route_Paths
begin

text \<open>
  The request of a route: with the method and the path of \<open>Routes\<close>, the query parameters and the
  fields of the body that the handler reads, by the names the parameters of the controllers
  (\<^verbatim>\<open>@Query\<close>, \<^verbatim>\<open>@Body\<close>) and the DTO classes give them. A field that is not there is left out;
  the validation refuses fields a DTO does not have.
\<close>

datatype formPart = FieldPart string string | FilePart string string string

datatype requestBody = NoBody | JsonBody "(string \<times> json) list" | FormBody "formPart list" | RawBody string

record apiRequest =
  ar_method :: httpMethod
  ar_target :: string
  ar_body :: requestBody

subsection \<open>Queries\<close>

text \<open>\<open>encodeURIComponent\<close>, over the bytes of a string.\<close>

definition hexUpper :: "nat \<Rightarrow> char" where
  "hexUpper n = ''0123456789ABCDEF'' ! n"

definition uriUnreserved :: string where
  "uriUnreserved = ''ABCDEFGHIJKLMNOPQRSTUVWXYZabcdefghijklmnopqrstuvwxyz0123456789-_.!~*()'' @ [CHR 0x27]"

definition encodeChar :: "char \<Rightarrow> string" where
  "encodeChar c = (if c \<in> set uriUnreserved then [c]
     else let n = of_char c in [CHR ''%'', hexUpper (n div 16), hexUpper (n mod 16)])"

definition encodeURIComponent :: "string \<Rightarrow> string" where
  "encodeURIComponent s = concat (map encodeChar s)"

definition optParam1 :: "string \<Rightarrow> string option \<Rightarrow> (string \<times> string) list" where
  "optParam1 k v = (case v of None \<Rightarrow> [] | Some x \<Rightarrow> [(k, x)])"

definition queryText :: "(string \<times> string) list \<Rightarrow> string" where
  "queryText ps = (if ps = [] then []
     else ''?'' @ joinWith ''&'' (map (\<lambda>(k, v). k @ ''='' @ encodeURIComponent v) ps))"

fun queryOf :: "route \<Rightarrow> (string \<times> string) list" where
  "queryOf (UsersR (UsersList skip n)) = optParam1 ''skip'' skip @ optParam1 ''take'' n"
| "queryOf (UsersR (UsersLookup email)) = [(''email'', email)]"
| "queryOf (AuditR (AuditList skip n actorId targetType)) = optParam1 ''skip'' skip @
     optParam1 ''take'' n @ optParam1 ''actorId'' actorId @ optParam1 ''targetType'' targetType"
| "queryOf (FilesR (FilesList _ path)) = optParam1 ''path'' path"
| "queryOf (FilesR (FilesRead _ path)) = [(''path'', path)]"
| "queryOf (ModsR (ModrinthSearch query facets limit)) = optParam1 ''query'' query @
     optParam1 ''facets'' facets @ optParam1 ''limit'' limit"
| "queryOf (ModsR (ModrinthVersions _ loader version)) = optParam1 ''loader'' loader @
     optParam1 ''gameVersion'' version"
| "queryOf (ModsR (CurseforgeSearch searchFilter version classId)) =
     optParam1 ''searchFilter'' searchFilter @ optParam1 ''gameVersion'' version @ optParam1 ''classId'' classId"
| "queryOf (ModsR (ModsUninstall _ _ dir)) = optParam1 ''targetDir'' dir"
| "queryOf (MarketplaceR (MarketplaceList ty)) = optParam1 ''type'' ty"
| "queryOf _ = []"

definition targetOf :: "route \<Rightarrow> string" where
  "targetOf r = concat (map (\<lambda>s. CHR ''/'' # s) (pathOf r)) @ queryText (queryOf r)"

subsection \<open>Bodies\<close>

text \<open>A date is the instant its text denotes.\<close>

definition strField :: "string \<Rightarrow> string \<Rightarrow> string \<times> json" where
  "strField k v = (k, JStr v)"

definition optStr :: "string \<Rightarrow> string option \<Rightarrow> (string \<times> json) list" where
  "optStr k v = (case v of None \<Rightarrow> [] | Some x \<Rightarrow> [(k, JStr x)])"

definition optNum :: "string \<Rightarrow> int option \<Rightarrow> (string \<times> json) list" where
  "optNum k v = (case v of None \<Rightarrow> [] | Some x \<Rightarrow> [(k, JNum x)])"

definition optBool :: "string \<Rightarrow> bool option \<Rightarrow> (string \<times> json) list" where
  "optBool k v = (case v of None \<Rightarrow> [] | Some x \<Rightarrow> [(k, JBool x)])"

definition strRecord :: "(string \<times> string) list \<Rightarrow> json" where
  "strRecord e = JObj (map (\<lambda>(k, v). (k, JStr v)) e)"

definition optRecord :: "string \<Rightarrow> (string \<times> string) list option \<Rightarrow> (string \<times> json) list" where
  "optRecord k v = (case v of None \<Rightarrow> [] | Some e \<Rightarrow> [(k, strRecord e)])"

fun auth_body :: "authRoute \<Rightarrow> requestBody" where
  "auth_body (AuthRegister d) = JsonBody [strField ''email'' (rd_email d),
     strField ''username'' (rd_username d), strField ''password'' (rd_password d)]"
| "auth_body (AuthLogin d) = JsonBody ([strField ''email'' (ld_email d),
     strField ''password'' (ld_password d)] @ optStr ''totpCode'' (ld_totpCode d))"
| "auth_body (AuthRefresh t) = JsonBody [strField ''refreshToken'' t]"
| "auth_body (AuthLogout t) = JsonBody [strField ''refreshToken'' t]"
| "auth_body (AuthChangePassword a b) = JsonBody [strField ''currentPassword'' a, strField ''newPassword'' b]"
| "auth_body (AuthEnableTwoFactor c) = JsonBody [strField ''code'' c]"
| "auth_body (AuthDisableTwoFactor c) = JsonBody [strField ''code'' c]"
| "auth_body (AuthImpersonate _ u) = JsonBody [strField ''userId'' u]"
| "auth_body _ = NoBody"

fun users_body :: "usersRoute \<Rightarrow> requestBody" where
  "users_body (UsersCreate d) = JsonBody ([strField ''email'' (cu_email d),
     strField ''username'' (cu_username d), strField ''password'' (cu_password d)] @
     optStr ''roleId'' (cu_roleId d))"
| "users_body (UsersUpdate _ d) = JsonBody (optStr ''username'' (uu_username d) @ optStr ''roleId'' (uu_roleId d))"
| "users_body (UsersResetPassword _ p) = JsonBody [strField ''newPassword'' p]"
| "users_body (UsersSuspend _ r) = JsonBody [strField ''reason'' r]"
| "users_body (UsersBan _ r) = JsonBody [strField ''reason'' r]"
| "users_body _ = NoBody"

fun roles_body :: "rolesRoute \<Rightarrow> requestBody" where
  "roles_body (RolesCreate n d) = JsonBody (strField ''name'' n # optStr ''description'' d)"
| "roles_body (RolesSetPermissions _ ps) = JsonBody [(''permissions'', JArr (map JStr ps))]"
| "roles_body _ = NoBody"

fun nodes_body :: "nodesRoute \<Rightarrow> requestBody" where
  "nodes_body (NodesCreate d) = JsonBody ([strField ''name'' (cn_name d), strField ''fqdn'' (cn_fqdn d)] @
     optStr ''region'' (cn_region d) @ strField ''grpcHost'' (cn_grpcHost d) # optNum ''grpcPort'' (cn_grpcPort d) @
     [(''cpuCores'', JNum (cn_cpuCores d)), (''memoryMb'', JNum (cn_memoryMb d)),
      (''diskMb'', JNum (cn_diskMb d)), strField ''dockerNetworkSubnet'' (cn_dockerNetworkSubnet d)])"
| "nodes_body _ = NoBody"

fun templates_body :: "templatesRoute \<Rightarrow> requestBody" where
  "templates_body (TemplatesCreate b) = JsonBody (optStr ''id'' (tb_id b) @ optStr ''name'' (tb_name b) @
     optStr ''gameType'' (tb_gameType b) @ optStr ''description'' (tb_description b) @
     optStr ''dockerImage'' (tb_dockerImage b) @ optStr ''startupCommand'' (tb_startupCommand b) @
     optStr ''stopCommand'' (tb_stopCommand b) @ optStr ''installScript'' (tb_installScript b) @
     optNum ''minMemoryMb'' (tb_minMemoryMb b) @ optBool ''isPublic'' (tb_isPublic b))"
| "templates_body TemplatesList = NoBody"

fun servers_body :: "serversRoute \<Rightarrow> requestBody" where
  "servers_body (ServersCreate d) = JsonBody (strField ''name'' (cs_name d) #
     optStr ''description'' (cs_description d) @ [strField ''templateId'' (cs_templateId d),
     (''cpuLimitPct'', JNum (cs_cpuLimitPct d)), (''memoryLimitMb'', JNum (cs_memoryLimitMb d)),
     (''diskLimitMb'', JNum (cs_diskLimitMb d))] @ optRecord ''environment'' (cs_environment d) @
     optStr ''ownerId'' (cs_ownerId d))"
| "servers_body (ServersUpdate _ d) = JsonBody (optStr ''name'' (us_name d) @
     optStr ''description'' (us_description d) @ optStr ''dockerImage'' (us_dockerImage d) @
     optStr ''startupCommand'' (us_startupCommand d) @ optRecord ''environment'' (us_environment d))"
| "servers_body (ServersCommand _ c) = JsonBody [strField ''command'' c]"
| "servers_body (ServersSuspend _ r) = JsonBody [strField ''reason'' r]"
| "servers_body (ServersAddSubUser _ u ps) = JsonBody [strField ''userId'' u, (''permissions'', JArr (map JStr ps))]"
| "servers_body _ = NoBody"

fun content_body :: "route \<Rightarrow> requestBody" where
  "content_body (BackupsR (BackupsCreate _ n)) = JsonBody (optStr ''name'' n)"
| "content_body (TasksR (TasksCreate _ n cron action payload)) = JsonBody ([strField ''name'' n,
     strField ''cronExpr'' cron, strField ''action'' action] @ optRecord ''payload'' payload)"
| "content_body (FilesR (FilesUpload _ path originalname content)) =
     FormBody [FilePart ''file'' originalname content, FieldPart ''path'' path]"
| "content_body (FilesR (FilesMkdir _ path)) = JsonBody [strField ''path'' path]"
| "content_body (FilesR (FilesWrite _ path content)) =
     JsonBody (strField ''path'' path # optStr ''content'' content)"
| "content_body (FilesR (FilesDelete _ path)) = JsonBody [strField ''path'' path]"
| "content_body (FilesR (FilesRename _ a b)) = JsonBody [strField ''fromPath'' a, strField ''toPath'' b]"
| "content_body _ = NoBody"

text \<open>The file name of an uploaded archive is not read.\<close>

fun mods_body :: "modsRoute \<Rightarrow> requestBody" where
  "mods_body (ModsInstallModrinth _ v dir) = JsonBody (strField ''versionId'' v # optStr ''targetDir'' dir)"
| "mods_body (ModsInstallCurseforge _ m f dir) =
     JsonBody ([(''modId'', JNum m), (''fileId'', JNum f)] @ optStr ''targetDir'' dir)"
| "mods_body (ModsInstallMarketplace _ slug dir) =
     JsonBody (strField ''slug'' slug # optStr ''targetDir'' dir)"
| "mods_body (ModpackModrinth _ url) = JsonBody [strField ''mrpackUrl'' url]"
| "mods_body (ModpackCurseforge _ archive) = FormBody [FilePart ''archive'' [] archive]"
| "mods_body _ = NoBody"

fun billing_body :: "billingRoute \<Rightarrow> requestBody" where
  "billing_body (BillingCreateProduct n d) = JsonBody (strField ''name'' n # optStr ''description'' d)"
| "billing_body (BillingCreatePlan _ b) = JsonBody (optStr ''id'' (plb_id b) @
     optStr ''productId'' (plb_productId b) @ optStr ''name'' (plb_name b) @
     optNum ''priceCents'' (plb_priceCents b) @ optStr ''currency'' (plb_currency b) @
     optStr ''billingCycle'' (plb_billingCycle b) @ optNum ''cpuLimitPct'' (plb_cpuLimitPct b) @
     optNum ''memoryLimitMb'' (plb_memoryLimitMb b) @ optNum ''diskLimitMb'' (plb_diskLimitMb b) @
     optBool ''active'' (plb_active b))"
| "billing_body (BillingCreateCoupon b) = JsonBody (optStr ''id'' (cpb_id b) @ optStr ''code'' (cpb_code b) @
     optNum ''percentOff'' (cpb_percentOff b) @ optNum ''amountOffCents'' (cpb_amountOffCents b) @
     optNum ''maxRedemptions'' (cpb_maxRedemptions b) @ optNum ''timesRedeemed'' (cpb_timesRedeemed b) @
     optNum ''expiresAt'' (cpb_expiresAt b) @ optBool ''active'' (cpb_active b))"
| "billing_body (BillingCheckout _ s c) = JsonBody [strField ''successUrl'' s, strField ''cancelUrl'' c]"
| "billing_body (StripeWebhook b _) = RawBody b"
| "billing_body _ = NoBody"

fun marketplace_body :: "marketplaceRoute \<Rightarrow> requestBody" where
  "marketplace_body (MarketplacePublish b) = JsonBody (optStr ''id'' (pb_id b) @ optStr ''type'' (pb_type b) @
     optStr ''name'' (pb_name b) @ optStr ''slug'' (pb_slug b) @ optStr ''description'' (pb_description b) @
     optStr ''authorName'' (pb_authorName b) @ optNum ''priceCents'' (pb_priceCents b) @
     optStr ''version'' (pb_version b) @ optStr ''downloadUrl'' (pb_downloadUrl b) @
     optStr ''repoUrl'' (pb_repoUrl b) @ optBool ''verified'' (pb_verified b) @
     optNum ''downloads'' (pb_downloads b))"
| "marketplace_body _ = NoBody"

fun support_body :: "supportRoute \<Rightarrow> requestBody" where
  "support_body (SupportCreate s m) = JsonBody [strField ''subject'' s, strField ''message'' m]"
| "support_body (SupportReply _ b) = JsonBody [strField ''body'' b]"
| "support_body (SupportSetStatus _ s) = JsonBody [strField ''status'' s]"
| "support_body _ = NoBody"

fun apiKeys_body :: "apiKeysRoute \<Rightarrow> requestBody" where
  "apiKeys_body (ApiKeysCreate n scopes expiresAt) = JsonBody (strField ''name'' n #
     (case scopes of None \<Rightarrow> [] | Some ss \<Rightarrow> [(''scopes'', JArr (map JStr ss))]) @
     optNum ''expiresAt'' expiresAt)"
| "apiKeys_body _ = NoBody"

fun bodyOf :: "route \<Rightarrow> requestBody" where
  "bodyOf (AuthR r) = auth_body r"
| "bodyOf (UsersR r) = users_body r"
| "bodyOf (RolesR r) = roles_body r"
| "bodyOf (ApiKeysR r) = apiKeys_body r"
| "bodyOf (NodesR r) = nodes_body r"
| "bodyOf (TemplatesR r) = templates_body r"
| "bodyOf (ServersR r) = servers_body r"
| "bodyOf (SftpR (SftpAuth _ username password)) =
     JsonBody [strField ''username'' username, strField ''password'' password]"
| "bodyOf (ModsR r) = mods_body r"
| "bodyOf (MarketplaceR r) = marketplace_body r"
| "bodyOf (BillingR r) = billing_body r"
| "bodyOf (SupportR r) = support_body r"
| "bodyOf r = content_body r"

definition requestOf :: "route \<Rightarrow> apiRequest" where
  "requestOf r = \<lparr>ar_method = methodOf r, ar_target = targetOf r, ar_body = bodyOf r\<rparr>"

text \<open>Bodies of the same fields, whatever their order.\<close>

fun sameBody :: "requestBody \<Rightarrow> requestBody \<Rightarrow> bool" where
  "sameBody (JsonBody a) (JsonBody b) \<longleftrightarrow> set a = set b \<and> distinct (map fst a) \<and> distinct (map fst b)"
| "sameBody (FormBody a) (FormBody b) \<longleftrightarrow> set a = set b"
| "sameBody a b \<longleftrightarrow> a = b"

definition sameRequest :: "apiRequest \<Rightarrow> apiRequest \<Rightarrow> bool" where
  "sameRequest a b \<longleftrightarrow> ar_method a = ar_method b \<and> ar_target a = ar_target b \<and>
     sameBody (ar_body a) (ar_body b)"

subsection \<open>The target leads to the handler\<close>


lemma splitOn_append: "c \<notin> set s \<Longrightarrow> splitOn c (s @ r) = (s @ hd (splitOn c r)) # tl (splitOn c r)"
  by (induction s) (use splitOn_nonempty [of c r] in auto)

lemma splitOn_path:
  "list_all cleanParam ss \<Longrightarrow> splitOn (CHR ''/'') (concat (map (\<lambda>s. CHR ''/'' # s) ss)) = [] # ss"
  by (induction ss) (simp_all add: splitOn_append cleanParam_chars)

lemma segments_path:
  "list_all cleanParam ss \<Longrightarrow> segments (concat (map (\<lambda>s. CHR ''/'' # s) ss)) = ss"
  by (simp add: segments_def splitOn_path)
    (induction ss; simp add: cleanParam_chars)

lemma targetPath_target:
  assumes "list_all cleanParam (pathOf r)"
  shows "targetPath (targetOf r) = pathOf r"
proof -
  have "CHR ''?'' \<notin> set (concat (map (\<lambda>s. CHR ''/'' # s) (pathOf r)))"
    using assms cleanParam_chars(3) by (auto simp: list_all_iff)
  then have "takeWhile (\<lambda>c. c \<noteq> CHR ''?'') (targetOf r) = concat (map (\<lambda>s. CHR ''/'' # s) (pathOf r))"
    by (auto simp: targetOf_def queryText_def takeWhile_append)
  then show ?thesis by (simp add: targetPath_def segments_path assms)
qed

text \<open>A request for a route of clean parameters reaches its handler.\<close>


lemma pattern_literals:
  assumes "d \<in> set routeTable" and "Literal l \<in> set (dl_pattern d)"
  shows "cleanParam l"
proof -
  have "l \<noteq> []" using assms
    by (auto simp: routeTable_def patternOf_def segmentOf_def segments_def elim!: declarations.elims split: if_splits)
  moreover have "list_all (\<lambda>c. c \<in> set pathLetters) l"
    using table_lower [OF assms(1)] assms(2) by (auto simp: inLowerCase_def list_all_iff)
  moreover have "list_all urlSafeChar pathLetters" by code_simp
  ultimately show ?thesis by (auto simp: cleanParam_def list_all_iff)
qed

lemma fill_clean:
  "\<forall>l. Literal l \<in> set pat \<longrightarrow> cleanParam l \<Longrightarrow> list_all cleanParam ps \<Longrightarrow> list_all cleanParam (fill pat ps)"
  by (induction pat ps rule: fill.induct) auto

text \<open>A request for a route whose parameters need no encoding reaches its handler.\<close>

lemma target_resolves:
  assumes "isMatcher mt" and "list_all cleanParam (paramsOf r)" and "\<not> hiddenRoute r"
  shows "targetPath (targetOf r) = pathOf r"
    and "resolve mt (methodOf r) (targetPath (targetOf r)) = Some (handlerOf r)"
proof -
  obtain d where d: "d \<in> set routeTable" "declarationOf r = Some d" by (rule declared)
  have "list_all cleanParam (pathOf r)" unfolding pathOf_def d(2) option.case
    by (rule fill_clean) (use assms(2) d(1) pattern_literals in auto)
  then show p: "targetPath (targetOf r) = pathOf r" by (rule targetPath_target)
  show "resolve mt (methodOf r) (targetPath (targetOf r)) = Some (handlerOf r)"
    unfolding p using assms(2) cleanParam_proper
    by (intro route_resolves assms(1,3)) (auto simp: list_all_iff)
qed

end
