(* ===== verification/Client.thy ===== *)
theory Client
  imports Requests
begin

text \<open>
  The TypeScript SDK (\<^verbatim>\<open>sdk/typescript/src/index.ts\<close>) and the command line
  (\<^verbatim>\<open>cli/src/index.ts\<close>) over it. The network is an argument: \<open>fetch\<close> takes a request and the
  state of what it reaches, and either fails with a message or answers. A body is its text, of
  which only what JSON makes of it matters; the answers have the fields the types of the SDK
  declare, and a field the code prints without one reads \<open>undefined\<close>.
\<close>

datatype bodyText = EmptyText | JsonText json | OtherText string

record fetchRequest =
  fq_method :: httpMethod
  fq_url :: string
  fq_headers :: "(string \<times> string) list"
  fq_body :: "json option"

record fetchResponse =
  fr_status :: int
  fr_body :: bodyText

type_synonym 's fetch = "fetchRequest \<Rightarrow> 's \<Rightarrow> (string + fetchResponse) \<times> 's"

text \<open>\<open>res.ok\<close> and \<open>res.json()\<close>.\<close>

definition fr_ok :: "fetchResponse \<Rightarrow> bool" where
  "fr_ok r \<longleftrightarrow> 200 \<le> fr_status r \<and> fr_status r \<le> 299"

definition fr_json :: "fetchResponse \<Rightarrow> json option" where
  "fr_json r = (case fr_body r of JsonText j \<Rightarrow> Some j | _ \<Rightarrow> None)"

subsection \<open>The SDK\<close>

datatype sdkError = ElysiaApiError int json | FetchFailed string | SyntaxError

record elysiaClient =
  ec_baseUrl :: string
  ec_accessToken :: "string option"

text \<open>\<open>baseUrl.replace(/\/$/, '')\<close>.\<close>

definition trimSlash :: "string \<Rightarrow> string" where
  "trimSlash s = (if endsWith s ''/'' then butlast s else s)"

definition elysiaClient_new :: "string \<Rightarrow> string option \<Rightarrow> elysiaClient" where
  "elysiaClient_new baseUrl accessToken =
     \<lparr>ec_baseUrl = trimSlash baseUrl, ec_accessToken = accessToken\<rparr>"

definition setAccessToken :: "string \<Rightarrow> elysiaClient \<Rightarrow> elysiaClient" where
  "setAccessToken token c = c\<lparr>ec_accessToken := Some token\<rparr>"

definition sdkRequestOf :: "elysiaClient \<Rightarrow> httpMethod \<Rightarrow> string \<Rightarrow> json option \<Rightarrow> fetchRequest" where
  "sdkRequestOf c method path body = \<lparr>
     fq_method = method, fq_url = ec_baseUrl c @ path,
     fq_headers = (''Content-Type'', ''application/json'') #
       (if truthy (ec_accessToken c)
        then [(''Authorization'', ''Bearer '' @ orElse (ec_accessToken c) [])] else []),
     fq_body = body\<rparr>"

text \<open>The value is \<open>None\<close> where the code returns \<open>undefined\<close>.\<close>

definition sdk_request ::
  "'s fetch \<Rightarrow> elysiaClient \<Rightarrow> httpMethod \<Rightarrow> string \<Rightarrow> json option \<Rightarrow> 's \<Rightarrow>
   (sdkError + json option) \<times> 's"
where
  "sdk_request fetch c method path body s =
     (case fetch (sdkRequestOf c method path body) s of
       (Inl m, s') \<Rightarrow> (Inl (FetchFailed m), s')
     | (Inr res, s') \<Rightarrow>
         if \<not> fr_ok res then (Inl (ElysiaApiError (fr_status res) (orElse (fr_json res) JNull)), s')
         else if fr_status res = 204 then (Inr None, s')
         else case fr_json res of
             None \<Rightarrow> (Inl SyntaxError, s')
           | Some j \<Rightarrow> (Inr (Some j), s'))"

record sdkServerPayload =
  sp_name :: string
  sp_templateId :: id
  sp_cpuLimitPct :: int
  sp_memoryLimitMb :: int
  sp_diskLimitMb :: int
  sp_environment :: "(string \<times> string) list option"

datatype sdkCall =
    SdkLogin string string "string option"
  | SdkRegister string string string
  | SdkMe
  | SdkRefresh string
  | SdkServersList
  | SdkServersGet id
  | SdkServersCreate sdkServerPayload
  | SdkServersPower id powerAct
  | SdkServersSendCommand id string
  | SdkServersDelete id
  | SdkBackupsList id
  | SdkBackupsCreate id "string option"
  | SdkBackupsRestore id id
  | SdkNodesList
  | SdkNodesHealth id

text \<open>\<open>JSON.stringify\<close> leaves a field out whose value is \<open>undefined\<close>.\<close>

definition sdkPayload :: "sdkServerPayload \<Rightarrow> json" where
  "sdkPayload p = JObj ([(''name'', JStr (sp_name p)), (''templateId'', JStr (sp_templateId p)),
     (''cpuLimitPct'', JNum (sp_cpuLimitPct p)), (''memoryLimitMb'', JNum (sp_memoryLimitMb p)),
     (''diskLimitMb'', JNum (sp_diskLimitMb p))] @
     optRecord ''environment'' (sp_environment p))"

fun sdk_call :: "sdkCall \<Rightarrow> httpMethod \<times> string \<times> json option" where
  "sdk_call (SdkLogin email password totpCode) = (POST, ''/auth/login'',
     Some (JObj ([(''email'', JStr email), (''password'', JStr password)] @ optStr ''totpCode'' totpCode)))"
| "sdk_call (SdkRegister email username password) = (POST, ''/auth/register'',
     Some (JObj [(''email'', JStr email), (''username'', JStr username), (''password'', JStr password)]))"
| "sdk_call SdkMe = (GET, ''/auth/me'', None)"
| "sdk_call (SdkRefresh refreshToken) = (POST, ''/auth/refresh'',
     Some (JObj [(''refreshToken'', JStr refreshToken)]))"
| "sdk_call SdkServersList = (GET, ''/servers'', None)"
| "sdk_call (SdkServersGet i) = (GET, ''/servers/'' @ i, None)"
| "sdk_call (SdkServersCreate p) = (POST, ''/servers'', Some (sdkPayload p))"
| "sdk_call (SdkServersPower i action) = (POST, ''/servers/'' @ i @ ''/power/'' @ powerName action, None)"
| "sdk_call (SdkServersSendCommand i command) = (POST, ''/servers/'' @ i @ ''/command'',
     Some (JObj [(''command'', JStr command)]))"
| "sdk_call (SdkServersDelete i) = (DELETE, ''/servers/'' @ i, None)"
| "sdk_call (SdkBackupsList s) = (GET, ''/servers/'' @ s @ ''/backups'', None)"
| "sdk_call (SdkBackupsCreate s name) = (POST, ''/servers/'' @ s @ ''/backups'',
     Some (JObj (optStr ''name'' name)))"
| "sdk_call (SdkBackupsRestore s b) = (POST, ''/servers/'' @ s @ ''/backups/'' @ b @ ''/restore'', None)"
| "sdk_call SdkNodesList = (GET, ''/nodes'', None)"
| "sdk_call (SdkNodesHealth i) = (GET, ''/nodes/'' @ i @ ''/health'', None)"

definition sdk_run :: "'s fetch \<Rightarrow> elysiaClient \<Rightarrow> sdkCall \<Rightarrow> 's \<Rightarrow> (sdkError + json option) \<times> 's" where
  "sdk_run fetch c call = (case sdk_call call of (method, path, body) \<Rightarrow>
     sdk_request fetch c method path body)"

subsection \<open>The command line\<close>

record session =
  se_baseUrl :: string
  se_accessToken :: "string option"
  se_refreshToken :: "string option"

text \<open>The session file, \<open>None\<close> where it is missing or is not JSON; the lines printed on each
  stream; the exit code of a process that ended itself.\<close>

record cliState =
  cl_session :: "session option"
  cl_out :: "string list"
  cl_err :: "string list"
  cl_exit :: "int option"

definition loadSession :: "cliState \<Rightarrow> session option" where
  "loadSession s = cl_session s"

definition saveSession :: "session \<Rightarrow> cliState \<Rightarrow> cliState" where
  "saveSession x s = s\<lparr>cl_session := Some x\<rparr>"

definition cli_print :: "string \<Rightarrow> cliState \<Rightarrow> cliState" where
  "cli_print l s = s\<lparr>cl_out := cl_out s @ [l]\<rparr>"

text \<open>\<open>console.error\<close> followed by \<open>process.exit(1)\<close>.\<close>

definition cli_fail :: "string \<Rightarrow> cliState \<Rightarrow> cliState" where
  "cli_fail l s = s\<lparr>cl_err := cl_err s @ [l], cl_exit := Some 1\<rparr>"

definition requireClient :: "cliState \<Rightarrow> elysiaClient option" where
  "requireClient s = map_option (\<lambda>x. elysiaClient_new (se_baseUrl x) (se_accessToken x)) (loadSession s)"

text \<open>The message of an error, which the last handler of the program prints.\<close>

fun sdkMessage :: "sdkError \<Rightarrow> string" where
  "sdkMessage (ElysiaApiError status _) = ''Elysia API error ('' @ show_int status @ '')''"
| "sdkMessage (FetchFailed m) = m"
| "sdkMessage SyntaxError = ''Unexpected end of JSON input''"

text \<open>A field of a result: \<open>undefined\<close> where there is none.\<close>

fun field :: "string \<Rightarrow> json option \<Rightarrow> json option" where
  "field k (Some (JObj fs)) = map_of fs k"
| "field k _ = None"

definition fieldOpt :: "string \<Rightarrow> json option \<Rightarrow> string option" where
  "fieldOpt k j = (case field k j of Some (JStr x) \<Rightarrow> Some x | _ \<Rightarrow> None)"

definition fieldStr :: "string \<Rightarrow> json option \<Rightarrow> string" where
  "fieldStr k j = orElse (fieldOpt k j) ''undefined''"

text \<open>\<open>k in x\<close> throws for what is not an object.\<close>

fun isObject :: "json option \<Rightarrow> bool" where
  "isObject (Some (JObj _)) \<longleftrightarrow> True"
| "isObject (Some (JArr _)) \<longleftrightarrow> True"
| "isObject _ \<longleftrightarrow> False"

definition cli_login ::
  "'s fetch \<Rightarrow> string \<Rightarrow> string \<Rightarrow> string \<Rightarrow> cliState \<Rightarrow> 's \<Rightarrow> cliState \<times> 's"
where
  "cli_login fetch url email password st s =
     (case sdk_run fetch (elysiaClient_new url None) (SdkLogin email password None) s of
       (Inl e, s') \<Rightarrow> (cli_fail (sdkMessage e) st, s')
     | (Inr result, s') \<Rightarrow>
         if \<not> isObject result then (cli_fail ''TypeError'' st, s')
         else if field ''requiresTwoFactor'' result \<noteq> None
         then (cli_fail ''Ce compte a la 2FA activee - non supporte par ce CLI pour le moment.'' st, s')
         else (cli_print ''Connecte.'' (saveSession \<lparr>se_baseUrl = url,
           se_accessToken = fieldOpt ''accessToken'' result,
           se_refreshToken = fieldOpt ''refreshToken'' result\<rparr> st), s'))"

text \<open>\<open>name.padEnd(24)\<close>.\<close>

definition padEnd :: "nat \<Rightarrow> string \<Rightarrow> string" where
  "padEnd n s = s @ replicate (n - length s) (CHR '' '')"

definition serverLine :: "json \<Rightarrow> string" where
  "serverLine j = fieldStr ''id'' (Some j) @ ''  '' @ padEnd 24 (fieldStr ''name'' (Some j)) @ ''  '' @
     fieldStr ''status'' (Some j)"

definition notConnected :: string where
  "notConnected = ''Non connecte. Lancez `elysia login --url <api-url> --email <email> --password <password>`.''"

definition cli_serversList :: "'s fetch \<Rightarrow> cliState \<Rightarrow> 's \<Rightarrow> cliState \<times> 's" where
  "cli_serversList fetch st s = (case requireClient st of
     None \<Rightarrow> (cli_fail notConnected st, s)
   | Some c \<Rightarrow> (case sdk_run fetch c SdkServersList s of
       (Inl e, s') \<Rightarrow> (cli_fail (sdkMessage e) st, s')
     | (Inr (Some (JArr l)), s') \<Rightarrow>
         if l = [] then (cli_print ''Aucun serveur.'' st, s')
         else (fold (\<lambda>j. cli_print (serverLine j)) l st, s')
     | (Inr _, s') \<Rightarrow> (cli_fail ''TypeError'' st, s')))"

definition parsePower :: "string \<Rightarrow> powerAct option" where
  "parsePower a = List.find (\<lambda>p. powerName p = a) [PowerStart, PowerStop, PowerRestart, PowerKill]"

definition cli_serversPower ::
  "'s fetch \<Rightarrow> id \<Rightarrow> string \<Rightarrow> cliState \<Rightarrow> 's \<Rightarrow> cliState \<times> 's"
where
  "cli_serversPower fetch serverId action st s = (case parsePower action of
     None \<Rightarrow> (cli_fail ''Action invalide (attendu: start, stop, restart, kill)'' st, s)
   | Some p \<Rightarrow> (case requireClient st of
       None \<Rightarrow> (cli_fail notConnected st, s)
     | Some c \<Rightarrow> (case sdk_run fetch c (SdkServersPower serverId p) s of
         (Inl e, s') \<Rightarrow> (cli_fail (sdkMessage e) st, s')
       | (Inr _, s') \<Rightarrow> (cli_print (''Action '' @ [CHR 0x22] @ action @ [CHR 0x22] @
           '' envoyee au serveur '' @ serverId @ ''.'') st, s'))))"

end
