(* ===== verification/Client_Properties.thy ===== *)
theory Client_Properties
  imports Client Sample
begin

text \<open>What the SDK and the command line do with the routes of the backend.\<close>

subsection \<open>The calls of the SDK are routes\<close>

text \<open>The route each method of the SDK stands for.\<close>

fun sdk_route :: "sdkCall \<Rightarrow> route" where
  "sdk_route (SdkLogin e p t) = AuthR (AuthLogin \<lparr>ld_email = e, ld_password = p, ld_totpCode = t\<rparr>)"
| "sdk_route (SdkRegister e u p) =
     AuthR (AuthRegister \<lparr>rd_email = e, rd_username = u, rd_password = p\<rparr>)"
| "sdk_route SdkMe = AuthR AuthMe"
| "sdk_route (SdkRefresh t) = AuthR (AuthRefresh t)"
| "sdk_route SdkServersList = ServersR ServersList"
| "sdk_route (SdkServersGet i) = ServersR (ServersGet i)"
| "sdk_route (SdkServersCreate p) = ServersR (ServersCreate \<lparr>cs_name = sp_name p,
     cs_description = None, cs_templateId = sp_templateId p, cs_cpuLimitPct = sp_cpuLimitPct p,
     cs_memoryLimitMb = sp_memoryLimitMb p, cs_diskLimitMb = sp_diskLimitMb p,
     cs_environment = sp_environment p, cs_ownerId = None\<rparr>)"
| "sdk_route (SdkServersPower i a) = ServersR (ServersPower i a)"
| "sdk_route (SdkServersSendCommand i c) = ServersR (ServersCommand i c)"
| "sdk_route (SdkServersDelete i) = ServersR (ServersDelete i)"
| "sdk_route (SdkBackupsList s) = BackupsR (BackupsList s)"
| "sdk_route (SdkBackupsCreate s n) = BackupsR (BackupsCreate s n)"
| "sdk_route (SdkBackupsRestore s b) = BackupsR (BackupsRestore s b)"
| "sdk_route SdkNodesList = NodesR NodesList"
| "sdk_route (SdkNodesHealth i) = NodesR (NodesHealth i)"

fun jsonBody :: "json option \<Rightarrow> requestBody" where
  "jsonBody (Some (JObj fs)) = JsonBody fs"
| "jsonBody _ = NoBody"

definition requestOfCall :: "httpMethod \<times> string \<times> json option \<Rightarrow> apiRequest" where
  "requestOfCall = (\<lambda>(m, t, b). \<lparr>ar_method = m, ar_target = t, ar_body = jsonBody b\<rparr>)"

lemmas target_eval = targetOf_def route_paths queryText_def optParam1_def

lemma sdk_call_request: "sameRequest (requestOfCall (sdk_call c)) (requestOf (sdk_route c))"
proof (cases c)
  case (SdkServersPower i a)
  then show ?thesis by (cases a) (simp_all add: sameRequest_def requestOfCall_def requestOf_def target_eval)
qed (auto simp: sameRequest_def requestOfCall_def requestOf_def target_eval sdkPayload_def
    strField_def optStr_def optRecord_def split: option.splits)

text \<open>C37: the SDK and the backend agree: each method of the SDK sends the method, the path and the
  fields of the body of its route, no more and no less, and the framework gives the request to
  the handler of that route when the identifiers need no encoding.\<close>

theorem sdk_calls_reach_handlers:
  assumes "isMatcher mt" and "list_all cleanParam (paramsOf (sdk_route c))"
  shows "sameRequest (requestOfCall (sdk_call c)) (requestOf (sdk_route c)) \<and>
    resolve mt (fst (sdk_call c)) (targetPath (fst (snd (sdk_call c)))) = Some (handlerOf (sdk_route c))"
proof -
  have "\<not> hiddenRoute (sdk_route c)" by (cases c) simp_all
  moreover have "fst (sdk_call c) = methodOf (sdk_route c)" "fst (snd (sdk_call c)) = targetOf (sdk_route c)"
    using sdk_call_request [of c]
    by (simp_all add: sameRequest_def requestOf_def requestOfCall_def split: prod.splits)
  ultimately show ?thesis using sdk_call_request target_resolves(2) [OF assms] by simp
qed

theorem sdk_calls_reach_handlers_witness:
  "resolve exactMatcher POST [''servers'', ''s1'', ''power'', ''kill''] =
     Some (''ServersController'', ''kill'')"
proof -
  let ?c = "SdkServersPower ''s1'' PowerKill"
  have c: "list_all cleanParam (paramsOf (sdk_route ?c))" by code_simp
  have e: "fst (sdk_call ?c) = POST"
    "targetPath (fst (snd (sdk_call ?c))) = [''servers'', ''s1'', ''power'', ''kill'']"
    "handlerOf (sdk_route ?c) = (''ServersController'', ''kill'')"
    by code_simp+
  show ?thesis
    by (rule sdk_calls_reach_handlers [OF exactMatcher_isMatcher c, unfolded e, THEN conjunct2])
qed

subsection \<open>Answers\<close>

text \<open>An answer of status 200 without a body, which is what the backend gives for a handler that
  returns nothing, makes the SDK throw: a deletion that was carried out is reported as a failure.\<close>

theorem sdk_delete_reports_failure:
  assumes "fetch (sdkRequestOf c DELETE (''/servers/'' @ i) None) s =
    (Inr \<lparr>fr_status = 200, fr_body = EmptyText\<rparr>, s')"
  shows "sdk_run fetch c (SdkServersDelete i) s = (Inl SyntaxError, s')"
  using assms by (simp add: sdk_run_def sdk_request_def fr_ok_def fr_json_def)

lemma sdk_request_Inr:
  "sdk_request fetch c m p b s = (Inr j, s') \<longleftrightarrow>
     (\<exists>res. fetch (sdkRequestOf c m p b) s = (Inr res, s') \<and> fr_ok res \<and>
        (if fr_status res = 204 then j = None else fr_json res \<noteq> None \<and> j = fr_json res))"
proof (cases "fetch (sdkRequestOf c m p b) s")
  case (Pair r t)
  then show ?thesis by (cases r) (auto simp: sdk_request_def split: option.splits)
qed

subsection \<open>The session of the command line\<close>

definition loginRequest :: "string \<Rightarrow> string \<Rightarrow> string \<Rightarrow> fetchRequest" where
  "loginRequest url email password = sdkRequestOf (elysiaClient_new url None) POST ''/auth/login''
     (Some (JObj [strField ''email'' email, strField ''password'' password]))"

text \<open>The header that carries a token.\<close>

definition bearer :: "string \<Rightarrow> fetchRequest \<Rightarrow> bool" where
  "bearer tok rq \<longleftrightarrow> map_of (fq_headers rq) ''Authorization'' = Some (''Bearer '' @ tok)"

text \<open>A login of the command line sends one request. It either ends with code 1 and leaves the
  saved session, or the answer was accepted and asked for no second factor, the session is
  saved, and every later call goes to the given address with the access token of the answer.\<close>

theorem cli_login_outcome:
  assumes "cli_login fetch url email password st s = (st', s')" and "cl_exit st = None"
  shows "s' = snd (fetch (loginRequest url email password) s) \<and>
    (cl_exit st' = Some 1 \<and> cl_session st' = cl_session st \<or>
     cl_exit st' = None \<and> (\<exists>res client. fst (fetch (loginRequest url email password) s) = Inr res \<and>
       fr_ok res \<and> field ''requiresTwoFactor'' (fr_json res) = None \<and>
       requireClient st' = Some client \<and> ec_accessToken client = fieldOpt ''accessToken'' (fr_json res) \<and>
       (\<forall>m path b tok. fq_url (sdkRequestOf client m path b) = trimSlash url @ path \<and>
         (ec_accessToken client = Some tok \<and> tok \<noteq> [] \<longrightarrow> bearer tok (sdkRequestOf client m path b)))))"
proof -
  let ?run = "sdk_run fetch (elysiaClient_new url None) (SdkLogin email password None) s"
  have run: "?run = sdk_request fetch (elysiaClient_new url None) POST ''/auth/login''
      (Some (JObj [strField ''email'' email, strField ''password'' password])) s"
    by (simp add: sdk_run_def optStr_def strField_def)
  have snd: "snd ?run = snd (fetch (loginRequest url email password) s)"
    unfolding run by (auto simp: sdk_request_def loginRequest_def split: prod.splits sum.splits option.splits)
  show ?thesis
  proof (cases "fst ?run")
    case (Inl e)
    then have "st' = cli_fail (sdkMessage e) st" "s' = snd ?run"
      using assms(1) by (auto simp: cli_login_def split: prod.splits)
    then show ?thesis using snd by (simp add: cli_fail_def)
  next
    case (Inr j)
    then have ok: "?run = (Inr j, snd ?run)" by (simp add: prod_eq_iff)
    then obtain res where res: "fst (fetch (loginRequest url email password) s) = Inr res" "fr_ok res"
        "if fr_status res = 204 then j = None else fr_json res \<noteq> None \<and> j = fr_json res"
      unfolding run by (auto simp: sdk_request_Inr loginRequest_def)
    from assms(1) have eq: "(st', s') = (if \<not> isObject j then (cli_fail ''TypeError'' st, snd ?run)
        else if field ''requiresTwoFactor'' j \<noteq> None
        then (cli_fail ''Ce compte a la 2FA activee - non supporte par ce CLI pour le moment.'' st, snd ?run)
        else (cli_print ''Connecte.'' (saveSession \<lparr>se_baseUrl = url,
          se_accessToken = fieldOpt ''accessToken'' j, se_refreshToken = fieldOpt ''refreshToken'' j\<rparr> st), snd ?run))"
      unfolding cli_login_def by (subst (asm) ok) simp
    then have s': "s' = snd ?run" by (simp split: if_splits)
    show ?thesis
    proof (cases "isObject j \<and> field ''requiresTwoFactor'' j = None")
      case True
      then have j: "j = fr_json res" using res(3) by (cases "fr_status res = 204") auto
      have "requireClient st' = Some (elysiaClient_new url (fieldOpt ''accessToken'' j)) \<and> cl_exit st' = None"
        using assms(2) eq True
        by (simp add: cli_print_def saveSession_def requireClient_def loadSession_def)
      then show ?thesis using res(1,2) True snd s' j
        by (auto simp: elysiaClient_new_def sdkRequestOf_def bearer_def)
    next
      case False
      then have "cl_exit st' = Some 1 \<and> cl_session st' = cl_session st"
        using eq by (simp add: cli_fail_def split: if_splits)
      then show ?thesis using snd s' by simp
    qed
  qed
qed

text \<open>A network that answers every login with a pair of tokens.\<close>

definition sampleFetch :: "nat fetch" where
  "sampleFetch rq n = (Inr \<lparr>fr_status = 201, fr_body = JsonText (JObj [strField ''accessToken'' ''T:ann'',
     strField ''refreshToken'' ''R1''])\<rparr>, Suc n)"

definition sampleCli :: cliState where
  "sampleCli = \<lparr>cl_session = None, cl_out = [], cl_err = [], cl_exit = None\<rparr>"

theorem cli_login_outcome_witness:
  "\<exists>st' client. cli_login sampleFetch ''https://p.example/api/'' ''ann@x'' ''secret'' sampleCli 0 = (st', 1) \<and>
     requireClient st' = Some client \<and> ec_accessToken client = Some ''T:ann'' \<and>
     fq_url (sdkRequestOf client GET ''/servers'' None) = ''https://p.example/api/servers'' \<and>
     bearer ''T:ann'' (sdkRequestOf client GET ''/servers'' None)"
proof -
  obtain st' s' where run: "cli_login sampleFetch ''https://p.example/api/'' ''ann@x'' ''secret'' sampleCli 0 = (st', s')"
    by fastforce
  have "cl_exit (fst (cli_login sampleFetch ''https://p.example/api/'' ''ann@x'' ''secret'' sampleCli 0)) = None"
    by code_simp
  then have ok: "cl_exit st' = None" by (simp add: run)
  have trim: "trimSlash ''https://p.example/api/'' @ ''/servers'' = ''https://p.example/api/servers''" by code_simp
  have "cl_exit sampleCli = None" by (simp add: sampleCli_def)
  note out = cli_login_outcome [OF run this, unfolded ok option.distinct simp_thms]
  then obtain res client where res: "fst (sampleFetch (loginRequest ''https://p.example/api/'' ''ann@x'' ''secret'') 0) = Inr res"
    and c: "requireClient st' = Some client" "ec_accessToken client = fieldOpt ''accessToken'' (fr_json res)"
    and later: "\<And>m path b tok. fq_url (sdkRequestOf client m path b) = trimSlash ''https://p.example/api/'' @ path \<and>
      (ec_accessToken client = Some tok \<and> tok \<noteq> [] \<longrightarrow> bearer tok (sdkRequestOf client m path b))"
    by blast
  have tok: "ec_accessToken client = Some ''T:ann''"
    using c(2) res unfolding fr_json_def fieldOpt_def by (auto simp: sampleFetch_def strField_def)
  have "s' = 1" using out by (simp add: sampleFetch_def)
  then show ?thesis
    using run c(1) tok later [of GET "''/servers''" None "''T:ann''"] unfolding trim by simp
qed

end
