(* ===== verification/Session.thy ===== *)
theory Session
  imports Client
begin

text \<open>
  The session of the dashboard: \<^verbatim>\<open>dashboard/src/lib/api-client.ts\<close> and
  \<^verbatim>\<open>dashboard/src/lib/auth-context.tsx\<close>. The tokens live in the storage of the browser, which
  all requests share. \<open>panel_request\<close> is a request that runs alone; \<open>clientStep\<close> are the steps of
  any number of them, each of which gives way to the others where the code awaits.
\<close>

subsection \<open>Storage\<close>

record storage =
  ls_access :: "string option"
  ls_refresh :: "string option"

definition setTokens :: "string \<Rightarrow> string \<Rightarrow> storage \<Rightarrow> storage" where
  "setTokens a r st = \<lparr>ls_access = Some a, ls_refresh = Some r\<rparr>"

definition clearTokens :: "storage \<Rightarrow> storage" where
  "clearTokens st = \<lparr>ls_access = None, ls_refresh = None\<rparr>"

subsection \<open>Requests\<close>

record apiInit =
  in_method :: httpMethod
  in_path :: string
  in_body :: requestBody

text \<open>A request as it is sent: with the token of its header, and whether it says that its body is
  JSON.\<close>

record browserRequest =
  bq_init :: apiInit
  bq_token :: "string option"
  bq_json :: bool

type_synonym 's net = "browserRequest \<Rightarrow> 's \<Rightarrow> (string + fetchResponse) \<times> 's"

text \<open>What a call of the client rejects with: an \<open>ApiError\<close>, a failure of the network, an answer that
  is no JSON or has not the field that is read, an \<open>Error\<close> the page throws.\<close>

datatype apiError = ApiError int json | NetworkError string | ParseError | ThrownError string

fun isJsonBody :: "requestBody \<Rightarrow> bool" where
  "isJsonBody NoBody \<longleftrightarrow> False"
| "isJsonBody (FormBody _) \<longleftrightarrow> False"
| "isJsonBody (RawBody b) \<longleftrightarrow> b \<noteq> []"
| "isJsonBody (JsonBody _) \<longleftrightarrow> True"

definition browserRequestOf :: "storage \<Rightarrow> apiInit \<Rightarrow> browserRequest" where
  "browserRequestOf st init = \<lparr>bq_init = init,
     bq_token = (if truthy (ls_access st) then ls_access st else None),
     bq_json = isJsonBody (in_body init)\<rparr>"

definition finishRequest :: "fetchResponse \<Rightarrow> apiError + json option" where
  "finishRequest res =
     (if \<not> fr_ok res then Inl (ApiError (fr_status res) (orElse (fr_json res) JNull))
      else if fr_status res = 204 then Inr None
      else case fr_body res of EmptyText \<Rightarrow> Inr None | JsonText j \<Rightarrow> Inr (Some j)
        | OtherText _ \<Rightarrow> Inl ParseError)"

definition refreshRequest :: "string \<Rightarrow> browserRequest" where
  "refreshRequest r = \<lparr>bq_init = \<lparr>in_method = POST, in_path = ''/auth/refresh'',
     in_body = JsonBody [strField ''refreshToken'' r]\<rparr>, bq_token = None, bq_json = True\<rparr>"

text \<open>What the answer to a refresh does to the storage: \<open>None\<close> where the refresh failed.\<close>

definition refreshed :: "string + fetchResponse \<Rightarrow> storage \<Rightarrow> storage option" where
  "refreshed a st = (case a of
     Inl _ \<Rightarrow> None
   | Inr res \<Rightarrow> if \<not> fr_ok res then None
       else (case fr_json res of
           None \<Rightarrow> None
         | Some JNull \<Rightarrow> None
         | Some j \<Rightarrow> Some (setTokens (fieldStr ''accessToken'' (Some j)) (fieldStr ''refreshToken'' (Some j)) st)))"

definition tryRefresh :: "'s net \<Rightarrow> storage \<Rightarrow> 's \<Rightarrow> bool \<times> storage \<times> 's" where
  "tryRefresh net st s =
     (if \<not> truthy (ls_refresh st) then (False, st, s)
      else (case net (refreshRequest (orElse (ls_refresh st) [])) s of (a, s') \<Rightarrow>
        (case refreshed a st of None \<Rightarrow> (False, st, s') | Some st' \<Rightarrow> (True, st', s'))))"

function panel_request ::
  "'s net \<Rightarrow> apiInit \<Rightarrow> bool \<Rightarrow> storage \<Rightarrow> 's \<Rightarrow> (apiError + json option) \<times> storage \<times> 's"
where
  "panel_request net init retry st s =
     (case net (browserRequestOf st init) s of
       (Inl m, s1) \<Rightarrow> (Inl (NetworkError m), st, s1)
     | (Inr res, s1) \<Rightarrow>
         if fr_status res = 401 \<and> retry
         then (case tryRefresh net st s1 of
             (True, st2, s2) \<Rightarrow> panel_request net init False st2 s2
           | (False, st2, s2) \<Rightarrow> (finishRequest res, st2, s2))
         else (finishRequest res, st, s1))"
  by pat_completeness auto

termination by (relation "measure (\<lambda>(_, _, retry, _, _). if retry then 1 else 0)") auto

declare panel_request.simps [simp del]

definition api_call :: "httpMethod \<Rightarrow> string \<Rightarrow> requestBody \<Rightarrow> apiInit" where
  "api_call m path body = \<lparr>in_method = m, in_path = path, in_body = body\<rparr>"

subsection \<open>Requests that overlap\<close>

text \<open>Where a request is: sent with the storage of that moment, answered by the server, waiting
  for the refresh it asked for after a 401 (whose answer it keeps), or over.\<close>

datatype proc =
    Requested apiInit bool browserRequest
  | Answered apiInit bool "string + fetchResponse"
  | RefreshRequested apiInit fetchResponse browserRequest
  | RefreshAnswered apiInit fetchResponse "string + fetchResponse"
  | Finished apiInit "apiError + json option"

text \<open>What a request does when an answer arrives, up to its next await.\<close>

definition onAnswer :: "storage \<Rightarrow> apiInit \<Rightarrow> bool \<Rightarrow> string + fetchResponse \<Rightarrow> proc" where
  "onAnswer st init retry a = (case a of
     Inl m \<Rightarrow> Finished init (Inl (NetworkError m))
   | Inr res \<Rightarrow> if fr_status res = 401 \<and> retry \<and> truthy (ls_refresh st)
       then RefreshRequested init res (refreshRequest (orElse (ls_refresh st) []))
       else Finished init (finishRequest res))"

text \<open>One step of a request: the server takes what was sent and answers, or an answer arrives.\<close>

fun procStep :: "'s net \<Rightarrow> storage \<times> proc \<times> 's \<Rightarrow> storage \<times> proc \<times> 's" where
  "procStep net (st, Requested init retry rq, s) =
     (case net rq s of (a, s') \<Rightarrow> (st, Answered init retry a, s'))"
| "procStep net (st, Answered init retry a, s) = (st, onAnswer st init retry a, s)"
| "procStep net (st, RefreshRequested init res rq, s) =
     (case net rq s of (a, s') \<Rightarrow> (st, RefreshAnswered init res a, s'))"
| "procStep net (st, RefreshAnswered init res a, s) = (case refreshed a st of
       None \<Rightarrow> (st, Finished init (finishRequest res), s)
     | Some st' \<Rightarrow> (st', Requested init False (browserRequestOf st' init), s))"
| "procStep net (st, Finished init r, s) = (st, Finished init r, s)"

definition isLoginCall :: "apiInit \<Rightarrow> bool" where
  "isLoginCall init \<longleftrightarrow> in_path init \<in> {''/auth/login'', ''/auth/register''}"

text \<open>The state of the page: the storage, the requests, and the server. A login stores the tokens
  of its answer when it is over; a logout, or a failure of \<^verbatim>\<open>/auth/me\<close>, removes them.\<close>

type_synonym 's client = "storage \<times> (nat \<Rightarrow> proc option) \<times> 's"

inductive clientStep :: "'s net \<Rightarrow> 's client \<Rightarrow> 's client \<Rightarrow> bool" for net where
  Start: "p i = None \<Longrightarrow>
    clientStep net (st, p, s) (st, p(i \<mapsto> Requested init True (browserRequestOf st init)), s)"
| Proceed: "p i = Some q \<Longrightarrow> procStep net (st, q, s) = (st', q', s') \<Longrightarrow>
    clientStep net (st, p, s) (st', p(i \<mapsto> q'), s')"
| Login: "p i = Some (Finished init (Inr (Some j))) \<Longrightarrow> isLoginCall init \<Longrightarrow>
    clientStep net (st, p, s)
      (setTokens (fieldStr ''accessToken'' (Some j)) (fieldStr ''refreshToken'' (Some j)) st, p(i := None), s)"
| Logout: "clientStep net (st, p, s) (clearTokens st, p, s)"

inductive_cases clientStepE: "clientStep net (st, p, s) c"

inductive clientReach :: "'s net \<Rightarrow> 's client \<Rightarrow> 's client \<Rightarrow> bool" for net c where
  Reach0: "clientReach net c c"
| ReachStep: "clientReach net c c' \<Longrightarrow> clientStep net c' c'' \<Longrightarrow> clientReach net c c''"

subsection \<open>The authentication context\<close>

text \<open>The user is what \<^verbatim>\<open>/auth/me\<close> answered; \<open>px_location\<close> is where the router was sent.\<close>

record panelSession =
  px_storage :: storage
  px_user :: "json option"
  px_loading :: bool
  px_location :: "string option"

definition refreshUser :: "'s net \<Rightarrow> panelSession \<Rightarrow> 's \<Rightarrow> panelSession \<times> 's" where
  "refreshUser net x s =
     (if \<not> truthy (ls_access (px_storage x)) then (x\<lparr>px_user := None, px_loading := False\<rparr>, s)
      else (case panel_request net (api_call GET ''/auth/me'' NoBody) True (px_storage x) s of
          (Inr me, st, s') \<Rightarrow> (x\<lparr>px_storage := st, px_user := me, px_loading := False\<rparr>, s')
        | (Inl _, st, s') \<Rightarrow> (x\<lparr>px_storage := clearTokens st, px_user := None, px_loading := False\<rparr>, s')))"

datatype loginOutcome = LoginFailed apiError | CodeNeeded | LoginDone

text \<open>Reading a field of \<open>undefined\<close> or of \<open>null\<close> throws.\<close>

fun readable :: "json option \<Rightarrow> bool" where
  "readable None \<longleftrightarrow> False"
| "readable (Some JNull) \<longleftrightarrow> False"
| "readable _ \<longleftrightarrow> True"

fun truthyJson :: "json option \<Rightarrow> bool" where
  "truthyJson None \<longleftrightarrow> False"
| "truthyJson (Some JNull) \<longleftrightarrow> False"
| "truthyJson (Some (JBool b)) \<longleftrightarrow> b"
| "truthyJson (Some (JStr s)) \<longleftrightarrow> s \<noteq> []"
| "truthyJson (Some (JNum n)) \<longleftrightarrow> n \<noteq> 0"
| "truthyJson _ \<longleftrightarrow> True"

definition storeTokens :: "json option \<Rightarrow> panelSession \<Rightarrow> panelSession" where
  "storeTokens res x = x\<lparr>px_storage :=
     setTokens (fieldStr ''accessToken'' res) (fieldStr ''refreshToken'' res) (px_storage x)\<rparr>"

definition panel_login ::
  "'s net \<Rightarrow> string \<Rightarrow> string \<Rightarrow> string option \<Rightarrow> panelSession \<Rightarrow> 's \<Rightarrow> loginOutcome \<times> panelSession \<times> 's"
where
  "panel_login net email password totpCode x s =
     (case panel_request net (api_call POST ''/auth/login'' (JsonBody ([strField ''email'' email,
         strField ''password'' password] @ optStr ''totpCode'' totpCode))) True (px_storage x) s of
       (Inl e, st, s') \<Rightarrow> (LoginFailed e, x\<lparr>px_storage := st\<rparr>, s')
     | (Inr res, st, s') \<Rightarrow>
         if \<not> readable res then (LoginFailed ParseError, x\<lparr>px_storage := st\<rparr>, s')
         else if truthyJson (field ''requiresTwoFactor'' res)
         then (CodeNeeded, x\<lparr>px_storage := st\<rparr>, s')
         else (LoginDone, refreshUser net (storeTokens res (x\<lparr>px_storage := st\<rparr>)) s'))"

definition panel_register ::
  "'s net \<Rightarrow> string \<Rightarrow> string \<Rightarrow> string \<Rightarrow> panelSession \<Rightarrow> 's \<Rightarrow> loginOutcome \<times> panelSession \<times> 's"
where
  "panel_register net email username password x s =
     (case panel_request net (api_call POST ''/auth/register'' (JsonBody [strField ''email'' email,
         strField ''username'' username, strField ''password'' password])) True (px_storage x) s of
       (Inl e, st, s') \<Rightarrow> (LoginFailed e, x\<lparr>px_storage := st\<rparr>, s')
     | (Inr res, st, s') \<Rightarrow>
         if \<not> readable res then (LoginFailed ParseError, x\<lparr>px_storage := st\<rparr>, s')
         else (LoginDone, refreshUser net (storeTokens res (x\<lparr>px_storage := st\<rparr>)) s'))"

definition panel_logout :: "panelSession \<Rightarrow> panelSession" where
  "panel_logout x = x\<lparr>px_storage := clearTokens (px_storage x), px_user := None,
     px_location := Some ''/login''\<rparr>"

definition sessionPermissions :: "json option \<Rightarrow> string list" where
  "sessionPermissions u = (case field ''permissions'' u of
     Some (JArr ps) \<Rightarrow> concat (map (\<lambda>p. case p of JStr s \<Rightarrow> [s] | _ \<Rightarrow> []) ps) | _ \<Rightarrow> [])"

definition hasPermission :: "json option \<Rightarrow> string \<Rightarrow> bool" where
  "hasPermission u perm \<longleftrightarrow> truthyJson u \<and>
     (''*'' \<in> set (sessionPermissions u) \<or> perm \<in> set (sessionPermissions u))"

definition isAdmin :: "json option \<Rightarrow> bool" where
  "isAdmin u \<longleftrightarrow> truthyJson u \<and> ''*'' \<in> set (sessionPermissions u)"

subsection \<open>The pages that need a session\<close>

text \<open>The page \<^verbatim>\<open>/\<close> and the layout of the panel, once per render.\<close>

definition homeEffect :: "panelSession \<Rightarrow> panelSession" where
  "homeEffect x = (if px_loading x then x
     else x\<lparr>px_location := Some (if truthyJson (px_user x) then ''/servers'' else ''/login'')\<rparr>)"

definition layoutEffect :: "panelSession \<Rightarrow> panelSession" where
  "layoutEffect x = (if \<not> px_loading x \<and> \<not> truthyJson (px_user x)
     then x\<lparr>px_location := Some ''/login''\<rparr> else x)"

definition layoutShowsPanel :: "panelSession \<Rightarrow> bool" where
  "layoutShowsPanel x \<longleftrightarrow> \<not> (px_loading x \<or> \<not> truthyJson (px_user x))"

text \<open>The forms of \<^verbatim>\<open>/login\<close> and \<^verbatim>\<open>/register\<close>: whether a code is asked for, and where a success
  leads.\<close>

definition submitLogin ::
  "'s net \<Rightarrow> string \<Rightarrow> string \<Rightarrow> string \<Rightarrow> bool \<Rightarrow> panelSession \<Rightarrow> 's \<Rightarrow> bool \<times> panelSession \<times> 's"
where
  "submitLogin net email password totpCode needsTwoFactor x s =
     (case panel_login net email password (if totpCode = [] then None else Some totpCode) x s of
       (LoginFailed _, x', s') \<Rightarrow> (needsTwoFactor, x', s')
     | (CodeNeeded, x', s') \<Rightarrow> (True, x', s')
     | (LoginDone, x', s') \<Rightarrow> (needsTwoFactor, x'\<lparr>px_location := Some ''/servers''\<rparr>, s'))"

definition submitRegister ::
  "'s net \<Rightarrow> string \<Rightarrow> string \<Rightarrow> string \<Rightarrow> panelSession \<Rightarrow> 's \<Rightarrow> panelSession \<times> 's"
where
  "submitRegister net email username password x s =
     (case panel_register net email username password x s of
       (LoginDone, x', s') \<Rightarrow> (x'\<lparr>px_location := Some ''/servers''\<rparr>, s')
     | (_, x', s') \<Rightarrow> (x', s'))"

end
