(* ===== verification/Session_Properties.thy ===== *)
theory Session_Properties
  imports Session Sample
begin

text \<open>What the session of the dashboard guarantees, alone and with requests that overlap.\<close>

subsection \<open>One request\<close>

text \<open>The steps a request goes through when it runs alone are those of the sequential code: it
  is over after at most six steps, three requests to the server, with the same result, storage
  and server state. So each call ends, and a refused token is refreshed at most once.\<close>

theorem request_machine_equivalent:
  "(procStep net ^^ 6) (st, Requested init True (browserRequestOf st init), s) =
     (case panel_request net init True st s of (r, st', s') \<Rightarrow> (st', Finished init r, s'))"
  by (auto simp: eval_nat_numeral panel_request.simps [of net init] tryRefresh_def onAnswer_def
      split: prod.splits sum.splits option.splits)

subsection \<open>The tokens of the storage\<close>

text \<open>A value the server gave in an accepted answer.\<close>

definition answered :: "'s net \<Rightarrow> string + fetchResponse \<Rightarrow> bool" where
  "answered net a \<longleftrightarrow> (\<exists>rq s. fst (net rq s) = a)"

definition answeredJson :: "'s net \<Rightarrow> json \<Rightarrow> bool" where
  "answeredJson net j \<longleftrightarrow> (\<exists>res. answered net (Inr res) \<and> fr_ok res \<and> fr_json res = Some j)"

definition tokensOf :: "json \<Rightarrow> storage" where
  "tokensOf j = \<lparr>ls_access = Some (fieldStr ''accessToken'' (Some j)),
     ls_refresh = Some (fieldStr ''refreshToken'' (Some j))\<rparr>"

definition noTokens :: storage where
  "noTokens = \<lparr>ls_access = None, ls_refresh = None\<rparr>"

fun procOk :: "'s net \<Rightarrow> proc \<Rightarrow> bool" where
  "procOk net (Answered _ _ a) \<longleftrightarrow> answered net a"
| "procOk net (RefreshRequested _ res _) \<longleftrightarrow> answered net (Inr res)"
| "procOk net (RefreshAnswered _ res a) \<longleftrightarrow> answered net (Inr res) \<and> answered net a"
| "procOk net (Finished _ (Inr (Some j))) \<longleftrightarrow> answeredJson net j"
| "procOk net _ \<longleftrightarrow> True"

definition storageOk :: "'s net \<Rightarrow> storage \<Rightarrow> bool" where
  "storageOk net st \<longleftrightarrow> st = noTokens \<or> (\<exists>j. answeredJson net j \<and> st = tokensOf j)"

lemma finishRequest_Inr: "finishRequest res = Inr (Some j) \<Longrightarrow> fr_ok res \<and> fr_json res = Some j"
  by (auto simp: finishRequest_def fr_json_def split: if_splits bodyText.splits)

lemma finishRequest_ok: "answered net (Inr res) \<Longrightarrow> procOk net (Finished init (finishRequest res))"
  using finishRequest_Inr [of res]
  by (cases "(net, Finished init (finishRequest res))" rule: procOk.cases) (auto simp: answeredJson_def)

lemma refreshed_ok: "refreshed a st = Some st' \<Longrightarrow> answered net a \<Longrightarrow> storageOk net st'"
  by (auto simp: refreshed_def storageOk_def answeredJson_def setTokens_def tokensOf_def
      split: sum.splits if_splits option.splits json.splits)

lemma procStep_ok:
  assumes "procStep net (st, q, s) = (st', q', s')" and "procOk net q" and "storageOk net st"
  shows "procOk net q' \<and> storageOk net st'"
proof (cases q)
  case (Requested init retry rq)
  then show ?thesis using assms by (auto simp: answered_def split: prod.splits) (metis fst_conv)
next
  case (Answered init retry a)
  then show ?thesis using assms finishRequest_ok
    by (auto simp: onAnswer_def split: sum.splits if_splits)
next
  case (RefreshRequested init res rq)
  then show ?thesis using assms by (auto simp: answered_def split: prod.splits) (metis fst_conv)+
next
  case (RefreshAnswered init res a)
  then show ?thesis using assms finishRequest_ok refreshed_ok by (auto split: option.splits)
next
  case (Finished init r)
  then show ?thesis using assms by auto
qed

lemmas clientStep_cases = clientStepE [consumes 1, case_names Start Proceed Login Logout]

lemma clientStep_ok:
  assumes "clientStep net (st, p, s) (st', p', s')" and "storageOk net st" and "\<And>i q. p i = Some q \<Longrightarrow> procOk net q"
  shows "storageOk net st' \<and> (\<forall>i q. p' i = Some q \<longrightarrow> procOk net q)"
  using assms(1)
proof (cases rule: clientStep_cases)
  case (Proceed i q st2 q2 s2)
  then show ?thesis using procStep_ok [OF Proceed(3)] assms(2,3) by auto
next
  case (Login i init j)
  then have "answeredJson net j" using assms(3) by fastforce
  then show ?thesis using Login assms(3) by (auto simp: storageOk_def setTokens_def tokensOf_def split: if_splits)
next
  case Logout
  then show ?thesis using assms(3) by (auto simp: storageOk_def clearTokens_def noTokens_def)
qed (use assms(2,3) in \<open>auto split: if_splits\<close>)

text \<open>C9: however many requests, refreshes, logins and logouts overlap, the storage is empty or
  has the access token and the refresh token of one and the same accepted answer of the
  server: never the token of one session with that of another.\<close>

theorem stored_tokens_belong_together:
  assumes "clientReach net (noTokens, \<lambda>i. None, s0) (st, p, s)"
  shows "st = noTokens \<or> (\<exists>rq s1 res j. fst (net rq s1) = Inr res \<and> fr_ok res \<and> fr_json res = Some j \<and>
    st = tokensOf j)"
proof -
  have "storageOk net st \<and> (\<forall>i q. p i = Some q \<longrightarrow> procOk net q)"
    using assms
  proof (induction "(st, p, s)" arbitrary: st p s rule: clientReach.induct)
    case Reach0
    then show ?case by (simp add: storageOk_def)
  next
    case (ReachStep c')
    obtain st1 p1 s1 where c': "c' = (st1, p1, s1)" by (cases c')
    show ?case using clientStep_ok [OF ReachStep(3) [unfolded c']] ReachStep(2) [OF c'] by blast
  qed
  then show ?thesis unfolding storageOk_def answeredJson_def answered_def by blast
qed

text \<open>A server that rotates its tokens as the backend does: the \<open>n\<close>-th pair is the valid one, and
  a refresh with it gives the next.\<close>

definition tokenNo :: "char \<Rightarrow> nat \<Rightarrow> string" where
  "tokenNo c n = c # show_nat n"

definition pairNo :: "nat \<Rightarrow> json" where
  "pairNo n = JObj [strField ''accessToken'' (tokenNo (CHR ''T'') n),
     strField ''refreshToken'' (tokenNo (CHR ''R'') n)]"

definition rotatingNet :: "nat net" where
  "rotatingNet rq n =
     (let reply = (\<lambda>st j. Inr \<lparr>fr_status = st, fr_body = JsonText j\<rparr>); path = in_path (bq_init rq) in
      if path = ''/auth/login'' then (reply 201 (pairNo (Suc n)), Suc n)
      else if path = ''/auth/refresh''
      then (if in_body (bq_init rq) = JsonBody [strField ''refreshToken'' (tokenNo (CHR ''R'') n)]
        then (reply 201 (pairNo (Suc n)), Suc n) else (reply 401 JNull, n))
      else (if bq_token rq = Some (tokenNo (CHR ''T'') n) then (reply 200 (JStr ''data''), n)
        else (reply 401 JNull, n)))"

definition proceed :: "'s net \<Rightarrow> nat \<Rightarrow> 's client \<Rightarrow> 's client" where
  "proceed net i = (\<lambda>(st, p, s). case p i of
     None \<Rightarrow> (st, p, s)
   | Some q \<Rightarrow> (case procStep net (st, q, s) of (st', q', s') \<Rightarrow> (st', p(i \<mapsto> q'), s')))"

lemma proceed_reach: "clientReach net c c' \<Longrightarrow> clientReach net c (proceed net i c')"
  by (cases c') (auto simp: proceed_def split: option.splits prod.splits
      intro: clientReach.ReachStep clientStep.Proceed)

lemma fold_proceed_reach: "clientReach net c c' \<Longrightarrow> clientReach net c (fold (proceed net) is c')"
  by (induction "is" arbitrary: c') (simp_all add: proceed_reach)

text \<open>Two requests, of the processes 0 and 1.\<close>

definition twoRequests :: "storage \<Rightarrow> nat \<Rightarrow> nat client" where
  "twoRequests st n = (st, [0 \<mapsto> Requested (api_call GET ''/servers'' NoBody) True
       (browserRequestOf st (api_call GET ''/servers'' NoBody)),
     1 \<mapsto> Requested (api_call GET ''/server-templates'' NoBody) True
       (browserRequestOf st (api_call GET ''/server-templates'' NoBody))], n)"

lemma twoRequests_reach: "clientReach net (st, \<lambda>i. None, n) (twoRequests st n)"
proof -
  have "clientStep net (st, \<lambda>i. None, n) (st, [0 \<mapsto> Requested (api_call GET ''/servers'' NoBody) True
      (browserRequestOf st (api_call GET ''/servers'' NoBody))], n)"
    using clientStep.Start [of "\<lambda>i. None" "0::nat"] by simp
  moreover have "clientStep net (st, [0 \<mapsto> Requested (api_call GET ''/servers'' NoBody) True
      (browserRequestOf st (api_call GET ''/servers'' NoBody))], n) (twoRequests st n)"
    unfolding twoRequests_def by (rule clientStep.Start) simp
  ultimately show ?thesis by (blast intro: clientReach.intros)
qed

text \<open>Two requests whose access token has expired both read the refresh token before the first
  refresh is answered: the second refresh gives a token that is spent, and its request fails
  with 401 although the session is alive and the storage has the new pair.\<close>

theorem overlapping_refresh_fails:
  "\<exists>p init. clientReach rotatingNet (\<lparr>ls_access = Some ''T0'', ls_refresh = Some ''R1''\<rparr>, \<lambda>i. None, 1)
     (tokensOf (pairNo 2), p, 2) \<and> p 1 = Some (Finished init (Inl (ApiError 401 JNull)))"
proof -
  let ?st = "\<lparr>ls_access = Some ''T0'', ls_refresh = Some ''R1''\<rparr>"
  let ?c = "fold (proceed rotatingNet) [0, 0, 1, 1, 0, 1, 0, 1] (twoRequests ?st 1)"
  have "fst ?c = tokensOf (pairNo 2)" "snd (snd ?c) = 2"
    "fst (snd ?c) 1 = Some (Finished (api_call GET ''/server-templates'' NoBody) (Inl (ApiError 401 JNull)))"
    by code_simp+
  moreover have "clientReach rotatingNet (?st, \<lambda>i. None, 1) ?c"
    by (rule fold_proceed_reach [OF twoRequests_reach])
  ultimately show ?thesis by (metis prod.collapse)
qed

text \<open>A refresh that is answered after a logout stores its tokens: the session that was ended is
  back in the storage.\<close>

theorem logout_is_undone_by_refresh:
  "\<exists>p q. clientReach rotatingNet (\<lparr>ls_access = Some ''T0'', ls_refresh = Some ''R1''\<rparr>, \<lambda>i. None, 1)
     (noTokens, p, 1) \<and> clientReach rotatingNet (noTokens, p, 1) (tokensOf (pairNo 2), q, 2)"
proof -
  let ?st = "\<lparr>ls_access = Some ''T0'', ls_refresh = Some ''R1''\<rparr>"
  let ?c = "fold (proceed rotatingNet) [0, 0] (twoRequests ?st 1)"
  let ?p = "fst (snd ?c)"
  let ?d = "fold (proceed rotatingNet) [0, 0] (noTokens, ?p, 1)"
  have c: "fst ?c = ?st" "snd (snd ?c) = 1" by code_simp+
  have d: "fst ?d = tokensOf (pairNo 2)" "snd (snd ?d) = 2" by code_simp+
  have "clientReach rotatingNet (?st, \<lambda>i. None, 1) (?st, ?p, 1)"
    using fold_proceed_reach [OF twoRequests_reach, of rotatingNet ?st 1 "[0, 0]"] c
    by (metis prod.collapse)
  moreover have "clientStep rotatingNet (?st, ?p, 1) (noTokens, ?p, 1)"
    using clientStep.Logout [of rotatingNet ?st ?p 1] by (simp add: clearTokens_def noTokens_def)
  moreover have "clientReach rotatingNet (noTokens, ?p, 1) ?d"
    by (rule fold_proceed_reach [OF clientReach.Reach0])
  moreover obtain q where "?d = (tokensOf (pairNo 2), q, 2)" using d by (cases ?d) auto
  ultimately have "clientReach rotatingNet (?st, \<lambda>i. None, 1) (noTokens, ?p, 1) \<and>
      clientReach rotatingNet (noTokens, ?p, 1) (tokensOf (pairNo 2), q, 2)"
    by (simp only: clientReach.ReachStep simp_thms)
  then show ?thesis by blast
qed

theorem stored_tokens_belong_together_witness:
  "\<exists>p j. clientReach rotatingNet (noTokens, \<lambda>i. None, 0) (tokensOf (pairNo 1), p, 1) \<and>
     tokensOf (pairNo 1) = tokensOf j \<and> (\<exists>rq s1 res. fst (rotatingNet rq s1) = Inr res \<and> fr_json res = Some j)"
proof -
  let ?init = "api_call POST ''/auth/login'' NoBody"
  let ?p0 = "[0 \<mapsto> Requested ?init True (browserRequestOf noTokens ?init)]"
  let ?c = "fold (proceed rotatingNet) [0, 0] (noTokens, ?p0, 0)"
  have c: "fst ?c = noTokens" "snd (snd ?c) = 1" "fst (snd ?c) 0 = Some (Finished ?init (Inr (Some (pairNo 1))))"
    by code_simp+
  have "clientStep rotatingNet (noTokens, \<lambda>i. None, 0) (noTokens, ?p0, 0)"
    using clientStep.Start [of "\<lambda>i. None" "0::nat"] by simp
  then have "clientReach rotatingNet (noTokens, \<lambda>i. None, 0) (noTokens, ?p0, 0)"
    by (blast intro: clientReach.intros)
  then have "clientReach rotatingNet (noTokens, \<lambda>i. None, 0) ?c" by (rule fold_proceed_reach)
  moreover obtain q where q: "?c = (noTokens, q, 1)" "q 0 = Some (Finished ?init (Inr (Some (pairNo 1))))"
    using c by (cases ?c) auto
  moreover have "clientStep rotatingNet (noTokens, q, 1) (setTokens (fieldStr ''accessToken'' (Some (pairNo 1)))
      (fieldStr ''refreshToken'' (Some (pairNo 1))) noTokens, q(0 := None), 1)"
    by (rule clientStep.Login [of q "0::nat", OF q(2)]) (simp add: isLoginCall_def api_call_def)
  ultimately have reach: "clientReach rotatingNet (noTokens, \<lambda>i. None, 0)
      (tokensOf (pairNo 1), q(0 := None), 1)"
    by (auto simp: setTokens_def tokensOf_def intro: clientReach.ReachStep)
  have "tokensOf (pairNo 1) \<noteq> noTokens" by (simp add: tokensOf_def noTokens_def)
  then show ?thesis using stored_tokens_belong_together [OF reach] reach by blast
qed

subsection \<open>What a request sends\<close>

text \<open>A network that notes what it was sent and what it answered.\<close>

definition logged :: "'s net \<Rightarrow> ((browserRequest \<times> (string + fetchResponse)) list \<times> 's) net" where
  "logged net rq = (\<lambda>(tr, s). case net rq s of (a, s') \<Rightarrow> (a, tr @ [(rq, a)], s'))"

text \<open>The first request and its repetition carry the access token of the storage, when there is one.\<close>

definition sentWith :: "string option \<Rightarrow> apiInit \<Rightarrow> browserRequest \<Rightarrow> bool" where
  "sentWith token init rq \<longleftrightarrow> bq_init rq = init \<and>
     bq_token rq = (if token = Some [] then None else token) \<and> bq_json rq = isJsonBody (in_body init)"

text \<open>What the caller gets for an answer: the value of a success, nothing for an empty one, and the
  status and the body of a refusal.\<close>

inductive delivers :: "string + fetchResponse \<Rightarrow> apiError + json option \<Rightarrow> bool" where
  Unreachable: "delivers (Inl m) (Inl (NetworkError m))"
| Value: "200 \<le> n \<Longrightarrow> n < 300 \<Longrightarrow> n \<noteq> 204 \<Longrightarrow>
    delivers (Inr \<lparr>fr_status = n, fr_body = JsonText j\<rparr>) (Inr (Some j))"
| Nothing: "200 \<le> n \<Longrightarrow> n < 300 \<Longrightarrow> n = 204 \<or> b = EmptyText \<Longrightarrow>
    delivers (Inr \<lparr>fr_status = n, fr_body = b\<rparr>) (Inr None)"
| Unparsable: "200 \<le> n \<Longrightarrow> n < 300 \<Longrightarrow> n \<noteq> 204 \<Longrightarrow>
    delivers (Inr \<lparr>fr_status = n, fr_body = OtherText t\<rparr>) (Inl ParseError)"
| Refused: "n < 200 \<or> 300 \<le> n \<Longrightarrow> delivers (Inr \<lparr>fr_status = n, fr_body = JsonText j\<rparr>) (Inl (ApiError n j))"
| RefusedText: "n < 200 \<or> 300 \<le> n \<Longrightarrow> b = EmptyText \<or> b = OtherText t \<Longrightarrow>
    delivers (Inr \<lparr>fr_status = n, fr_body = b\<rparr>) (Inl (ApiError n JNull))"

text \<open>What a call does on the wire and to the storage: one request; or, after a 401 with a refresh token
  in the storage, one refresh with that token, which fails and leaves everything as it was, or
  gives a pair of tokens, which is stored and with which the request is sent once more.\<close>

definition refused401 :: "string + fetchResponse \<Rightarrow> bool" where
  "refused401 a \<longleftrightarrow> (\<exists>b. a = Inr \<lparr>fr_status = 401, fr_body = b\<rparr>)"

definition givesTokens :: "string + fetchResponse \<Rightarrow> json \<Rightarrow> bool" where
  "givesTokens a j \<longleftrightarrow> j \<noteq> JNull \<and>
     (\<exists>n. 200 \<le> n \<and> n < 300 \<and> a = Inr \<lparr>fr_status = n, fr_body = JsonText j\<rparr>)"

definition asksRefresh :: "string \<Rightarrow> browserRequest \<Rightarrow> bool" where
  "asksRefresh t rq \<longleftrightarrow> rq = \<lparr>bq_init = \<lparr>in_method = POST, in_path = ''/auth/refresh'',
     in_body = JsonBody [(''refreshToken'', JStr t)]\<rparr>, bq_token = None, bq_json = True\<rparr>"

inductive requestRun ::
  "storage \<Rightarrow> apiInit \<Rightarrow> (browserRequest \<times> (string + fetchResponse)) list \<Rightarrow> apiError + json option \<Rightarrow> storage \<Rightarrow> bool"
  for st init
where
  Once: "sentWith (ls_access st) init rq \<Longrightarrow> \<not> refused401 a \<or> ls_refresh st \<in> {None, Some []} \<Longrightarrow>
    delivers a r \<Longrightarrow> requestRun st init [(rq, a)] r st"
| RefreshFails: "sentWith (ls_access st) init rq \<Longrightarrow> refused401 a \<Longrightarrow>
    ls_refresh st = Some t \<Longrightarrow> t \<noteq> [] \<Longrightarrow> asksRefresh t rq2 \<Longrightarrow> (\<And>j. \<not> givesTokens a2 j) \<Longrightarrow>
    delivers a r \<Longrightarrow> requestRun st init [(rq, a), (rq2, a2)] r st"
| Repeated: "sentWith (ls_access st) init rq \<Longrightarrow> refused401 a \<Longrightarrow>
    ls_refresh st = Some t \<Longrightarrow> t \<noteq> [] \<Longrightarrow> asksRefresh t rq2 \<Longrightarrow> givesTokens a2 j \<Longrightarrow>
    sentWith (ls_access (tokensOf j)) init rq3 \<Longrightarrow> delivers a3 r \<Longrightarrow>
    requestRun st init [(rq, a), (rq2, a2), (rq3, a3)] r (tokensOf j)"

lemma finishRequest_delivers: "delivers (Inr res) (finishRequest res)"
proof (cases res)
  case (fields n b)
  then show ?thesis
    by (cases b) (auto simp: finishRequest_def fr_ok_def fr_json_def not_le intro: delivers.intros)
qed

lemma browserRequestOf_sent: "sentWith (ls_access st) init (browserRequestOf st init)"
  by (cases "ls_access st") (auto simp: sentWith_def browserRequestOf_def)

lemma refreshRequest_asks: "asksRefresh t (refreshRequest t)"
  by (simp add: asksRefresh_def refreshRequest_def strField_def)

lemma refreshed_None: "refreshed a st = None \<longleftrightarrow> (\<forall>j. \<not> givesTokens a j)"
proof (cases a)
  case (Inr res)
  obtain n b where "res = \<lparr>fr_status = n, fr_body = b\<rparr>" by (cases res) auto
  then show ?thesis using Inr
    by (auto simp: refreshed_def givesTokens_def fr_ok_def fr_json_def not_le
        split: bodyText.splits json.splits)
qed (simp add: refreshed_def givesTokens_def)

lemma refreshed_Some: "refreshed a st = Some st' \<Longrightarrow> \<exists>j. givesTokens a j \<and> st' = tokensOf j"
proof (cases a)
  case (Inr res)
  assume s: "refreshed a st = Some st'"
  obtain n b where "res = \<lparr>fr_status = n, fr_body = b\<rparr>" by (cases res) auto
  then show ?thesis using Inr s
    by (auto simp: refreshed_def givesTokens_def fr_ok_def fr_json_def setTokens_def tokensOf_def
        split: if_splits bodyText.splits json.splits)
qed (simp add: refreshed_def)

lemma request_once:
  "panel_request net init False st s = (case net (browserRequestOf st init) s of
     (Inl m, s1) \<Rightarrow> (Inl (NetworkError m), st, s1) | (Inr res, s1) \<Rightarrow> (finishRequest res, st, s1))"
  by (simp add: panel_request.simps split: prod.splits sum.splits)

lemma request_once_delivers:
  "panel_request (logged net) init False st (tr, s) = (r, st', tr', s') \<Longrightarrow>
    \<exists>rq a. sentWith (ls_access st) init rq \<and> delivers a r \<and> tr' = tr @ [(rq, a)] \<and> st' = st"
  using browserRequestOf_sent [of st init] finishRequest_delivers
  by (auto simp: request_once logged_def intro: delivers.Unreachable split: prod.splits sum.splits)

text \<open>C19: a call of the client sends its request once, or three times in all with one refresh between:
  it refreshes after a 401 only, with the refresh token of the storage and without the expired
  access token; the repetition carries the new access token. The storage changes exactly when
  the refresh gives tokens, and the caller gets what the last answer says of the request.\<close>

theorem request_refreshes_once:
  "case panel_request (logged net) init True st ([], s) of (r, st', tr, s') \<Rightarrow> requestRun st init tr r st'"
proof -
  obtain a s1 where n1: "net (browserRequestOf st init) s = (a, s1)" by fastforce
  let ?rq = "browserRequestOf st init"
  note sent = browserRequestOf_sent [of st init]
  show ?thesis
  proof (cases "refused401 a \<and> truthy (ls_refresh st)")
    case False
    then have plain: "panel_request (logged net) init True st ([], s) =
        (case a of Inl m \<Rightarrow> Inl (NetworkError m) | Inr res \<Rightarrow> finishRequest res, st, [(?rq, a)], s1)"
      by (auto simp: panel_request.simps [of _ _ True] logged_def n1 tryRefresh_def refused401_def
          split: sum.splits) (metis fetchResponse.surjective old.unit.exhaust)
    have "delivers a (case a of Inl m \<Rightarrow> Inl (NetworkError m) | Inr res \<Rightarrow> finishRequest res)"
      by (auto simp: finishRequest_delivers intro: delivers.intros split: sum.splits)
    moreover have "\<not> refused401 a \<or> ls_refresh st \<in> {None, Some []}"
      using False by (cases "ls_refresh st") auto
    ultimately show ?thesis using sent by (auto simp: plain intro: requestRun.Once)
  next
    case True
    then obtain res t where a: "a = Inr res" "fr_status res = 401" and t: "ls_refresh st = Some t" "t \<noteq> []"
      by (cases "ls_refresh st") (auto simp: refused401_def)
    obtain a2 s2 where n2: "net (refreshRequest t) s1 = (a2, s2)" by fastforce
    let ?tr = "[(?rq, a), (refreshRequest t, a2)]"
    show ?thesis
    proof (cases "refreshed a2 st")
      case None
      then have "panel_request (logged net) init True st ([], s) = (finishRequest res, st, ?tr, s2)"
        using t by (simp add: panel_request.simps [of _ _ True] logged_def n1 n2 tryRefresh_def a)
      then show ?thesis using None True sent t finishRequest_delivers [of res]
        by (auto simp: refreshed_None a intro!: requestRun.RefreshFails refreshRequest_asks)
    next
      case (Some st2)
      then have run: "panel_request (logged net) init True st ([], s) =
          panel_request (logged net) init False st2 (?tr, s2)"
        using t by (simp add: panel_request.simps [of _ _ True] logged_def n1 n2 tryRefresh_def a)
      obtain j where j: "givesTokens a2 j" "st2 = tokensOf j" using refreshed_Some [OF Some] by blast
      obtain r st3 tr3 s3 where r: "panel_request (logged net) init False st2 (?tr, s2) = (r, st3, tr3, s3)"
        by (metis prod_cases4)
      obtain rq3 a3 where "sentWith (ls_access (tokensOf j)) init rq3" "delivers a3 r"
          "tr3 = ?tr @ [(rq3, a3)]" "st3 = tokensOf j"
        using request_once_delivers [OF r] j by blast
      then have "requestRun st init tr3 r st3" using True sent t j
        by (auto intro!: requestRun.Repeated refreshRequest_asks)
      then show ?thesis unfolding run r by simp
    qed
  qed
qed

subsection \<open>What the dashboard shows\<close>

text \<open>The answer of \<^verbatim>\<open>/auth/me\<close>: the user the guard found, as JSON.\<close>

definition meJson :: "authUser \<Rightarrow> json" where
  "meJson u = JObj ([strField ''id'' (au_id u), strField ''email'' (au_email u),
     strField ''username'' (au_username u),
     (''roleId'', case au_roleId u of None \<Rightarrow> JNull | Some r \<Rightarrow> JStr r),
     (''permissions'', JArr (map JStr (au_permissions u))),
     (''twoFactorEnabled'', JBool (au_twoFactorEnabled u))] @ optStr ''impersonatedBy'' (au_impersonatedBy u))"

lemma sessionPermissions_me: "sessionPermissions (Some (meJson u)) = au_permissions u"
  by (simp add: sessionPermissions_def meJson_def strField_def comp_def)

lemma isAdmin_me: "isAdmin (Some (meJson u)) \<longleftrightarrow> ''*'' \<in> set (au_permissions u)"
  by (simp add: isAdmin_def sessionPermissions_me) (simp add: meJson_def)

lemma hasPermission_me: "hasPermission (Some (meJson u)) p \<longleftrightarrow>
    ''*'' \<in> set (au_permissions u) \<or> p \<in> set (au_permissions u)"
  by (simp add: hasPermission_def sessionPermissions_me) (simp add: meJson_def)

lemma guard_passes: "permissionsGuard required (Some u) = Inr True \<longleftrightarrow>
    ''*'' \<in> set (au_permissions u) \<or> set (orElse required []) \<subseteq> set (au_permissions u)"
  by (cases required) (auto simp: permissionsGuard_def has_perm_def WILDCARD_def list_all_iff)

text \<open>The dashboard takes the user for holder of a permission exactly when the guard of the
  backend lets the user through a route that requires it, and for an administrator exactly when
  the guard lets the user through whatever a route requires.\<close>

theorem dashboard_permissions_are_the_guards:
  "(hasPermission (Some (meJson u)) p \<longleftrightarrow> permissionsGuard (Some [p]) (Some u) = Inr True) \<and>
   (isAdmin (Some (meJson u)) \<longleftrightarrow> (\<forall>required. permissionsGuard required (Some u) = Inr True))"
proof
  show "hasPermission (Some (meJson u)) p \<longleftrightarrow> permissionsGuard (Some [p]) (Some u) = Inr True"
    by (simp add: hasPermission_me guard_passes)
  show "isAdmin (Some (meJson u)) \<longleftrightarrow> (\<forall>required. permissionsGuard required (Some u) = Inr True)"
    unfolding isAdmin_me guard_passes by (auto dest: spec [of _ "Some [''*'']"])
qed

end
