(* ===== verification/Dashboard.thy ===== *)
theory Dashboard
  imports Session
begin

text \<open>
  The queries and the mutations of the pages of the dashboard (\<^verbatim>\<open>dashboard/src/app\<close> and
  \<^verbatim>\<open>dashboard/src/components/panel\<close>): the key under which an answer is cached, the request, and
  what a mutation does when it succeeds or fails. The markup is not modelled. A button that
  asks for confirmation is pressed when the user has confirmed.
\<close>

subsection \<open>Queries\<close>

type_synonym queryKey = "string list"

datatype dashQuery =
    QAdminUsers | QRoles | QRolesFull | QPermissions | QAdminNodes | QAdminTemplates
  | QAdminItems | QMonitoring | QAuditLogs nat | QApiKeys | QInvoices | QProducts | QTickets
  | QTicket id | QServers | QServerTemplates | QItems | QServer id | QBackups id | QTasks id
  | QMods id | QModrinthSearch string | QCurseforgeSearch string | QFiles id string

text \<open>The pages of the audit log have one key, with the list of the pages under it.\<close>

fun query_key :: "dashQuery \<Rightarrow> queryKey" where
  "query_key QAdminUsers = [''admin-users'']"
| "query_key QRoles = [''roles'']"
| "query_key QRolesFull = [''roles-full'']"
| "query_key QPermissions = [''permissions'']"
| "query_key QAdminNodes = [''admin-nodes'']"
| "query_key QAdminTemplates = [''admin-templates'']"
| "query_key QAdminItems = [''admin-marketplace-items'']"
| "query_key QMonitoring = [''monitoring-summary'']"
| "query_key (QAuditLogs _) = [''audit-logs'']"
| "query_key QApiKeys = [''api-keys'']"
| "query_key QInvoices = [''invoices'']"
| "query_key QProducts = [''products'']"
| "query_key QTickets = [''tickets'']"
| "query_key (QTicket i) = [''ticket'', i]"
| "query_key QServers = [''servers'']"
| "query_key QServerTemplates = [''server-templates'']"
| "query_key QItems = [''marketplace-items'']"
| "query_key (QServer i) = [''server'', i]"
| "query_key (QBackups s) = [''backups'', s]"
| "query_key (QTasks s) = [''scheduled-tasks'', s]"
| "query_key (QMods s) = [''mods'', s]"
| "query_key (QModrinthSearch q) = [''modrinth-search'', q]"
| "query_key (QCurseforgeSearch q) = [''curseforge-search'', q]"
| "query_key (QFiles s path) = [''files'', s, path]"

definition PAGE_SIZE :: nat where "PAGE_SIZE = 50"

fun query_path :: "dashQuery \<Rightarrow> string" where
  "query_path QAdminUsers = ''/users''"
| "query_path QRoles = ''/roles''"
| "query_path QRolesFull = ''/roles''"
| "query_path QPermissions = ''/roles/permissions''"
| "query_path QAdminNodes = ''/nodes''"
| "query_path QAdminTemplates = ''/server-templates''"
| "query_path QAdminItems = ''/marketplace/items''"
| "query_path QMonitoring = ''/monitoring/summary''"
| "query_path (QAuditLogs skip) = ''/audit-logs?skip='' @ show_nat skip @ ''&take='' @ show_nat PAGE_SIZE"
| "query_path QApiKeys = ''/api-keys''"
| "query_path QInvoices = ''/billing/invoices''"
| "query_path QProducts = ''/billing/products''"
| "query_path QTickets = ''/support/tickets''"
| "query_path (QTicket i) = ''/support/tickets/'' @ i"
| "query_path QServers = ''/servers''"
| "query_path QServerTemplates = ''/server-templates''"
| "query_path QItems = ''/marketplace/items''"
| "query_path (QServer i) = ''/servers/'' @ i"
| "query_path (QBackups s) = ''/servers/'' @ s @ ''/backups''"
| "query_path (QTasks s) = ''/servers/'' @ s @ ''/scheduled-tasks''"
| "query_path (QMods s) = ''/servers/'' @ s @ ''/mods''"
| "query_path (QModrinthSearch q) = ''/mods/modrinth/search?query='' @ encodeURIComponent q"
| "query_path (QCurseforgeSearch q) = ''/mods/curseforge/search?searchFilter='' @ encodeURIComponent q"
| "query_path (QFiles s path) = ''/servers/'' @ s @ ''/files?path='' @ encodeURIComponent path"

definition query_init :: "dashQuery \<Rightarrow> apiInit" where
  "query_init q = api_call GET (query_path q) NoBody"

text \<open>The condition \<open>enabled\<close>: the catalogue of permissions is read on the page of the account by
  administrators only, a search once there is a text.\<close>

fun query_enabled :: "json option \<Rightarrow> dashQuery \<Rightarrow> bool" where
  "query_enabled user (QModrinthSearch q) \<longleftrightarrow> 0 < length q"
| "query_enabled user (QCurseforgeSearch q) \<longleftrightarrow> 0 < length q"
| "query_enabled user QPermissions \<longleftrightarrow> isAdmin user"
| "query_enabled user _ \<longleftrightarrow> True"

text \<open>\<open>getNextPageParam\<close> of the audit log.\<close>

definition nextAuditPage :: "'a list list \<Rightarrow> nat option" where
  "nextAuditPage pages = (if length (last pages) < PAGE_SIZE then None else Some (length pages * PAGE_SIZE))"

subsection \<open>Mutations\<close>

text \<open>What the callbacks of a mutation do: a message, the keys whose queries are read again, the
  page the router goes to, the piece of state that is set, the user read again.\<close>

datatype effect =
    ToastSuccess string
  | ToastError string
  | ToastInfo string
  | Invalidate queryKey
  | GoTo string
  | SetState string
  | RefreshUser

text \<open>\<open>String(x)\<close>: within an array \<open>null\<close> is empty.\<close>

fun jsString :: "json \<Rightarrow> string" where
  "jsString (JStr s) = s"
| "jsString (JNum n) = show_int n"
| "jsString (JBool b) = (if b then ''true'' else ''false'')"
| "jsString JNull = ''null''"
| "jsString (JArr xs) = joinWith '','' (map (\<lambda>x. if x = JNull then [] else jsString x) xs)"
| "jsString (JObj _) = ''[object Object]''"

text \<open>\<open>err instanceof ApiError ? err.message : fallback\<close>, where the message of an \<open>ApiError\<close> is the
  field \<open>message\<close> of its body.\<close>

definition apiErrorMessage :: "json \<Rightarrow> string" where
  "apiErrorMessage body = (case field ''message'' (Some body) of
     Some m \<Rightarrow> jsString m | None \<Rightarrow> ''Erreur API'')"

fun errorEffect :: "string \<Rightarrow> apiError \<Rightarrow> effect" where
  "errorEffect fallback (ApiError _ body) = ToastError (apiErrorMessage body)"
| "errorEffect fallback _ = ToastError fallback"

definition orUndefined :: "string \<Rightarrow> string option" where
  "orUndefined s = (if s = [] then None else Some s)"

subsubsection \<open>admin/users\<close>

datatype usersMutation =
    SetRole id string
  | SuspendUser id
  | BanUser id
  | ReactivateUser id
  | CreateUser string string string string
  | DeleteUser id
  | ResetPassword id string string

fun usersPage_init :: "usersMutation \<Rightarrow> apiInit" where
  "usersPage_init (SetRole i roleId) = api_call PATCH (''/users/'' @ i) (JsonBody [strField ''roleId'' roleId])"
| "usersPage_init (SuspendUser i) = api_call POST (''/users/'' @ i @ ''/suspend'')
     (JsonBody [strField ''reason'' ''Suspendu depuis le panel admin''])"
| "usersPage_init (BanUser i) = api_call POST (''/users/'' @ i @ ''/ban'')
     (JsonBody [strField ''reason'' ''Banni depuis le panel admin''])"
| "usersPage_init (ReactivateUser i) = api_call POST (''/users/'' @ i @ ''/reactivate'') NoBody"
| "usersPage_init (CreateUser email username password roleId) = api_call POST ''/users''
     (JsonBody ([strField ''email'' email, strField ''username'' username,
       strField ''password'' password] @ optStr ''roleId'' (orUndefined roleId)))"
| "usersPage_init (DeleteUser i) = api_call DELETE (''/users/'' @ i) NoBody"
| "usersPage_init (ResetPassword i _ newPassword) = api_call POST (''/users/'' @ i @ ''/reset-password'')
     (JsonBody [strField ''newPassword'' newPassword])"

fun usersPage_success :: "usersMutation \<Rightarrow> effect list" where
  "usersPage_success (SetRole _ _) = [ToastSuccess ''Role mis a jour'', Invalidate [''admin-users'']]"
| "usersPage_success (SuspendUser _) = [ToastSuccess ''Utilisateur suspendu'', Invalidate [''admin-users'']]"
| "usersPage_success (BanUser _) = [ToastSuccess ''Utilisateur banni'', Invalidate [''admin-users'']]"
| "usersPage_success (ReactivateUser _) = [ToastSuccess ''Utilisateur reactive'', Invalidate [''admin-users'']]"
| "usersPage_success (CreateUser _ _ _ _) = [ToastSuccess ''Utilisateur cree'', SetState ''createOpen'',
     SetState ''email'', SetState ''username'', SetState ''password'', SetState ''roleId'', Invalidate [''admin-users'']]"
| "usersPage_success (DeleteUser _) = [ToastSuccess ''Utilisateur supprime'', Invalidate [''admin-users'']]"
| "usersPage_success (ResetPassword _ username _) =
     [ToastSuccess (''Mot de passe de '' @ username @ '' reinitialise''), SetState ''resetTarget'', SetState ''newPassword'']"

fun usersPage_error :: "usersMutation \<Rightarrow> apiError \<Rightarrow> effect" where
  "usersPage_error (CreateUser _ _ _ _) e = errorEffect ''Erreur lors de la creation'' e"
| "usersPage_error _ e = errorEffect ''Erreur'' e"

subsubsection \<open>admin/roles\<close>

datatype rolesMutation =
    CreateRole string string
  | DeleteRole id
  | SavePermissions id string "string list"

fun rolesPage_init :: "rolesMutation \<Rightarrow> apiInit" where
  "rolesPage_init (CreateRole name description) = api_call POST ''/roles''
     (JsonBody (strField ''name'' name # optStr ''description'' (orUndefined description)))"
| "rolesPage_init (DeleteRole i) = api_call DELETE (''/roles/'' @ i) NoBody"
| "rolesPage_init (SavePermissions i _ selected) = api_call PUT (''/roles/'' @ i @ ''/permissions'')
     (JsonBody [(''permissions'', JArr (map JStr selected))])"

fun rolesPage_success :: "rolesMutation \<Rightarrow> effect list" where
  "rolesPage_success (CreateRole _ _) = [ToastSuccess ''Role cree'', SetState ''open'', SetState ''name'',
     SetState ''description'', Invalidate [''roles-full'']]"
| "rolesPage_success (DeleteRole _) = [ToastSuccess ''Role supprime'', Invalidate [''roles-full'']]"
| "rolesPage_success (SavePermissions _ name _) = [ToastSuccess (''Permissions de '' @ [CHR 0x22] @ name @
     [CHR 0x22] @ '' mises a jour''), SetState ''dirty'', Invalidate [''roles-full'']]"

text \<open>The boxes of a role: a click adds or removes a permission.\<close>

definition toggle :: "'a \<Rightarrow> 'a list \<Rightarrow> 'a list" where
  "toggle k prev = (if k \<in> set prev then filter (\<lambda>x. x \<noteq> k) prev else prev @ [k])"

text \<open>The permissions by group, the groups in the order of their names.\<close>

definition permissionGroups :: "permission list \<Rightarrow> (string \<times> permission list) list" where
  "permissionGroups ps = orderAsc fst
     (map (\<lambda>g. (g, filter (\<lambda>p. p_group p = g) ps)) (remdups (map p_group ps)))"

subsubsection \<open>admin/nodes, admin/templates, admin/marketplace\<close>

record nodeForm =
  nf_name :: string
  nf_fqdn :: string
  nf_grpcHost :: string
  nf_grpcPort :: int
  nf_cpuCores :: int
  nf_memoryMb :: int
  nf_diskMb :: int
  nf_dockerNetworkSubnet :: string

definition emptyNodeForm :: nodeForm where
  "emptyNodeForm = \<lparr>nf_name = [], nf_fqdn = [], nf_grpcHost = [], nf_grpcPort = 9501, nf_cpuCores = 4,
     nf_memoryMb = 8192, nf_diskMb = 102400, nf_dockerNetworkSubnet = ''172.30.1.0/24''\<rparr>"

datatype nodesMutation =
    CreateNode nodeForm
  | CheckNode id
  | ToggleMaintenance id bool
  | DeleteNode id

fun nodesPage_init :: "nodesMutation \<Rightarrow> apiInit" where
  "nodesPage_init (CreateNode f) = api_call POST ''/nodes'' (JsonBody [strField ''name'' (nf_name f),
     strField ''fqdn'' (nf_fqdn f), strField ''grpcHost'' (nf_grpcHost f), (''grpcPort'', JNum (nf_grpcPort f)),
     (''cpuCores'', JNum (nf_cpuCores f)), (''memoryMb'', JNum (nf_memoryMb f)), (''diskMb'', JNum (nf_diskMb f)),
     strField ''dockerNetworkSubnet'' (nf_dockerNetworkSubnet f)])"
| "nodesPage_init (CheckNode i) = api_call GET (''/nodes/'' @ i @ ''/health'') NoBody"
| "nodesPage_init (ToggleMaintenance i inMaintenance) = api_call POST
     (''/nodes/'' @ i @ ''/maintenance/'' @ (if inMaintenance then ''disable'' else ''enable'')) NoBody"
| "nodesPage_init (DeleteNode i) = api_call DELETE (''/nodes/'' @ i) NoBody"

fun nodesPage_success :: "nodesMutation \<Rightarrow> json option \<Rightarrow> effect list" where
  "nodesPage_success (CreateNode _) _ = [ToastSuccess ''Node cree'', SetState ''open'', SetState ''form'',
     Invalidate [''admin-nodes'']]"
| "nodesPage_success (CheckNode _) res = [if truthyJson (field ''online'' res)
     then ToastSuccess ''Node en ligne'' else ToastError ''Node injoignable'']"
| "nodesPage_success (ToggleMaintenance _ _) _ = [Invalidate [''admin-nodes'']]"
| "nodesPage_success (DeleteNode _) _ = [ToastSuccess ''Node supprime'', Invalidate [''admin-nodes'']]"

text \<open>The check of a node has no callback for errors.\<close>

fun nodesPage_error :: "nodesMutation \<Rightarrow> apiError \<Rightarrow> effect option" where
  "nodesPage_error (CheckNode _) e = None"
| "nodesPage_error _ e = Some (errorEffect ''Erreur'' e)"

record templateForm =
  tf_name :: string
  tf_gameType :: string
  tf_description :: string
  tf_dockerImage :: string
  tf_startupCommand :: string
  tf_stopCommand :: string
  tf_minMemoryMb :: int

definition emptyTemplateForm :: templateForm where
  "emptyTemplateForm = \<lparr>tf_name = [], tf_gameType = ''GENERIC_DOCKER'', tf_description = [],
     tf_dockerImage = [], tf_startupCommand = [], tf_stopCommand = ''stop'', tf_minMemoryMb = 1024\<rparr>"

definition createTemplate_init :: "templateForm \<Rightarrow> apiInit" where
  "createTemplate_init f = api_call POST ''/server-templates'' (JsonBody ([strField ''name'' (tf_name f),
     strField ''gameType'' (tf_gameType f)] @ optStr ''description'' (orUndefined (tf_description f)) @
     [strField ''dockerImage'' (tf_dockerImage f), strField ''startupCommand'' (tf_startupCommand f),
      strField ''stopCommand'' (tf_stopCommand f), (''minMemoryMb'', JNum (tf_minMemoryMb f))]))"

definition createTemplate_success :: "effect list" where
  "createTemplate_success = [ToastSuccess ''Template cree'', SetState ''open'', SetState ''form'',
     Invalidate [''admin-templates'']]"

record itemForm =
  if_type :: string
  if_name :: string
  if_slug :: string
  if_description :: string
  if_authorName :: string
  if_priceCents :: int
  if_version :: string
  if_downloadUrl :: string
  if_repoUrl :: string

definition emptyItemForm :: itemForm where
  "emptyItemForm = \<lparr>if_type = ''PLUGIN'', if_name = [], if_slug = [], if_description = [],
     if_authorName = [], if_priceCents = 0, if_version = [], if_downloadUrl = [], if_repoUrl = []\<rparr>"

datatype itemsMutation = PublishItem itemForm | VerifyItem id

fun itemsPage_init :: "itemsMutation \<Rightarrow> apiInit" where
  "itemsPage_init (PublishItem f) = api_call POST ''/marketplace/items'' (JsonBody ([
     strField ''type'' (if_type f), strField ''name'' (if_name f), strField ''slug'' (if_slug f)] @
     optStr ''description'' (orUndefined (if_description f)) @ [strField ''authorName'' (if_authorName f),
     (''priceCents'', JNum (if_priceCents f)), strField ''version'' (if_version f)] @
     optStr ''downloadUrl'' (orUndefined (if_downloadUrl f)) @ optStr ''repoUrl'' (orUndefined (if_repoUrl f))))"
| "itemsPage_init (VerifyItem i) = api_call POST (''/marketplace/items/'' @ i @ ''/verify'') NoBody"

fun itemsPage_success :: "itemsMutation \<Rightarrow> effect list" where
  "itemsPage_success (PublishItem _) = [ToastSuccess ''Item publie'', SetState ''open'', SetState ''form'',
     Invalidate [''admin-marketplace-items'']]"
| "itemsPage_success (VerifyItem _) = [ToastSuccess ''Item verifie'', Invalidate [''admin-marketplace-items'']]"

subsubsection \<open>account\<close>

datatype accountMutation =
    ChangePassword string string
  | GenerateTwoFactor
  | EnableTwoFactor string
  | DisableTwoFactor string
  | CreateKey string "string list"
  | RevokeKey id

fun accountPage_init :: "accountMutation \<Rightarrow> apiInit" where
  "accountPage_init (ChangePassword current new) = api_call POST ''/auth/change-password''
     (JsonBody [strField ''currentPassword'' current, strField ''newPassword'' new])"
| "accountPage_init GenerateTwoFactor = api_call POST ''/auth/2fa/generate'' NoBody"
| "accountPage_init (EnableTwoFactor code) = api_call POST ''/auth/2fa/enable'' (JsonBody [strField ''code'' code])"
| "accountPage_init (DisableTwoFactor code) = api_call POST ''/auth/2fa/disable'' (JsonBody [strField ''code'' code])"
| "accountPage_init (CreateKey name scopes) = api_call POST ''/api-keys''
     (JsonBody [strField ''name'' name, (''scopes'', JArr (map JStr scopes))])"
| "accountPage_init (RevokeKey i) = api_call DELETE (''/api-keys/'' @ i) NoBody"

text \<open>The secret, the recovery codes and the new key are shown: the pieces of state that keep them
  are set to the answer.\<close>

fun accountPage_success :: "accountMutation \<Rightarrow> effect list" where
  "accountPage_success (ChangePassword _ _) =
     [ToastSuccess ''Mot de passe change - reconnectez-vous sur vos autres sessions'',
      SetState ''currentPassword'', SetState ''newPassword'', SetState ''confirmPassword'']"
| "accountPage_success GenerateTwoFactor = [SetState ''setup'']"
| "accountPage_success (EnableTwoFactor _) = [ToastSuccess ''2FA activee'', SetState ''recoveryCodes'',
     SetState ''setup'', SetState ''enableCode'', RefreshUser]"
| "accountPage_success (DisableTwoFactor _) = [ToastSuccess ''2FA desactivee'', SetState ''disabling'',
     SetState ''disableCode'', RefreshUser]"
| "accountPage_success (CreateKey _ _) = [SetState ''newKey'', SetState ''creating'', SetState ''name'', SetState ''scopes'',
     Invalidate [''api-keys'']]"
| "accountPage_success (RevokeKey _) = [ToastSuccess ''Cle revoquee'', Invalidate [''api-keys'']]"

fun accountPage_error :: "accountMutation \<Rightarrow> apiError \<Rightarrow> effect" where
  "accountPage_error (EnableTwoFactor _) e = errorEffect ''Code invalide'' e"
| "accountPage_error (DisableTwoFactor _) e = errorEffect ''Code invalide'' e"
| "accountPage_error _ e = errorEffect ''Erreur'' e"

text \<open>The form for the password compares the new one with its confirmation.\<close>

definition submitPassword :: "string \<Rightarrow> string \<Rightarrow> string \<Rightarrow> effect + accountMutation" where
  "submitPassword current new confirm = (if new \<noteq> confirm
     then Inl (ToastError ''Les nouveaux mots de passe ne correspondent pas'')
     else Inr (ChangePassword current new))"

text \<open>The scopes a key can be given on the page.\<close>

definition availableScopes :: "json option \<Rightarrow> permission list option \<Rightarrow> string list" where
  "availableScopes user catalog = (if isAdmin user then map p_key (orElse catalog [])
     else filter (\<lambda>p. p \<noteq> ''*'') (sessionPermissions user))"

end
