(* ===== verification/Live.thy ===== *)
theory Live
  imports Session
begin

text \<open>
  The live parts of the dashboard: the socket (\<^verbatim>\<open>dashboard/src/lib/socket.ts\<close>), the console and the
  statistics of a server, and the navigation. A socket is known by a number; its token is the
  one of its handshake.
\<close>

subsection \<open>The socket\<close>

record socketInfo =
  so_id :: nat
  so_token :: "string option"
  so_connected :: bool

record socketModule =
  sm_socket :: "socketInfo option"
  sm_next :: nat

text \<open>A new socket is not connected yet.\<close>

definition getSocket :: "storage \<Rightarrow> socketModule \<Rightarrow> socketInfo \<times> socketModule" where
  "getSocket st m = (case sm_socket m of
     Some k \<Rightarrow> if so_connected k then (k, m)
       else (let k' = \<lparr>so_id = sm_next m, so_token = ls_access st, so_connected = False\<rparr> in
         (k', m\<lparr>sm_socket := Some k', sm_next := Suc (sm_next m)\<rparr>))
   | None \<Rightarrow> (let k' = \<lparr>so_id = sm_next m, so_token = ls_access st, so_connected = False\<rparr> in
         (k', m\<lparr>sm_socket := Some k', sm_next := Suc (sm_next m)\<rparr>)))"

definition disconnectSocket :: "socketModule \<Rightarrow> socketModule" where
  "disconnectSocket m = m\<lparr>sm_socket := None\<rparr>"

text \<open>The socket of the module is connected, or loses its connection.\<close>

definition socketConnects :: "socketModule \<Rightarrow> socketModule" where
  "socketConnects m = m\<lparr>sm_socket := map_option (\<lambda>k. k\<lparr>so_connected := True\<rparr>) (sm_socket m)\<rparr>"

subsection \<open>server-console, stats-panel\<close>

text \<open>An event the page sends: its socket, its name, the server and the command.\<close>

datatype emitted = Emit nat string id "string option"

definition consoleMount :: "storage \<Rightarrow> id \<Rightarrow> socketModule \<Rightarrow> nat \<times> emitted list \<times> socketModule" where
  "consoleMount st sid m = (case getSocket st m of (k, m') \<Rightarrow>
     (so_id k, [Emit (so_id k) ''console:subscribe'' sid None], m'))"

definition consoleUnmount :: "nat \<Rightarrow> id \<Rightarrow> emitted list" where
  "consoleUnmount k sid = [Emit k ''console:unsubscribe'' sid None]"

definition statsMount :: "storage \<Rightarrow> id \<Rightarrow> socketModule \<Rightarrow> nat \<times> emitted list \<times> socketModule" where
  "statsMount st sid m = (case getSocket st m of (k, m') \<Rightarrow>
     (so_id k, [Emit (so_id k) ''stats:subscribe'' sid None], m'))"

definition statsUnmount :: "nat \<Rightarrow> id \<Rightarrow> emitted list" where
  "statsUnmount k sid = [Emit k ''stats:unsubscribe'' sid None]"

text \<open>The lines of a console: the last 500 and the new one; errors are added to all.\<close>

datatype consoleEvent = LineEvent id string | ErrorEvent id string

definition lastN :: "nat \<Rightarrow> 'a list \<Rightarrow> 'a list" where
  "lastN n xs = drop (length xs - n) xs"

fun onConsole :: "id \<Rightarrow> consoleEvent \<Rightarrow> string list \<Rightarrow> string list" where
  "onConsole sid (LineEvent i line) prev = (if i \<noteq> sid then prev else lastN 500 prev @ [line])"
| "onConsole sid (ErrorEvent i message) prev = (if i \<noteq> sid then prev else prev @ [''[erreur] '' @ message])"

text \<open>\<open>trim\<close>, of the white space that is ASCII.\<close>

definition isBlank :: "char \<Rightarrow> bool" where
  "isBlank c \<longleftrightarrow> c \<in> set (map char_of [9, 10, 11, 12, 13, 32 :: nat])"

definition jsTrim :: "string \<Rightarrow> string" where
  "jsTrim s = rev (dropWhile isBlank (rev (dropWhile isBlank s)))"

text \<open>A command goes out on the current socket, whichever the console listens on.\<close>

definition sendCommand :: "storage \<Rightarrow> id \<Rightarrow> string \<Rightarrow> socketModule \<Rightarrow> emitted list \<times> socketModule" where
  "sendCommand st sid command m = (if jsTrim command = [] then ([], m)
     else (case getSocket st m of (k, m') \<Rightarrow> ([Emit (so_id k) ''console:send'' sid (Some command)], m')))"

text \<open>The samples of the last minute.\<close>

definition HISTORY_SECONDS :: int where "HISTORY_SECONDS = 60"

record 'v sample =
  sa_t :: int
  sa_value :: 'v

definition addSample :: "int \<Rightarrow> 'v \<Rightarrow> 'v sample list \<Rightarrow> 'v sample list" where
  "addSample nowMs v prev = filter (\<lambda>s. nowMs - HISTORY_SECONDS * 1000 \<le> sa_t s)
     (prev @ [\<lparr>sa_t = nowMs, sa_value = v\<rparr>])"

record 'v statsView =
  sv_cpuHistory :: "'v sample list"
  sv_ramHistory :: "'v sample list"
  sv_connected :: bool
  sv_last :: "('v \<times> 'v) option"

definition onStats :: "id \<Rightarrow> int \<Rightarrow> id \<Rightarrow> 'v \<Rightarrow> 'v \<Rightarrow> 'v statsView \<Rightarrow> 'v statsView" where
  "onStats sid nowMs i cpu ram v = (if i \<noteq> sid then v
     else v\<lparr>sv_last := Some (cpu, ram), sv_connected := True,
       sv_cpuHistory := addSample nowMs cpu (sv_cpuHistory v),
       sv_ramHistory := addSample nowMs ram (sv_ramHistory v)\<rparr>)"

subsection \<open>Navigation\<close>

record navItem =
  ni_label :: string
  ni_href :: string
  ni_requiresAdmin :: bool

definition CLIENT_NAV :: "navItem list" where
  "CLIENT_NAV = [
     \<lparr>ni_label = ''Mes serveurs'', ni_href = ''/servers'', ni_requiresAdmin = False\<rparr>,
     \<lparr>ni_label = ''Facturation'', ni_href = ''/billing'', ni_requiresAdmin = False\<rparr>,
     \<lparr>ni_label = ''Support'', ni_href = ''/support'', ni_requiresAdmin = False\<rparr>,
     \<lparr>ni_label = ''Marketplace'', ni_href = ''/marketplace'', ni_requiresAdmin = False\<rparr>]"

definition ADMIN_NAV :: "navItem list" where
  "ADMIN_NAV = [
     \<lparr>ni_label = ''Utilisateurs'', ni_href = ''/admin/users'', ni_requiresAdmin = True\<rparr>,
     \<lparr>ni_label = ''Roles'', ni_href = ''/admin/roles'', ni_requiresAdmin = True\<rparr>,
     \<lparr>ni_label = ''Marketplace'', ni_href = ''/admin/marketplace'', ni_requiresAdmin = True\<rparr>,
     \<lparr>ni_label = ''Templates'', ni_href = ''/admin/templates'', ni_requiresAdmin = True\<rparr>,
     \<lparr>ni_label = ''Nodes'', ni_href = ''/admin/nodes'', ni_requiresAdmin = True\<rparr>,
     \<lparr>ni_label = ''Monitoring'', ni_href = ''/admin/monitoring'', ni_requiresAdmin = True\<rparr>,
     \<lparr>ni_label = ''Audit logs'', ni_href = ''/admin/audit-logs'', ni_requiresAdmin = True\<rparr>]"

definition panelSidebar :: "json option \<Rightarrow> navItem list" where
  "panelSidebar user = CLIENT_NAV @ (if isAdmin user then ADMIN_NAV else [])"

definition navActive :: "string \<Rightarrow> navItem \<Rightarrow> bool" where
  "navActive pathname item \<longleftrightarrow> pathname = ni_href item \<or> prefix (ni_href item @ ''/'') pathname"

end
