(* ===== verification/Panels.thy ===== *)
theory Panels
  imports Dashboard Live "HOL-Library.AList"
begin

text \<open>
  The mutations of the pages and panels of the clients: \<^verbatim>\<open>support\<close>, \<^verbatim>\<open>servers\<close>, \<^verbatim>\<open>marketplace\<close> and
  the panels of a server, with the functions these panels compute with: the text of the
  environment, the paths of the file manager, the buffers of the console and of the statistics.
\<close>

subsection \<open>support, servers, marketplace\<close>

datatype supportMutation =
    CreateTicket string string
  | ReplyTicket id string
  | SetTicketStatus id string

fun supportPage_init :: "supportMutation \<Rightarrow> apiInit" where
  "supportPage_init (CreateTicket subject message) = api_call POST ''/support/tickets''
     (JsonBody [strField ''subject'' subject, strField ''message'' message])"
| "supportPage_init (ReplyTicket i reply) = api_call POST (''/support/tickets/'' @ i @ ''/reply'')
     (JsonBody [strField ''body'' reply])"
| "supportPage_init (SetTicketStatus i status) = api_call POST (''/support/tickets/'' @ i @ ''/status'')
     (JsonBody [strField ''status'' status])"

fun supportPage_success :: "supportMutation \<Rightarrow> effect list" where
  "supportPage_success (CreateTicket _ _) = [ToastSuccess ''Ticket cree'', SetState ''open'',
     SetState ''subject'', SetState ''message'', Invalidate [''tickets'']]"
| "supportPage_success (ReplyTicket i _) = [SetState ''reply'', Invalidate [''ticket'', i], Invalidate [''tickets'']]"
| "supportPage_success (SetTicketStatus i _) = [ToastSuccess ''Statut mis a jour'', Invalidate [''ticket'', i],
     Invalidate [''tickets'']]"

text \<open>The page of a ticket offers its status to the staff.\<close>

definition isStaff :: "json option \<Rightarrow> bool" where
  "isStaff user \<longleftrightarrow> hasPermission user ''support.reply''"

record serverForm =
  sf_name :: string
  sf_templateId :: id
  sf_memoryLimitMb :: int
  sf_diskLimitMb :: int
  sf_cpuLimitPct :: int

definition createServer_init :: "serverForm \<Rightarrow> apiInit" where
  "createServer_init f = api_call POST ''/servers'' (JsonBody [strField ''name'' (sf_name f),
     strField ''templateId'' (sf_templateId f), (''memoryLimitMb'', JNum (sf_memoryLimitMb f)),
     (''diskLimitMb'', JNum (sf_diskLimitMb f)), (''cpuLimitPct'', JNum (sf_cpuLimitPct f))])"

definition createServer_success :: "effect list" where
  "createServer_success = [ToastSuccess ''Serveur en cours de creation'', SetState ''open'', SetState ''name'',
     Invalidate [''servers'']]"

definition installItem_init :: "id \<Rightarrow> string \<Rightarrow> string \<Rightarrow> apiInit" where
  "installItem_init serverId slug targetDir = api_call POST (''/servers/'' @ serverId @ ''/mods/marketplace'')
     (JsonBody [strField ''slug'' slug, strField ''targetDir'' (if targetDir = [] then ''plugins'' else targetDir)])"

definition installItem_success :: "string \<Rightarrow> effect list" where
  "installItem_success name = [ToastSuccess (name @ '' installe''), Invalidate [''marketplace-items''],
     SetState ''installing'', SetState ''serverId'']"

subsection \<open>The panels of a server\<close>

subsubsection \<open>power-actions, backups-panel, scheduled-tasks-panel\<close>

definition powerAction_init :: "id \<Rightarrow> powerAct \<Rightarrow> apiInit" where
  "powerAction_init sid act = api_call POST (''/servers/'' @ sid @ ''/power/'' @ powerName act) NoBody"

definition powerAction_success :: "id \<Rightarrow> effect list" where
  "powerAction_success sid = [Invalidate [''server'', sid], Invalidate [''servers'']]"

datatype backupsMutation =
    CreateBackup string
  | RestoreBackup id
  | DeleteBackup id

fun backupsPanel_init :: "id \<Rightarrow> backupsMutation \<Rightarrow> apiInit" where
  "backupsPanel_init sid (CreateBackup name) = api_call POST (''/servers/'' @ sid @ ''/backups'')
     (JsonBody (optStr ''name'' (orUndefined name)))"
| "backupsPanel_init sid (RestoreBackup i) = api_call POST (''/servers/'' @ sid @ ''/backups/'' @ i @ ''/restore'') NoBody"
| "backupsPanel_init sid (DeleteBackup i) = api_call DELETE (''/servers/'' @ sid @ ''/backups/'' @ i) NoBody"

fun backupsPanel_success :: "id \<Rightarrow> backupsMutation \<Rightarrow> effect list" where
  "backupsPanel_success sid (CreateBackup _) = [ToastSuccess ''Sauvegarde lancee'', SetState ''name'',
     Invalidate [''backups'', sid]]"
| "backupsPanel_success sid (RestoreBackup _) = [ToastSuccess ''Restauration lancee'', Invalidate [''backups'', sid]]"
| "backupsPanel_success sid (DeleteBackup _) = [Invalidate [''backups'', sid]]"

text \<open>Only the creation has a callback for errors.\<close>

fun backupsPanel_error :: "backupsMutation \<Rightarrow> apiError \<Rightarrow> effect option" where
  "backupsPanel_error (CreateBackup _) e = Some (errorEffect ''Erreur'' e)"
| "backupsPanel_error _ e = None"

datatype tasksMutation =
    CreateTask string string string string
  | ToggleTask id bool
  | DeleteTask id

fun tasksPanel_init :: "id \<Rightarrow> tasksMutation \<Rightarrow> apiInit" where
  "tasksPanel_init sid (CreateTask name cronExpr action command) =
     api_call POST (''/servers/'' @ sid @ ''/scheduled-tasks'') (JsonBody ([strField ''name'' name,
       strField ''cronExpr'' cronExpr, strField ''action'' action] @
       (if action = ''COMMAND_SEND'' then [(''payload'', JObj [strField ''command'' command])] else [])))"
| "tasksPanel_init sid (ToggleTask i enabled) = api_call POST (''/servers/'' @ sid @ ''/scheduled-tasks/'' @ i @
     ''/'' @ (if enabled then ''disable'' else ''enable'')) NoBody"
| "tasksPanel_init sid (DeleteTask i) = api_call DELETE (''/servers/'' @ sid @ ''/scheduled-tasks/'' @ i) NoBody"

fun tasksPanel_success :: "id \<Rightarrow> tasksMutation \<Rightarrow> effect list" where
  "tasksPanel_success sid (CreateTask _ _ _ _) = [ToastSuccess ''Tache planifiee creee'', SetState ''name'',
     SetState ''command'', Invalidate [''scheduled-tasks'', sid]]"
| "tasksPanel_success sid _ = [Invalidate [''scheduled-tasks'', sid]]"

subsubsection \<open>mods-panel\<close>

text \<open>Of an archive only the content is read, so its name is not kept.\<close>

datatype modsMutation =
    RemoveMod id
  | InstallMrpack string
  | InstallCurseforgeArchive string

fun modsPanel_init :: "id \<Rightarrow> modsMutation \<Rightarrow> apiInit" where
  "modsPanel_init sid (RemoveMod i) = api_call DELETE (''/servers/'' @ sid @ ''/mods/'' @ i @ ''?targetDir=mods'') NoBody"
| "modsPanel_init sid (InstallMrpack url) = api_call POST (''/servers/'' @ sid @ ''/modpacks/modrinth'')
     (JsonBody [strField ''mrpackUrl'' url])"
| "modsPanel_init sid (InstallCurseforgeArchive archive) =
     api_call POST (''/servers/'' @ sid @ ''/modpacks/curseforge'') (FormBody [FilePart ''archive'' [] archive])"

fun modsPanel_success :: "id \<Rightarrow> modsMutation \<Rightarrow> json option \<Rightarrow> effect list" where
  "modsPanel_success sid (RemoveMod _) _ = [Invalidate [''mods'', sid]]"
| "modsPanel_success sid (InstallMrpack _) res = [ToastSuccess (''Modpack installe ('' @
     (case field ''installed'' res of Some (JNum n) \<Rightarrow> show_int n | _ \<Rightarrow> ''undefined'') @ '' fichiers)''),
     SetState ''mrpackUrl'', Invalidate [''mods'', sid]]"
| "modsPanel_success sid (InstallCurseforgeArchive _) _ = [ToastSuccess ''Modpack installe'', SetState ''file'',
     Invalidate [''mods'', sid]]"

text \<open>Removing a mod has no callback for errors.\<close>

fun modsPanel_error :: "modsMutation \<Rightarrow> apiError \<Rightarrow> effect option" where
  "modsPanel_error (RemoveMod _) e = None"
| "modsPanel_error _ e = Some (errorEffect ''Installation impossible'' e)"

text \<open>A call that needs the answer of another. The first element of an answer, and a field of it:
  \<open>undefined\<close> and \<open>null\<close> have none.\<close>

fun firstOf :: "json option \<Rightarrow> json option" where
  "firstOf (Some (JArr (x # xs))) = Some x"
| "firstOf (Some (JStr (c # cs))) = Some (JStr [c])"
| "firstOf (Some (JObj fs)) = field ''0'' (Some (JObj fs))"
| "firstOf _ = None"

definition optJson :: "string \<Rightarrow> json option \<Rightarrow> (string \<times> json) list" where
  "optJson k v = (case v of None \<Rightarrow> [] | Some j \<Rightarrow> [(k, j)])"

definition thenCall ::
  "'s net \<Rightarrow> apiInit \<Rightarrow> (json option \<Rightarrow> apiError + apiInit) \<Rightarrow> storage \<Rightarrow> 's \<Rightarrow>
   (apiError + json option) \<times> storage \<times> 's"
where
  "thenCall net init next st s = (case panel_request net init True st s of
     (Inl e, st', s') \<Rightarrow> (Inl e, st', s')
   | (Inr res, st', s') \<Rightarrow> (case next res of
       Inl e \<Rightarrow> (Inl e, st', s')
     | Inr init' \<Rightarrow> panel_request net init' True st' s'))"

definition versions_init :: "string \<Rightarrow> apiInit" where
  "versions_init projectId = api_call GET (''/mods/modrinth/'' @ projectId @ ''/versions'') NoBody"

definition installVersion_init :: "id \<Rightarrow> json option \<Rightarrow> apiInit" where
  "installVersion_init sid versionId = api_call POST (''/servers/'' @ sid @ ''/mods/modrinth'')
     (JsonBody (optJson ''versionId'' versionId @ [strField ''targetDir'' ''mods'']))"

definition modrinthInstall ::
  "'s net \<Rightarrow> id \<Rightarrow> string \<Rightarrow> storage \<Rightarrow> 's \<Rightarrow> (apiError + json option) \<times> storage \<times> 's"
where
  "modrinthInstall net sid projectId = thenCall net (versions_init projectId) (\<lambda>versions.
     if \<not> readable versions then Inl ParseError
     else if \<not> truthyJson (firstOf versions) then Inl (ThrownError ''Aucune version disponible'')
     else Inr (installVersion_init sid (field ''id'' (firstOf versions))))"

definition files_init :: "int \<Rightarrow> apiInit" where
  "files_init modId = api_call GET (''/mods/curseforge/'' @ show_int modId @ ''/files'') NoBody"

definition installFile_init :: "id \<Rightarrow> int \<Rightarrow> json option \<Rightarrow> apiInit" where
  "installFile_init sid modId fileId = api_call POST (''/servers/'' @ sid @ ''/mods/curseforge'')
     (JsonBody ((''modId'', JNum modId) # optJson ''fileId'' fileId @ [strField ''targetDir'' ''mods'']))"

definition curseforgeInstall ::
  "'s net \<Rightarrow> id \<Rightarrow> int \<Rightarrow> storage \<Rightarrow> 's \<Rightarrow> (apiError + json option) \<times> storage \<times> 's"
where
  "curseforgeInstall net sid modId = thenCall net (files_init modId) (\<lambda>files.
     let fileId = field ''id'' (firstOf (field ''data'' files)) in
     if \<not> readable files \<or> \<not> readable (field ''data'' files) then Inl ParseError
     else if \<not> truthyJson fileId then Inl (ThrownError ''Aucun fichier disponible'')
     else Inr (installFile_init sid modId fileId))"

definition modInstalled_success :: "id \<Rightarrow> effect list" where
  "modInstalled_success sid = [ToastSuccess ''Mod installe'', Invalidate [''mods'', sid]]"

subsubsection \<open>settings-panel\<close>

definition SUBUSER_PERMISSIONS :: "string list" where
  "SUBUSER_PERMISSIONS = [''files.read'', ''files.write'', ''console.read'', ''console.send'', ''backups.create'']"

text \<open>The variables are in the order of their keys in the object.\<close>

definition environmentToText :: "(string \<times> string) list \<Rightarrow> string" where
  "environmentToText env = joinWith [CHR 0x0A] (map (\<lambda>(k, v). k @ ''='' @ v) env)"

text \<open>The body of the loop over the lines.\<close>

definition readLine :: "string \<Rightarrow> (string \<times> string) list \<Rightarrow> (string \<times> string) list" where
  "readLine line env = (let trimmed = jsTrim line in
     if trimmed = [] \<or> CHR ''='' \<notin> set trimmed then env
     else (case splitOn (CHR ''='') trimmed of
         [] \<Rightarrow> env
       | key # rest \<Rightarrow> AList.update (jsTrim key) (jsTrim (joinWith ''='' rest)) env))"

definition textToEnvironment :: "string \<Rightarrow> (string \<times> string) list" where
  "textToEnvironment text = fold readLine (splitOn (CHR 0x0A) text) []"

record settingsForm =
  gf_name :: string
  gf_description :: string
  gf_dockerImage :: string
  gf_startupCommand :: string
  gf_environmentText :: string

text \<open>The form as it opens, with the fields of the server.\<close>

definition settingsFormOf :: "server \<Rightarrow> settingsForm" where
  "settingsFormOf s = \<lparr>gf_name = s_name s, gf_description = orElse (s_description s) [],
     gf_dockerImage = s_dockerImage s, gf_startupCommand = s_startupCommand s,
     gf_environmentText = environmentToText (s_environment s)\<rparr>"

datatype settingsMutation =
    SuspendServer
  | UnsuspendServer
  | DeleteServer
  | UpdateServer settingsForm
  | ReinstallServer
  | AddAllocation
  | RemoveAllocation id
  | RemoveSubUser id

fun settingsPanel_init :: "id \<Rightarrow> settingsMutation \<Rightarrow> apiInit" where
  "settingsPanel_init sid SuspendServer = api_call POST (''/servers/'' @ sid @ ''/suspend'')
     (JsonBody [strField ''reason'' ''Suspendu depuis le panel''])"
| "settingsPanel_init sid UnsuspendServer = api_call POST (''/servers/'' @ sid @ ''/unsuspend'') NoBody"
| "settingsPanel_init sid DeleteServer = api_call DELETE (''/servers/'' @ sid) NoBody"
| "settingsPanel_init sid (UpdateServer f) = api_call PATCH (''/servers/'' @ sid) (JsonBody (
     strField ''name'' (gf_name f) # optStr ''description'' (orUndefined (gf_description f)) @
     [strField ''dockerImage'' (gf_dockerImage f), strField ''startupCommand'' (gf_startupCommand f),
      (''environment'', strRecord (textToEnvironment (gf_environmentText f)))]))"
| "settingsPanel_init sid ReinstallServer = api_call POST (''/servers/'' @ sid @ ''/reinstall'') NoBody"
| "settingsPanel_init sid AddAllocation = api_call POST (''/servers/'' @ sid @ ''/allocations'') NoBody"
| "settingsPanel_init sid (RemoveAllocation i) = api_call DELETE (''/servers/'' @ sid @ ''/allocations/'' @ i) NoBody"
| "settingsPanel_init sid (RemoveSubUser u) = api_call DELETE (''/servers/'' @ sid @ ''/subusers/'' @ u) NoBody"

fun settingsPanel_success :: "id \<Rightarrow> settingsMutation \<Rightarrow> effect list" where
  "settingsPanel_success sid SuspendServer = [ToastSuccess ''Serveur suspendu'', Invalidate [''server'', sid]]"
| "settingsPanel_success sid UnsuspendServer = [ToastSuccess ''Serveur reactive'', Invalidate [''server'', sid]]"
| "settingsPanel_success sid DeleteServer = [ToastSuccess ''Serveur supprime'', GoTo ''/servers'']"
| "settingsPanel_success sid (UpdateServer _) = [ToastSuccess ''Serveur mis a jour'', Invalidate [''server'', sid]]"
| "settingsPanel_success sid ReinstallServer = [ToastSuccess ''Reinstallation lancee'']"
| "settingsPanel_success sid AddAllocation = [ToastSuccess ''Allocation ajoutee'', Invalidate [''server'', sid]]"
| "settingsPanel_success sid (RemoveAllocation _) = [ToastSuccess ''Allocation supprimee'', Invalidate [''server'', sid]]"
| "settingsPanel_success sid (RemoveSubUser _) = [ToastSuccess ''Sous-utilisateur retire'', Invalidate [''server'', sid]]"

text \<open>Suspension is offered to those who may suspend.\<close>

definition canSuspend :: "json option \<Rightarrow> bool" where
  "canSuspend user \<longleftrightarrow> hasPermission user ''servers.suspend''"

definition lookup_init :: "string \<Rightarrow> apiInit" where
  "lookup_init email = api_call GET (''/users/lookup?email='' @ encodeURIComponent email) NoBody"

definition addSubUser_init :: "id \<Rightarrow> json option \<Rightarrow> string list \<Rightarrow> apiInit" where
  "addSubUser_init sid userId permissions = api_call POST (''/servers/'' @ sid @ ''/subusers'')
     (JsonBody (optJson ''userId'' userId @ [(''permissions'', JArr (map JStr permissions))]))"

definition subUserAdd ::
  "'s net \<Rightarrow> id \<Rightarrow> string \<Rightarrow> string list \<Rightarrow> storage \<Rightarrow> 's \<Rightarrow> (apiError + json option) \<times> storage \<times> 's"
where
  "subUserAdd net sid email permissions = thenCall net (lookup_init email) (\<lambda>user.
     if \<not> readable user then Inl ParseError else Inr (addSubUser_init sid (field ''id'' user) permissions))"

definition subUserAdd_success :: "id \<Rightarrow> effect list" where
  "subUserAdd_success sid = [ToastSuccess ''Sous-utilisateur ajoute'', SetState ''email'', Invalidate [''server'', sid]]"

subsubsection \<open>file-manager-panel\<close>

definition joinPath :: "string \<Rightarrow> string \<Rightarrow> string" where
  "joinPath dir name = (if dir \<noteq> [] then dir @ ''/'' @ name else name)"

definition breadcrumbs :: "string \<Rightarrow> string list" where
  "breadcrumbs path = (if path \<noteq> [] then splitOn (CHR ''/'') path else [])"

text \<open>The path a click on the \<open>i\<close>-th breadcrumb leads to.\<close>

definition breadcrumbPath :: "string \<Rightarrow> nat \<Rightarrow> string" where
  "breadcrumbPath path i = joinWith ''/'' (take (Suc i) (breadcrumbs path))"

datatype filesMutation =
    MakeFolder string
  | DeleteEntry string
  | RenameEntry string string
  | UploadFile string string
  | WriteFile string string

fun filesPanel_init :: "id \<Rightarrow> string \<Rightarrow> filesMutation \<Rightarrow> apiInit" where
  "filesPanel_init sid path (MakeFolder name) = api_call POST (''/servers/'' @ sid @ ''/files/mkdir'')
     (JsonBody [strField ''path'' (joinPath path name)])"
| "filesPanel_init sid path (DeleteEntry name) = api_call POST (''/servers/'' @ sid @ ''/files/delete'')
     (JsonBody [strField ''path'' (joinPath path name)])"
| "filesPanel_init sid path (RenameEntry src dst) = api_call POST (''/servers/'' @ sid @ ''/files/rename'')
     (JsonBody [strField ''fromPath'' src, strField ''toPath'' dst])"
| "filesPanel_init sid path (UploadFile name content) = api_call POST (''/servers/'' @ sid @ ''/files/upload'')
     (FormBody [FilePart ''file'' name content, FieldPart ''path'' path])"
| "filesPanel_init sid path (WriteFile filePath content) = api_call POST (''/servers/'' @ sid @ ''/files'')
     (JsonBody [strField ''path'' filePath, strField ''content'' content])"

fun filesPanel_success :: "id \<Rightarrow> string \<Rightarrow> filesMutation \<Rightarrow> effect list" where
  "filesPanel_success sid path (MakeFolder _) = [ToastSuccess ''Dossier cree'', SetState ''newFolderOpen'',
     SetState ''newFolderName'', Invalidate [''files'', sid, path]]"
| "filesPanel_success sid path (UploadFile _ _) = [ToastSuccess ''Fichier envoye'', Invalidate [''files'', sid, path]]"
| "filesPanel_success sid path (WriteFile _ _) = [ToastSuccess ''Fichier enregistre'', SetState ''editing'',
     Invalidate [''files'', sid, path]]"
| "filesPanel_success sid path _ = [Invalidate [''files'', sid, path]]"

fun filesPanel_error :: "filesMutation \<Rightarrow> apiError \<Rightarrow> effect" where
  "filesPanel_error (UploadFile _ _) e = errorEffect (''Erreur d'' @ [CHR 0x27] @ ''envoi'') e"
| "filesPanel_error _ e = errorEffect ''Erreur'' e"

text \<open>The answer to the prompt for a new name, the form for a new folder, the editor.\<close>

definition renameAnswer :: "string \<Rightarrow> string \<Rightarrow> string option \<Rightarrow> filesMutation option" where
  "renameAnswer path name next = (if truthy next \<and> next \<noteq> Some name
     then Some (RenameEntry (joinPath path name) (joinPath path (orElse next []))) else None)"

definition submitFolder :: "string \<Rightarrow> filesMutation option" where
  "submitFolder newFolderName = (if newFolderName \<noteq> [] then Some (MakeFolder newFolderName) else None)"

record editedFile =
  ed_path :: string
  ed_content :: string
  ed_isNew :: bool

definition saveEdited :: "string \<Rightarrow> editedFile \<Rightarrow> filesMutation option" where
  "saveEdited path f = (let filePath = if ed_isNew f then joinPath path (ed_path f) else ed_path f in
     if filePath = [] then None else Some (WriteFile filePath (ed_content f)))"

text \<open>The content of a file is read without the client of the API, with the header \<open>Bearer null\<close>
  when there is no token, and without a refresh. \<open>textOf\<close> is the text of an answer.\<close>

definition contentRequest :: "storage \<Rightarrow> id \<Rightarrow> string \<Rightarrow> browserRequest" where
  "contentRequest st sid filePath = \<lparr>
     bq_init = api_call GET (''/servers/'' @ sid @ ''/files/content?path='' @ encodeURIComponent filePath) NoBody,
     bq_token = Some (orElse (ls_access st) ''null''), bq_json = False\<rparr>"

definition filesPanel_open ::
  "'s net \<Rightarrow> (bodyText \<Rightarrow> string) \<Rightarrow> storage \<Rightarrow> id \<Rightarrow> string \<Rightarrow> string \<Rightarrow> 's \<Rightarrow> (effect + editedFile) \<times> 's"
where
  "filesPanel_open net textOf st sid path name s = (let filePath = joinPath path name in
     case net (contentRequest st sid filePath) s of
       (Inl m, s') \<Rightarrow> (Inl (ToastError m), s')
     | (Inr res, s') \<Rightarrow>
         if \<not> fr_ok res then (Inl (ToastError ''Lecture impossible (fichier binaire ou trop volumineux ?)''), s')
         else (Inr \<lparr>ed_path = filePath, ed_content = textOf (fr_body res), ed_isNew = False\<rparr>, s'))"

datatype downloadOutcome = DownloadThrows string | DownloadToast effect | Saved string bodyText

definition filesPanel_download ::
  "'s net \<Rightarrow> storage \<Rightarrow> id \<Rightarrow> string \<Rightarrow> string \<Rightarrow> 's \<Rightarrow> downloadOutcome \<times> 's"
where
  "filesPanel_download net st sid path name s = (case net (contentRequest st sid (joinPath path name)) s of
       (Inl m, s') \<Rightarrow> (DownloadThrows m, s')
     | (Inr res, s') \<Rightarrow>
         if \<not> fr_ok res then (DownloadToast (ToastError ''Telechargement impossible''), s')
         else (Saved name (fr_body res), s'))"

end
