(* ===== verification/Dashboard_Calls.thy ===== *)
theory Dashboard_Calls
  imports Panels
begin

text \<open>
  What the pages of the dashboard ask of the backend: their calls, the route each stands for,
  and that the request of a call is the request of that route.
\<close>

subsection \<open>The calls of the pages\<close>

datatype dashCall =
    Query dashQuery
  | UsersPage usersMutation
  | RolesPage rolesMutation
  | NodesPage nodesMutation
  | TemplatesPage templateForm
  | ItemsPage itemsMutation
  | AccountPage accountMutation
  | SupportPage supportMutation
  | NewServer serverForm
  | MarketplaceInstall id string string
  | Power id powerAct
  | BackupsPanel id backupsMutation
  | TasksPanel id tasksMutation
  | ModsPanel id modsMutation
  | ModrinthVersionsOf string
  | InstallModrinthVersion id string
  | CurseforgeFilesOf int
  | InstallCurseforgeFile id int int
  | SettingsPanel id settingsMutation
  | LookupUser string
  | AddSubUser id id "string list"
  | FilesPanel id string filesMutation
  | ReadContent id string

fun call_init :: "dashCall \<Rightarrow> apiInit" where
  "call_init (Query q) = query_init q"
| "call_init (UsersPage m) = usersPage_init m"
| "call_init (RolesPage m) = rolesPage_init m"
| "call_init (NodesPage m) = nodesPage_init m"
| "call_init (TemplatesPage f) = createTemplate_init f"
| "call_init (ItemsPage m) = itemsPage_init m"
| "call_init (AccountPage m) = accountPage_init m"
| "call_init (SupportPage m) = supportPage_init m"
| "call_init (NewServer f) = createServer_init f"
| "call_init (MarketplaceInstall sid slug dir) = installItem_init sid slug dir"
| "call_init (Power sid a) = powerAction_init sid a"
| "call_init (BackupsPanel sid m) = backupsPanel_init sid m"
| "call_init (TasksPanel sid m) = tasksPanel_init sid m"
| "call_init (ModsPanel sid m) = modsPanel_init sid m"
| "call_init (ModrinthVersionsOf p) = versions_init p"
| "call_init (InstallModrinthVersion sid v) = installVersion_init sid (Some (JStr v))"
| "call_init (CurseforgeFilesOf m) = files_init m"
| "call_init (InstallCurseforgeFile sid m f) = installFile_init sid m (Some (JNum f))"
| "call_init (SettingsPanel sid m) = settingsPanel_init sid m"
| "call_init (LookupUser email) = lookup_init email"
| "call_init (AddSubUser sid u ps) = addSubUser_init sid (Some (JStr u)) ps"
| "call_init (FilesPanel sid path m) = filesPanel_init sid path m"
| "call_init (ReadContent sid path) = bq_init (contentRequest \<lparr>ls_access = None, ls_refresh = None\<rparr> sid path)"

subsection \<open>Their routes\<close>

fun query_route :: "dashQuery \<Rightarrow> route" where
  "query_route QAdminUsers = UsersR (UsersList None None)"
| "query_route QRoles = RolesR RolesList"
| "query_route QRolesFull = RolesR RolesList"
| "query_route QPermissions = RolesR RolesListPermissions"
| "query_route QAdminNodes = NodesR NodesList"
| "query_route QAdminTemplates = TemplatesR TemplatesList"
| "query_route QAdminItems = MarketplaceR (MarketplaceList None)"
| "query_route QMonitoring = MonitoringR MonitoringSummary"
| "query_route (QAuditLogs skip) = AuditR (AuditList (Some (show_nat skip)) (Some (show_nat PAGE_SIZE)) None None)"
| "query_route QApiKeys = ApiKeysR ApiKeysList"
| "query_route QInvoices = BillingR BillingInvoices"
| "query_route QProducts = BillingR BillingProducts"
| "query_route QTickets = SupportR SupportList"
| "query_route (QTicket i) = SupportR (SupportGet i)"
| "query_route QServers = ServersR ServersList"
| "query_route QServerTemplates = TemplatesR TemplatesList"
| "query_route QItems = MarketplaceR (MarketplaceList None)"
| "query_route (QServer i) = ServersR (ServersGet i)"
| "query_route (QBackups s) = BackupsR (BackupsList s)"
| "query_route (QTasks s) = TasksR (TasksList s)"
| "query_route (QMods s) = ModsR (ModsList s)"
| "query_route (QModrinthSearch q) = ModsR (ModrinthSearch (Some q) None None)"
| "query_route (QCurseforgeSearch q) = ModsR (CurseforgeSearch (Some q) None None)"
| "query_route (QFiles s path) = FilesR (FilesList s (Some path))"

fun users_call_route :: "usersMutation \<Rightarrow> usersRoute" where
  "users_call_route (SetRole i r) = UsersUpdate i \<lparr>uu_username = None, uu_roleId = Some r\<rparr>"
| "users_call_route (SuspendUser i) = UsersSuspend i ''Suspendu depuis le panel admin''"
| "users_call_route (BanUser i) = UsersBan i ''Banni depuis le panel admin''"
| "users_call_route (ReactivateUser i) = UsersReactivate i"
| "users_call_route (CreateUser e u p r) = UsersCreate \<lparr>cu_email = e, cu_username = u, cu_password = p,
     cu_roleId = orUndefined r\<rparr>"
| "users_call_route (DeleteUser i) = UsersDelete i"
| "users_call_route (ResetPassword i _ p) = UsersResetPassword i p"

fun roles_call_route :: "rolesMutation \<Rightarrow> rolesRoute" where
  "roles_call_route (CreateRole n d) = RolesCreate n (orUndefined d)"
| "roles_call_route (DeleteRole i) = RolesDelete i"
| "roles_call_route (SavePermissions i _ ps) = RolesSetPermissions i ps"

fun nodes_call_route :: "nodesMutation \<Rightarrow> nodesRoute" where
  "nodes_call_route (CreateNode f) = NodesCreate \<lparr>cn_name = nf_name f, cn_fqdn = nf_fqdn f, cn_region = None,
     cn_grpcHost = nf_grpcHost f, cn_grpcPort = Some (nf_grpcPort f), cn_cpuCores = nf_cpuCores f,
     cn_memoryMb = nf_memoryMb f, cn_diskMb = nf_diskMb f, cn_dockerNetworkSubnet = nf_dockerNetworkSubnet f\<rparr>"
| "nodes_call_route (CheckNode i) = NodesHealth i"
| "nodes_call_route (ToggleMaintenance i b) = (if b then NodesDisableMaintenance i else NodesEnableMaintenance i)"
| "nodes_call_route (DeleteNode i) = NodesDelete i"

definition template_call_route :: "templateForm \<Rightarrow> templatesRoute" where
  "template_call_route f = TemplatesCreate \<lparr>tb_id = None, tb_name = Some (tf_name f),
     tb_gameType = Some (tf_gameType f), tb_description = orUndefined (tf_description f),
     tb_dockerImage = Some (tf_dockerImage f), tb_startupCommand = Some (tf_startupCommand f),
     tb_stopCommand = Some (tf_stopCommand f), tb_installScript = None,
     tb_minMemoryMb = Some (tf_minMemoryMb f), tb_isPublic = None\<rparr>"

fun items_call_route :: "itemsMutation \<Rightarrow> marketplaceRoute" where
  "items_call_route (PublishItem f) = MarketplacePublish \<lparr>pb_id = None, pb_type = Some (if_type f),
     pb_name = Some (if_name f), pb_slug = Some (if_slug f), pb_description = orUndefined (if_description f),
     pb_authorName = Some (if_authorName f), pb_priceCents = Some (if_priceCents f),
     pb_version = Some (if_version f), pb_downloadUrl = orUndefined (if_downloadUrl f),
     pb_repoUrl = orUndefined (if_repoUrl f), pb_verified = None, pb_downloads = None\<rparr>"
| "items_call_route (VerifyItem i) = MarketplaceVerify i"

fun account_call_route :: "accountMutation \<Rightarrow> route" where
  "account_call_route (ChangePassword a b) = AuthR (AuthChangePassword a b)"
| "account_call_route GenerateTwoFactor = AuthR AuthGenerateTwoFactor"
| "account_call_route (EnableTwoFactor c) = AuthR (AuthEnableTwoFactor c)"
| "account_call_route (DisableTwoFactor c) = AuthR (AuthDisableTwoFactor c)"
| "account_call_route (CreateKey n ss) = ApiKeysR (ApiKeysCreate n (Some ss) None)"
| "account_call_route (RevokeKey i) = ApiKeysR (ApiKeysRevoke i)"

fun support_call_route :: "supportMutation \<Rightarrow> supportRoute" where
  "support_call_route (CreateTicket s m) = SupportCreate s m"
| "support_call_route (ReplyTicket i r) = SupportReply i r"
| "support_call_route (SetTicketStatus i s) = SupportSetStatus i s"

fun backups_call_route :: "id \<Rightarrow> backupsMutation \<Rightarrow> backupsRoute" where
  "backups_call_route sid (CreateBackup n) = BackupsCreate sid (orUndefined n)"
| "backups_call_route sid (RestoreBackup i) = BackupsRestore sid i"
| "backups_call_route sid (DeleteBackup i) = BackupsDelete sid i"

fun tasks_call_route :: "id \<Rightarrow> tasksMutation \<Rightarrow> tasksRoute" where
  "tasks_call_route sid (CreateTask n cron action c) = TasksCreate sid n cron action
     (if action = ''COMMAND_SEND'' then Some [(''command'', c)] else None)"
| "tasks_call_route sid (ToggleTask i b) = (if b then TasksDisable sid i else TasksEnable sid i)"
| "tasks_call_route sid (DeleteTask i) = TasksDelete sid i"

fun mods_call_route :: "id \<Rightarrow> modsMutation \<Rightarrow> modsRoute" where
  "mods_call_route sid (RemoveMod i) = ModsUninstall sid i (Some ''mods'')"
| "mods_call_route sid (InstallMrpack url) = ModpackModrinth sid url"
| "mods_call_route sid (InstallCurseforgeArchive a) = ModpackCurseforge sid a"

fun settings_call_route :: "id \<Rightarrow> settingsMutation \<Rightarrow> serversRoute" where
  "settings_call_route sid SuspendServer = ServersSuspend sid ''Suspendu depuis le panel''"
| "settings_call_route sid UnsuspendServer = ServersUnsuspend sid"
| "settings_call_route sid DeleteServer = ServersDelete sid"
| "settings_call_route sid (UpdateServer f) = ServersUpdate sid \<lparr>us_name = Some (gf_name f),
     us_description = orUndefined (gf_description f), us_dockerImage = Some (gf_dockerImage f),
     us_startupCommand = Some (gf_startupCommand f),
     us_environment = Some (textToEnvironment (gf_environmentText f))\<rparr>"
| "settings_call_route sid ReinstallServer = ServersReinstall sid"
| "settings_call_route sid AddAllocation = ServersAddAllocation sid"
| "settings_call_route sid (RemoveAllocation i) = ServersRemoveAllocation sid i"
| "settings_call_route sid (RemoveSubUser u) = ServersRemoveSubUser sid u"

fun files_call_route :: "id \<Rightarrow> string \<Rightarrow> filesMutation \<Rightarrow> filesRoute" where
  "files_call_route sid path (MakeFolder n) = FilesMkdir sid (joinPath path n)"
| "files_call_route sid path (DeleteEntry n) = FilesDelete sid (joinPath path n)"
| "files_call_route sid path (RenameEntry a b) = FilesRename sid a b"
| "files_call_route sid path (UploadFile n c) = FilesUpload sid path n c"
| "files_call_route sid path (WriteFile p c) = FilesWrite sid p (Some c)"

fun call_route :: "dashCall \<Rightarrow> route" where
  "call_route (Query q) = query_route q"
| "call_route (UsersPage m) = UsersR (users_call_route m)"
| "call_route (RolesPage m) = RolesR (roles_call_route m)"
| "call_route (NodesPage m) = NodesR (nodes_call_route m)"
| "call_route (TemplatesPage f) = TemplatesR (template_call_route f)"
| "call_route (ItemsPage m) = MarketplaceR (items_call_route m)"
| "call_route (AccountPage m) = account_call_route m"
| "call_route (SupportPage m) = SupportR (support_call_route m)"
| "call_route (NewServer f) = ServersR (ServersCreate \<lparr>cs_name = sf_name f, cs_description = None,
     cs_templateId = sf_templateId f, cs_cpuLimitPct = sf_cpuLimitPct f,
     cs_memoryLimitMb = sf_memoryLimitMb f, cs_diskLimitMb = sf_diskLimitMb f,
     cs_environment = None, cs_ownerId = None\<rparr>)"
| "call_route (MarketplaceInstall sid slug dir) = ModsR (ModsInstallMarketplace sid slug
     (Some (if dir = [] then ''plugins'' else dir)))"
| "call_route (Power sid a) = ServersR (ServersPower sid a)"
| "call_route (BackupsPanel sid m) = BackupsR (backups_call_route sid m)"
| "call_route (TasksPanel sid m) = TasksR (tasks_call_route sid m)"
| "call_route (ModsPanel sid m) = ModsR (mods_call_route sid m)"
| "call_route (ModrinthVersionsOf p) = ModsR (ModrinthVersions p None None)"
| "call_route (InstallModrinthVersion sid v) = ModsR (ModsInstallModrinth sid v (Some ''mods''))"
| "call_route (CurseforgeFilesOf m) = ModsR (CurseforgeFiles (show_int m))"
| "call_route (InstallCurseforgeFile sid m f) = ModsR (ModsInstallCurseforge sid m f (Some ''mods''))"
| "call_route (SettingsPanel sid m) = ServersR (settings_call_route sid m)"
| "call_route (LookupUser email) = UsersR (UsersLookup email)"
| "call_route (AddSubUser sid u ps) = ServersR (ServersAddSubUser sid u ps)"
| "call_route (FilesPanel sid path m) = FilesR (files_call_route sid path m)"
| "call_route (ReadContent sid path) = FilesR (FilesRead sid path)"

definition requestOfInit :: "apiInit \<Rightarrow> apiRequest" where
  "requestOfInit i = \<lparr>ar_method = in_method i, ar_target = in_path i, ar_body = in_body i\<rparr>"


subsection \<open>The request of a call is that of its route\<close>

lemma digit_unreserved:
  assumes "is_digit c" shows "encodeChar c = [c]"
proof -
  have "\<forall>n \<in> set [48..<58]. char_of n \<in> set uriUnreserved" by code_simp
  moreover have "(of_char c :: nat) \<in> set [48..<58]"
    using assms by (simp only: is_digit_def set_upt atLeastLessThan_iff) arith
  ultimately have "char_of (of_char c :: nat) \<in> set uriUnreserved" by blast
  then show ?thesis by (simp add: encodeChar_def)
qed

lemma encode_digits: "list_all is_digit s \<Longrightarrow> encodeURIComponent s = s"
  by (induction s) (simp_all add: encodeURIComponent_def digit_unreserved)

lemma listing_paths:
  "pathOf (MonitoringR MonitoringSummary) = [''monitoring'', ''summary'']"
  "methodOf (MonitoringR MonitoringSummary) = GET"
  "pathOf (AuditR (AuditList a b c d)) = [''audit-logs'']" "methodOf (AuditR (AuditList a b c d)) = GET"
  by code_simp+

lemmas request_eval = sameRequest_def requestOfInit_def requestOf_def api_call_def targetOf_def route_paths listing_paths
  queryText_def optParam1_def strField_def optStr_def optNum_def optBool_def optRecord_def optJson_def strRecord_def

lemma query_request: "sameRequest (requestOfInit (query_init q)) (requestOf (query_route q))"
  by (cases q) (simp_all add: request_eval query_init_def encode_digits show_nat_digits)

lemma users_request: "sameRequest (requestOfInit (usersPage_init m)) (requestOf (UsersR (users_call_route m)))"
  by (cases m) (auto simp: request_eval split: option.splits)

lemma roles_request: "sameRequest (requestOfInit (rolesPage_init m)) (requestOf (RolesR (roles_call_route m)))"
  by (cases m) (auto simp: request_eval split: option.splits)

lemma nodes_request: "sameRequest (requestOfInit (nodesPage_init m)) (requestOf (NodesR (nodes_call_route m)))"
  by (cases m) (auto simp: request_eval split: option.splits)

lemma template_request:
  "sameRequest (requestOfInit (createTemplate_init f)) (requestOf (TemplatesR (template_call_route f)))"
  by (auto simp: request_eval createTemplate_init_def template_call_route_def split: option.splits)

lemma items_request: "sameRequest (requestOfInit (itemsPage_init m)) (requestOf (MarketplaceR (items_call_route m)))"
  by (cases m) (auto simp: request_eval split: option.splits)

lemma account_request: "sameRequest (requestOfInit (accountPage_init m)) (requestOf (account_call_route m))"
  by (cases m) (auto simp: request_eval split: option.splits)

lemma support_request: "sameRequest (requestOfInit (supportPage_init m)) (requestOf (SupportR (support_call_route m)))"
  by (cases m) (auto simp: request_eval split: option.splits)

lemma backups_request:
  "sameRequest (requestOfInit (backupsPanel_init sid m)) (requestOf (BackupsR (backups_call_route sid m)))"
  by (cases m) (auto simp: request_eval split: option.splits)

lemma tasks_request: "sameRequest (requestOfInit (tasksPanel_init sid m)) (requestOf (TasksR (tasks_call_route sid m)))"
  by (cases m) (auto simp: request_eval split: option.splits)

lemma mods_request: "sameRequest (requestOfInit (modsPanel_init sid m)) (requestOf (ModsR (mods_call_route sid m)))"
  by (cases m) (auto simp: request_eval encodeURIComponent_def encodeChar_def uriUnreserved_def split: option.splits)

lemma settings_request:
  "sameRequest (requestOfInit (settingsPanel_init sid m)) (requestOf (ServersR (settings_call_route sid m)))"
  by (cases m) (auto simp: request_eval split: option.splits)

lemma files_request:
  "sameRequest (requestOfInit (filesPanel_init sid path m)) (requestOf (FilesR (files_call_route sid path m)))"
  by (cases m) (auto simp: request_eval split: option.splits)

lemma power_request: "sameRequest (requestOfInit (powerAction_init sid a)) (requestOf (ServersR (ServersPower sid a)))"
  by (cases a) (auto simp: request_eval powerAction_init_def)

lemma call_request: "sameRequest (requestOfInit (call_init c)) (requestOf (call_route c))"
  by (cases c) (simp_all add: query_request users_request roles_request nodes_request template_request
      items_request account_request support_request backups_request tasks_request mods_request
      settings_request files_request power_request,
    auto simp: request_eval createServer_init_def installItem_init_def versions_init_def
      installVersion_init_def files_init_def installFile_init_def lookup_init_def addSubUser_init_def
      contentRequest_def)

end
