(* ===== verification/Pages.thy ===== *)
theory Pages
  imports Dashboard_Calls
begin

text \<open>
  Which calls the pages of the dashboard make or offer, page by page and panel by panel: the
  queries a page opens with, under their condition \<open>enabled\<close>, and the mutations behind its buttons,
  under the condition it renders them with; at which path each page is; and the paths the user is
  given links to.
\<close>

subsection \<open>The administration\<close>

text \<open>These pages look at no role: they render the same for every user of the panel.\<close>

definition adminUsers_calls :: "json option \<Rightarrow> dashCall \<Rightarrow> bool" where
  "adminUsers_calls user c = (case c of
     Query q \<Rightarrow> q \<in> {QAdminUsers, QRoles} | UsersPage m \<Rightarrow> True | _ \<Rightarrow> False)"

definition adminRoles_calls :: "json option \<Rightarrow> dashCall \<Rightarrow> bool" where
  "adminRoles_calls user c = (case c of
     Query q \<Rightarrow> q \<in> {QRolesFull, QPermissions} | RolesPage m \<Rightarrow> True | _ \<Rightarrow> False)"

definition adminNodes_calls :: "json option \<Rightarrow> dashCall \<Rightarrow> bool" where
  "adminNodes_calls user c = (case c of Query q \<Rightarrow> q = QAdminNodes | NodesPage m \<Rightarrow> True | _ \<Rightarrow> False)"

definition adminTemplates_calls :: "json option \<Rightarrow> dashCall \<Rightarrow> bool" where
  "adminTemplates_calls user c = (case c of
     Query q \<Rightarrow> q = QAdminTemplates | TemplatesPage f \<Rightarrow> True | _ \<Rightarrow> False)"

definition adminItems_calls :: "json option \<Rightarrow> dashCall \<Rightarrow> bool" where
  "adminItems_calls user c = (case c of Query q \<Rightarrow> q = QAdminItems | ItemsPage m \<Rightarrow> True | _ \<Rightarrow> False)"

definition adminMonitoring_calls :: "json option \<Rightarrow> dashCall \<Rightarrow> bool" where
  "adminMonitoring_calls user c \<longleftrightarrow> c = Query QMonitoring"

definition adminAudit_calls :: "json option \<Rightarrow> dashCall \<Rightarrow> bool" where
  "adminAudit_calls user c = (case c of Query (QAuditLogs skip) \<Rightarrow> True | _ \<Rightarrow> False)"

subsection \<open>The pages of every user\<close>

definition account_calls :: "json option \<Rightarrow> dashCall \<Rightarrow> bool" where
  "account_calls user c = (case c of
     Query q \<Rightarrow> q \<in> {QApiKeys, QPermissions} \<and> query_enabled user q
   | AccountPage m \<Rightarrow> True | _ \<Rightarrow> False)"

definition billing_calls :: "json option \<Rightarrow> dashCall \<Rightarrow> bool" where
  "billing_calls user c \<longleftrightarrow> c \<in> {Query QInvoices, Query QProducts}"

definition support_calls :: "json option \<Rightarrow> dashCall \<Rightarrow> bool" where
  "support_calls user c = (case c of
     Query q \<Rightarrow> q = QTickets | SupportPage (CreateTicket s m) \<Rightarrow> True | _ \<Rightarrow> False)"

definition ticket_calls :: "id \<Rightarrow> json option \<Rightarrow> dashCall \<Rightarrow> bool" where
  "ticket_calls i user c = (case c of
     Query q \<Rightarrow> q = QTicket i
   | SupportPage (ReplyTicket j r) \<Rightarrow> j = i
   | SupportPage (SetTicketStatus j s) \<Rightarrow> j = i \<and> isStaff user
   | _ \<Rightarrow> False)"

text \<open>Of the market place, the servers are read while the dialog of an item is open, for the choice of
  the server it goes to.\<close>

definition marketplace_calls :: "json option \<Rightarrow> dashCall \<Rightarrow> bool" where
  "marketplace_calls user c = (case c of
     Query q \<Rightarrow> q \<in> {QItems, QServers} | MarketplaceInstall sid slug dir \<Rightarrow> True | _ \<Rightarrow> False)"

definition servers_calls :: "json option \<Rightarrow> dashCall \<Rightarrow> bool" where
  "servers_calls user c = (case c of
     Query q \<Rightarrow> q \<in> {QServers, QServerTemplates} | NewServer f \<Rightarrow> True | _ \<Rightarrow> False)"

subsection \<open>The page of a server\<close>

definition powerActions_calls :: "id \<Rightarrow> dashCall \<Rightarrow> bool" where
  "powerActions_calls sid c = (case c of Power s a \<Rightarrow> s = sid | _ \<Rightarrow> False)"

definition fileManager_calls :: "id \<Rightarrow> dashCall \<Rightarrow> bool" where
  "fileManager_calls sid c = (case c of
     Query (QFiles s path) \<Rightarrow> s = sid | FilesPanel s path m \<Rightarrow> s = sid | ReadContent s path \<Rightarrow> s = sid | _ \<Rightarrow> False)"

definition backups_calls :: "id \<Rightarrow> dashCall \<Rightarrow> bool" where
  "backups_calls sid c = (case c of Query q \<Rightarrow> q = QBackups sid | BackupsPanel s m \<Rightarrow> s = sid | _ \<Rightarrow> False)"

definition mods_calls :: "id \<Rightarrow> json option \<Rightarrow> dashCall \<Rightarrow> bool" where
  "mods_calls sid user c = (case c of
     Query (QMods s) \<Rightarrow> s = sid
   | Query (QModrinthSearch text) \<Rightarrow> query_enabled user (QModrinthSearch text)
   | Query (QCurseforgeSearch text) \<Rightarrow> query_enabled user (QCurseforgeSearch text)
   | ModsPanel s m \<Rightarrow> s = sid
   | ModrinthVersionsOf p \<Rightarrow> True | InstallModrinthVersion s v \<Rightarrow> s = sid
   | CurseforgeFilesOf m \<Rightarrow> True | InstallCurseforgeFile s m f \<Rightarrow> s = sid
   | _ \<Rightarrow> False)"

definition tasks_calls :: "id \<Rightarrow> dashCall \<Rightarrow> bool" where
  "tasks_calls sid c = (case c of Query q \<Rightarrow> q = QTasks sid | TasksPanel s m \<Rightarrow> s = sid | _ \<Rightarrow> False)"

text \<open>Suspending is offered for a server that is not suspended, reactivating for one that is.\<close>

definition settings_calls :: "id \<Rightarrow> bool \<Rightarrow> json option \<Rightarrow> dashCall \<Rightarrow> bool" where
  "settings_calls sid suspended user c = (case c of
     SettingsPanel s m \<Rightarrow> s = sid \<and>
       (m = SuspendServer \<longrightarrow> canSuspend user \<and> \<not> suspended) \<and>
       (m = UnsuspendServer \<longrightarrow> canSuspend user \<and> suspended)
   | LookupUser email \<Rightarrow> True | AddSubUser s u ps \<Rightarrow> s = sid | _ \<Rightarrow> False)"

definition server_calls :: "id \<Rightarrow> bool \<Rightarrow> json option \<Rightarrow> dashCall \<Rightarrow> bool" where
  "server_calls sid suspended user c \<longleftrightarrow> c = Query (QServer sid) \<or> powerActions_calls sid c \<or>
     fileManager_calls sid c \<or> backups_calls sid c \<or> mods_calls sid user c \<or> tasks_calls sid c \<or>
     settings_calls sid suspended user c"

subsection \<open>Paths\<close>

text \<open>The directories of the application give the paths of the pages.\<close>

inductive page :: "string \<Rightarrow> (json option \<Rightarrow> dashCall \<Rightarrow> bool) \<Rightarrow> bool" where
  "page ''/admin/users'' adminUsers_calls"
| "page ''/admin/roles'' adminRoles_calls"
| "page ''/admin/nodes'' adminNodes_calls"
| "page ''/admin/templates'' adminTemplates_calls"
| "page ''/admin/marketplace'' adminItems_calls"
| "page ''/admin/monitoring'' adminMonitoring_calls"
| "page ''/admin/audit-logs'' adminAudit_calls"
| "page ''/account'' account_calls"
| "page ''/billing'' billing_calls"
| "page ''/support'' support_calls"
| "page (''/support/'' @ i) (ticket_calls i)"
| "page ''/marketplace'' marketplace_calls"
| "page ''/servers'' servers_calls"
| "page (''/servers/'' @ sid) (server_calls sid suspended)"

text \<open>The top bar links to the account, the sidebar to its items, and their pages to those below them.\<close>

definition topbarLinks :: "string list" where
  "topbarLinks = [''/account'']"

definition linked :: "json option \<Rightarrow> string \<Rightarrow> bool" where
  "linked user pathname \<longleftrightarrow> pathname \<in> set topbarLinks \<or>
     list_ex (navActive pathname) (panelSidebar user)"

end
