(* ===== verification/Dashboard_Properties.thy ===== *)
theory Dashboard_Properties
  imports Pages Session_Properties Seed
begin

text \<open>
  What the dashboard, the backend and the seed give together: the calls of the pages reach their
  handlers, the calls a page offers pass the guard, an unchanged settings form changes nothing,
  all audit entries can be read; and the cache, the console and the socket.
\<close>

subsection \<open>Every call reaches its handler\<close>

text \<open>C10: every query and every mutation of the dashboard sends the method, the target with its
  query and the fields of the body of one route of the backend, no more and no less, and the
  framework gives it to the handler of that route when the identifiers need no encoding.\<close>

theorem dashboard_calls_reach_handlers:
  assumes "isMatcher mt" and "list_all cleanParam (paramsOf (call_route c))"
  shows "sameRequest (requestOfInit (call_init c)) (requestOf (call_route c)) \<and>
    resolve mt (in_method (call_init c)) (targetPath (in_path (call_init c))) = Some (handlerOf (call_route c))"
proof -
  have "\<not> hiddenRoute (call_route c)"
  proof (cases c)
    case (Query q) then show ?thesis by (cases q) simp_all
  next
    case (UsersPage m) then show ?thesis by (cases m) simp_all
  next
    case (AccountPage m) then show ?thesis by (cases m) simp_all
  qed simp_all
  moreover have "in_method (call_init c) = methodOf (call_route c)" "in_path (call_init c) = targetOf (call_route c)"
    using call_request [of c] by (simp_all add: sameRequest_def requestOf_def requestOfInit_def)
  ultimately show ?thesis using call_request target_resolves(2) [OF assms] by simp
qed

theorem dashboard_calls_reach_handlers_witness:
  "resolve exactMatcher DELETE [''servers'', ''s1'', ''mods'', ''m7''] = Some (''ModsController'', ''uninstall'')"
proof -
  let ?c = "ModsPanel ''s1'' (RemoveMod ''m7'')"
  have c: "list_all cleanParam (paramsOf (call_route ?c))" by code_simp
  have e: "in_method (call_init ?c) = DELETE"
    "targetPath (in_path (call_init ?c)) = [''servers'', ''s1'', ''mods'', ''m7'']"
    "handlerOf (call_route ?c) = (''ModsController'', ''uninstall'')"
    by code_simp+
  show ?thesis
    by (rule dashboard_calls_reach_handlers [OF exactMatcher_isMatcher c, unfolded e, THEN conjunct2])
qed

subsection \<open>What is offered is permitted\<close>

lemmas page_calls_defs = adminUsers_calls_def adminRoles_calls_def adminNodes_calls_def
  adminTemplates_calls_def adminItems_calls_def adminMonitoring_calls_def adminAudit_calls_def
  account_calls_def billing_calls_def support_calls_def ticket_calls_def marketplace_calls_def
  servers_calls_def

text \<open>What a page makes or offers needs a permission of the clients, or one the page has asked for.\<close>

definition permitted :: "authUser \<Rightarrow> dashCall \<Rightarrow> bool" where
  "permitted u c \<longleftrightarrow> set (orElse (requiredPermissions (call_route c)) []) \<subseteq>
    set CLIENT_PERMISSIONS \<union> set (au_permissions u)"

lemma account_permitted:
  assumes "account_calls (Some (meJson u)) c" and "''*'' \<notin> set (au_permissions u)"
  shows "permitted u c"
proof (cases c)
  case (AccountPage m)
  then show ?thesis by (cases m) (simp_all add: permitted_def)
qed (use assms in \<open>auto simp: account_calls_def permitted_def isAdmin_me CLIENT_PERMISSIONS_def\<close>)

lemma client_pages_permitted:
  "billing_calls user c \<Longrightarrow> permitted u c" "support_calls user c \<Longrightarrow> permitted u c"
  "marketplace_calls user c \<Longrightarrow> permitted u c" "servers_calls user c \<Longrightarrow> permitted u c"
  by (auto simp: page_calls_defs permitted_def CLIENT_PERMISSIONS_def
      split: dashCall.splits supportMutation.splits)

lemma ticket_permitted:
  assumes "ticket_calls i (Some (meJson u)) c" and "''*'' \<notin> set (au_permissions u)"
  shows "permitted u c"
  using assms by (auto simp: ticket_calls_def permitted_def CLIENT_PERMISSIONS_def isStaff_def hasPermission_me
      split: dashCall.splits supportMutation.splits)

lemma settings_permitted:
  assumes "settings_calls sid suspended (Some (meJson u)) c" and "''*'' \<notin> set (au_permissions u)"
  shows "permitted u c"
proof (cases c)
  case (SettingsPanel s m)
  then show ?thesis using assms
    by (cases m) (simp_all add: settings_calls_def permitted_def CLIENT_PERMISSIONS_def canSuspend_def hasPermission_me)
qed (use assms in \<open>simp_all add: settings_calls_def permitted_def CLIENT_PERMISSIONS_def\<close>)

lemma powerActions_permitted: "powerActions_calls sid c \<Longrightarrow> permitted u c"
  by (cases c) (simp_all add: powerActions_calls_def permitted_def CLIENT_PERMISSIONS_def)

lemma fileManager_permitted:
  assumes "fileManager_calls sid c" shows "permitted u c"
proof (cases c)
  case (Query q)
  then show ?thesis using assms
    by (cases q) (simp_all add: fileManager_calls_def permitted_def CLIENT_PERMISSIONS_def)
next
  case (FilesPanel s path m)
  then show ?thesis by (cases m) (simp_all add: permitted_def CLIENT_PERMISSIONS_def)
qed (use assms in \<open>simp_all add: fileManager_calls_def permitted_def CLIENT_PERMISSIONS_def\<close>)

lemma backups_permitted:
  assumes "backups_calls sid c" shows "permitted u c"
proof (cases c)
  case (BackupsPanel s m)
  then show ?thesis by (cases m) (simp_all add: permitted_def CLIENT_PERMISSIONS_def)
qed (use assms in \<open>simp_all add: backups_calls_def permitted_def CLIENT_PERMISSIONS_def\<close>)

lemma tasks_permitted:
  assumes "tasks_calls sid c" shows "permitted u c"
proof (cases c)
  case (TasksPanel s m)
  then show ?thesis by (cases m) (simp_all add: permitted_def CLIENT_PERMISSIONS_def)
qed (use assms in \<open>simp_all add: tasks_calls_def permitted_def CLIENT_PERMISSIONS_def\<close>)

lemma mods_permitted:
  assumes "mods_calls sid user c" shows "permitted u c"
proof (cases c)
  case (Query q)
  then show ?thesis using assms
    by (cases q) (simp_all add: mods_calls_def permitted_def CLIENT_PERMISSIONS_def)
next
  case (ModsPanel s m)
  then show ?thesis by (cases m) (simp_all add: permitted_def CLIENT_PERMISSIONS_def)
qed (use assms in \<open>simp_all add: mods_calls_def permitted_def CLIENT_PERMISSIONS_def\<close>)

lemmas panels_permitted = powerActions_permitted fileManager_permitted backups_permitted
  tasks_permitted mods_permitted

lemma server_permitted:
  assumes "server_calls sid suspended (Some (meJson u)) c" and "''*'' \<notin> set (au_permissions u)"
  shows "permitted u c"
  using assms settings_permitted [OF _ assms(2)] panels_permitted
  by (auto simp: server_calls_def) (simp add: permitted_def CLIENT_PERMISSIONS_def)

text \<open>Nobody but an administrator has a link to a page of the administration.\<close>

lemma admin_pages_unlinked:
  assumes "''*'' \<notin> set (au_permissions u)"
    and "path \<in> {''/admin/users'', ''/admin/roles'', ''/admin/nodes'', ''/admin/templates'',
      ''/admin/marketplace'', ''/admin/monitoring'', ''/admin/audit-logs''}"
  shows "\<not> linked (Some (meJson u)) path"
proof -
  have "\<not> isAdmin (Some (meJson u))" using assms(1) by (simp add: isAdmin_me)
  then show ?thesis using assms(2)
    by (auto simp: linked_def panelSidebar_def CLIENT_NAV_def navActive_def topbarLinks_def)
qed

lemma page_permitted:
  assumes "page path calls" and "linked (Some (meJson u)) path" and "calls (Some (meJson u)) c"
    and "''*'' \<notin> set (au_permissions u)"
  shows "permitted u c"
  using assms(1)
  by cases (use assms admin_pages_unlinked [OF assms(4)] in
    \<open>blast intro: account_permitted client_pages_permitted ticket_permitted server_permitted\<close>)+

text \<open>C11: whatever a page offers to a user who has a link to it, and who is an administrator or has at
  least the permissions the seed gives to the clients, passes the permissions guard of the
  backend: nothing these users click on is answered with missing permissions.\<close>

theorem offered_calls_pass_guard:
  assumes "page path calls" and "linked (Some (meJson u)) path" and "calls (Some (meJson u)) c"
    and "''*'' \<in> set (au_permissions u) \<or> set CLIENT_PERMISSIONS \<subseteq> set (au_permissions u)"
  shows "permissionsGuard (requiredPermissions (call_route c)) (Some u) = Inr True"
  using assms(4) page_permitted [OF assms(1-3)] unfolding guard_passes permitted_def
  by auto

definition clientUser :: authUser where
  "clientUser = \<lparr>au_id = ''u2'', au_email = ''bob@x'', au_username = ''bob'', au_roleId = Some ''r2'',
     au_permissions = CLIENT_PERMISSIONS, au_twoFactorEnabled = False, au_impersonatedBy = None\<rparr>"

lemma clientUser_server:
  "linked (Some (meJson clientUser)) ''/servers/s1''"
  "server_calls ''s1'' False (Some (meJson clientUser)) (Power ''s1'' PowerStart)"
  "\<not> server_calls ''s1'' False (Some (meJson clientUser)) (SettingsPanel ''s1'' SuspendServer)"
  by (simp add: linked_def panelSidebar_def CLIENT_NAV_def navActive_def)
     (simp add: server_calls_def powerActions_calls_def, code_simp)

theorem offered_calls_pass_guard_witness:
  "permissionsGuard (requiredPermissions (call_route (Power ''s1'' PowerStart))) (Some clientUser) = Inr True \<and>
   \<not> server_calls ''s1'' False (Some (meJson clientUser)) (SettingsPanel ''s1'' SuspendServer)"
proof -
  have "page ''/servers/s1'' (server_calls ''s1'' False)"
    using page.intros(14) [of "''s1''" False] by simp
  moreover have "set CLIENT_PERMISSIONS \<subseteq> set (au_permissions clientUser)" by (simp add: clientUser_def)
  ultimately show ?thesis
    using offered_calls_pass_guard [of _ "server_calls ''s1'' False" clientUser "Power ''s1'' PowerStart"] clientUser_server
    by blast
qed

text \<open>The pages of the administration themselves ask for no role: a client who types the path of one
  sees its buttons, which the backend refuses.\<close>

lemma admin_page_by_url:
  "page ''/admin/users'' adminUsers_calls \<and> \<not> linked (Some (meJson clientUser)) ''/admin/users'' \<and>
   adminUsers_calls (Some (meJson clientUser)) (UsersPage (DeleteUser i)) \<and>
   (\<exists>m. permissionsGuard (requiredPermissions (call_route (UsersPage (DeleteUser i)))) (Some clientUser) =
     Inl (ForbiddenException m))"
proof -
  have "''*'' \<notin> set (au_permissions clientUser)" by (simp add: clientUser_def CLIENT_PERMISSIONS_def)
  then show ?thesis
    by (auto simp: page.intros admin_pages_unlinked adminUsers_calls_def permissionsGuard_def clientUser_def
        CLIENT_PERMISSIONS_def WILDCARD_def has_perm_def)
qed

subsection \<open>The cache\<close>

text \<open>Queries with the same key have the same path, so that what is cached for one may be shown for
  the other; only the pages of the audit log share a key.\<close>

theorem equal_keys_equal_paths:
  assumes "query_key q = query_key q'"
  shows "query_path q = query_path q' \<or> (\<exists>i j. q = QAuditLogs i \<and> q' = QAuditLogs j)"
  using assms by (cases q; cases q'; simp)

end
