(* ===== verification/Panel_Properties.thy ===== *)
theory Panel_Properties
  imports Dashboard_Calls Sample Server_Facts "HOL-Library.Multiset"
begin

text \<open>
  What the panels compute: the environment as text, the form of the settings with the update of
  the backend, the pages of the audit log with the listing of the backend, the buffer of the
  console, the socket over logins.
\<close>

subsection \<open>The environment as text\<close>

definition cleanVariable :: "string \<times> string \<Rightarrow> bool" where
  "cleanVariable = (\<lambda>(k, v). CHR ''='' \<notin> set k \<and> CHR 0x0A \<notin> set k \<and> CHR 0x0A \<notin> set v \<and>
     jsTrim k = k \<and> jsTrim v = v)"

lemma jsTrim_id: "jsTrim s = s \<longleftrightarrow> s = [] \<or> \<not> isBlank (hd s) \<and> \<not> isBlank (last s)"
proof (cases "s = []")
  case True
  then show ?thesis by (simp add: jsTrim_def)
next
  case False
  have len: "length (jsTrim s) \<le> length (dropWhile isBlank s)"
    unfolding jsTrim_def using length_dropWhile_le [of isBlank "rev (dropWhile isBlank s)"] by simp
  show ?thesis
  proof (cases "isBlank (hd s)")
    case True
    then have "dropWhile isBlank s = dropWhile isBlank (tl s)" using False by (cases s) auto
    then have "length (jsTrim s) < length s"
      using len False length_dropWhile_le [of isBlank "tl s"] by (cases s) auto
    then show ?thesis using True False by (metis less_irrefl)
  next
    case hd: False
    then have "dropWhile isBlank s = s" using False by (cases s) auto
    then have t: "jsTrim s = rev (dropWhile isBlank (rev s))" by (simp add: jsTrim_def)
    show ?thesis
    proof (cases "isBlank (last s)")
      case True
      then have "dropWhile isBlank (rev s) = dropWhile isBlank (tl (rev s))"
        using False by (cases s rule: rev_cases) auto
      then have "length (jsTrim s) < length s"
        unfolding t using False length_dropWhile_le [of isBlank "tl (rev s)"] by (cases s rule: rev_cases) auto
      then show ?thesis using True False by (metis less_irrefl)
    next
      case last: False
      then have "dropWhile isBlank (rev s) = rev s" using False by (cases s rule: rev_cases) auto
      then show ?thesis using hd last t by simp
    qed
  qed
qed

lemma splitOn_joinWith:
  "ls \<noteq> [] \<Longrightarrow> \<forall>l \<in> set ls. c \<notin> set l \<Longrightarrow> splitOn c (joinWith [c] ls) = ls"
proof (induction "[c]" ls rule: joinWith.induct)
  case (2 w)
  then show ?case using splitOn_append [of c w "[]"] by simp
next
  case (3 w v vs)
  then show ?case by (simp add: splitOn_append)
qed simp

lemma line_of_variable:
  assumes "cleanVariable (k, v)"
  shows "jsTrim (k @ CHR ''='' # v) = k @ CHR ''='' # v"
    and "splitOn (CHR ''='') (k @ CHR ''='' # v) = k # splitOn (CHR ''='') v"
proof -
  have "\<not> isBlank (CHR ''='')" by code_simp
  moreover have "k = [] \<or> \<not> isBlank (hd k)" "v = [] \<or> \<not> isBlank (last v)"
    using assms by (auto simp: cleanVariable_def jsTrim_id)
  ultimately show "jsTrim (k @ CHR ''='' # v) = k @ CHR ''='' # v"
    unfolding jsTrim_id by (auto simp: hd_append)
  show "splitOn (CHR ''='') (k @ CHR ''='' # v) = k # splitOn (CHR ''='') v"
    using assms by (simp add: cleanVariable_def splitOn_append)
qed

lemma update_new: "k \<notin> fst ` set env \<Longrightarrow> AList.update k v env = env @ [(k, v)]"
  by (induction env) auto

lemma readLine_variable:
  assumes "cleanVariable (k, v)" and "k \<notin> fst ` set env"
  shows "readLine (k @ CHR ''='' # v) env = env @ [(k, v)]"
proof -
  have "jsTrim k = k" "jsTrim v = v" using assms(1) by (simp_all add: cleanVariable_def)
  then show ?thesis using line_of_variable [OF assms(1)] assms(2)
    by (simp add: readLine_def Let_def joinWith_splitOn update_new)
qed

lemma fold_readLine:
  "list_all cleanVariable vs \<Longrightarrow> distinct (map fst (env @ vs)) \<Longrightarrow>
   fold readLine (map (\<lambda>(k, v). k @ ''='' @ v) vs) env = env @ vs"
proof (induction vs arbitrary: env)
  case (Cons kv vs)
  obtain k v where kv: "kv = (k, v)" by (cases kv)
  have "k \<notin> fst ` set env" using Cons.prems(2) by (auto simp: kv)
  then have "readLine (k @ ''='' @ v) env = env @ [(k, v)]" using Cons.prems(1) by (simp add: kv readLine_variable)
  then show ?case using Cons.IH [of "env @ [(k, v)]"] Cons.prems by (simp add: kv)
qed simp

lemma environment_roundtrip:
  assumes "list_all cleanVariable env" and "distinct (map fst env)"
  shows "textToEnvironment (environmentToText env) = env"
proof (cases "env = []")
  case True
  then show ?thesis by (simp add: environmentToText_def textToEnvironment_def readLine_def jsTrim_def)
next
  case False
  let ?ls = "map (\<lambda>(k, v). k @ ''='' @ v) env"
  have "CHR 0x0A \<notin> set l" if "l \<in> set ?ls" for l
    using that assms(1) by (auto simp: list_all_iff cleanVariable_def)
  then have "splitOn (CHR 0x0A) (environmentToText env) = ?ls"
    unfolding environmentToText_def using False by (intro splitOn_joinWith) auto
  then show ?thesis using fold_readLine [OF assms(1), of "[]"] assms(2) by (simp add: textToEnvironment_def)
qed

subsection \<open>The form of the settings\<close>

definition uniqueServers :: "db \<Rightarrow> bool" where
  "uniqueServers d \<longleftrightarrow> distinct (map s_id (t_servers d))"

lemma unique_server:
  assumes "uniqueServers d" and "List.find (\<lambda>x. s_id x = sid) (t_servers d) = Some s" and "x \<in> set (t_servers d)"
    and "s_id x = sid"
  shows "x = s"
  using assms by (auto simp: uniqueServers_def distinct_map inj_on_def find_Some_iff)

lemma form_applied:
  assumes "list_all cleanVariable (s_environment s)" and "distinct (map fst (s_environment s))"
    and "settings_call_route sid (UpdateServer ((settingsFormOf s)\<lparr>gf_name := n\<rparr>)) = ServersUpdate sid d"
  shows "applyUpdateServer d s = s\<lparr>s_name := n\<rparr>"
proof -
  have "(case orUndefined (orElse (s_description s) []) of None \<Rightarrow> s_description s | Some x \<Rightarrow> Some x) = s_description s"
    by (cases "s_description s") (simp_all add: orUndefined_def)
  moreover have "textToEnvironment (environmentToText (s_environment s)) = s_environment s"
    by (rule environment_roundtrip [OF assms(1,2)])
  ultimately show ?thesis using assms(3) by (auto simp: applyUpdateServer_def settingsFormOf_def)
qed

text \<open>C22: from the form to the table: renaming a server on the page of its settings, where the form
  was filled from the server, changes the name of that server and nothing else of the
  database, if no key or value of its environment has a line break, white space at an end or,
  in a key, an equals sign.\<close>

theorem renaming_changes_the_name_only:
  assumes "uniqueServers (w_db w)" and "List.find (\<lambda>x. s_id x = sid) (t_servers (w_db w)) = Some s"
    and "list_all cleanVariable (s_environment s)" and "distinct (map fst (s_environment s))"
    and "servers_handleFor E (settings_call_route sid (UpdateServer ((settingsFormOf s)\<lparr>gf_name := n\<rparr>))) u w =
      (Inr x, w')"
  shows "\<exists>row. w_db w' = (w_db w)\<lparr>t_servers := map (\<lambda>x. if s_id x = sid then x\<lparr>s_name := n\<rparr> else x) (t_servers (w_db w)),
    t_auditLogs := t_auditLogs (w_db w) @ [row]\<rparr>"
proof -
  obtain d where d: "settings_call_route sid (UpdateServer ((settingsFormOf s)\<lparr>gf_name := n\<rparr>)) = ServersUpdate sid d"
    by simp
  obtain v r w1 w2 where v: "servers_findAccessibleOrThrow sid u w = (Inr v, w1)"
    and w2: "w2 = w1\<lparr>w_db := t_servers_update (map (\<lambda>x. if s_id x = sid then applyUpdateServer d x else x)) (w_db w1)\<rparr>"
    and log: "audit_log E r w2 = (Inr (), w')"
    using assms(5) unfolding d by (auto simp: servers_update_def respond_def run_Inr)
  have w1: "w1 = w" by (rule findAccessible_Inr(1) [OF v])
  have "map (\<lambda>x. if s_id x = sid then applyUpdateServer d x else x) (t_servers (w_db w)) =
      map (\<lambda>x. if s_id x = sid then x\<lparr>s_name := n\<rparr> else x) (t_servers (w_db w))"
    using form_applied [OF assms(3,4) d] unique_server [OF assms(1,2)] by auto
  moreover obtain row where "w_db w' = t_auditLogs_update (\<lambda>t. t @ [row]) (w_db w2)"
    using audit_log_Inr [OF log] by blast
  ultimately have "w_db w' = (w_db w)\<lparr>t_servers := map (\<lambda>x. if s_id x = sid then x\<lparr>s_name := n\<rparr> else x)
      (t_servers (w_db w)), t_auditLogs := t_auditLogs (w_db w) @ [row]\<rparr>"
    by (simp add: w1 w2)
  then show ?thesis by blast
qed

definition configuredServer :: server where
  "configuredServer = sampleServer\<lparr>s_environment := [(''EULA'', ''TRUE''), (''OPTS'', ''-Xmx1G -Da=b'')]\<rparr>"

definition configuredWorld :: world where
  "configuredWorld = empty_world\<lparr>w_db := sampleDb\<lparr>t_servers := [configuredServer]\<rparr>\<rparr>"

theorem renaming_changes_the_name_only_witness:
  "\<exists>w' row. servers_handleFor sampleEnv (settings_call_route ''srv''
       (UpdateServer ((settingsFormOf configuredServer)\<lparr>gf_name := ''creative''\<rparr>)))
       (sampleAuth ''alice'' []) configuredWorld = (Inr (RServerRow (configuredServer\<lparr>s_name := ''creative''\<rparr>)), w') \<and>
     w_db w' = sampleDb\<lparr>t_servers := [configuredServer\<lparr>s_name := ''creative''\<rparr>], t_auditLogs := [row]\<rparr>"
proof -
  let ?run = "servers_handleFor sampleEnv (settings_call_route ''srv''
       (UpdateServer ((settingsFormOf configuredServer)\<lparr>gf_name := ''creative''\<rparr>)))
       (sampleAuth ''alice'' []) configuredWorld"
  have "fst ?run = Inr (RServerRow (configuredServer\<lparr>s_name := ''creative''\<rparr>))" by code_simp
  then obtain w' where run: "?run = (Inr (RServerRow (configuredServer\<lparr>s_name := ''creative''\<rparr>)), w')"
    by (cases ?run) auto
  have db: "w_db configuredWorld = sampleDb\<lparr>t_servers := [configuredServer]\<rparr>" "t_auditLogs sampleDb = []"
    by (simp_all add: configuredWorld_def sampleDb_def empty_db_def)
  have s: "s_id configuredServer = ''srv''" by (simp add: configuredServer_def sampleServer_def)
  have "uniqueServers (w_db configuredWorld)" by (simp add: uniqueServers_def db)
  moreover have "List.find (\<lambda>x. s_id x = ''srv'') (t_servers (w_db configuredWorld)) = Some configuredServer"
    by (simp add: db s)
  moreover have "list_all cleanVariable (s_environment configuredServer)"
    "distinct (map fst (s_environment configuredServer))" by code_simp+
  ultimately obtain row where "w_db w' = (w_db configuredWorld)\<lparr>t_servers := map (\<lambda>x. if s_id x = ''srv''
      then x\<lparr>s_name := ''creative''\<rparr> else x) (t_servers (w_db configuredWorld)),
      t_auditLogs := t_auditLogs (w_db configuredWorld) @ [row]\<rparr>"
    using renaming_changes_the_name_only [OF _ _ _ _ run] by blast
  then have "w_db w' = sampleDb\<lparr>t_servers := [configuredServer\<lparr>s_name := ''creative''\<rparr>], t_auditLogs := [row]\<rparr>"
    by (simp add: db s)
  then show ?thesis using run by blast
qed

text \<open>The form cannot clear a description: an empty one is not sent.\<close>

theorem description_is_never_cleared:
  assumes "gf_description f = []" and "settings_call_route sid (UpdateServer f) = ServersUpdate sid d"
  shows "s_description (applyUpdateServer d s) = s_description s"
  using assms by (auto simp: applyUpdateServer_def orUndefined_def)

subsection \<open>The pages of the audit log\<close>

text \<open>A page as the backend answers it, and a click for more.\<close>

definition auditPage :: "authUser option \<Rightarrow> world \<Rightarrow> nat \<Rightarrow> (auditLog \<times> (id \<times> string \<times> string) option) list" where
  "auditPage user w skip = (case query_route (QAuditLogs skip) of
     AuditR r \<Rightarrow> (case fst (audit_handle r user w) of Inr rows \<Rightarrow> rows | Inl _ \<Rightarrow> []) | _ \<Rightarrow> [])"

definition clickMore :: "(nat \<Rightarrow> 'a list) \<Rightarrow> 'a list list \<Rightarrow> 'a list list" where
  "clickMore fetch pages = (case nextAuditPage pages of None \<Rightarrow> pages | Some skip \<Rightarrow> pages @ [fetch skip])"

text \<open>The pages once the first is read in \<open>w\<close>, and the button is clicked in each of the worlds \<open>ws\<close>.\<close>

definition auditPages :: "authUser option \<Rightarrow> world \<Rightarrow> world list \<Rightarrow> (auditLog \<times> (id \<times> string \<times> string) option) list list" where
  "auditPages user w ws = fold (\<lambda>w. clickMore (auditPage user w)) ws [auditPage user w 0]"

definition auditRows :: "db \<Rightarrow> (auditLog \<times> (id \<times> string \<times> string) option) list" where
  "auditRows d = map (\<lambda>a. (a, case a_actorId a of None \<Rightarrow> None | Some i \<Rightarrow>
     map_option (\<lambda>u. (u_id u, u_username u, u_email u)) (List.find (\<lambda>u. u_id u = i) (t_users d))))
     (orderDesc a_createdAt (t_auditLogs d))"

lemma parseInt_show_nat: "parseInt (show_nat n) = Some (int n)"
proof -
  obtain c cs where s: "show_nat n = c # cs" using show_nat_nonempty by (cases "show_nat n") auto
  have dig: "list_all is_digit (show_nat n)" by (rule show_nat_digits)
  then have "is_digit c" by (simp add: s)
  then have c: "c \<noteq> CHR '' ''" "c \<noteq> CHR 0x09" "c \<noteq> CHR 0x0A" "c \<noteq> CHR 0x0D" "c \<noteq> CHR ''-''" "c \<noteq> CHR ''+''"
    by (auto simp: is_digit_def)
  then have "parseInt (show_nat n) = (let ds = takeWhile is_digit (show_nat n) in
      if ds = [] then None else Some (int (parse_nat ds)))"
    unfolding parseInt_def s by (simp add: Let_def)
  then show ?thesis using takeWhile_digits [OF dig] by (simp add: s parse_show_nat [of n, unfolded s])
qed

lemma auditPage_rows: "auditPage user w skip = take PAGE_SIZE (drop skip (auditRows (w_db w)))"
proof -
  have no: "show_nat n = [] \<longleftrightarrow> False" for n by (simp add: show_nat_nonempty)
  have q: "queryInt (Some (show_nat n)) = ret (Some (int n))" for n
    by (simp add: queryInt_def truthy_def parseInt_show_nat no)
  show ?thesis
    by (simp add: auditPage_def q audit_list_def page_def auditRows_def opt_ok_def prog_simps take_map drop_map)
qed

text \<open>The pages that are there, as a prefix of the rows.\<close>

definition pagesOf :: "'a list \<Rightarrow> 'a list list \<Rightarrow> bool" where
  "pagesOf rows pages \<longleftrightarrow> pages \<noteq> [] \<and> concat pages = take (PAGE_SIZE * length pages) rows \<and>
     length (last pages) = min PAGE_SIZE (length rows - PAGE_SIZE * (length pages - 1))"

lemma last_page_short: "pagesOf rows pages \<Longrightarrow> length (last pages) < PAGE_SIZE \<longleftrightarrow> length rows < PAGE_SIZE * length pages"
  by (cases "length pages") (auto simp: pagesOf_def PAGE_SIZE_def)

lemma pagesOf_snoc:
  "pagesOf rows pages \<Longrightarrow> pagesOf rows (pages @ [take PAGE_SIZE (drop (PAGE_SIZE * length pages) rows)])"
  by (simp add: pagesOf_def take_add [symmetric] mult.commute add.commute)

lemma clicks_prefix:
  assumes "\<And>skip. fetch skip = take PAGE_SIZE (drop skip rows)" and "pagesOf rows pages"
  shows "concat ((clickMore fetch ^^ k) pages) = take (PAGE_SIZE * (length pages + k)) rows \<and>
    (nextAuditPage ((clickMore fetch ^^ k) pages) = None \<longleftrightarrow> length rows < PAGE_SIZE * (length pages + k))"
  using assms(2)
proof (induction k arbitrary: pages)
  case 0
  then show ?case using last_page_short [OF 0] by (simp add: nextAuditPage_def pagesOf_def)
next
  case (Suc k)
  show ?case
  proof (cases "length rows < PAGE_SIZE * length pages")
    case True
    then have none: "nextAuditPage pages = None" using last_page_short [OF Suc.prems] by (simp add: nextAuditPage_def)
    then have "(clickMore fetch ^^ n) pages = pages" for n by (induction n) (simp_all add: clickMore_def)
    then show ?thesis using none Suc.prems True by (simp add: pagesOf_def add_mult_distrib2 del: funpow.simps)
  next
    case False
    let ?pages = "pages @ [take PAGE_SIZE (drop (PAGE_SIZE * length pages) rows)]"
    have "(clickMore fetch ^^ Suc k) pages = (clickMore fetch ^^ k) ?pages"
      using False last_page_short [OF Suc.prems]
      by (simp add: funpow_Suc_right clickMore_def nextAuditPage_def assms(1) mult.commute del: funpow.simps)
    then show ?thesis using Suc.IH [OF pagesOf_snoc [OF Suc.prems]] by simp
  qed
qed

text \<open>The log grows: nothing is removed, and what is added is newer.\<close>

definition logGrows :: "world \<Rightarrow> world \<Rightarrow> bool" where
  "logGrows w w' \<longleftrightarrow> (\<exists>new. t_auditLogs (w_db w') = t_auditLogs (w_db w) @ new \<and>
     (\<forall>x \<in> set (t_auditLogs (w_db w)). \<forall>y \<in> set new. a_createdAt x < a_createdAt y))"

lemma orderDesc_newer:
  assumes "\<forall>x \<in> set xs. \<forall>y \<in> set new. k x < k y"
  shows "orderDesc k (xs @ new) = orderDesc k new @ orderDesc k xs"
  unfolding orderDesc_def
proof (rule properties_for_sort_key)
  fix z assume "z \<in> set (sort_key (\<lambda>r. - k r) new @ sort_key (\<lambda>r. - k r) xs)"
  then have "filter (\<lambda>x. - k z = - k x) xs = [] \<or> filter (\<lambda>x. - k z = - k x) new = []"
    using assms by (fastforce simp: filter_empty_conv)
  moreover have "filter (\<lambda>x. - k z = - k x) (sort_key (\<lambda>r. - k r) ys) = filter (\<lambda>x. - k z = - k x) ys" for ys
    using sort_key_stable [of "\<lambda>r. - k r" "- k z" ys] by (metis (mono_tags, lifting) filter_cong)
  ultimately show "filter (\<lambda>x. - k z = - k x) (sort_key (\<lambda>r. - k r) new @ sort_key (\<lambda>r. - k r) xs) =
      filter (\<lambda>x. - k z = - k x) (xs @ new)" by auto
qed (use assms in \<open>auto simp: sorted_append intro: less_imp_le\<close>)

definition logRows :: "world \<Rightarrow> auditLog list" where
  "logRows w = orderDesc a_createdAt (t_auditLogs (w_db w))"

lemma logGrows_suffix: "logGrows w w' \<Longrightarrow> suffix (logRows w) (logRows w')"
  by (auto simp: logGrows_def logRows_def orderDesc_newer suffix_def)

lemma auditPage_entries: "map fst (auditPage user w skip) = take PAGE_SIZE (drop skip (logRows w))"
  by (simp add: auditPage_rows auditRows_def logRows_def take_map drop_map comp_def)

lemma window: "set (take (a + b - length N) R) \<subseteq> set (take (a - length N) R) \<union> set (take b (drop a (N @ R)))"
proof (cases "length N \<le> a")
  case True
  then have "take (a + b - length N) R = take (a - length N) R @ take b (drop (a - length N) R)"
    by (simp add: take_add [symmetric])
  then show ?thesis using True by simp
next
  case False
  then have "b - (length N - a) = a + b - length N" by arith
  then show ?thesis using False by simp
qed

text \<open>What the pages show of the entries \<open>R0\<close> that were there at the beginning, when the log has the
  rows \<open>R\<close>.\<close>

definition covers :: "auditLog list \<Rightarrow> auditLog list \<Rightarrow> (auditLog \<times> 'a) list list \<Rightarrow> bool" where
  "covers R0 R pages \<longleftrightarrow> pages \<noteq> [] \<and> suffix R0 R \<and> fst ` set (concat pages) \<subseteq> set R \<and>
     set (take (PAGE_SIZE * length pages - (length R - length R0)) R0) \<subseteq> fst ` set (concat pages) \<and>
     (nextAuditPage pages = None \<longrightarrow> set R0 \<subseteq> fst ` set (concat pages))"

lemma covers_grow:
  assumes "covers R0 R pages" and "suffix R R'"
  shows "covers R0 R' pages"
proof -
  have "length R \<le> length R'" "set R \<subseteq> set R'" using assms(2) by (auto simp: suffix_def)
  moreover have "set (take (PAGE_SIZE * length pages - (length R' - length R0)) R0) \<subseteq>
      set (take (PAGE_SIZE * length pages - (length R - length R0)) R0)"
    using \<open>length R \<le> length R'\<close> by (intro set_take_subset_set_take) simp
  moreover have "suffix R0 R'" using assms by (auto simp: covers_def intro: suffix_order.trans)
  ultimately show ?thesis using assms(1) unfolding covers_def by (meson subset_trans)
qed

lemma covers_click:
  assumes "covers R0 R pages" and "\<And>skip. map fst (fetch skip) = take PAGE_SIZE (drop skip R)"
  shows "covers R0 R (clickMore fetch pages)"
proof (cases "nextAuditPage pages")
  case (Some skip)
  let ?p = "fetch skip" and ?n = "length pages"
  have skip: "skip = PAGE_SIZE * ?n" using Some by (simp add: nextAuditPage_def mult.commute split: if_splits)
  obtain N where R: "R = N @ R0" using assms(1) by (auto simp: covers_def suffix_def)
  have p: "fst ` set ?p = set (take PAGE_SIZE (drop (PAGE_SIZE * ?n) R))"
    using arg_cong [OF assms(2) [of skip], of set] by (simp add: skip)
  have len: "length ?p = min PAGE_SIZE (length R - PAGE_SIZE * ?n)"
    using arg_cong [OF assms(2) [of skip], of length] by (simp add: skip min.commute)
  have all: "set (take (PAGE_SIZE * ?n + PAGE_SIZE - length N) R0) \<subseteq> fst ` set (concat (pages @ [?p]))"
  proof -
    have "set (take (PAGE_SIZE * ?n - length N) R0) \<subseteq> fst ` set (concat pages)"
      using assms(1) by (simp add: covers_def R)
    moreover have "fst ` set (concat (pages @ [?p])) = fst ` set (concat pages) \<union> fst ` set ?p" by auto
    ultimately show ?thesis using window [of "PAGE_SIZE * ?n" PAGE_SIZE N R0] unfolding p R by blast
  qed
  have "length ?p < PAGE_SIZE \<Longrightarrow> take (PAGE_SIZE * ?n + PAGE_SIZE - length N) R0 = R0"
    using len R by (auto simp: min_def split: if_splits)
  then have "nextAuditPage (pages @ [?p]) = None \<Longrightarrow> set R0 \<subseteq> fst ` set (concat (pages @ [?p]))"
    using all by (auto simp: nextAuditPage_def split: if_splits)
  moreover have "fst ` set (concat (pages @ [?p])) \<subseteq> set R"
  proof -
    have "fst ` set ?p \<subseteq> set R" unfolding p by (auto dest: in_set_takeD in_set_dropD)
    moreover have "fst ` set (concat pages) \<subseteq> set R" using assms(1) by (simp add: covers_def)
    moreover have "fst ` set (concat (pages @ [?p])) = fst ` set (concat pages) \<union> fst ` set ?p" by auto
    ultimately show ?thesis by simp
  qed
  moreover have "clickMore fetch pages = pages @ [?p]" "length R - length R0 = length N"
    using Some R by (simp_all add: clickMore_def)
  moreover have "suffix R0 R" using R by (simp add: suffix_def)
  ultimately show ?thesis using all unfolding covers_def by (simp add: add.commute)
qed (use assms in \<open>simp add: clickMore_def\<close>)

lemma auditPages_cover:
  assumes "successively logGrows (w # ws)"
  shows "covers (logRows w) (logRows (last (w # ws))) (auditPages user w ws)"
  using assms
proof (induction ws rule: rev_induct)
  case Nil
  have "map fst (auditPage user w 0) = take PAGE_SIZE (logRows w)" by (simp add: auditPage_entries)
  then have "fst ` set (auditPage user w 0) = set (take PAGE_SIZE (logRows w))"
      "length (auditPage user w 0) = min (length (logRows w)) PAGE_SIZE"
    by (metis list.set_map, metis length_map length_take)
  then show ?case
    by (auto simp: covers_def auditPages_def nextAuditPage_def dest: in_set_takeD)
next
  case (snoc v ws)
  have "successively logGrows (w # ws)" "logGrows (last (w # ws)) v"
    using snoc.prems by (simp_all add: successively_append_iff flip: append_Cons)
  then have "covers (logRows w) (logRows v) (auditPages user w ws)"
    using snoc.IH covers_grow logGrows_suffix by blast
  from covers_click [OF this auditPage_entries] show ?case by (simp add: auditPages_def)
qed

text \<open>C29: the page of the audit log, over the listing of the backend. While the log does not change,
  \<open>k\<close> clicks for more show the first \<open>k + 1\<close> pages of all entries, newest first, none twice and
  none left out, and the button is gone once the last page read is not full. When entries are
  added between the clicks, which shifts the pages, the button is not gone before every entry
  that was there at the beginning is shown, and nothing is shown that is not in the log.\<close>

theorem audit_pages_complete:
  assumes "successively logGrows (w # ws)"
  shows "concat (auditPages user w (replicate k w)) = take (50 * Suc k) (auditRows (w_db w)) \<and>
    (nextAuditPage (auditPages user w (replicate k w)) = None \<longleftrightarrow> length (auditRows (w_db w)) < 50 * Suc k) \<and>
    fst ` set (concat (auditPages user w ws)) \<subseteq> set (t_auditLogs (w_db (last (w # ws)))) \<and>
    (nextAuditPage (auditPages user w ws) = None \<longrightarrow>
      set (t_auditLogs (w_db w)) \<subseteq> fst ` set (concat (auditPages user w ws)))"
proof -
  have "pagesOf (auditRows (w_db w)) [auditPage user w 0]" by (simp add: pagesOf_def auditPage_rows min.commute)
  from clicks_prefix [OF auditPage_rows this, where k = k]
  have "concat (auditPages user w (replicate k w)) = take (50 * Suc k) (auditRows (w_db w)) \<and>
    (nextAuditPage (auditPages user w (replicate k w)) = None \<longleftrightarrow> length (auditRows (w_db w)) < 50 * Suc k)"
    by (simp add: auditPages_def fold_replicate PAGE_SIZE_def)
  moreover have "set (logRows v) = set (t_auditLogs (w_db v))" for v
    by (simp add: logRows_def orderDesc_def)
  ultimately show ?thesis using auditPages_cover [OF assms, of user] by (simp add: covers_def)
qed

definition logWorld :: "nat \<Rightarrow> world" where
  "logWorld n = sampleWorld\<lparr>w_db := sampleDb\<lparr>t_auditLogs := map (\<lambda>i. \<lparr>a_id = show_nat i, a_actorId = None,
     a_action = ''login'', a_targetType = None, a_targetId = None, a_severity = INFO, a_metadata = JNull,
     a_ip = None, a_userAgent = None, a_createdAt = int i\<rparr>) [0..<n]\<rparr>\<rparr>"

text \<open>Fifty entries when the page is opened, one more at each click: the second page has the last of
  the fifty and one that is shown twice.\<close>

theorem audit_pages_complete_witness:
  "map length (auditPages None (logWorld 50) [logWorld 51]) = [50, 1] \<and>
   set (t_auditLogs (w_db (logWorld 50))) \<subseteq> fst ` set (concat (auditPages None (logWorld 50) [logWorld 51]))"
proof -
  have "successively logGrows [logWorld 50, logWorld 51]"
    by (auto simp: logGrows_def logWorld_def upt_rec)
  moreover have "map length (auditPages None (logWorld 50) [logWorld 51]) = [50, 1]" by code_simp
  moreover have "nextAuditPage (auditPages None (logWorld 50) [logWorld 51]) = None" by code_simp
  ultimately show ?thesis using audit_pages_complete [of "logWorld 50" "[logWorld 51]" None 0] by simp
qed

subsection \<open>The console\<close>

fun isErrorEvent :: "consoleEvent \<Rightarrow> bool" where
  "isErrorEvent (ErrorEvent _ _) \<longleftrightarrow> True"
| "isErrorEvent (LineEvent _ _) \<longleftrightarrow> False"

text \<open>The console keeps at most 501 lines and the errors that came after the last line.\<close>

theorem console_is_bounded:
  "length (fold (onConsole sid) evs []) \<le> 501 + length (filter isErrorEvent evs) \<and>
   length (fold (onConsole sid) (evs @ [LineEvent sid line]) []) \<le> 501"
proof -
  have "length prev \<le> 501 + n \<Longrightarrow>
      length (fold (onConsole sid) evs prev) \<le> 501 + n + length (filter isErrorEvent evs)" for n prev
  proof (induction evs arbitrary: prev n)
    case (Cons e evs)
    show ?case
    proof (cases e)
      case (LineEvent i l)
      then show ?thesis using Cons by (auto simp: lastN_def)
    next
      case (ErrorEvent i m)
      then show ?thesis using Cons.IH [of "onConsole sid e prev" "Suc n"] Cons.prems by auto
    qed
  qed simp
  from this [of "[]" 0] show ?thesis by (simp add: lastN_def)
qed

subsection \<open>The socket\<close>

text \<open>What happens in a tab: a login stores its tokens, a logout removes them, a panel asks for the
  socket, the socket connects.\<close>

datatype tabEvent = TabLogin string string | TabLogout | TabUse | TabConnected

fun tabStep :: "tabEvent \<Rightarrow> storage \<times> socketModule \<Rightarrow> storage \<times> socketModule" where
  "tabStep (TabLogin a r) (st, m) = (setTokens a r st, m)"
| "tabStep TabLogout (st, m) = (clearTokens st, m)"
| "tabStep TabUse (st, m) = (st, snd (getSocket st m))"
| "tabStep TabConnected (st, m) = (st, socketConnects m)"

lemma tab_keeps_socket:
  assumes "sm_socket m = Some k" and "so_connected k"
  shows "sm_socket (snd (fold tabStep evs (st, m))) = Some k"
  using assms
proof (induction evs arbitrary: st m)
  case (Cons e evs)
  show ?case
  proof (cases e)
    case TabUse
    then show ?thesis using Cons by (simp add: getSocket_def)
  next
    case TabConnected
    have "k\<lparr>so_connected := True\<rparr> = k" using Cons.prems by simp
    then show ?thesis using Cons TabConnected by (simp add: socketConnects_def)
  qed (use Cons in simp_all)
qed simp

text \<open>A socket outlives the session it was opened in: once it is connected, whatever logouts
  and logins of other accounts follow in the tab, the commands typed into a console go out on
  that socket, whose token is the one of the first account.\<close>

theorem connected_socket_outlives_session:
  assumes "sm_socket m = Some k" and "so_connected k" and "jsTrim command \<noteq> []"
    and "fold tabStep evs (st, m) = (st', m')"
  shows "sendCommand st' sid command m' = ([Emit (so_id k) ''console:send'' sid (Some command)], m') \<and>
    sm_socket m' = Some k"
  using tab_keeps_socket [OF assms(1,2), of evs st] assms
  by (simp add: sendCommand_def getSocket_def)

theorem connected_socket_outlives_session_witness:
  "\<exists>st' m'. fold tabStep [TabLogin ''T:ann'' ''R1'', TabUse, TabConnected, TabLogout, TabLogin ''T:bob'' ''R2'', TabUse]
     (\<lparr>ls_access = None, ls_refresh = None\<rparr>, \<lparr>sm_socket = None, sm_next = 0\<rparr>) = (st', m') \<and>
   ls_access st' = Some ''T:bob'' \<and> map_option so_token (sm_socket m') = Some (Some ''T:ann'') \<and>
   sendCommand st' ''s1'' ''stop'' m' = ([Emit 0 ''console:send'' ''s1'' (Some ''stop'')], m')"
proof -
  let ?st = "\<lparr>ls_access = Some ''T:ann'', ls_refresh = Some ''R1''\<rparr>"
  let ?k = "\<lparr>so_id = 0, so_token = Some ''T:ann'', so_connected = True\<rparr>"
  let ?m = "\<lparr>sm_socket = Some ?k, sm_next = 1\<rparr>"
  have first: "fold tabStep [TabLogin ''T:ann'' ''R1'', TabUse, TabConnected]
      (\<lparr>ls_access = None, ls_refresh = None\<rparr>, \<lparr>sm_socket = None, sm_next = 0\<rparr>) = (?st, ?m)"
    by code_simp
  obtain st' m' where rest: "fold tabStep [TabLogout, TabLogin ''T:bob'' ''R2'', TabUse] (?st, ?m) = (st', m')"
    by fastforce
  have "ls_access (fst (fold tabStep [TabLogout, TabLogin ''T:bob'' ''R2'', TabUse] (?st, ?m))) = Some ''T:bob''"
    by code_simp
  then have access: "ls_access st' = Some ''T:bob''" by (simp only: rest fst_conv)
  have "sm_socket ?m = Some ?k" "so_connected ?k" by simp_all
  moreover have "jsTrim ''stop'' \<noteq> []" by code_simp
  ultimately have sent: "sendCommand st' ''s1'' ''stop'' m' = ([Emit (so_id ?k) ''console:send'' ''s1'' (Some ''stop'')], m') \<and>
      sm_socket m' = Some ?k"
    by (rule connected_socket_outlives_session [OF _ _ _ rest])
  have whole: "fold tabStep ([TabLogin ''T:ann'' ''R1'', TabUse, TabConnected] @
      [TabLogout, TabLogin ''T:bob'' ''R2'', TabUse])
      (\<lparr>ls_access = None, ls_refresh = None\<rparr>, \<lparr>sm_socket = None, sm_next = 0\<rparr>) = (st', m')"
    unfolding fold_append comp_apply first rest ..
  show ?thesis using sent
    by (intro exI [of _ st'] exI [of _ m'] conjI whole [unfolded append_Cons append_Nil] access) simp_all
qed

end
