(* ===== verification/Panel_Backend.thy ===== *)
theory Panel_Backend
  imports Session_Properties Identity_Properties Sample_Services
begin

text \<open>
  The dashboard on the backend: the network of \<open>Session\<close> is the application of \<open>Api\<close>. The
  framework's reading of a request as a route is the argument \<open>dec\<close>, and the JSON of the answers
  outside \<^verbatim>\<open>auth\<close> the argument \<open>enc\<close>.
\<close>

subsection \<open>The backend as a network\<close>

definition tokenPairJson :: "tokenPair \<Rightarrow> json" where
  "tokenPairJson p = JObj [strField ''accessToken'' (pair_access p), strField ''refreshToken'' (pair_refresh p)]"

fun authJson :: "authResponse \<Rightarrow> bodyText" where
  "authJson (RMe None) = EmptyText"
| "authJson (RMe (Some u)) = JsonText (meJson u)"
| "authJson (RTokens p) = JsonText (tokenPairJson p)"
| "authJson (RLogin RequiresTwoFactor) = JsonText (JObj [(''requiresTwoFactor'', JBool True)])"
| "authJson (RLogin (LoggedIn p)) = JsonText (tokenPairJson p)"
| "authJson RSuccess = JsonText (JObj [(''success'', JBool True)])"
| "authJson (RSecret (s, q)) = JsonText (JObj [strField ''secret'' s, strField ''qrCodeDataUrl'' q])"
| "authJson (RRecoveryCodes cs) = JsonText (JObj [(''recoveryCodes'', JArr (map JStr cs))])"
| "authJson (RAccessToken t) = JsonText (JObj [strField ''accessToken'' t])"
| "authJson RRedirect = EmptyText"

definition errorJson :: "errorBody \<Rightarrow> json" where
  "errorJson b = JObj ([(''statusCode'', JNum (int (eb_statusCode b))), (''timestamp'', JNum (eb_timestamp b)),
     (''message'', JStr (eb_message b))] @ optStr ''error'' (eb_error b))"

definition httpRequestOf :: "string option \<Rightarrow> string option \<Rightarrow> browserRequest \<Rightarrow> httpRequest" where
  "httpRequestOf ip agent rq = \<lparr>hq_url = ''/api'' @ in_path (bq_init rq),
     hq_authorization = map_option (\<lambda>t. ''Bearer '' @ t) (bq_token rq), hq_ip = ip, hq_userAgent = agent\<rparr>"

definition successOf :: "(response \<Rightarrow> bodyText) \<Rightarrow> httpMethod \<Rightarrow> response \<Rightarrow> fetchResponse" where
  "successOf enc m x = \<lparr>fr_status = (if m = POST then 201 else 200),
     fr_body = (case x of AuthRes a \<Rightarrow> authJson a | _ \<Rightarrow> enc x)\<rparr>"

definition backendNet :: "env \<Rightarrow> apiEnv \<Rightarrow> (apiInit \<Rightarrow> route) \<Rightarrow> (response \<Rightarrow> bodyText) \<Rightarrow>
    string option \<Rightarrow> string option \<Rightarrow> world net" where
  "backendNet E A dec enc ip agent rq w =
     (case api_request E A (httpRequestOf ip agent rq) (dec (bq_init rq)) w of
       (Inl e, w') \<Rightarrow> (Inl ''fetch failed'', w')
     | (Inr (Inl b), w') \<Rightarrow> (Inr \<lparr>fr_status = int (eb_statusCode b), fr_body = JsonText (errorJson b)\<rparr>, w')
     | (Inr (Inr x), w') \<Rightarrow> (Inr (successOf enc (in_method (bq_init rq)) x), w'))"

text \<open>What is relied on: the framework reads the requests of the session as their routes; a signed
  token is verified (it outlives the run), is no API key, and is found in its header.\<close>

definition loginInit :: "string \<Rightarrow> string \<Rightarrow> string option \<Rightarrow> apiInit" where
  "loginInit email password totpCode = api_call POST ''/auth/login'' (JsonBody ([strField ''email'' email,
     strField ''password'' password] @ optStr ''totpCode'' totpCode))"

definition meInit :: apiInit where
  "meInit = api_call GET ''/auth/me'' NoBody"

definition readsAuth :: "(apiInit \<Rightarrow> route) \<Rightarrow> bool" where
  "readsAuth dec \<longleftrightarrow> dec meInit = AuthR AuthMe \<and>
     (\<forall>t. dec (bq_init (refreshRequest t)) = AuthR (AuthRefresh t)) \<and>
     (\<forall>e p c. dec (loginInit e p c) = AuthR (AuthLogin \<lparr>ld_email = e, ld_password = p, ld_totpCode = c\<rparr>))"

definition claimsOf :: "id \<Rightarrow> jwtClaims" where
  "claimsOf i = \<lparr>jc_sub = i, jc_impersonatedBy = None\<rparr>"

definition accessTokenOf :: "env \<Rightarrow> id \<Rightarrow> string \<Rightarrow> bool" where
  "accessTokenOf E i tok \<longleftrightarrow> (\<exists>m. tok = jwtSign E m (cf_accessSecret (cfg E)) (cf_accessTtl (cfg E)) (claimsOf i))"

definition tokensVerify :: "env \<Rightarrow> bool" where
  "tokensVerify E \<longleftrightarrow> (\<forall>i tok. accessTokenOf E i tok \<longrightarrow> tok \<noteq> [] \<and> \<not> startsWith tok API_KEY_PREFIX \<and>
     passportBearer E (Some (''Bearer '' @ tok)) = Some tok \<and>
     (\<forall>n. jwtVerify E n (cf_accessSecret (cfg E)) tok = Some (claimsOf i)))"

subsection \<open>Answers\<close>

lemma backend_success:
  "dec (bq_init rq) = r \<Longrightarrow> api_dispatch E A (httpRequestOf ip agent rq) r w = (Inr x, w') \<Longrightarrow>
   backendNet E A dec enc ip agent rq w = (Inr (successOf enc (in_method (bq_init rq)) x), w')"
  by (simp add: backendNet_def api_request_def prog_simps)

lemma backend_failure:
  assumes "dec (bq_init rq) = r" and "api_dispatch E A (httpRequestOf ip agent rq) r w = (Inl e, w')"
  shows "\<exists>b w2. backendNet E A dec enc ip agent rq w =
    (Inr \<lparr>fr_status = int (httpStatus e), fr_body = JsonText (errorJson b)\<rparr>, w2) \<and> w_db w2 = w_db w'"
proof -
  have "\<not> isHttpException e \<Longrightarrow> httpStatus e = 500" by (cases e) simp_all
  then show ?thesis by (auto simp: backendNet_def api_request_def exceptionFilter_def assms prog_simps)
qed

lemma successOf_ok: "fr_ok (successOf enc m x)"
  by (simp add: successOf_def fr_ok_def)

lemma failure_not_ok: "\<not> fr_ok \<lparr>fr_status = int (httpStatus e), fr_body = t\<rparr>"
  by (cases e) (simp_all add: fr_ok_def)

lemma bearer_of_header: "bearerToken (Some (''Bearer '' @ tok)) = Some tok"
  by (simp add: bearerToken_def)

lemma me_dispatch:
  assumes "accessTokenOf E i tok" and "tokensVerify E" and "List.find (\<lambda>u. u_id u = i) (t_users (w_db w)) = Some u"
  shows "\<exists>w'. w_db w' = w_db w \<and>
    api_dispatch E A (httpRequestOf ip agent \<lparr>bq_init = meInit, bq_token = Some tok, bq_json = False\<rparr>) (AuthR AuthMe) w =
      (if u_status u = ACTIVE then Inr (AuthRes (RMe (Some (toAuthUser (w_db w) u None))))
       else Inl (UnauthorizedException (if u_status u = BANNED then ''Compte invalide ou banni'' else ''Compte suspendu'')), w')"
proof -
  have url: "\<not> endsWith (''/api'' @ ''/auth/me'') ''/metrics''" "\<not> startsWith (''/api'' @ ''/auth/me'') ''/api/docs''"
    by code_simp+
  have tok: "\<not> startsWith tok API_KEY_PREFIX" "passportBearer E (Some (''Bearer '' @ tok)) = Some tok"
    "\<And>n. jwtVerify E n (cf_accessSecret (cfg E)) tok = Some (claimsOf i)"
    using assms(1,2) by (auto simp: tokensVerify_def)
  show ?thesis
    by (cases "u_status u")
      (simp_all add: api_dispatch_def jwtAuthGuard_def httpRequestOf_def meInit_def api_call_def url [unfolded append_Cons append_Nil]
        bearer_of_header [unfolded append_Cons append_Nil] tok [unfolded append_Cons append_Nil]
        passportJwt_def jwt_validate_def claimsOf_def assms(3)
        liftGuard_def permissionsGuard_def respond_def prog_simps)
qed

subsection \<open>A login\<close>

lemma issueTokenPair_access:
  assumes "auth_issueTokenPair E i ip agent w = (Inr p, w')"
  shows "accessTokenOf E i (pair_access p)"
  using assms unfolding auth_issueTokenPair_def signAccess_def
  by (auto simp: run_Inr accessTokenOf_def claimsOf_def)

text \<open>What a password login that gives tokens leaves: the tokens are of the account, which the
  guards see as before.\<close>

definition holds :: "env \<Rightarrow> tokenPair \<Rightarrow> id \<Rightarrow> db \<Rightarrow> bool" where
  "holds E p i d \<longleftrightarrow> accessTokenOf E i (pair_access p) \<and>
     (\<exists>r. List.find (\<lambda>r. rt_tokenHash r = hashToken E (pair_refresh p)) (t_refreshTokens d) = Some r \<and>
        rt_userId r = i \<and> \<not> rt_revoked r)"

lemma issueTokenPair_holds:
  assumes "auth_issueTokenPair E i ip agent w = (Inr p, w')"
  shows "holds E p i (w_db w')"
proof -
  obtain j t where "\<not> list_ex (refreshToken_conflict (newRefreshToken E j i (pair_refresh p) ip agent t)) (t_refreshTokens (w_db w))"
    and w': "w_db w' = t_refreshTokens_update (\<lambda>ts. ts @ [newRefreshToken E j i (pair_refresh p) ip agent t]) (w_db w)"
    using issueTokenPair_Inr [OF assms] by blast
  then have "List.find (\<lambda>r. rt_tokenHash r = hashToken E (pair_refresh p)) (t_refreshTokens (w_db w)) = None"
    by (auto simp: find_None_iff list_ex_iff refreshToken_conflict_def newRefreshToken_def)
  then show ?thesis using issueTokenPair_access [OF assms]
    by (auto simp: holds_def w' find_append_key newRefreshToken_def)
qed

lemma secondFactor_users:
  assumes "auth_secondFactor E u code w = (Inr (), w')" and "List.find (\<lambda>x. u_id x = u_id u) (t_users (w_db w)) = Some u"
  shows "\<exists>cs. List.find (\<lambda>x. u_id x = u_id u) (t_users (w_db w')) = Some (u\<lparr>u_twoFactorRecoveryCodes := cs\<rparr>) \<and>
    t_roles (w_db w') = t_roles (w_db w) \<and> t_permissions (w_db w') = t_permissions (w_db w) \<and>
    t_rolePermissions (w_db w') = t_rolePermissions (w_db w)"
proof (cases "totpVerify E (w_tick w) (orElse (u_twoFactorSecret u) []) code")
  case True
  then have "w_db w' = w_db w"
    using assms(1) by (auto simp: auth_secondFactor_def auth_verifyTotp_def run_Inr Let_def)
  moreover have "u\<lparr>u_twoFactorRecoveryCodes := u_twoFactorRecoveryCodes u\<rparr> = u" by simp
  ultimately show ?thesis using assms(2) by metis
next
  case False
  let ?cs = "filter (\<lambda>c. c \<noteq> code) (u_twoFactorRecoveryCodes u)"
  let ?f = "\<lambda>x. x\<lparr>u_twoFactorRecoveryCodes := ?cs\<rparr>"
  have d: "w_db w' = t_users_update (map (\<lambda>x. if u_id x = u_id u then ?f x else x)) (w_db w)"
    using assms(1) False by (auto simp: auth_secondFactor_def auth_verifyTotp_def run_Inr Let_def)
  have "List.find (\<lambda>x. u_id x = u_id u) (t_users (w_db w')) = Some (?f u)"
    using find_map_key [of u_id ?f "u_id u" "\<lambda>x. u_id x = u_id u" "t_users (w_db w)"] assms(2) by (simp add: d)
  then show ?thesis by (auto simp: d)
qed

lemma find_by_key: "distinct (map key xs) \<Longrightarrow> x \<in> set xs \<Longrightarrow> List.find (\<lambda>y. key y = key x) xs = Some x"
  by (induction xs) (auto simp: image_iff)

lemma login_Inr:
  assumes "auth_loginRoute E dto ip agent w = (Inr (LoggedIn p), w')" and "distinct (map u_id (t_users (w_db w)))"
  shows "\<exists>u v. List.find (\<lambda>u. u_email u = ld_email dto) (t_users (w_db w)) = Some u \<and>
    bcryptCompare E (ld_password dto) (orElse (u_passwordHash u) []) \<and> holds E p (u_id u) (w_db w') \<and>
    List.find (\<lambda>x. u_id x = u_id u) (t_users (w_db w')) = Some v \<and> u_status v = u_status u \<and>
    toAuthUser (w_db w') v None = toAuthUser (w_db w) u None"
proof -
  obtain u where u: "List.find (\<lambda>u. u_email u = ld_email dto) (t_users (w_db w)) = Some u"
      "bcryptCompare E (ld_password dto) (orElse (u_passwordHash u) [])"
    and login: "auth_login E (u_id u) (ld_totpCode dto) ip agent w = (Inr (LoggedIn p), w')"
    using assms(1) unfolding auth_loginRoute_def auth_validateLocalUser_def
    by (auto simp: run_Inr split: option.splits if_splits)
  have "u \<in> set (t_users (w_db w))" using u(1) by (auto dest: find_SomeD)
  then have find: "List.find (\<lambda>x. u_id x = u_id u) (t_users (w_db w)) = Some u"
    by (rule find_by_key [OF assms(2)])
  obtain w1 w2 where w1: "(if u_twoFactorEnabled u then auth_secondFactor E u (orElse (ld_totpCode dto) []) else ret ()) w = (Inr (), w1)"
    and log: "audit_log E (loginEntry (u_id u) ip) w1 = (Inr (), w2)"
    and tok: "auth_issueTokenPair E (u_id u) ip agent w2 = (Inr p, w')"
    using login find by (auto simp: auth_login_def run_Inr split: if_splits)
  obtain cs where cs: "List.find (\<lambda>x. u_id x = u_id u) (t_users (w_db w1)) = Some (u\<lparr>u_twoFactorRecoveryCodes := cs\<rparr>)"
      "t_roles (w_db w1) = t_roles (w_db w)" "t_permissions (w_db w1) = t_permissions (w_db w)"
      "t_rolePermissions (w_db w1) = t_rolePermissions (w_db w)"
  proof (cases "u_twoFactorEnabled u")
    case True
    then show ?thesis using secondFactor_users [OF _ find] w1 that by auto
  next
    case False
    then have "w1 = w" using w1 by (simp add: run_Inr)
    then show ?thesis using find by (intro that [of "u_twoFactorRecoveryCodes u"]) simp_all
  qed
  let ?v = "u\<lparr>u_twoFactorRecoveryCodes := cs\<rparr>"
  have same: "t_users (w_db w') = t_users (w_db w1)" "t_roles (w_db w') = t_roles (w_db w)"
      "t_permissions (w_db w') = t_permissions (w_db w)" "t_rolePermissions (w_db w') = t_rolePermissions (w_db w)"
    using audit_log_Inr [OF log] issueTokenPair_Inr [OF tok] cs by auto
  have "toAuthUser (w_db w') ?v None = toAuthUser (w_db w) u None"
    by (auto simp: toAuthUser_def currentPermissions_def permissionsForRole_def roleOf_def rolePermissionKeys_def same
        split: option.splits)
  then show ?thesis using u cs(1) same(1) issueTokenPair_holds [OF tok]
    by (intro exI [of _ u] exI [of _ ?v]) simp
qed

lemma refresh_Inr:
  assumes "auth_refresh E (pair_refresh p) ip w = (Inr q, w')" and "holds E p i (w_db w)"
  shows "accessTokenOf E i (pair_access q) \<and> t_users (w_db w') = t_users (w_db w)"
proof -
  obtain r where r: "List.find (\<lambda>r. rt_tokenHash r = hashToken E (pair_refresh p)) (t_refreshTokens (w_db w)) = Some r"
    "rt_userId r = i" using assms(2) by (auto simp: holds_def)
  then obtain w1 where "auth_issueTokenPair E i ip None w1 = (Inr q, w')" "t_users (w_db w1) = t_users (w_db w)"
    using assms(1) unfolding auth_refresh_def by (auto simp: run_Inr)
  then show ?thesis using issueTokenPair_access issueTokenPair_Inr by fastforce
qed

subsection \<open>The dashboard after a login\<close>

definition tokensStorage :: "tokenPair \<Rightarrow> storage" where
  "tokensStorage p = \<lparr>ls_access = Some (pair_access p), ls_refresh = Some (pair_refresh p)\<rparr>"

lemma me_answer:
  assumes "accessTokenOf E i tok" and "tokensVerify E" and "readsAuth dec"
    and "List.find (\<lambda>u. u_id u = i) (t_users (w_db w)) = Some u" and "ls_access st = Some tok"
  shows "\<exists>w' b. w_db w' = w_db w \<and> backendNet E A dec enc ip agent (browserRequestOf st meInit) w =
    (Inr (if u_status u = ACTIVE then \<lparr>fr_status = 200, fr_body = JsonText (meJson (toAuthUser (w_db w) u None))\<rparr>
      else \<lparr>fr_status = 401, fr_body = JsonText (errorJson b)\<rparr>), w')"
proof -
  let ?rq = "\<lparr>bq_init = meInit, bq_token = Some tok, bq_json = False\<rparr>"
  have rq: "browserRequestOf st meInit = ?rq"
    using assms(1,2,5) by (simp add: browserRequestOf_def meInit_def api_call_def tokensVerify_def)
  obtain w1 where w1: "w_db w1 = w_db w" and me: "api_dispatch E A (httpRequestOf ip agent ?rq) (AuthR AuthMe) w =
      (if u_status u = ACTIVE then Inr (AuthRes (RMe (Some (toAuthUser (w_db w) u None))))
       else Inl (UnauthorizedException (if u_status u = BANNED then ''Compte invalide ou banni'' else ''Compte suspendu'')), w1)"
    using me_dispatch [OF assms(1,2,4), of A ip agent] by blast
  have dec: "dec (bq_init ?rq) = AuthR AuthMe" using assms(3) by (simp add: readsAuth_def)
  show ?thesis
  proof (cases "u_status u = ACTIVE")
    case True
    have "successOf enc (in_method meInit) (AuthRes (RMe (Some (toAuthUser (w_db w) u None)))) =
        \<lparr>fr_status = 200, fr_body = JsonText (meJson (toAuthUser (w_db w) u None))\<rparr>"
      by (simp add: successOf_def meInit_def api_call_def)
    then show ?thesis using backend_success [where dec = dec, OF dec, of E A ip agent w _ w1 enc] me w1 True
      by (auto simp: rq)
  next
    case False
    then show ?thesis using backend_failure [where dec = dec, OF dec, of E A ip agent w _ w1 enc] me w1
      by (auto simp: rq)
  qed
qed

lemma tokenPair_fields:
  "fieldStr ''accessToken'' (Some (tokenPairJson q)) = pair_access q"
  "fieldStr ''refreshToken'' (Some (tokenPairJson q)) = pair_refresh q"
  by (simp_all add: tokenPairJson_def fieldStr_def fieldOpt_def strField_def)

lemma refresh_dispatch:
  "api_dispatch E A rq (AuthR (AuthRefresh t)) w =
     (case auth_refresh E t (hq_ip rq) w of (Inl e, w') \<Rightarrow> (Inl e, w')
       | (Inr q, w') \<Rightarrow> (Inr (AuthRes (RTokens q)), w'))"
  by (simp add: api_dispatch_def jwtAuthGuard_def liftGuard_def permissionsGuard_def respond_def prog_simps
      split: prod.splits sum.splits)

lemma tryRefresh_token:
  assumes "tryRefresh (backendNet E A dec enc ip agent) (tokensStorage p) w = (True, st', w')"
    and "holds E p i (w_db w)" and "readsAuth dec"
  shows "\<exists>q. accessTokenOf E i q \<and> ls_access st' = Some q \<and> t_users (w_db w') = t_users (w_db w)"
proof -
  let ?rq = "refreshRequest (pair_refresh p)"
  have dec: "dec (bq_init ?rq) = AuthR (AuthRefresh (pair_refresh p))" using assms(3) by (simp add: readsAuth_def)
  obtain a where net: "backendNet E A dec enc ip agent ?rq w = (a, w')" and st': "refreshed a (tokensStorage p) = Some st'"
    using assms(1) by (auto simp: tryRefresh_def tokensStorage_def split: if_splits prod.splits option.splits)
  obtain res where res: "a = Inr res" "fr_ok res"
    using st' by (auto simp: refreshed_def split: sum.splits if_splits)
  show ?thesis
  proof (cases "auth_refresh E (pair_refresh p) ip w")
    case (Pair r w1)
    show ?thesis
    proof (cases r)
      case (Inl e)
      then have "api_dispatch E A (httpRequestOf ip agent ?rq) (AuthR (AuthRefresh (pair_refresh p))) w = (Inl e, w1)"
        by (simp add: refresh_dispatch Pair httpRequestOf_def)
      from backend_failure [where dec = dec, OF dec this, of enc] res net show ?thesis using failure_not_ok by auto
    next
      case (Inr q)
      then have "api_dispatch E A (httpRequestOf ip agent ?rq) (AuthR (AuthRefresh (pair_refresh p))) w =
          (Inr (AuthRes (RTokens q)), w1)"
        by (simp add: refresh_dispatch Pair httpRequestOf_def)
      from backend_success [where dec = dec, OF dec this, of enc] net res have "w1 = w'" "fr_json res = Some (tokenPairJson q)"
        by (simp_all add: successOf_def fr_json_def)
      moreover from this have "ls_access st' = Some (pair_access q)"
        using st' res tokenPair_fields [of q] by (auto simp: refreshed_def setTokens_def tokenPairJson_def)
      ultimately show ?thesis using refresh_Inr [of E p ip w q w' i] Pair Inr assms(2) by auto
    qed
  qed
qed

text \<open>The user of the dashboard after the tokens of an account were stored.\<close>

lemma refreshUser_active:
  assumes "holds E p i (w_db w)" and "tokensVerify E" and "readsAuth dec"
    and "List.find (\<lambda>u. u_id u = i) (t_users (w_db w)) = Some u" and "u_status u = ACTIVE"
    and "px_storage x = tokensStorage p"
  shows "\<exists>w'. w_db w' = w_db w \<and> refreshUser (backendNet E A dec enc ip agent) x w =
    (x\<lparr>px_user := Some (meJson (toAuthUser (w_db w) u None)), px_loading := False\<rparr>, w')"
proof -
  have tok: "accessTokenOf E i (pair_access p)" using assms(1) by (simp add: holds_def)
  then have "pair_access p \<noteq> []" using assms(2) by (auto simp: tokensVerify_def)
  moreover obtain w' where "w_db w' = w_db w" and me: "backendNet E A dec enc ip agent (browserRequestOf (px_storage x) meInit) w =
      (Inr \<lparr>fr_status = 200, fr_body = JsonText (meJson (toAuthUser (w_db w) u None))\<rparr>, w')"
    using me_answer [OF tok assms(2-4), of "px_storage x" A enc ip agent] assms(5,6) by (auto simp: tokensStorage_def)
  moreover have "panel_request (backendNet E A dec enc ip agent) meInit True (px_storage x) w =
      (Inr (Some (meJson (toAuthUser (w_db w) u None))), px_storage x, w')"
    by (subst panel_request.simps) (simp add: me finishRequest_def fr_ok_def)
  ultimately show ?thesis
    by (intro exI [of _ w']) (simp add: refreshUser_def assms(6) tokensStorage_def meInit_def [symmetric])
qed

lemma refreshUser_locked:
  assumes "holds E p i (w_db w)" and "tokensVerify E" and "readsAuth dec"
    and "List.find (\<lambda>u. u_id u = i) (t_users (w_db w)) = Some u" and "u_status u \<noteq> ACTIVE"
    and "px_storage x = tokensStorage p"
  shows "fst (refreshUser (backendNet E A dec enc ip agent) x w) =
    x\<lparr>px_storage := noTokens, px_user := None, px_loading := False\<rparr>"
proof -
  let ?net = "backendNet E A dec enc ip agent"
  have tok: "accessTokenOf E i (pair_access p)" using assms(1) by (simp add: holds_def)
  then have "pair_access p \<noteq> []" using assms(2) by (auto simp: tokensVerify_def)
  obtain w1 b where w1: "w_db w1 = w_db w" and me: "?net (browserRequestOf (px_storage x) meInit) w =
      (Inr \<lparr>fr_status = 401, fr_body = JsonText (errorJson b)\<rparr>, w1)"
    using me_answer [OF tok assms(2-4), of "px_storage x" A enc ip agent] assms(5,6) by (auto simp: tokensStorage_def)
  have refused: "finishRequest \<lparr>fr_status = 401, fr_body = JsonText (errorJson b)\<rparr> = Inl (ApiError 401 (errorJson b))" for b
    by (simp add: finishRequest_def fr_ok_def fr_json_def)
  obtain ok st w2 where again: "tryRefresh ?net (px_storage x) w1 = (ok, st, w2)" by (cases "tryRefresh ?net (px_storage x) w1") auto
  have "\<exists>e st s. panel_request ?net meInit True (px_storage x) w = (Inl e, st, s)"
  proof (cases ok)
    case False
    then show ?thesis by (subst panel_request.simps) (simp add: me again refused)
  next
    case True
    have "tryRefresh ?net (tokensStorage p) w1 = (True, st, w2)" "holds E p i (w_db w1)"
      using again True assms(1,6) w1 by simp_all
    from tryRefresh_token [OF this assms(3)] w1
    obtain q where q: "accessTokenOf E i q" "ls_access st = Some q" "t_users (w_db w2) = t_users (w_db w)" by auto
    have "List.find (\<lambda>u. u_id u = i) (t_users (w_db w2)) = Some u" using assms(4) q(3) by simp
    from me_answer [OF q(1) assms(2,3) this q(2), of A enc ip agent] assms(5)
    obtain b' w3 where "?net (browserRequestOf st meInit) w2 = (Inr \<lparr>fr_status = 401, fr_body = JsonText (errorJson b')\<rparr>, w3)"
      by auto
    then have "panel_request ?net meInit False st w2 = (Inl (ApiError 401 (errorJson b')), st, w3)"
      by (subst panel_request.simps) (simp add: refused)
    then show ?thesis using True by (subst panel_request.simps) (simp add: me again)
  qed
  then show ?thesis using \<open>pair_access p \<noteq> []\<close>
    by (auto simp: refreshUser_def assms(6) tokensStorage_def meInit_def clearTokens_def noTokens_def)
qed

lemma panel_request_anonymous:
  "net (browserRequestOf noTokens init) s = (a, s1) \<Longrightarrow> panel_request net init True noTokens s =
     (case a of Inl m \<Rightarrow> Inl (NetworkError m) | Inr res \<Rightarrow> finishRequest res, noTokens, s1)"
  by (subst panel_request.simps) (simp add: tryRefresh_def noTokens_def split: sum.splits)

lemma login_dispatch:
  "api_dispatch E A rq (AuthR (AuthLogin d)) w =
     (if valid_loginDto (ax_isEmail A) d
      then (case auth_loginRoute E d (hq_ip rq) (hq_userAgent rq) w of (Inl e, w') \<Rightarrow> (Inl e, w')
        | (Inr l, w') \<Rightarrow> (Inr (AuthRes (RLogin l)), w'))
      else (Inl (BadRequestException ''Bad Request''), w))"
  by (simp add: api_dispatch_def jwtAuthGuard_def liftGuard_def permissionsGuard_def respond_def validated_def
      prog_simps split: prod.splits sum.splits)

text \<open>What the page reads of an answer that is no failure: what the login route has returned.\<close>

lemma login_answer:
  assumes "backendNet E A dec enc ip agent (browserRequestOf noTokens (loginInit email password totp)) w = (Inr a, s1)"
    and "readsAuth dec" and fin: "finishRequest a = Inr res"
  shows "\<exists>l. auth_loginRoute E \<lparr>ld_email = email, ld_password = password, ld_totpCode = totp\<rparr> ip agent w = (Inr l, s1) \<and>
    res = Some (case l of RequiresTwoFactor \<Rightarrow> JObj [(''requiresTwoFactor'', JBool True)] | LoggedIn p \<Rightarrow> tokenPairJson p)"
proof -
  let ?d = "\<lparr>ld_email = email, ld_password = password, ld_totpCode = totp\<rparr>"
  let ?rq = "browserRequestOf noTokens (loginInit email password totp)"
  have dec: "dec (bq_init ?rq) = AuthR (AuthLogin ?d)" using assms(2) by (simp add: browserRequestOf_def readsAuth_def)
  have ok: "fr_ok a" using fin by (auto simp: finishRequest_def split: if_splits)
  obtain o' w1 where disp: "api_dispatch E A (httpRequestOf ip agent ?rq) (AuthR (AuthLogin ?d)) w = (o', w1)"
    by fastforce
  show ?thesis
  proof (cases o')
    case (Inl e)
    from backend_failure [where dec = dec, OF dec disp [unfolded Inl], of enc] assms(1) ok show ?thesis
      using failure_not_ok by auto
  next
    case (Inr y)
    then obtain l where l: "y = AuthRes (RLogin l)" "auth_loginRoute E ?d ip agent w = (Inr l, w1)"
      using disp by (auto simp: login_dispatch httpRequestOf_def split: if_splits prod.splits sum.splits)
    from backend_success [where dec = dec, OF dec disp [unfolded Inr], of enc] assms(1)
    have "a = successOf enc (in_method (bq_init ?rq)) (AuthRes (RLogin l))" and "w1 = s1" by (simp_all add: l(1))
    then show ?thesis using l(2) fin
      by (cases l) (auto simp: successOf_def finishRequest_def fr_ok_def browserRequestOf_def loginInit_def api_call_def)
  qed
qed

lemma panel_login_done:
  assumes "panel_login (backendNet E A dec enc ip agent) email password totp x w = (LoginDone, x', w')"
    and "px_storage x = noTokens" and "readsAuth dec"
  shows "\<exists>p w1. auth_loginRoute E \<lparr>ld_email = email, ld_password = password, ld_totpCode = totp\<rparr> ip agent w =
      (Inr (LoggedIn p), w1) \<and>
    (x', w') = refreshUser (backendNet E A dec enc ip agent) (x\<lparr>px_storage := tokensStorage p\<rparr>) w1"
proof -
  let ?net = "backendNet E A dec enc ip agent"
  obtain a0 s1 where net0: "?net (browserRequestOf noTokens (loginInit email password totp)) w = (a0, s1)" by fastforce
  let ?r = "case a0 of Inl m \<Rightarrow> Inl (NetworkError m) | Inr res \<Rightarrow> finishRequest res"
  note req = panel_request_anonymous [of ?net "loginInit email password totp", OF net0]
  have login: "panel_login ?net email password totp x w = (case ?r of
      Inl e \<Rightarrow> (LoginFailed e, x\<lparr>px_storage := noTokens\<rparr>, s1)
    | Inr res \<Rightarrow> if \<not> readable res then (LoginFailed ParseError, x\<lparr>px_storage := noTokens\<rparr>, s1)
        else if truthyJson (field ''requiresTwoFactor'' res) then (CodeNeeded, x\<lparr>px_storage := noTokens\<rparr>, s1)
        else (LoginDone, refreshUser ?net (storeTokens res (x\<lparr>px_storage := noTokens\<rparr>)) s1))"
    unfolding panel_login_def assms(2) loginInit_def [symmetric] req by (simp split: sum.splits)
  obtain res where r: "?r = Inr res" and fin: "\<not> truthyJson (field ''requiresTwoFactor'' res)"
      "(x', w') = refreshUser ?net (storeTokens res (x\<lparr>px_storage := noTokens\<rparr>)) s1"
    using assms(1) login by (cases ?r) (auto split: if_splits)
  obtain a where net: "a0 = Inr a" "finishRequest a = Inr res" using r by (auto split: sum.splits)
  obtain l where l: "auth_loginRoute E \<lparr>ld_email = email, ld_password = password, ld_totpCode = totp\<rparr> ip agent w = (Inr l, s1)"
      "res = Some (case l of RequiresTwoFactor \<Rightarrow> JObj [(''requiresTwoFactor'', JBool True)] | LoggedIn p \<Rightarrow> tokenPairJson p)"
    using login_answer [OF net0 [unfolded net(1)] assms(3) net(2)] by blast
  show ?thesis
  proof (cases l)
    case (LoggedIn p)
    have "storeTokens res (x\<lparr>px_storage := noTokens\<rparr>) = x\<lparr>px_storage := tokensStorage p\<rparr>"
      by (simp add: l(2) LoggedIn storeTokens_def tokenPair_fields setTokens_def tokensStorage_def)
    then show ?thesis using l(1) LoggedIn fin(2) by auto
  qed (use fin(1) l(2) in simp)
qed

text \<open>C5: a login on the dashboard, down to the database: when it is reported as done, the account
  with the address exists and has the password. An active account is then the user of the
  dashboard, with the permissions its role has in the database, and the storage has an access
  token and a live refresh token of this account; for a suspended or banned account there is
  no user and the storage is empty.\<close>

theorem dashboard_login_reaches_account:
  assumes "tokensVerify E" and "readsAuth dec" and "distinct (map u_id (t_users (w_db w)))"
    and "px_storage x = noTokens"
    and "panel_login (backendNet E A dec enc ip agent) email password totp x w = (LoginDone, x', w')"
  shows "\<exists>u. List.find (\<lambda>u. u_email u = email) (t_users (w_db w)) = Some u \<and>
    bcryptCompare E password (orElse (u_passwordHash u) []) \<and>
    (if u_status u = ACTIVE
     then px_user x' = Some (meJson (toAuthUser (w_db w) u None)) \<and>
       sessionPermissions (px_user x') = currentPermissions (w_db w) u \<and>
       (\<exists>p. px_storage x' = tokensStorage p \<and> holds E p (u_id u) (w_db w'))
     else px_user x' = None \<and> px_storage x' = noTokens)"
proof -
  let ?net = "backendNet E A dec enc ip agent"
  obtain p w1 where login: "auth_loginRoute E \<lparr>ld_email = email, ld_password = password, ld_totpCode = totp\<rparr> ip agent w =
      (Inr (LoggedIn p), w1)" and x': "(x', w') = refreshUser ?net (x\<lparr>px_storage := tokensStorage p\<rparr>) w1"
    using panel_login_done [OF assms(5,4,2)] by blast
  obtain u v where u: "List.find (\<lambda>u. u_email u = email) (t_users (w_db w)) = Some u"
      "bcryptCompare E password (orElse (u_passwordHash u) [])" and p: "holds E p (u_id u) (w_db w1)"
    and v: "List.find (\<lambda>x. u_id x = u_id u) (t_users (w_db w1)) = Some v" "u_status v = u_status u"
      "toAuthUser (w_db w1) v None = toAuthUser (w_db w) u None"
    using login_Inr [OF login assms(3)] by auto
  show ?thesis
  proof (cases "u_status u = ACTIVE")
    case True
    obtain w2 where "w_db w2 = w_db w1" "refreshUser ?net (x\<lparr>px_storage := tokensStorage p\<rparr>) w1 =
        (x\<lparr>px_storage := tokensStorage p, px_user := Some (meJson (toAuthUser (w_db w) u None)), px_loading := False\<rparr>, w2)"
      using refreshUser_active [OF p assms(1,2) v(1), of "x\<lparr>px_storage := tokensStorage p\<rparr>" A enc ip agent] True v(2,3)
      by auto
    then have "px_user x' = Some (meJson (toAuthUser (w_db w) u None))" "px_storage x' = tokensStorage p"
      "holds E p (u_id u) (w_db w')" using x' p by simp_all
    then show ?thesis using u True by (auto simp: sessionPermissions_me toAuthUser_def)
  next
    case False
    have "fst (x', w') = x\<lparr>px_storage := noTokens, px_user := None, px_loading := False\<rparr>"
      unfolding x' using refreshUser_locked [OF p assms(1,2) v(1), of "x\<lparr>px_storage := tokensStorage p\<rparr>" A enc ip agent]
        False v(2) by simp
    then show ?thesis using u False by auto
  qed
qed

text \<open>An environment whose tokens name their account, and a reader of the requests of the session.\<close>

definition panelEnv :: env where
  "panelEnv = sampleEnv\<lparr>jwtSign := (\<lambda>m secret ttl c. ''T:'' @ jc_sub c)\<rparr>"

definition sampleReads :: "apiInit \<Rightarrow> route" where
  "sampleReads i = (case in_body i of
     JsonBody fs \<Rightarrow> if in_path i = ''/auth/refresh'' then AuthR (AuthRefresh (fieldStr ''refreshToken'' (Some (JObj fs))))
       else AuthR (AuthLogin \<lparr>ld_email = fieldStr ''email'' (Some (JObj fs)),
         ld_password = fieldStr ''password'' (Some (JObj fs)), ld_totpCode = fieldOpt ''totpCode'' (Some (JObj fs))\<rparr>)
   | _ \<Rightarrow> AuthR AuthMe)"

definition emptySession :: panelSession where
  "emptySession = \<lparr>px_storage = noTokens, px_user = None, px_loading = False, px_location = None\<rparr>"

lemma sampleReads_reads: "readsAuth sampleReads"
  by (auto simp: readsAuth_def sampleReads_def meInit_def loginInit_def api_call_def refreshRequest_def
      fieldStr_def fieldOpt_def strField_def optStr_def split: option.splits)

lemma panelEnv_verifies: "tokensVerify panelEnv"
  by (auto simp: tokensVerify_def accessTokenOf_def panelEnv_def sampleEnv_def claimsOf_def API_KEY_PREFIX_def)

theorem dashboard_login_reaches_account_witness:
  "\<exists>x' w'. panel_login (backendNet panelEnv sampleApi sampleReads (\<lambda>_. EmptyText) None None)
       ''alice@x'' ''alice'' None emptySession sampleWorld = (LoginDone, x', w') \<and>
     sessionPermissions (px_user x') = [''servers.read''] \<and>
     (\<exists>p. px_storage x' = tokensStorage p \<and> holds panelEnv p ''alice'' (w_db w'))"
proof -
  let ?run = "panel_login (backendNet panelEnv sampleApi sampleReads (\<lambda>_. EmptyText) None None)
       ''alice@x'' ''alice'' None emptySession sampleWorld"
  have "fst ?run = LoginDone" by code_simp
  then obtain x' w' where run: "?run = (LoginDone, x', w')" by (cases ?run) auto
  have "List.find (\<lambda>u. u_email u = ''alice@x'') (t_users (w_db sampleWorld)) = Some (sampleUser ''alice'' (Some ''r-client''))"
    "distinct (map u_id (t_users (w_db sampleWorld)))"
    "currentPermissions (w_db sampleWorld) (sampleUser ''alice'' (Some ''r-client'')) = [''servers.read'']"
    "u_status (sampleUser ''alice'' (Some ''r-client'')) = ACTIVE" "u_id (sampleUser ''alice'' (Some ''r-client'')) = ''alice''"
    "px_storage emptySession = noTokens"
    by code_simp+
  with dashboard_login_reaches_account [OF panelEnv_verifies sampleReads_reads _ _ run] run show ?thesis
    by auto
qed

end
