(* ===== verification/Display.thy ===== *)
theory Display
  imports Panels Support Doubles
begin

text \<open>
  What the pages of the dashboard compute from the data they show: prices and sizes, badges, the
  meters and bars of the monitoring page, the tiles and curves of the statistics, the account an
  SFTP client is told to use. Numbers are doubles (\<open>Doubles\<close>). What depends on the language of the
  browser (\<open>toLocaleString\<close>) is an argument.
\<close>

subsection \<open>Numbers as text\<close>

definition js_sub :: "rat \<Rightarrow> rat \<Rightarrow> rat" where "js_sub a b = fl (a - b)"

text \<open>\<open>x.toFixed(f)\<close>, below \<open>10 ^ 21\<close>: the nearest multiple of \<open>10 ^ -f\<close>, the larger of two.\<close>

definition fixedText :: "nat \<Rightarrow> nat \<Rightarrow> string" where
  "fixedText f n = (let s = padStart (Suc f) (CHR ''0'') (show_nat n) in
     if f = 0 then s else take (length s - f) s @ ''.'' @ drop (length s - f) s)"

definition toFixed :: "nat \<Rightarrow> rat \<Rightarrow> string" where
  "toFixed f x = (if x < 0 then CHR ''-'' # fixedText f (nat \<lfloor>- x * 10 ^ f + 1 / 2\<rfloor>)
     else fixedText f (nat \<lfloor>x * 10 ^ f + 1 / 2\<rfloor>))"

text \<open>\<open>Number(s)\<close> of a number in decimal digits, as the 64-bit integers of the daemon and of the
  database come; \<open>None\<close> stands for NaN.\<close>

definition jsNumber :: "string \<Rightarrow> rat option" where
  "jsNumber s = (let (neg, ds) = (case s of [] \<Rightarrow> (False, []) | c # r \<Rightarrow>
       if c = CHR ''-'' \<and> r \<noteq> [] then (True, r) else (False, s)) in
     if list_all is_digit ds then Some (fl (if neg then - of_nat (parse_nat ds) else of_nat (parse_nat ds)))
     else None)"

subsection \<open>Prices and sizes\<close>

text \<open>The amounts of the billing page; a price of the marketplace is in euros.\<close>

definition amountText :: "int \<Rightarrow> string" where
  "amountText cents = toFixed 2 (js_div (of_int cents) 100)"

fun billingCycleName :: "BillingCycle \<Rightarrow> string" where
  "billingCycleName HOURLY = ''HOURLY''"
| "billingCycleName DAILY = ''DAILY''"
| "billingCycleName WEEKLY = ''WEEKLY''"
| "billingCycleName MONTHLY = ''MONTHLY''"
| "billingCycleName QUARTERLY = ''QUARTERLY''"
| "billingCycleName YEARLY = ''YEARLY''"
| "billingCycleName ONE_TIME = ''ONE_TIME''"

definition planPrice :: "plan \<Rightarrow> string" where
  "planPrice p = amountText (pl_priceCents p) @ '' '' @ pl_currency p @ '' / '' @
     map lowerChar (billingCycleName (pl_billingCycle p))"

definition invoiceAmount :: "invoice \<Rightarrow> string" where
  "invoiceAmount i = amountText (i_totalCents i) @ '' '' @ i_currency i"

definition itemPrice :: "int \<Rightarrow> string" where
  "itemPrice priceCents = (if priceCents = 0 then ''Gratuit'' else amountText priceCents @ '' EUR'')"

definition formatSize :: "string \<Rightarrow> string" where
  "formatSize bytes = (case jsNumber bytes of None \<Rightarrow> ''-'' | Some n \<Rightarrow>
     if n = 0 then ''-''
     else if n < 1024 then toFixed 0 n @ '' o''
     else if n < 1024 * 1024 then toFixed 1 (js_div n 1024) @ '' Ko''
     else toFixed 1 (js_div (js_div n 1024) 1024) @ '' Mo'')"

definition backupSize :: "string option \<Rightarrow> string" where
  "backupSize sizeBytes = (if \<not> truthy sizeBytes then ''-''
     else (case jsNumber (orElse sizeBytes []) of None \<Rightarrow> ''NaN''
       | Some n \<Rightarrow> toFixed 1 (js_div (js_div n 1024) 1024)) @ '' Mo'')"

subsection \<open>Badges\<close>

fun serverStatusName :: "ServerStatus \<Rightarrow> string" where
  "serverStatusName SRV_INSTALLING = ''INSTALLING''"
| "serverStatusName SRV_INSTALL_FAILED = ''INSTALL_FAILED''"
| "serverStatusName SRV_OFFLINE = ''OFFLINE''"
| "serverStatusName SRV_STARTING = ''STARTING''"
| "serverStatusName SRV_RUNNING = ''RUNNING''"
| "serverStatusName SRV_STOPPING = ''STOPPING''"
| "serverStatusName SRV_CRASHED = ''CRASHED''"
| "serverStatusName SRV_SUSPENDED = ''SUSPENDED''"
| "serverStatusName SRV_TRANSFERRING = ''TRANSFERRING''"
| "serverStatusName SRV_RESTORING = ''RESTORING''"

text \<open>\<open>s.replace("_", " ")\<close>: the first underscore only.\<close>

definition firstUnderscore :: "string \<Rightarrow> string" where
  "firstUnderscore s = (case dropWhile (\<lambda>c. c \<noteq> CHR ''_'') s of [] \<Rightarrow> s
     | _ # r \<Rightarrow> takeWhile (\<lambda>c. c \<noteq> CHR ''_'') s @ '' '' @ r)"

definition statusLabel :: "string \<Rightarrow> string" where
  "statusLabel status = firstUnderscore (map lowerChar status)"

text \<open>The colours of \<open>STATUS_STYLES\<close>; other statuses have none.\<close>

datatype tone = Emerald | Amber | Blue | Muted | Destructive

definition STATUS_STYLES :: "(string \<times> tone) list" where
  "STATUS_STYLES = [(''RUNNING'', Emerald), (''ONLINE'', Emerald), (''STARTING'', Amber), (''STOPPING'', Amber),
     (''INSTALLING'', Blue), (''RESTORING'', Blue), (''TRANSFERRING'', Blue), (''OFFLINE'', Muted),
     (''MAINTENANCE'', Muted), (''CRASHED'', Destructive), (''INSTALL_FAILED'', Destructive),
     (''SUSPENDED'', Destructive), (''DEGRADED'', Amber)]"

definition statusBadge :: "string \<Rightarrow> string \<times> tone option" where
  "statusBadge status = (statusLabel status, map_of STATUS_STYLES status)"

text \<open>The badge of a server, and of a node.\<close>

definition serverBadge :: "server \<Rightarrow> string \<times> tone option" where
  "serverBadge s = statusBadge (if s_suspended s then ''SUSPENDED'' else serverStatusName (s_status s))"

fun nodeStatusName :: "NodeStatus \<Rightarrow> string" where
  "nodeStatusName NODE_ONLINE = ''ONLINE''"
| "nodeStatusName NODE_OFFLINE = ''OFFLINE''"
| "nodeStatusName NODE_MAINTENANCE = ''MAINTENANCE''"
| "nodeStatusName NODE_DEGRADED = ''DEGRADED''"

definition nodeBadge :: "node \<Rightarrow> string \<times> tone option" where
  "nodeBadge n = statusBadge (if n_maintenanceMode n then ''MAINTENANCE'' else nodeStatusName (n_status n))"

text \<open>The capacity of a node, \<open>used/total\<close> for each resource.\<close>

definition nodeCapacity :: "node \<Rightarrow> string" where
  "nodeCapacity n = show_int (n_cpuAllocatedPct n) @ ''/'' @ show_int (n_cpuCores n * 100) @ ''% - '' @
     show_int (n_memoryAllocatedMb n) @ ''/'' @ show_int (n_memoryMb n) @ '' Mo - '' @
     show_int (n_diskAllocatedMb n) @ ''/'' @ show_int (n_diskMb n) @ '' Mo''"

subsection \<open>admin/monitoring\<close>

datatype colour = Critical | Warning | Good

definition meterColor :: "rat \<Rightarrow> colour" where
  "meterColor pct = (if 90 \<le> pct then Critical else if 70 \<le> pct then Warning else Good)"

definition usedPct :: "rat \<Rightarrow> rat \<Rightarrow> rat" where
  "usedPct used cap = (if 0 < cap then min (js_mul (js_div used cap) 100) 100 else 0)"

record meter =
  mt_label :: string
  mt_pct :: rat
  mt_percent :: string
  mt_amounts :: string
  mt_color :: colour

text \<open>A meter; \<open>fmt\<close> writes the amounts.\<close>

definition capacityMeter :: "(rat \<Rightarrow> string) \<Rightarrow> string \<Rightarrow> rat \<Rightarrow> rat \<Rightarrow> string \<Rightarrow> meter" where
  "capacityMeter fmt label used cap unit = (let pct = usedPct used cap in
     \<lparr>mt_label = label, mt_pct = pct, mt_percent = toFixed 0 pct @ ''%'',
      mt_amounts = fmt used @ '' / '' @ fmt cap @ '' '' @ unit, mt_color = meterColor pct\<rparr>)"

definition monitoringMeters :: "(rat \<Rightarrow> string) \<Rightarrow> nodesSummary \<Rightarrow> meter list" where
  "monitoringMeters loc s = [
     capacityMeter loc ''CPU alloue'' (of_int (ns_cpuAllocatedPct s)) (of_int (ns_cpuCapacityPct s)) ''%'',
     capacityMeter (toFixed 1) ''RAM allouee'' (js_div (of_int (ns_memoryAllocatedMb s)) 1024)
       (js_div (of_int (ns_memoryCapacityMb s)) 1024) ''Go'',
     capacityMeter (toFixed 1) ''Disque alloue'' (js_div (of_int (ns_diskAllocatedMb s)) 1024)
       (js_div (of_int (ns_diskCapacityMb s)) 1024) ''Go'']"

text \<open>The bars: the statuses in use, the most frequent first; the width is in percent.\<close>

definition statusEntries :: "(ServerStatus \<times> nat) list \<Rightarrow> (ServerStatus \<times> nat) list" where
  "statusEntries servers = orderDesc (\<lambda>(_, count). int count) (filter (\<lambda>(_, count). 0 < count) servers)"

definition STATUS_BAR_COLOR :: "(string \<times> tone) list" where
  "STATUS_BAR_COLOR = [(''RUNNING'', Emerald), (''STARTING'', Amber), (''STOPPING'', Amber), (''INSTALLING'', Blue),
     (''RESTORING'', Blue), (''TRANSFERRING'', Blue), (''OFFLINE'', Muted), (''CRASHED'', Destructive),
     (''INSTALL_FAILED'', Destructive), (''SUSPENDED'', Destructive)]"

record statusBar =
  sx_label :: string
  sx_width :: rat
  sx_tone :: tone
  sx_count :: nat

definition statusBars :: "(ServerStatus \<times> nat) list \<Rightarrow> statusBar list" where
  "statusBars servers = (let entries = statusEntries servers;
       maxCount = foldr max (map snd entries) 1 in
     map (\<lambda>(st, count). \<lparr>sx_label = statusLabel (serverStatusName st),
       sx_width = js_mul (js_div (of_nat count) (of_nat maxCount)) 100,
       sx_tone = (case map_of STATUS_BAR_COLOR (serverStatusName st) of Some t \<Rightarrow> t | None \<Rightarrow> Muted),
       sx_count = count\<rparr>) entries)"

definition totalServers :: "(ServerStatus \<times> nat) list \<Rightarrow> nat" where
  "totalServers servers = foldl (\<lambda>a b. a + b) 0 (map snd servers)"

definition nodesOnline :: "nodesSummary \<Rightarrow> string" where
  "nodesOnline s = show_nat (ns_online s) @ ''/'' @ show_nat (ns_total s)"

subsection \<open>stats-panel\<close>

text \<open>A point of the curve in a drawing of 240 by 48.\<close>

record sparkPoint =
  sp_x :: rat
  sp_y :: rat
  sp_sample :: "rat sample"

definition sparkPoints :: "rat sample list \<Rightarrow> sparkPoint list" where
  "sparkPoints history = (let maxV = foldr max (map sa_value history) 1;
       minT = sa_t (hd history); maxT = sa_t (last history);
       spanT = max (js_sub (of_int maxT) (of_int minT)) 1 in
     map (\<lambda>s. \<lparr>sp_x = js_mul (js_div (js_sub (of_int (sa_t s)) (of_int minT)) spanT) 240,
       sp_y = js_sub (js_sub 48 (js_mul (js_div (sa_value s) maxV) 42)) 3, sp_sample = s\<rparr>) history)"

definition pointText :: "sparkPoint \<Rightarrow> string" where
  "pointText p = toFixed 1 (sp_x p) @ '','' @ toFixed 1 (sp_y p)"

definition linePath :: "sparkPoint list \<Rightarrow> string" where
  "linePath points = joinWith '' ''
     (map (\<lambda>(i, p). (if i = 0 then ''M'' else ''L'') @ pointText p) (enumerate 0 points))"

text \<open>\<open>x.toFixed(1)\<close> of the last point closes the area under the curve.\<close>

definition areaPath :: "sparkPoint list \<Rightarrow> string" where
  "areaPath points = linePath points @ '' L'' @ toFixed 1 (sp_x (last points)) @ '',48 L0,48 Z''"

text \<open>Fewer than two samples are not drawn.\<close>

definition sparkline :: "rat sample list \<Rightarrow> (string \<times> string) option" where
  "sparkline history = (if length history < 2 then None
     else Some (linePath (sparkPoints history), areaPath (sparkPoints history)))"

text \<open>The point under the mouse, at \<open>x\<close> in the drawing, and where its value is written.\<close>

definition closestPoint :: "rat \<Rightarrow> sparkPoint list \<Rightarrow> sparkPoint" where
  "closestPoint x points = foldl (\<lambda>closest p.
     if \<bar>js_sub (sp_x p) x\<bar> < \<bar>js_sub (sp_x closest) x\<bar> then p else closest) (hd points) points"

text \<open>The mouse in the drawing, which is shown \<open>boxWidth\<close> wide from \<open>left\<close> on; the mark that follows it.\<close>

definition mouseX :: "rat \<Rightarrow> rat \<Rightarrow> rat \<Rightarrow> rat" where
  "mouseX clientX left boxWidth = js_mul (js_div (js_sub clientX left) boxWidth) 240"

datatype hoverEvent = MouseAt rat | MouseLeft

fun hoverStep :: "sparkPoint list \<Rightarrow> hoverEvent \<Rightarrow> sparkPoint option" where
  "hoverStep points (MouseAt x) = Some (closestPoint x points)"
| "hoverStep points MouseLeft = None"

definition tooltipX :: "sparkPoint \<Rightarrow> rat" where
  "tooltipX p = min (max (js_sub (sp_x p) 40) 0) 160"

text \<open>The tiles: the value shown, and its share of the limit.\<close>

definition cpuText :: "rat statsView \<Rightarrow> string" where
  "cpuText v = toFixed 0 (case sv_last v of None \<Rightarrow> 0 | Some (cpu, _) \<Rightarrow> cpu) @ ''%''"

definition ramText :: "rat statsView \<Rightarrow> string" where
  "ramText v = (let ram = (case sv_last v of None \<Rightarrow> 0 | Some (_, ram) \<Rightarrow> ram) in
     if 1024 \<le> ram then toFixed 1 (js_div ram 1024) @ '' Go'' else toFixed 0 ram @ '' Mo'')"

definition tilePct :: "rat \<Rightarrow> rat \<Rightarrow> rat" where
  "tilePct currentValue limitValue = usedPct currentValue limitValue"

definition tileColor :: "rat \<Rightarrow> colour" where
  "tileColor pct = (if 90 \<le> pct then Critical else if 70 \<le> pct then Warning else Good)"

subsection \<open>servers/[id], sftp-panel, topbar\<close>

text \<open>The line under the name of a server: its template, its node and its first allocation.\<close>

definition serverSubtitle :: "string \<Rightarrow> string \<Rightarrow> networkAllocation list \<Rightarrow> string" where
  "serverSubtitle template node allocations = template @ '' - Node '' @ node @ (case allocations of [] \<Rightarrow> []
     | a # _ \<Rightarrow> '' - '' @ al_ip a @ '':'' @ show_int (al_port a))"

text \<open>The initials of the account.\<close>

definition avatarText :: "string option \<Rightarrow> string" where
  "avatarText user = (case user of None \<Rightarrow> ''??'' | Some name \<Rightarrow> map upperChar (take 2 name))"

text \<open>The name of the account and the short identifier of the server; \<open>null\<close> without a session.\<close>

definition sftpUsername :: "string option \<Rightarrow> id \<Rightarrow> string" where
  "sftpUsername user uuid = (case user of None \<Rightarrow> ''...'' | Some name \<Rightarrow> name @ ''.'' @ take 8 uuid)"

definition sftpHost :: "string option \<Rightarrow> string \<Rightarrow> string" where
  "sftpHost fqdn name = (if truthy fqdn then orElse fqdn [] else name)"

definition sftpCommand :: "string \<Rightarrow> string \<Rightarrow> string \<Rightarrow> string" where
  "sftpCommand port username host = ''sftp -P '' @ port @ '' '' @ username @ ''@'' @ host"

definition toggleTheme :: "string \<Rightarrow> string" where
  "toggleTheme theme = (if theme = ''dark'' then ''light'' else ''dark'')"

end
