(* ===== verification/Display_Properties.thy ===== *)
theory Display_Properties
  imports Display Operations_Properties "HOL-Library.Multiset"
begin

text \<open>
  What the theorems of this theory show of the figures of the dashboard: amounts are written to
  the cent, the curves of the statistics stay in their drawing, the monitoring page counts each
  server once, and the account the SFTP panel shows is accepted.
\<close>

subsection \<open>Amounts\<close>

lemma show_nat_step: "10 \<le> n \<Longrightarrow> show_nat n = show_nat (n div 10) @ [digit_char (n mod 10)]"
  by (subst show_nat.simps) simp

lemma show_nat_digit: "n < 10 \<Longrightarrow> show_nat n = [digit_char n]"
  by (subst show_nat.simps) simp

lemma digit_char_0: "digit_char 0 = CHR ''0''"
  by code_simp

lemma two_digits:
  assumes "n < 100"
  shows "padStart 2 (CHR ''0'') (show_nat n) = [digit_char (n div 10), digit_char (n mod 10)]"
proof (cases "n < 10")
  case True
  then show ?thesis by (simp add: show_nat_digit padStart_def digit_char_0)
next
  case False
  then show ?thesis using assms by (simp add: show_nat_step show_nat_digit padStart_def)
qed

lemma fixedText_two:
  "fixedText 2 n = show_nat (n div 100) @ ''.'' @ padStart 2 (CHR ''0'') (show_nat (n mod 100))"
proof -
  have two: "padStart 2 (CHR ''0'') (show_nat (n mod 100)) = [digit_char (n div 10 mod 10), digit_char (n mod 10)]"
  proof -
    have "n mod (10 * 10) = 10 * (n div 10 mod 10) + n mod 10" by (rule mod_mult2_eq)
    then have "n mod 100 div 10 = n div 10 mod 10" "n mod 100 mod 10 = n mod 10" by simp_all
    moreover have "n mod 100 < 100" by simp
    ultimately show ?thesis using two_digits [of "n mod 100"] by (simp only:)
  qed
  have three: "padStart 3 (CHR ''0'') (show_nat n) = show_nat (n div 100) @ [digit_char (n div 10 mod 10), digit_char (n mod 10)]"
  proof (cases "n < 100")
    case True
    then have "padStart 3 (CHR ''0'') (show_nat n) = CHR ''0'' # padStart 2 (CHR ''0'') (show_nat n)"
      by (cases "n < 10") (auto simp: padStart_def show_nat_digit show_nat_step numeral_3_eq_3 numeral_2_eq_2)
    then show ?thesis using True two by (simp add: show_nat_digit digit_char_0)
  next
    case False
    then have "show_nat n = show_nat (n div 100) @ [digit_char (n div 10 mod 10), digit_char (n mod 10)]"
      by (simp add: show_nat_step [of n] show_nat_step [of "n div 10"] flip: div_mult2_eq)
    moreover have "show_nat (n div 100) \<noteq> []" by (rule show_nat_nonempty)
    ultimately show ?thesis by (cases "show_nat (n div 100)") (auto simp: padStart_def)
  qed
  show ?thesis using three two by (simp add: fixedText_def Let_def numeral_3_eq_3 [symmetric])
qed

lemma cents_nearest:
  assumes "0 \<le> c" and "c < 2 ^ 31"
  shows "\<lfloor>js_div (of_int c) 100 * 100 + 1 / 2\<rfloor> = c"
proof -
  define x where "x = js_div (of_int c) 100"
  have "\<bar>x - of_int c / 100\<bar> \<le> \<bar>of_int c / 100\<bar> / 2 ^ 53"
    unfolding x_def js_div_def by (rule fl_error)
  moreover have "\<bar>of_int c / (100 :: rat)\<bar> / 2 ^ 53 < 1 / 200"
  proof -
    have "of_int c < (of_int (2 ^ 31) :: rat)" using assms(2) by (simp only: of_int_less_iff)
    then show ?thesis using assms(1) by (simp add: field_simps)
  qed
  ultimately have "\<bar>x - of_int c / 100\<bar> < 1 / 200" by (rule order.strict_trans1)
  then have "of_int c \<le> x * 100 + 1 / 2" and "x * 100 + 1 / 2 < of_int c + 1"
    unfolding abs_less_iff by linarith+
  then show ?thesis unfolding x_def [symmetric] by (rule floor_unique)
qed

text \<open>An amount in cents is shown exactly, although the page divides it as a double: whole
  units, a point, and the two digits of the cents. This holds for every amount an Int column can
  have that is not negative: the total of an invoice, the price of a plan or of an item.\<close>

theorem amounts_shown_exactly:
  assumes "0 \<le> cents" and "cents < 2 ^ 31"
  shows "amountText cents =
    show_nat (nat cents div 100) @ ''.'' @ padStart 2 (CHR ''0'') (show_nat (nat cents mod 100))"
proof -
  have "0 \<le> js_div (of_int cents) 100" using assms(1) by (simp add: js_div_def fl_nonneg)
  then have "amountText cents = fixedText 2 (nat cents)"
    by (simp add: amountText_def toFixed_def power2_eq_square cents_nearest [OF assms])
  then show ?thesis by (simp add: fixedText_two)
qed

theorem amounts_shown_exactly_witness: "amountText 199905 = ''1999.05''"
proof -
  have "show_nat 1999 = ''1999''" and "padStart 2 (CHR ''0'') (show_nat 5) = ''05''" by code_simp+
  then show ?thesis using amounts_shown_exactly [of 199905] by simp
qed

subsection \<open>The curves of the statistics\<close>

lemma fl_le_of_int: "\<bar>i\<bar> < 2 ^ 53 \<Longrightarrow> x \<le> of_int i \<Longrightarrow> fl x \<le> of_int i"
  using fl_mono [of x "of_int i"] by (simp add: fl_of_int)

lemma fl_ge_of_int: "\<bar>i\<bar> < 2 ^ 53 \<Longrightarrow> of_int i \<le> x \<Longrightarrow> of_int i \<le> fl x"
  using fl_mono [of "of_int i" x] by (simp add: fl_of_int)

lemma js_div_unit:
  assumes "0 \<le> a" and "a \<le> b" and "0 < b"
  shows "0 \<le> js_div a b" and "js_div a b \<le> 1"
proof -
  have "a / b \<le> of_int 1" using assms by simp
  then show "js_div a b \<le> 1" using fl_le_of_int [of 1 "a / b"] by (simp add: js_div_def)
  show "0 \<le> js_div a b" using assms by (simp add: js_div_def fl_nonneg)
qed

lemma js_mul_upto:
  assumes "0 \<le> q" and "q \<le> 1" and "0 \<le> i" and "i < 2 ^ 53"
  shows "0 \<le> js_mul q (of_int i)" and "js_mul q (of_int i) \<le> of_int i"
proof -
  have "q * of_int i \<le> of_int i" using assms by (simp add: mult_left_le_one_le)
  then show "js_mul q (of_int i) \<le> of_int i" unfolding js_mul_def
    using assms(3,4) by (intro fl_le_of_int) auto
  show "0 \<le> js_mul q (of_int i)" using assms by (simp add: js_mul_def fl_nonneg)
qed

lemma foldr_max:
  fixes xs :: "'a::linorder list"
  shows "d \<le> foldr max xs d" and "x \<in> set xs \<Longrightarrow> x \<le> foldr max xs d"
  by (induction xs) (auto intro: order.trans simp: le_max_iff_disj)

text \<open>A history with its samples in the order of time and no negative value.\<close>

definition historyOk :: "rat sample list \<Rightarrow> bool" where
  "historyOk h \<longleftrightarrow> sorted (map sa_t h) \<and> (\<forall>s\<in>set h. 0 \<le> sa_value s)"

lemma sparkPoints_inside:
  assumes "historyOk h" and "p \<in> set (sparkPoints h)"
  shows "0 \<le> sp_x p \<and> sp_x p \<le> 240 \<and> 3 \<le> sp_y p \<and> sp_y p \<le> 45"
proof -
  define maxV where "maxV = foldr max (map sa_value h) 1"
  define spanT where "spanT = max (js_sub (of_int (sa_t (last h))) (of_int (sa_t (hd h)))) 1"
  obtain s where s: "s \<in> set h"
    and x: "sp_x p = js_mul (js_div (js_sub (of_int (sa_t s)) (of_int (sa_t (hd h)))) spanT) 240"
    and y: "sp_y p = js_sub (js_sub 48 (js_mul (js_div (sa_value s) maxV) 42)) 3"
    using assms(2) by (auto simp: sparkPoints_def Let_def maxV_def spanT_def)
  have ne: "h \<noteq> []" using s by auto
  have sorted: "sorted (map sa_t h)" using assms(1) by (simp add: historyOk_def)
  have lo: "sa_t (hd h) \<le> sa_t s"
    using sorted s ne by (cases h) auto
  have hi: "sa_t s \<le> sa_t (last h)"
  proof -
    have "sorted (map sa_t (butlast h @ [last h]))" using sorted ne by simp
    then have "\<forall>r\<in>set (butlast h). sa_t r \<le> sa_t (last h)" by (simp only: map_append sorted_append) auto
    moreover have "s \<in> set (butlast h @ [last h])" using s ne by simp
    ultimately show ?thesis by auto
  qed
  have d: "0 \<le> js_sub (of_int (sa_t s)) (of_int (sa_t (hd h)))"
    using lo by (simp add: js_sub_def fl_nonneg)
  have "js_sub (of_int (sa_t s)) (of_int (sa_t (hd h))) \<le> js_sub (of_int (sa_t (last h))) (of_int (sa_t (hd h)))"
    using hi by (simp add: js_sub_def fl_mono)
  then have span: "js_sub (of_int (sa_t s)) (of_int (sa_t (hd h))) \<le> spanT" "0 < spanT"
    by (auto simp: spanT_def le_max_iff_disj less_max_iff_disj)
  have xs: "0 \<le> sp_x p" "sp_x p \<le> 240"
    using js_mul_upto [OF js_div_unit [OF d span], of 240] by (simp_all add: x)
  have v: "0 \<le> sa_value s" "sa_value s \<le> maxV" "0 < maxV"
    using assms(1) s foldr_max(1) [of 1 "map sa_value h"] foldr_max(2) [of "sa_value s" "map sa_value h" 1]
    by (auto simp: historyOk_def maxV_def)
  define z where "z = js_mul (js_div (sa_value s) maxV) 42"
  have z: "0 \<le> z" "z \<le> 42" using js_mul_upto [OF js_div_unit [OF v], of 42] by (simp_all add: z_def)
  have "js_sub 48 z \<le> of_int 48" "of_int 6 \<le> js_sub 48 z"
    unfolding js_sub_def using z by (intro fl_le_of_int fl_ge_of_int; simp)+
  then have "js_sub (js_sub 48 z) 3 \<le> of_int 45" "of_int 3 \<le> js_sub (js_sub 48 z) 3"
    unfolding js_sub_def [of _ 3] by (intro fl_le_of_int fl_ge_of_int; simp)+
  then show ?thesis using xs by (simp add: y z_def)
qed

definition historyUpto :: "int \<Rightarrow> rat sample list \<Rightarrow> bool" where
  "historyUpto t h \<longleftrightarrow> historyOk h \<and> (\<forall>s\<in>set h. sa_t s \<le> t)"

lemma historyUpto_mono: "historyUpto t h \<Longrightarrow> t \<le> t' \<Longrightarrow> historyUpto t' h"
  by (auto simp: historyUpto_def)

lemma addSample_ok: "historyUpto t h \<Longrightarrow> 0 \<le> v \<Longrightarrow> historyUpto t (addSample t v h)"
  by (auto simp: historyUpto_def historyOk_def addSample_def sorted_append intro!: sorted_filter)

text \<open>The updates a page receives: the time, the server, the two values.\<close>

type_synonym statsEvent = "int \<times> id \<times> rat \<times> rat"

definition receiveStats :: "id \<Rightarrow> statsEvent list \<Rightarrow> rat statsView \<Rightarrow> rat statsView" where
  "receiveStats sid evs v = fold (\<lambda>(t, i, cpu, ram). onStats sid t i cpu ram) evs v"

definition emptyStats :: "rat statsView" where
  "emptyStats = \<lparr>sv_cpuHistory = [], sv_ramHistory = [], sv_connected = False, sv_last = None\<rparr>"

definition viewOk :: "int \<Rightarrow> rat statsView \<Rightarrow> bool" where
  "viewOk t v \<longleftrightarrow> historyUpto t (sv_cpuHistory v) \<and> historyUpto t (sv_ramHistory v)"

lemma onStats_ok:
  assumes "viewOk t0 v" and "t0 \<le> t" and "0 \<le> cpu" and "0 \<le> ram"
  shows "viewOk t (onStats sid t i cpu ram v)"
proof -
  have "historyUpto t (sv_cpuHistory v)" and "historyUpto t (sv_ramHistory v)"
    using assms(1,2) by (auto simp: viewOk_def intro: historyUpto_mono)
  then show ?thesis using assms(3,4) by (simp add: viewOk_def onStats_def addSample_ok)
qed

lemma receiveStats_ok:
  assumes "viewOk t0 v" and "sorted (t0 # map fst evs)" and "\<forall>(t, i, cpu, ram)\<in>set evs. 0 \<le> cpu \<and> 0 \<le> ram"
  shows "\<exists>t. viewOk t (receiveStats sid evs v)"
  using assms
proof (induction evs arbitrary: t0 v)
  case Nil
  then show ?case by (auto simp: receiveStats_def)
next
  case (Cons e evs)
  obtain t i cpu ram where e: "e = (t, i, cpu, ram)" by (cases e)
  have "viewOk t (onStats sid t i cpu ram v)" using Cons.prems e by (intro onStats_ok [of t0]) auto
  then have "\<exists>t'. viewOk t' (receiveStats sid evs (onStats sid t i cpu ram v))"
    using Cons.prems e by (intro Cons.IH [of t]) auto
  then show ?case by (simp add: receiveStats_def e)
qed

text \<open>C40: whatever updates of the statistics a page receives, of its server and of others, as long
  as the clock does not go back and no value is negative, every point of the two curves lies in
  the drawing of 240 by 48, in spite of the rounding: the points run from the left to the right
  edge, and three units of margin stay free above and below.\<close>

theorem curves_stay_inside:
  assumes "sorted (map fst evs)" and "\<forall>(t, i, cpu, ram)\<in>set evs. 0 \<le> cpu \<and> 0 \<le> ram"
    and "h \<in> {sv_cpuHistory (receiveStats sid evs emptyStats), sv_ramHistory (receiveStats sid evs emptyStats)}"
    and "p \<in> set (sparkPoints h)"
  shows "0 \<le> sp_x p \<and> sp_x p \<le> 240 \<and> 3 \<le> sp_y p \<and> sp_y p \<le> 45"
proof -
  define t0 where "t0 = (case evs of [] \<Rightarrow> 0 | e # _ \<Rightarrow> fst e)"
  have "sorted (t0 # map fst evs)" using assms(1) by (cases evs) (auto simp: t0_def)
  moreover have "viewOk t0 emptyStats" by (simp add: viewOk_def historyUpto_def emptyStats_def historyOk_def)
  ultimately obtain t where "viewOk t (receiveStats sid evs emptyStats)"
    using receiveStats_ok assms(2) by blast
  then have "historyOk h" using assms(3) by (auto simp: viewOk_def historyUpto_def)
  then show ?thesis using assms(4) by (rule sparkPoints_inside)
qed

definition sampleStats :: "statsEvent list" where
  "sampleStats = [(1000, ''s'', 50, 512), (2000, ''other'', 3, 4), (3000, ''s'', 75, 640)]"

theorem curves_stay_inside_witness:
  "\<exists>p. p \<in> set (sparkPoints (sv_cpuHistory (receiveStats ''s'' sampleStats emptyStats))) \<and>
     0 \<le> sp_x p \<and> sp_x p \<le> 240 \<and> 3 \<le> sp_y p \<and> sp_y p \<le> 45"
proof -
  define h where "h = sv_cpuHistory (receiveStats ''s'' sampleStats emptyStats)"
  have "length h = 2" unfolding h_def by code_simp
  then obtain p where p: "p \<in> set (sparkPoints h)"
    by (cases h) (auto simp: sparkPoints_def Let_def)
  show ?thesis using curves_stay_inside [of sampleStats h "''s''" p] p
    by (auto simp: sampleStats_def h_def)
qed

text \<open>The mark under the mouse is a point of the curve, and none is nearer.\<close>

lemma closest_point_is_nearest:
  assumes "points \<noteq> []"
  shows "closestPoint x points \<in> set points \<and>
    (\<forall>p\<in>set points. \<bar>js_sub (sp_x (closestPoint x points)) x\<bar> \<le> \<bar>js_sub (sp_x p) x\<bar>)"
proof -
  define f where "f = (\<lambda>c p :: sparkPoint. if \<bar>js_sub (sp_x p) x\<bar> < \<bar>js_sub (sp_x c) x\<bar> then p else c)"
  define d where "d = (\<lambda>p :: sparkPoint. \<bar>js_sub (sp_x p) x\<bar>)"
  have "foldl f c ps \<in> insert c (set ps) \<and> d (foldl f c ps) \<le> d c \<and> (\<forall>p\<in>set ps. d (foldl f c ps) \<le> d p)" for c ps
  proof (induction ps arbitrary: c)
    case (Cons p ps)
    have "f c p \<in> {c, p}" "d (f c p) \<le> d c" "d (f c p) \<le> d p" by (auto simp: f_def d_def)
    then show ?case using Cons.IH [of "f c p"] by (auto intro: order.trans)
  qed simp
  from this [of "hd points" points] show ?thesis
    using assms by (auto simp: closestPoint_def f_def d_def insert_absorb)
qed

subsection \<open>The monitoring page\<close>

lemma status_bars_fit: "b \<in> set (statusBars counts) \<Longrightarrow> 0 \<le> sx_width b \<and> sx_width b \<le> 100"
proof -
  assume "b \<in> set (statusBars counts)"
  then obtain st k where k: "k \<in> set (map snd (statusEntries counts))" and w: "sx_width b =
      js_mul (js_div (of_nat k) (of_nat (foldr max (map snd (statusEntries counts)) 1))) 100"
    by (force simp: statusBars_def Let_def)
  define m where "m = foldr max (map snd (statusEntries counts)) 1"
  have "k \<le> m" unfolding m_def using k by (rule foldr_max(2))
  moreover have "1 \<le> m" unfolding m_def by (rule foldr_max(1))
  ultimately have "(of_nat k :: rat) \<le> of_nat m" "0 < (of_nat m :: rat)" by auto
  from js_mul_upto [OF js_div_unit [OF _ this], of 100] show ?thesis by (simp add: w m_def)
qed

lemma usedPct_bounds: "0 \<le> used \<Longrightarrow> 0 \<le> usedPct used cap \<and> usedPct used cap \<le> 100"
  by (simp add: usedPct_def js_mul_def js_div_def fl_nonneg)

lemma totalServers_sum: "totalServers xs = sum_list (map snd xs)"
proof -
  have "foldl (\<lambda>a b. a + b) n ys = n + sum_list ys" for n and ys :: "nat list"
    by (induction ys arbitrary: n) auto
  then show ?thesis by (simp add: totalServers_def)
qed

lemma sum_counts:
  "sum_list (map (\<lambda>k. length (filter (\<lambda>x. f x = k) xs)) (remdups (map f xs))) = length xs"
proof -
  have "sum_list (map (\<lambda>k. length (filter (\<lambda>x. f x = k) xs)) (remdups (map f xs))) =
      (\<Sum>k\<in>set (map f xs). count_list (map f xs) k)"
    by (simp add: sum_list_distinct_conv_sum_set count_list_eq_length_filter filter_map comp_def eq_commute)
  also have "\<dots> = length (map f xs)" by (rule sum_count_set) auto
  finally show ?thesis by simp
qed

lemma filter_sum: "sum_list (map snd (filter (\<lambda>(_, c). 0 < c) xs)) = sum_list (map (snd :: 'a \<times> nat \<Rightarrow> nat) xs)"
  by (induction xs) auto

text \<open>The monitoring page counts every server once: its total is the number of servers, its bars
  are the statuses in use with the number of servers in each, the most frequent first, and add up to
  the total; its meters lie between 0 and 100, whatever a node has allocated.\<close>

theorem monitoring_counts_every_server:
  assumes "monitoring_summary w = (Inr s, w')"
    and "\<forall>n\<in>set (t_nodes (w_db w)). 0 \<le> n_cpuAllocatedPct n \<and> 0 \<le> n_memoryAllocatedMb n \<and> 0 \<le> n_diskAllocatedMb n"
  shows "totalServers (ms_servers s) = length (t_servers (w_db w)) \<and>
    set (statusEntries (ms_servers s)) =
      (\<lambda>st. (st, length (filter (\<lambda>v. s_status v = st) (t_servers (w_db w))))) ` s_status ` set (t_servers (w_db w)) \<and>
    sum_list (map snd (statusEntries (ms_servers s))) = totalServers (ms_servers s) \<and>
    sorted_wrt (\<ge>) (map snd (statusEntries (ms_servers s))) \<and>
    (\<forall>m\<in>set (monitoringMeters loc (ms_nodes s)). 0 \<le> mt_pct m \<and> mt_pct m \<le> 100)"
proof -
  let ?ss = "t_servers (w_db w)"
  have servers: "ms_servers s = groupByStatus ?ss" and nodes: "ms_nodes s = summarizeNodes (t_nodes (w_db w))"
    using assms(1) by (auto simp: monitoring_summary_def run_Inr)
  have total: "totalServers (groupByStatus ?ss) = length ?ss"
    by (simp add: totalServers_sum groupByStatus_def comp_def sum_counts)
  have all: "filter (\<lambda>(_, c). 0 < c) (groupByStatus ?ss) = groupByStatus ?ss"
    by (intro filter_True) (fastforce simp: groupByStatus_def filter_empty_conv)
  have entries: "mset (statusEntries (groupByStatus ?ss)) = mset (groupByStatus ?ss)"
    unfolding statusEntries_def all orderDesc_def by (rule mset_sort)
  have "sorted (map (\<lambda>r. - (case r of (_, k) \<Rightarrow> int k)) (statusEntries (groupByStatus ?ss)))"
    unfolding statusEntries_def orderDesc_def by (rule sorted_sort_key)
  then have desc: "sorted_wrt (\<ge>) (map snd (statusEntries (groupByStatus ?ss)))"
    by (simp add: sorted_wrt_map split_beta)
  have "sum_list (map snd (statusEntries (groupByStatus ?ss))) = sum_list (map snd (groupByStatus ?ss))"
    using entries by (metis mset_map sum_mset_sum_list)
  then have sum: "sum_list (map snd (statusEntries (groupByStatus ?ss))) = totalServers (groupByStatus ?ss)"
    by (simp add: totalServers_sum)
  have nonneg: "0 \<le> sumOf f xs" if "\<forall>x\<in>set xs. 0 \<le> f x" for f and xs :: "node list"
  proof -
    have "0 \<le> foldl (\<lambda>a x. a + f x) n ys" if "0 \<le> n" "\<forall>x\<in>set ys. 0 \<le> f x" for n and ys :: "node list"
      using that by (induction ys arbitrary: n) auto
    then show ?thesis using that by (simp add: sumOf_def)
  qed
  have "\<forall>m\<in>set (monitoringMeters loc (summarizeNodes (t_nodes (w_db w)))). 0 \<le> mt_pct m \<and> mt_pct m \<le> 100"
    using assms(2) by (auto simp: monitoringMeters_def capacityMeter_def Let_def summarizeNodes_def js_div_def
        intro!: usedPct_bounds [THEN conjunct1] usedPct_bounds [THEN conjunct2] fl_nonneg nonneg)
  moreover have "set (statusEntries (groupByStatus ?ss)) =
      (\<lambda>st. (st, length (filter (\<lambda>v. s_status v = st) ?ss))) ` s_status ` set ?ss"
    using arg_cong [OF entries, of set_mset] by (simp add: groupByStatus_def)
  ultimately show ?thesis unfolding servers nodes using total sum desc by simp
qed

theorem monitoring_counts_every_server_witness:
  "\<exists>s. monitoring_summary sampleWorld = (Inr s, sampleWorld) \<and> totalServers (ms_servers s) = 1 \<and>
     (\<forall>m\<in>set (monitoringMeters (toFixed 0) (ms_nodes s)). mt_pct m \<le> 100)"
proof -
  obtain s where run: "monitoring_summary sampleWorld = (Inr s, sampleWorld)"
    by (simp add: monitoring_summary_def prog_simps)
  moreover have "\<forall>n\<in>set (t_nodes (w_db sampleWorld)).
      0 \<le> n_cpuAllocatedPct n \<and> 0 \<le> n_memoryAllocatedMb n \<and> 0 \<le> n_diskAllocatedMb n"
    by (simp add: sample_defs)
  ultimately show ?thesis using monitoring_counts_every_server [of sampleWorld s sampleWorld "toFixed 0"]
    by (auto simp: sample_defs)
qed

subsection \<open>The account of the SFTP panel\<close>

lemma lastIndexOf_none: "c \<notin> set xs \<Longrightarrow> lastIndexOf c xs = None"
  by (induction xs) auto

lemma lastIndexOf_append: "c \<notin> set ys \<Longrightarrow> lastIndexOf c (xs @ c # ys) = Some (length xs)"
  by (induction xs) (auto simp: lastIndexOf_none)

text \<open>C27: the account the SFTP panel shows for a server, with the password of the panel, is accepted by
  the authentication of the daemon, for the server the panel shows it for and no other, also when
  the name of the account has points in it: with all rights for the owner and for administrators,
  and for a sub-user who may read the files, read-only unless he may write them. It takes that no
  other server has the same first eight characters, and no other account the same name.\<close>

theorem sftp_panel_account_is_accepted:
  assumes "List.find (\<lambda>x. u_username x = u_username u) (t_users (w_db w)) = Some u" and "u_username u \<noteq> []"
    and "u_status u = ACTIVE" and "truthy (u_passwordHash u)"
    and "bcryptCompare E password (orElse (u_passwordHash u) [])"
    and "filter (\<lambda>x. startsWith (s_uuid x) (take 8 (s_uuid s))) (t_servers (w_db w)) = [s]"
    and "8 \<le> length (s_uuid s)" and "CHR ''.'' \<notin> set (s_uuid s)"
  shows "sftp_authenticate E (sftpUsername (Some (u_username u)) (s_uuid s)) password w =
    (Inr (if ''*'' \<in> set (currentPermissions (w_db w) u) \<or> s_ownerId s = u_id u then sftpAllowed (s_uuid s) False
      else case filter (\<lambda>x. su_userId x = u_id u) (subUsersOf (w_db w) (s_id s)) of
          [] \<Rightarrow> sftpRefused
        | x # _ \<Rightarrow> if ''files.read'' \<in> set (su_permissions x)
            then sftpAllowed (s_uuid s) (''files.write'' \<notin> set (su_permissions x)) else sftpRefused), w)"
proof -
  have dot: "lastIndexOf (CHR ''.'') (u_username u @ CHR ''.'' # take 8 (s_uuid s)) = Some (length (u_username u))"
    using assms(8) by (intro lastIndexOf_append) (auto dest: in_set_takeD)
  have valid: "auth_validateLocalUserByUsername E (u_username u) password w = (Inr (Some (u, currentPermissions (w_db w) u)), w)"
    using assms(1,3-5) by (simp add: auth_validateLocalUserByUsername_def prog_simps)
  show ?thesis using assms(2,6,7) dot
    by (simp add: sftp_authenticate_def sftpUsername_def valid sftpDecision_def prog_simps)
qed

definition sftpServer :: server where
  "sftpServer = sampleServer\<lparr>s_uuid := ''3f2a9c1e-77''\<rparr>"

definition sftpWorld :: world where
  "sftpWorld = sampleWorld\<lparr>w_db := sampleDb\<lparr>t_servers := [sftpServer]\<rparr>\<rparr>"

theorem sftp_panel_account_is_accepted_witness:
  "sftp_authenticate sampleEnv ''alice.3f2a9c1e'' ''alice'' sftpWorld = (Inr (sftpAllowed ''3f2a9c1e-77'' False), sftpWorld)"
proof -
  have name: "sftpUsername (Some (u_username (sampleUser ''alice'' (Some ''r-client'')))) (s_uuid sftpServer) =
      ''alice.3f2a9c1e''" by code_simp
  show ?thesis
    using sftp_panel_account_is_accepted [of "sampleUser ''alice'' (Some ''r-client'')" sftpWorld sampleEnv "''alice''" sftpServer]
    unfolding name by (simp add: sftpWorld_def sftpServer_def sample_defs)
qed

end
