(* ===== verification/Forms.thy ===== *)
theory Forms
  imports Panels
begin

text \<open>
  The state of the pages of the dashboard between the requests: the forms, the dialogs they open
  in, the cards of the account and of a role, the file manager. A form keeps what is typed and
  the number of its requests that are under way; \<open>isPending\<close>, one is, disables its button; a browser
  submits it when its constraints (\<open>required\<close>, \<open>minLength\<close>, \<open>min\<close>, \<open>type\<close>) hold. A click and the
  render after it are one step. What a browser takes for an address is an argument.
\<close>

subsection \<open>Forms and dialogs\<close>

record 'f form =
  fm_fields :: 'f
  fm_inFlight :: nat

definition isPending :: "('f, 'z) form_scheme \<Rightarrow> bool" where
  "isPending s \<longleftrightarrow> fm_inFlight s \<noteq> 0"

record 'f dialog = "'f form" +
  dg_open :: bool

datatype 'f formEvent = Edit 'f | Submit | Settled bool

text \<open>\<open>valid\<close> is the condition to submit, \<open>after\<close> what \<open>onSuccess\<close> leaves in the fields. A step gives
  the fields that are sent, if it sends some.\<close>

definition formStep ::
  "('f \<Rightarrow> bool) \<Rightarrow> ('f \<Rightarrow> 'f) \<Rightarrow> 'f formEvent \<Rightarrow> ('f, 'z) form_scheme \<Rightarrow> ('f, 'z) form_scheme \<times> 'f option"
where
  "formStep valid after e s = (case e of
     Edit f \<Rightarrow> (s\<lparr>fm_fields := f\<rparr>, None)
   | Submit \<Rightarrow> if isPending s \<or> \<not> valid (fm_fields s) then (s, None)
       else (s\<lparr>fm_inFlight := Suc (fm_inFlight s)\<rparr>, Some (fm_fields s))
   | Settled ok \<Rightarrow> if fm_inFlight s = 0 then (s, None)
       else (s\<lparr>fm_inFlight := fm_inFlight s - 1,
         fm_fields := (if ok then after (fm_fields s) else fm_fields s)\<rparr>, None))"

datatype 'f dialogEvent = SetOpen bool | InForm "'f formEvent"

text \<open>A closed dialog has no form; an answer still arrives, and a success closes the dialog.\<close>

definition dialogStep ::
  "('f \<Rightarrow> bool) \<Rightarrow> ('f \<Rightarrow> 'f) \<Rightarrow> 'f dialogEvent \<Rightarrow> 'f dialog \<Rightarrow> 'f dialog \<times> 'f option"
where
  "dialogStep valid after e s = (case e of
     SetOpen b \<Rightarrow> (s\<lparr>dg_open := b\<rparr>, None)
   | InForm (Settled ok) \<Rightarrow>
       (let closes = ok \<and> fm_inFlight s \<noteq> 0; (s', sent) = formStep valid after (Settled ok) s in
         (if closes then s'\<lparr>dg_open := False\<rparr> else s', sent))
   | InForm e' \<Rightarrow> if dg_open s then formStep valid after e' s else (s, None))"

text \<open>A run: the state it ends in, and what was sent, in order.\<close>

fun runSteps :: "('e \<Rightarrow> 's \<Rightarrow> 's \<times> 'f option) \<Rightarrow> 'e list \<Rightarrow> 's \<Rightarrow> 's \<times> 'f list" where
  "runSteps step [] s = (s, [])"
| "runSteps step (e # es) s = (case step e s of (s', sent) \<Rightarrow>
     (case runSteps step es s' of (s'', later) \<Rightarrow>
       (s'', (case sent of None \<Rightarrow> later | Some f \<Rightarrow> f # later))))"

subsection \<open>admin/users\<close>

record newUserFields =
  nu_email :: string
  nu_username :: string
  nu_password :: string
  nu_roleId :: string

definition blankUser :: newUserFields where
  "blankUser = \<lparr>nu_email = [], nu_username = [], nu_password = [], nu_roleId = []\<rparr>"

definition newUser_valid :: "(string \<Rightarrow> bool) \<Rightarrow> newUserFields \<Rightarrow> bool" where
  "newUser_valid isAddress f \<longleftrightarrow> nu_email f \<noteq> [] \<and> isAddress (nu_email f) \<and> nu_username f \<noteq> [] \<and>
     10 \<le> length (nu_password f)"

definition newUser_after :: "newUserFields \<Rightarrow> newUserFields" where
  "newUser_after f = f\<lparr>nu_email := [], nu_username := [], nu_password := [], nu_roleId := []\<rparr>"

definition newUser_mutation :: "newUserFields \<Rightarrow> usersMutation" where
  "newUser_mutation f = CreateUser (nu_email f) (nu_username f) (nu_password f) (nu_roleId f)"

text \<open>The dialog for a new password. Its callback reads the account from the render it belongs to,
  \<open>seen\<close>: where the dialog has been closed, it throws, and the error callback runs.\<close>

record resetDialog =
  rd_target :: "(id \<times> string) option"
  rd_newPassword :: string
  rd_pending :: bool

datatype resetEvent =
    PickTarget id string
  | CloseReset
  | TypeReset string
  | SubmitReset
  | ResetDone resetDialog
  | ResetFailed apiError

fun resetStep :: "resetEvent \<Rightarrow> resetDialog \<Rightarrow> resetDialog \<times> usersMutation option \<times> effect list" where
  "resetStep (PickTarget i name) s = (s\<lparr>rd_target := Some (i, name), rd_newPassword := []\<rparr>, None, [])"
| "resetStep CloseReset s = (s\<lparr>rd_target := None\<rparr>, None, [])"
| "resetStep (TypeReset p) s = (if rd_target s = None then (s, None, []) else (s\<lparr>rd_newPassword := p\<rparr>, None, []))"
| "resetStep SubmitReset s = (case rd_target s of
     None \<Rightarrow> (s, None, [])
   | Some (i, name) \<Rightarrow> if rd_pending s \<or> length (rd_newPassword s) < 10 then (s, None, [])
       else (s\<lparr>rd_pending := True\<rparr>, Some (ResetPassword i name (rd_newPassword s)), []))"
| "resetStep (ResetDone seen) s = (if \<not> rd_pending s then (s, None, []) else (case rd_target seen of
     Some (i, name) \<Rightarrow> (s\<lparr>rd_pending := False, rd_target := None, rd_newPassword := []\<rparr>, None,
       [ToastSuccess (''Mot de passe de '' @ name @ '' reinitialise'')])
   | None \<Rightarrow> (s\<lparr>rd_pending := False\<rparr>, None, [ToastError ''Erreur''])))"
| "resetStep (ResetFailed e) s = (if \<not> rd_pending s then (s, None, [])
     else (s\<lparr>rd_pending := False\<rparr>, None, [errorEffect ''Erreur'' e]))"

text \<open>The buttons of an account.\<close>

definition userActions :: "id \<Rightarrow> UserStatus \<Rightarrow> usersMutation list" where
  "userActions i status = (if status = ACTIVE then SuspendUser i else ReactivateUser i) # [BanUser i, DeleteUser i]"

subsection \<open>admin/roles\<close>

record newRoleFields =
  nr_name :: string
  nr_description :: string

definition newRole_valid :: "newRoleFields \<Rightarrow> bool" where
  "newRole_valid f \<longleftrightarrow> nr_name f \<noteq> []"

definition newRole_after :: "newRoleFields \<Rightarrow> newRoleFields" where
  "newRole_after f = f\<lparr>nr_name := [], nr_description := []\<rparr>"

definition newRole_mutation :: "newRoleFields \<Rightarrow> rolesMutation" where
  "newRole_mutation f = CreateRole (nr_name f) (nr_description f)"

text \<open>The card of a role: its boxes start with the permissions the role has at the first render and
  are not set again when the roles are read again.\<close>

record roleCard =
  rc_selected :: "string list"
  rc_dirty :: bool
  rc_saving :: bool

datatype roleCardEvent = ToggleKey string | SaveRole | SavedRole bool

definition roleCardOf :: "string list \<Rightarrow> roleCard" where
  "roleCardOf keys = \<lparr>rc_selected = keys, rc_dirty = False, rc_saving = False\<rparr>"

fun roleCardStep :: "id \<Rightarrow> string \<Rightarrow> roleCardEvent \<Rightarrow> roleCard \<Rightarrow> roleCard \<times> rolesMutation option" where
  "roleCardStep i name (ToggleKey k) s = (s\<lparr>rc_selected := toggle k (rc_selected s), rc_dirty := True\<rparr>, None)"
| "roleCardStep i name SaveRole s = (if \<not> rc_dirty s \<or> rc_saving s then (s, None)
     else (s\<lparr>rc_saving := True\<rparr>, Some (SavePermissions i name (rc_selected s))))"
| "roleCardStep i name (SavedRole ok) s = (if \<not> rc_saving s then (s, None)
     else (s\<lparr>rc_saving := False, rc_dirty := (if ok then False else rc_dirty s)\<rparr>, None))"

text \<open>A role of the system has no button to delete it.\<close>

definition roleDeletable :: "role \<Rightarrow> bool" where
  "roleDeletable r \<longleftrightarrow> \<not> r_isSystem r"

subsection \<open>admin/nodes, admin/templates, admin/marketplace, support, servers\<close>

text \<open>Every field of the form of a node is required; a number always has a text.\<close>

definition newNode_valid :: "nodeForm \<Rightarrow> bool" where
  "newNode_valid f \<longleftrightarrow> nf_name f \<noteq> [] \<and> nf_fqdn f \<noteq> [] \<and> nf_grpcHost f \<noteq> [] \<and> nf_dockerNetworkSubnet f \<noteq> []"

definition newNode_after :: "nodeForm \<Rightarrow> nodeForm" where
  "newNode_after _ = emptyNodeForm"

definition newTemplate_valid :: "templateForm \<Rightarrow> bool" where
  "newTemplate_valid f \<longleftrightarrow> tf_name f \<noteq> [] \<and> tf_dockerImage f \<noteq> [] \<and> tf_startupCommand f \<noteq> [] \<and>
     128 \<le> tf_minMemoryMb f"

definition newTemplate_after :: "templateForm \<Rightarrow> templateForm" where
  "newTemplate_after _ = emptyTemplateForm"

definition newItem_valid :: "itemForm \<Rightarrow> bool" where
  "newItem_valid f \<longleftrightarrow> if_version f \<noteq> [] \<and> if_name f \<noteq> [] \<and> if_slug f \<noteq> [] \<and> if_authorName f \<noteq> [] \<and>
     0 \<le> if_priceCents f"

definition newItem_after :: "itemForm \<Rightarrow> itemForm" where
  "newItem_after _ = emptyItemForm"

record ticketFields =
  nt_subject :: string
  nt_message :: string

definition newTicket_valid :: "ticketFields \<Rightarrow> bool" where
  "newTicket_valid f \<longleftrightarrow> nt_subject f \<noteq> [] \<and> nt_message f \<noteq> []"

definition newTicket_after :: "ticketFields \<Rightarrow> ticketFields" where
  "newTicket_after f = f\<lparr>nt_subject := [], nt_message := []\<rparr>"

definition reply_valid :: "string \<Rightarrow> bool" where
  "reply_valid reply \<longleftrightarrow> jsTrim reply \<noteq> []"

definition reply_after :: "string \<Rightarrow> string" where
  "reply_after _ = []"

text \<open>The button of a new server waits for a template; after a success only the name is emptied.\<close>

definition newServer_valid :: "serverForm \<Rightarrow> bool" where
  "newServer_valid f \<longleftrightarrow> sf_name f \<noteq> [] \<and> 10 \<le> sf_cpuLimitPct f \<and> 256 \<le> sf_memoryLimitMb f \<and>
     512 \<le> sf_diskLimitMb f \<and> sf_templateId f \<noteq> []"

definition newServer_after :: "serverForm \<Rightarrow> serverForm" where
  "newServer_after f = f\<lparr>sf_name := []\<rparr>"

definition newServer_blank :: serverForm where
  "newServer_blank = \<lparr>sf_name = [], sf_templateId = [], sf_memoryLimitMb = 2048, sf_diskLimitMb = 5120,
     sf_cpuLimitPct = 150\<rparr>"

subsection \<open>account\<close>

record passwordFields =
  pw_current :: string
  pw_new :: string
  pw_confirm :: string

text \<open>\<open>submitPassword\<close> compares the two new passwords before anything is sent.\<close>

definition password_valid :: "passwordFields \<Rightarrow> bool" where
  "password_valid f \<longleftrightarrow> pw_current f \<noteq> [] \<and> 10 \<le> length (pw_new f) \<and> 10 \<le> length (pw_confirm f) \<and>
     pw_new f = pw_confirm f"

definition password_after :: "passwordFields \<Rightarrow> passwordFields" where
  "password_after f = f\<lparr>pw_current := [], pw_new := [], pw_confirm := []\<rparr>"

text \<open>The card of the second factor. \<open>enabled\<close> is the field of the user of the session.\<close>

record twoFactorCard =
  tc_setup :: "(string \<times> string) option"
  tc_enableCode :: string
  tc_recoveryCodes :: "string list option"
  tc_disableCode :: string
  tc_disabling :: bool
  tc_generating :: bool
  tc_enabling :: bool
  tc_disablingPending :: bool

definition twoFactorStart :: twoFactorCard where
  "twoFactorStart = \<lparr>tc_setup = None, tc_enableCode = [], tc_recoveryCodes = None, tc_disableCode = [],
     tc_disabling = False, tc_generating = False, tc_enabling = False, tc_disablingPending = False\<rparr>"

datatype twoFactorEvent =
    ClickGenerate
  | Generated string string
  | GenerateFailed apiError
  | TypeEnableCode string
  | SubmitEnable
  | EnableDone "string list"
  | EnableFailed apiError
  | CancelSetup
  | CodesNoted
  | ClickDisable
  | TypeDisableCode string
  | SubmitDisable
  | DisableDone
  | DisableFailed apiError
  | CancelDisable

text \<open>What is on the page: the button to activate, the form of the code, the codes to note, the button
  to deactivate, the form to deactivate. A code has one to six characters.\<close>

definition activateShown :: "bool \<Rightarrow> twoFactorCard \<Rightarrow> bool" where
  "activateShown enabled s \<longleftrightarrow> \<not> enabled \<and> tc_setup s = None \<and> tc_recoveryCodes s = None"

definition deactivateShown :: "bool \<Rightarrow> twoFactorCard \<Rightarrow> bool" where
  "deactivateShown enabled s \<longleftrightarrow> enabled \<and> \<not> tc_disabling s"

fun twoFactorOffered :: "bool \<Rightarrow> twoFactorCard \<Rightarrow> twoFactorEvent \<Rightarrow> bool" where
  "twoFactorOffered enabled s ClickGenerate \<longleftrightarrow> activateShown enabled s \<and> \<not> tc_generating s"
| "twoFactorOffered enabled s (Generated _ _) \<longleftrightarrow> tc_generating s"
| "twoFactorOffered enabled s (GenerateFailed _) \<longleftrightarrow> tc_generating s"
| "twoFactorOffered enabled s (TypeEnableCode c) \<longleftrightarrow> tc_setup s \<noteq> None \<and> length c \<le> 6"
| "twoFactorOffered enabled s SubmitEnable \<longleftrightarrow> tc_setup s \<noteq> None \<and> \<not> tc_enabling s \<and> tc_enableCode s \<noteq> []"
| "twoFactorOffered enabled s (EnableDone _) \<longleftrightarrow> tc_enabling s"
| "twoFactorOffered enabled s (EnableFailed _) \<longleftrightarrow> tc_enabling s"
| "twoFactorOffered enabled s CancelSetup \<longleftrightarrow> tc_setup s \<noteq> None"
| "twoFactorOffered enabled s CodesNoted \<longleftrightarrow> tc_recoveryCodes s \<noteq> None"
| "twoFactorOffered enabled s ClickDisable \<longleftrightarrow> deactivateShown enabled s"
| "twoFactorOffered enabled s (TypeDisableCode c) \<longleftrightarrow> tc_disabling s \<and> length c \<le> 6"
| "twoFactorOffered enabled s SubmitDisable \<longleftrightarrow> tc_disabling s \<and> \<not> tc_disablingPending s \<and> tc_disableCode s \<noteq> []"
| "twoFactorOffered enabled s DisableDone \<longleftrightarrow> tc_disablingPending s"
| "twoFactorOffered enabled s (DisableFailed _) \<longleftrightarrow> tc_disablingPending s"
| "twoFactorOffered enabled s CancelDisable \<longleftrightarrow> tc_disabling s"

fun twoFactorStep :: "twoFactorEvent \<Rightarrow> twoFactorCard \<Rightarrow> twoFactorCard \<times> accountMutation option" where
  "twoFactorStep ClickGenerate s = (s\<lparr>tc_generating := True\<rparr>, Some GenerateTwoFactor)"
| "twoFactorStep (Generated secret url) s = (s\<lparr>tc_generating := False, tc_setup := Some (secret, url)\<rparr>, None)"
| "twoFactorStep (GenerateFailed _) s = (s\<lparr>tc_generating := False\<rparr>, None)"
| "twoFactorStep (TypeEnableCode c) s = (s\<lparr>tc_enableCode := c\<rparr>, None)"
| "twoFactorStep SubmitEnable s = (s\<lparr>tc_enabling := True\<rparr>, Some (EnableTwoFactor (tc_enableCode s)))"
| "twoFactorStep (EnableDone codes) s = (s\<lparr>tc_enabling := False, tc_recoveryCodes := Some codes,
     tc_setup := None, tc_enableCode := []\<rparr>, None)"
| "twoFactorStep (EnableFailed _) s = (s\<lparr>tc_enabling := False\<rparr>, None)"
| "twoFactorStep CancelSetup s = (s\<lparr>tc_setup := None\<rparr>, None)"
| "twoFactorStep CodesNoted s = (s\<lparr>tc_recoveryCodes := None\<rparr>, None)"
| "twoFactorStep ClickDisable s = (s\<lparr>tc_disabling := True\<rparr>, None)"
| "twoFactorStep (TypeDisableCode c) s = (s\<lparr>tc_disableCode := c\<rparr>, None)"
| "twoFactorStep SubmitDisable s = (s\<lparr>tc_disablingPending := True\<rparr>, Some (DisableTwoFactor (tc_disableCode s)))"
| "twoFactorStep DisableDone s = (s\<lparr>tc_disablingPending := False, tc_disabling := False, tc_disableCode := []\<rparr>, None)"
| "twoFactorStep (DisableFailed _) s = (s\<lparr>tc_disablingPending := False\<rparr>, None)"
| "twoFactorStep CancelDisable s = (s\<lparr>tc_disabling := False\<rparr>, None)"

text \<open>The card of the API keys: the form, whether it is open, and the key to copy.\<close>

record keyFields =
  kf_name :: string
  kf_scopes :: "string list"

record keysCard = "keyFields form" +
  kc_creating :: bool
  kc_newKey :: "(string \<times> string) option"

datatype keysEvent =
    OpenKeyForm
  | CancelKeyForm
  | TypeKeyName string
  | ToggleScope string
  | SubmitKey
  | KeyCreated string string
  | KeyFailed apiError
  | KeyCopied

definition keysStart :: keysCard where
  "keysStart = \<lparr>fm_fields = \<lparr>kf_name = [], kf_scopes = []\<rparr>, fm_inFlight = 0, kc_creating = False,
     kc_newKey = None\<rparr>"

definition key_valid :: "keyFields \<Rightarrow> bool" where
  "key_valid f \<longleftrightarrow> kf_name f \<noteq> [] \<and> kf_scopes f \<noteq> []"

definition key_after :: "keyFields \<Rightarrow> keyFields" where
  "key_after f = f\<lparr>kf_name := [], kf_scopes := []\<rparr>"

fun keysOffered :: "string list \<Rightarrow> keysCard \<Rightarrow> keysEvent \<Rightarrow> bool" where
  "keysOffered available s OpenKeyForm \<longleftrightarrow> \<not> kc_creating s"
| "keysOffered available s (KeyCreated _ _) \<longleftrightarrow> isPending s"
| "keysOffered available s (KeyFailed _) \<longleftrightarrow> isPending s"
| "keysOffered available s KeyCopied \<longleftrightarrow> kc_newKey s \<noteq> None"
| "keysOffered available s (ToggleScope k) \<longleftrightarrow> kc_creating s \<and> k \<in> set available"
| "keysOffered available s _ \<longleftrightarrow> kc_creating s"

fun keysStep :: "keysEvent \<Rightarrow> keysCard \<Rightarrow> keysCard \<times> accountMutation option" where
  "keysStep OpenKeyForm s = (s\<lparr>kc_creating := True\<rparr>, None)"
| "keysStep CancelKeyForm s = (s\<lparr>kc_creating := False\<rparr>, None)"
| "keysStep (TypeKeyName n) s = (s\<lparr>fm_fields := (fm_fields s)\<lparr>kf_name := n\<rparr>\<rparr>, None)"
| "keysStep (ToggleScope k) s =
     (s\<lparr>fm_fields := (fm_fields s)\<lparr>kf_scopes := toggle k (kf_scopes (fm_fields s))\<rparr>\<rparr>, None)"
| "keysStep SubmitKey s = (case formStep key_valid key_after Submit s of
     (s', sent) \<Rightarrow> (s', map_option (\<lambda>f. CreateKey (kf_name f) (kf_scopes f)) sent))"
| "keysStep (KeyCreated name key) s =
     ((fst (formStep key_valid key_after (Settled True) s))\<lparr>kc_creating := False, kc_newKey := Some (name, key)\<rparr>, None)"
| "keysStep (KeyFailed _) s = (fst (formStep key_valid key_after (Settled False) s), None)"
| "keysStep KeyCopied s = (s\<lparr>kc_newKey := None\<rparr>, None)"

subsection \<open>login, register\<close>

record loginPage =
  lp_email :: string
  lp_password :: string
  lp_totpCode :: string
  lp_needsTwoFactor :: bool
  lp_submitting :: bool

definition login_valid :: "(string \<Rightarrow> bool) \<Rightarrow> loginPage \<Rightarrow> bool" where
  "login_valid isAddress p \<longleftrightarrow> lp_email p \<noteq> [] \<and> isAddress (lp_email p) \<and> lp_password p \<noteq> []"

text \<open>\<open>onSubmit\<close>, with the outcome of \<open>login\<close>: every failure has the same message.\<close>

definition loginPage_submit ::
  "'s net \<Rightarrow> loginPage \<Rightarrow> panelSession \<Rightarrow> 's \<Rightarrow> loginPage \<times> effect list \<times> panelSession \<times> 's"
where
  "loginPage_submit net p x s =
     (case panel_login net (lp_email p) (lp_password p) (orUndefined (lp_totpCode p)) x s of
       (CodeNeeded, x', s') \<Rightarrow> (p\<lparr>lp_needsTwoFactor := True, lp_submitting := False\<rparr>,
         [ToastInfo (''Entrez votre code d'' @ [CHR 0x27] @ ''authentification a deux facteurs'')], x', s')
     | (LoginDone, x', s') \<Rightarrow> (p\<lparr>lp_submitting := False\<rparr>, [ToastSuccess ''Connexion reussie'', GoTo ''/servers''], x', s')
     | (LoginFailed _, x', s') \<Rightarrow> (p\<lparr>lp_submitting := False\<rparr>, [ToastError ''Identifiants invalides''], x', s'))"

record registerPage =
  rg_email :: string
  rg_username :: string
  rg_password :: string
  rg_submitting :: bool

definition register_valid :: "(string \<Rightarrow> bool) \<Rightarrow> registerPage \<Rightarrow> bool" where
  "register_valid isAddress p \<longleftrightarrow> rg_email p \<noteq> [] \<and> isAddress (rg_email p) \<and> rg_username p \<noteq> [] \<and>
     10 \<le> length (rg_password p)"

definition registerPage_submit ::
  "'s net \<Rightarrow> registerPage \<Rightarrow> panelSession \<Rightarrow> 's \<Rightarrow> registerPage \<times> effect list \<times> panelSession \<times> 's"
where
  "registerPage_submit net p x s =
     (case panel_register net (rg_email p) (rg_username p) (rg_password p) x s of
       (LoginFailed e, x', s') \<Rightarrow> (p\<lparr>rg_submitting := False\<rparr>, [errorEffect ''Impossible de creer le compte'' e], x', s')
     | (_, x', s') \<Rightarrow> (p\<lparr>rg_submitting := False\<rparr>, [ToastSuccess ''Compte cree'', GoTo ''/servers''], x', s'))"

subsection \<open>marketplace\<close>

record installDialog =
  id_installing :: "(string \<times> string) option"
  id_serverId :: id
  id_targetDir :: string
  id_pending :: bool

text \<open>An item is its slug and its name.\<close>

datatype installEvent =
    OpenInstall string string
  | CloseInstall
  | PickServer id
  | TypeTarget string
  | SubmitInstall
  | Installed installDialog
  | InstallFailed apiError

definition canInstall :: "string \<Rightarrow> int \<Rightarrow> bool" where
  "canInstall itemType priceCents \<longleftrightarrow> itemType = ''PLUGIN'' \<and> priceCents = 0"

text \<open>A success reads the name of the item from the render \<open>seen\<close>, as for a new password.\<close>

fun installStep :: "installEvent \<Rightarrow> installDialog \<Rightarrow> installDialog \<times> apiInit option \<times> effect list" where
  "installStep (OpenInstall slug name) s = (s\<lparr>id_installing := Some (slug, name), id_serverId := [],
     id_targetDir := ''plugins''\<rparr>, None, [])"
| "installStep CloseInstall s = (s\<lparr>id_installing := None\<rparr>, None, [])"
| "installStep (PickServer i) s = (if id_installing s = None then (s, None, []) else (s\<lparr>id_serverId := i\<rparr>, None, []))"
| "installStep (TypeTarget d) s = (if id_installing s = None then (s, None, []) else (s\<lparr>id_targetDir := d\<rparr>, None, []))"
| "installStep SubmitInstall s = (case id_installing s of
     None \<Rightarrow> (s, None, [])
   | Some (slug, _) \<Rightarrow> if id_pending s \<or> id_serverId s = [] then (s, None, [])
       else (s\<lparr>id_pending := True\<rparr>, Some (installItem_init (id_serverId s) slug (id_targetDir s)), []))"
| "installStep (Installed seen) s = (if \<not> id_pending s then (s, None, []) else (case id_installing seen of
     Some (_, name) \<Rightarrow> (s\<lparr>id_pending := False, id_installing := None, id_serverId := []\<rparr>, None,
       [ToastSuccess (name @ '' installe''), Invalidate [''marketplace-items'']])
   | None \<Rightarrow> (s\<lparr>id_pending := False\<rparr>, None, [ToastError (''Erreur lors de l'' @ [CHR 0x27] @ ''installation'')])))"
| "installStep (InstallFailed e) s = (if \<not> id_pending s then (s, None, [])
     else (s\<lparr>id_pending := False\<rparr>, None, [errorEffect (''Erreur lors de l'' @ [CHR 0x27] @ ''installation'') e]))"

subsection \<open>The panels of a server\<close>

record taskFields =
  ta_name :: string
  ta_cronExpr :: string
  ta_action :: string
  ta_command :: string

definition taskStart :: taskFields where
  "taskStart = \<lparr>ta_name = [], ta_cronExpr = ''0 4 * * *'', ta_action = ''BACKUP_CREATE'', ta_command = []\<rparr>"

text \<open>The field of the command is there for that action only.\<close>

definition task_valid :: "taskFields \<Rightarrow> bool" where
  "task_valid f \<longleftrightarrow> ta_name f \<noteq> [] \<and> ta_cronExpr f \<noteq> [] \<and> (ta_action f = ''COMMAND_SEND'' \<longrightarrow> ta_command f \<noteq> [])"

definition task_after :: "taskFields \<Rightarrow> taskFields" where
  "task_after f = f\<lparr>ta_name := [], ta_command := []\<rparr>"

definition task_mutation :: "taskFields \<Rightarrow> tasksMutation" where
  "task_mutation f = CreateTask (ta_name f) (ta_cronExpr f) (ta_action f) (ta_command f)"

definition backup_valid :: "string \<Rightarrow> bool" where
  "backup_valid name \<longleftrightarrow> True"

definition backup_after :: "string \<Rightarrow> string" where
  "backup_after _ = []"

record subUserFields =
  sb_email :: string
  sb_permissions :: "string list"

definition subUserStart :: subUserFields where
  "subUserStart = \<lparr>sb_email = [], sb_permissions = [''files.read'', ''console.read'']\<rparr>"

definition subUser_valid :: "(string \<Rightarrow> bool) \<Rightarrow> subUserFields \<Rightarrow> bool" where
  "subUser_valid isAddress f \<longleftrightarrow> sb_email f \<noteq> [] \<and> isAddress (sb_email f)"

definition subUser_after :: "subUserFields \<Rightarrow> subUserFields" where
  "subUser_after f = f\<lparr>sb_email := []\<rparr>"

definition togglePermission :: "string \<Rightarrow> subUserFields \<Rightarrow> subUserFields" where
  "togglePermission perm f = f\<lparr>sb_permissions := toggle perm (sb_permissions f)\<rparr>"

text \<open>The settings of a server are saved as often as the button is pressed, and stay in the form.\<close>

definition settings_valid :: "settingsForm \<Rightarrow> bool" where
  "settings_valid f \<longleftrightarrow> True"

definition settings_after :: "settingsForm \<Rightarrow> settingsForm" where
  "settings_after f = f"

text \<open>A field of the SFTP panel: a click copies it and shows so until its timer ends; a timer that an
  earlier click started ends the mark of a later one.\<close>

record copyField =
  cp_copied :: bool
  cp_timers :: nat

datatype copyEvent = ClickCopy | TimerEnds

fun copyStep :: "string \<Rightarrow> copyEvent \<Rightarrow> copyField \<Rightarrow> copyField \<times> string option" where
  "copyStep shown ClickCopy s = (s\<lparr>cp_copied := True, cp_timers := Suc (cp_timers s)\<rparr>, Some shown)"
| "copyStep shown TimerEnds s = (if cp_timers s = 0 then (s, None)
     else (s\<lparr>cp_copied := False, cp_timers := cp_timers s - 1\<rparr>, None))"

text \<open>The URL of a pack, and the archive of the other; a search runs for the text last submitted.\<close>

definition mrpack_valid :: "string \<Rightarrow> bool" where
  "mrpack_valid url \<longleftrightarrow> url \<noteq> []"

definition mrpack_after :: "string \<Rightarrow> string" where
  "mrpack_after _ = []"

definition archive_valid :: "string option \<Rightarrow> bool" where
  "archive_valid file \<longleftrightarrow> file \<noteq> None"

definition archive_after :: "string option \<Rightarrow> string option" where
  "archive_after _ = None"

record modSearch =
  mo_query :: string
  mo_search :: string

definition typeQuery :: "string \<Rightarrow> modSearch \<Rightarrow> modSearch" where
  "typeQuery q s = s\<lparr>mo_query := q\<rparr>"

definition submitSearch :: "modSearch \<Rightarrow> modSearch" where
  "submitSearch s = s\<lparr>mo_search := mo_query s\<rparr>"

subsection \<open>file-manager-panel\<close>

record fileManager =
  fl_path :: string
  fl_newFolderOpen :: bool
  fl_newFolderName :: string
  fl_editing :: "editedFile option"
  fl_creating :: bool
  fl_writing :: bool

datatype fileEvent =
    GoRoot
  | GoCrumb nat
  | OpenFolder string
  | OpenedFile editedFile
  | NewFile
  | EditPath string
  | EditContent string
  | CloseEditor
  | SaveFile
  | FileWritten bool
  | FolderDialog bool
  | TypeFolder string
  | SubmitFolder
  | FolderMade bool

definition fileStart :: fileManager where
  "fileStart = \<lparr>fl_path = [], fl_newFolderOpen = False, fl_newFolderName = [], fl_editing = None,
     fl_creating = False, fl_writing = False\<rparr>"

fun fileStep :: "fileEvent \<Rightarrow> fileManager \<Rightarrow> fileManager \<times> filesMutation option" where
  "fileStep GoRoot s = (s\<lparr>fl_path := []\<rparr>, None)"
| "fileStep (GoCrumb i) s = (s\<lparr>fl_path := breadcrumbPath (fl_path s) i\<rparr>, None)"
| "fileStep (OpenFolder name) s = (s\<lparr>fl_path := joinPath (fl_path s) name\<rparr>, None)"
| "fileStep (OpenedFile f) s = (s\<lparr>fl_editing := Some f\<rparr>, None)"
| "fileStep NewFile s = (s\<lparr>fl_editing := Some \<lparr>ed_path = [], ed_content = [], ed_isNew = True\<rparr>\<rparr>, None)"
| "fileStep (EditPath p) s = (s\<lparr>fl_editing := map_option (\<lambda>f. if ed_isNew f then f\<lparr>ed_path := p\<rparr> else f) (fl_editing s)\<rparr>, None)"
| "fileStep (EditContent c) s = (s\<lparr>fl_editing := map_option (\<lambda>f. f\<lparr>ed_content := c\<rparr>) (fl_editing s)\<rparr>, None)"
| "fileStep CloseEditor s = (s\<lparr>fl_editing := None\<rparr>, None)"
| "fileStep SaveFile s = (case fl_editing s of
     None \<Rightarrow> (s, None)
   | Some f \<Rightarrow> if fl_writing s then (s, None) else (case saveEdited (fl_path s) f of
       None \<Rightarrow> (s, None)
     | Some m \<Rightarrow> (s\<lparr>fl_writing := True\<rparr>, Some m)))"
| "fileStep (FileWritten ok) s = (if \<not> fl_writing s then (s, None)
     else (s\<lparr>fl_writing := False, fl_editing := (if ok then None else fl_editing s)\<rparr>, None))"
| "fileStep (FolderDialog b) s = (s\<lparr>fl_newFolderOpen := b\<rparr>, None)"
| "fileStep (TypeFolder n) s = (if fl_newFolderOpen s then (s\<lparr>fl_newFolderName := n\<rparr>, None) else (s, None))"
| "fileStep SubmitFolder s = (if \<not> fl_newFolderOpen s \<or> fl_creating s then (s, None)
     else (case submitFolder (fl_newFolderName s) of
       None \<Rightarrow> (s, None)
     | Some m \<Rightarrow> (s\<lparr>fl_creating := True\<rparr>, Some m)))"
| "fileStep (FolderMade ok) s = (if \<not> fl_creating s then (s, None)
     else if ok then (s\<lparr>fl_creating := False, fl_newFolderOpen := False, fl_newFolderName := []\<rparr>, None)
     else (s\<lparr>fl_creating := False\<rparr>, None))"

text \<open>The listing: folders first, then by name; \<open>key\<close> is the order of names of the browser.\<close>

definition fileOrder :: "(string \<Rightarrow> 'k::linorder) \<Rightarrow> fileEntry list \<Rightarrow> fileEntry list" where
  "fileOrder key entries = sort_key (\<lambda>e. if fe_is_directory e then 0 else 1 :: nat) (sort_key (\<lambda>e. key (fe_name e)) entries)"

end
