(* ===== verification/Forms_Properties.thy ===== *)
theory Forms_Properties
  imports Forms Panel_Properties Identity_Properties
begin

text \<open>
  What the theorems of this theory show of the state of the pages: a form that is cleared by its
  success is not sent again, the boxes of a role become its permissions, the file manager walks the
  tree of folders, and the form of a key offers what the backend accepts.
\<close>

subsection \<open>Forms that are cleared by their success\<close>

text \<open>What a user does without typing: press the button, open or close the dialog; and the answers.
  A form that is in no dialog has nothing to open.\<close>

datatype click = Press | Answer bool | Show bool

fun formClick :: "click \<Rightarrow> 'f formEvent list" where
  "formClick Press = [Submit]"
| "formClick (Answer ok) = [Settled ok]"
| "formClick (Show b) = []"

fun dialogClick :: "click \<Rightarrow> 'f dialogEvent list" where
  "dialogClick Press = [InForm Submit]"
| "dialogClick (Answer ok) = [InForm (Settled ok)]"
| "dialogClick (Show b) = [SetOpen b]"

text \<open>A run over clicks: how many requests succeed, and what was sent.\<close>

fun successes :: "(click \<Rightarrow> 'e list) \<Rightarrow> ('e \<Rightarrow> ('f, 'z) form_scheme \<Rightarrow> ('f, 'z) form_scheme \<times> 'f option) \<Rightarrow>
    click list \<Rightarrow> ('f, 'z) form_scheme \<Rightarrow> nat" where
  "successes events step [] s = 0"
| "successes events step (c # cs) s = (if c = Answer True \<and> fm_inFlight s \<noteq> 0 then 1 else 0) +
     successes events step cs (fst (runSteps step (events c) s))"

definition sentBy :: "(click \<Rightarrow> 'e list) \<Rightarrow> ('e \<Rightarrow> ('f, 'z) form_scheme \<Rightarrow> ('f, 'z) form_scheme \<times> 'f option) \<Rightarrow>
    click list \<Rightarrow> ('f, 'z) form_scheme \<Rightarrow> 'f list" where
  "sentBy events step cs s = snd (runSteps step (concat (map events cs)) s)"

text \<open>A form, or the form of a dialog, with the fields \<open>f\<close> and nothing under way, is used once: whatever is
  clicked and answered, at most one request succeeds, and all that is sent is \<open>f\<close>.\<close>

definition formOnce :: "('f \<Rightarrow> bool) \<Rightarrow> ('f \<Rightarrow> 'f) \<Rightarrow> click list \<Rightarrow> 'f \<Rightarrow> bool" where
  "formOnce valid after cs f \<longleftrightarrow> (let s = \<lparr>fm_fields = f, fm_inFlight = 0\<rparr>; step = formStep valid after in
     successes formClick step cs s \<le> 1 \<and> (\<forall>g \<in> set (sentBy formClick step cs s). g = f \<and> valid f))"

definition dialogOnce :: "('f \<Rightarrow> bool) \<Rightarrow> ('f \<Rightarrow> 'f) \<Rightarrow> click list \<Rightarrow> 'f \<Rightarrow> bool" where
  "dialogOnce valid after cs f \<longleftrightarrow> (\<forall>shown. let s = \<lparr>fm_fields = f, fm_inFlight = 0, dg_open = shown\<rparr>;
       step = dialogStep valid after in
     successes dialogClick step cs s \<le> 1 \<and> (\<forall>g \<in> set (sentBy dialogClick step cs s). g = f \<and> valid f))"

lemma runSteps_append: "runSteps step (es @ es') s = (case runSteps step es s of (s1, a) \<Rightarrow>
    (case runSteps step es' s1 of (s2, b) \<Rightarrow> (s2, a @ b)))"
  by (induction es arbitrary: s) (simp_all split: prod.split option.split)

locale cleared_form =
  fixes valid :: "'f \<Rightarrow> bool" and after :: "'f \<Rightarrow> 'f"
  assumes cleared: "\<not> valid (after f)"
begin

text \<open>One request at most is under way, for the fields that are there; after a success nothing is sent.\<close>

definition running :: "'f \<Rightarrow> ('f, 'z) form_scheme \<Rightarrow> bool" where
  "running f s \<longleftrightarrow> fm_fields s = f \<and> fm_inFlight s \<le> 1"

definition over :: "('f, 'z) form_scheme \<Rightarrow> bool" where
  "over s \<longleftrightarrow> \<not> valid (fm_fields s) \<and> fm_inFlight s = 0"

definition clickOk :: "('e list \<Rightarrow> ('f, 'z) form_scheme \<Rightarrow> ('f, 'z) form_scheme \<times> 'f list) \<Rightarrow> (click \<Rightarrow> 'e list) \<Rightarrow> bool" where
  "clickOk run events \<longleftrightarrow> (\<forall>c s s' sent. run (events c) s = (s', sent) \<longrightarrow>
     (over s \<longrightarrow> over s' \<and> sent = []) \<and>
     (\<forall>f. running f s \<longrightarrow> (if c = Answer True \<and> fm_inFlight s \<noteq> 0 then over s' else running f s') \<and>
       (\<forall>g \<in> set sent. g = f \<and> valid f)))"

lemma form_click: "clickOk (runSteps (formStep valid after)) formClick"
  unfolding clickOk_def
proof (intro allI impI)
  fix c s s' sent
  assume "runSteps (formStep valid after) (formClick c) s = (s', sent)"
  then show "(over s \<longrightarrow> over s' \<and> sent = []) \<and> (\<forall>f. running f s \<longrightarrow>
      (if c = Answer True \<and> fm_inFlight s \<noteq> 0 then over s' else running f s') \<and> (\<forall>g \<in> set sent. g = f \<and> valid f))"
    using cleared by (cases c) (auto simp: formStep_def running_def over_def isPending_def split: if_splits)
qed

lemma dialog_click: "clickOk (runSteps (dialogStep valid after)) dialogClick"
  unfolding clickOk_def
proof (intro allI impI)
  fix c s s' sent
  assume "runSteps (dialogStep valid after) (dialogClick c) s = (s', sent)"
  then show "(over s \<longrightarrow> over s' \<and> sent = []) \<and> (\<forall>f. running f s \<longrightarrow>
      (if c = Answer True \<and> fm_inFlight s \<noteq> 0 then over s' else running f s') \<and> (\<forall>g \<in> set sent. g = f \<and> valid f))"
    using cleared
    by (cases c) (auto simp: dialogStep_def formStep_def running_def over_def isPending_def Let_def split: if_splits)
qed

lemma run_over:
  "clickOk (runSteps step) events \<Longrightarrow> over s \<Longrightarrow> successes events step cs s = 0 \<and> sentBy events step cs s = []"
proof (induction cs arbitrary: s)
  case (Cons c cs)
  obtain s' sent where c: "runSteps step (events c) s = (s', sent)" by fastforce
  then have "over s'" "sent = []" using Cons.prems by (auto simp: clickOk_def)
  then show ?case using Cons c by (simp add: sentBy_def runSteps_append over_def)
qed (simp add: sentBy_def)

lemma run_once:
  "clickOk (runSteps step) events \<Longrightarrow> running f s \<Longrightarrow>
    successes events step cs s \<le> 1 \<and> (\<forall>g \<in> set (sentBy events step cs s). g = f \<and> valid f)"
proof (induction cs arbitrary: s)
  case (Cons c cs)
  obtain s' sent where c: "runSteps step (events c) s = (s', sent)" by fastforce
  then have r: "if c = Answer True \<and> fm_inFlight s \<noteq> 0 then over s' else running f s'"
    and sent: "\<forall>g \<in> set sent. g = f \<and> valid f"
    using Cons.prems unfolding clickOk_def by blast+
  show ?case
  proof (cases "c = Answer True \<and> fm_inFlight s \<noteq> 0")
    case True
    then have "successes events step cs s' = 0 \<and> sentBy events step cs s' = []"
      using r run_over [OF Cons.prems(1)] by simp
    then show ?thesis using sent c True by (auto simp: sentBy_def runSteps_append split: prod.splits)
  next
    case False
    then have "successes events step cs s' \<le> 1 \<and> (\<forall>g \<in> set (sentBy events step cs s'). g = f \<and> valid f)"
      using r Cons by (simp split: if_splits)
    moreover have "successes events step (c # cs) s = successes events step cs s'"
      using False c by (simp only: successes.simps if_False fst_conv add_0)
    moreover have "sentBy events step (c # cs) s = sent @ sentBy events step cs s'"
      using c by (simp add: sentBy_def runSteps_append split: prod.splits)
    ultimately show ?thesis using sent by auto
  qed
qed (simp add: sentBy_def)

lemma form_once: "formOnce valid after cs f"
  using run_once [OF form_click, of f "\<lparr>fm_fields = f, fm_inFlight = 0\<rparr>" cs]
  by (simp add: formOnce_def Let_def running_def)

lemma dialog_once: "dialogOnce valid after cs f"
proof -
  have "running f \<lparr>fm_fields = f, fm_inFlight = 0, dg_open = b\<rparr>" for b by (simp add: running_def)
  then show ?thesis using run_once [OF dialog_click] unfolding dialogOnce_def Let_def by blast
qed

end

interpretation newUser: cleared_form "newUser_valid isAddress" newUser_after for isAddress
  by unfold_locales (simp add: newUser_valid_def newUser_after_def)

interpretation newRole: cleared_form newRole_valid newRole_after
  by unfold_locales (simp add: newRole_valid_def newRole_after_def)

interpretation newNode: cleared_form newNode_valid newNode_after
  by unfold_locales (simp add: newNode_valid_def newNode_after_def emptyNodeForm_def)

interpretation newTemplate: cleared_form newTemplate_valid newTemplate_after
  by unfold_locales (simp add: newTemplate_valid_def newTemplate_after_def emptyTemplateForm_def)

interpretation newItem: cleared_form newItem_valid newItem_after
  by unfold_locales (simp add: newItem_valid_def newItem_after_def emptyItemForm_def)

interpretation newTicket: cleared_form newTicket_valid newTicket_after
  by unfold_locales (simp add: newTicket_valid_def newTicket_after_def)

interpretation newServer: cleared_form newServer_valid newServer_after
  by unfold_locales (simp add: newServer_valid_def newServer_after_def)

interpretation password: cleared_form password_valid password_after
  by unfold_locales (simp add: password_valid_def password_after_def)

interpretation reply: cleared_form reply_valid reply_after
  by unfold_locales (simp add: reply_valid_def reply_after_def jsTrim_def)

interpretation task: cleared_form task_valid task_after
  by unfold_locales (simp add: task_valid_def task_after_def)

interpretation subUser: cleared_form "subUser_valid isAddress" subUser_after for isAddress
  by unfold_locales (simp add: subUser_valid_def subUser_after_def)

interpretation mrpack: cleared_form mrpack_valid mrpack_after
  by unfold_locales (simp add: mrpack_valid_def mrpack_after_def)

interpretation archive: cleared_form archive_valid archive_after
  by unfold_locales (simp add: archive_valid_def archive_after_def)

interpretation key: cleared_form key_valid key_after
  by unfold_locales (simp add: key_valid_def key_after_def)

text \<open>C38: what a form of the dashboard creates is created once for what was typed: from a form with
  nothing under way, however often its button is pressed and its dialog opened and closed, and
  whatever answers arrive in between, at most one request succeeds until something is typed
  again, and every request sent carries what was typed. This covers new accounts, roles, nodes,
  templates, items, tickets and servers, and the forms of the password, of a reply, of a task, of
  a sub-user and of the two kinds of packs.\<close>

theorem unedited_forms_succeed_once:
  "dialogOnce (newUser_valid isAddress) newUser_after cs user \<and>
   dialogOnce newRole_valid newRole_after cs role \<and>
   dialogOnce newNode_valid newNode_after cs node \<and>
   dialogOnce newTemplate_valid newTemplate_after cs template \<and>
   dialogOnce newItem_valid newItem_after cs item \<and>
   dialogOnce newTicket_valid newTicket_after cs ticket \<and>
   dialogOnce newServer_valid newServer_after cs server \<and>
   formOnce password_valid password_after cs password \<and>
   formOnce reply_valid reply_after cs reply \<and>
   formOnce task_valid task_after cs task \<and>
   formOnce (subUser_valid isAddress) subUser_after cs subUser \<and>
   formOnce mrpack_valid mrpack_after cs url \<and>
   formOnce archive_valid archive_after cs archive"
  by (intro conjI newUser.dialog_once newRole.dialog_once newNode.dialog_once newTemplate.dialog_once
    newItem.dialog_once newTicket.dialog_once newServer.dialog_once password.form_once reply.form_once
    task.form_once subUser.form_once mrpack.form_once archive.form_once)

text \<open>The form of a backup needs no name: each press after an answer makes another backup.\<close>

lemma backup_form_repeats:
  "successes formClick (formStep backup_valid backup_after) [Press, Answer True, Press, Answer True]
     \<lparr>fm_fields = ''nightly'', fm_inFlight = 0\<rparr> = 2"
  by code_simp

text \<open>What is typed while a request is pending is lost with its success: the second reply is emptied
  with the first, which is the only one sent.\<close>

lemma typing_during_request_is_lost:
  "runSteps (formStep reply_valid reply_after) [Edit ''first'', Submit, Edit ''second'', Settled True]
     \<lparr>fm_fields = [], fm_inFlight = 0\<rparr> = (\<lparr>fm_fields = [], fm_inFlight = 0\<rparr>, [''first''])"
  by code_simp

text \<open>What the server form lets through, the validation of the backend lets through.\<close>

lemma newServer_valid_dto:
  "newServer_valid f \<Longrightarrow> 10 \<le> sf_cpuLimitPct f \<and> 256 \<le> sf_memoryLimitMb f \<and> 512 \<le> sf_diskLimitMb f"
  by (simp add: newServer_valid_def)

subsection \<open>The card of a role\<close>

lemma toggle_set: "k \<in> set (toggle x ks) \<longleftrightarrow> (if k = x then k \<notin> set ks else k \<in> set ks)"
  by (auto simp: toggle_def)

definition toggleAll :: "string list \<Rightarrow> roleCard \<Rightarrow> roleCard" where
  "toggleAll ks s = fold (\<lambda>k s. fst (roleCardStep [] [] (ToggleKey k) s)) ks s"

lemma toggleAll_selected:
  "k \<in> set (rc_selected (toggleAll ks s)) \<longleftrightarrow> (k \<in> set (rc_selected s)) \<noteq> odd (count_list ks k)"
proof (induction ks arbitrary: s)
  case Nil
  then show ?case by (simp add: toggleAll_def)
next
  case (Cons x ks)
  then show ?case by (auto simp: toggleAll_def toggle_set)
qed

lemma toggleAll_subset: "set (rc_selected (toggleAll ks s)) \<subseteq> set (rc_selected s) \<union> set ks"
proof
  fix k
  assume "k \<in> set (rc_selected (toggleAll ks s))"
  then have "k \<in> set (rc_selected s) \<or> odd (count_list ks k)" by (auto simp: toggleAll_selected)
  then show "k \<in> set (rc_selected s) \<union> set ks" by (auto intro: ccontr simp: count_list_0_iff)
qed

text \<open>C20: what an administrator ticks is what a role gets: after any clicks on the boxes of the card of
  a role, the request of the button, handled by the backend, leaves the role with exactly the
  permissions whose box is ticked, which are those it had when the page was opened, changed by each
  box that was clicked an odd number of times; other roles keep theirs.\<close>

theorem role_card_saves_ticked_boxes:
  assumes "roleCardStep rid name SaveRole (toggleAll ks (roleCardOf keys)) = (s', Some (SavePermissions rid name sel))"
    and "set keys \<union> set ks \<subseteq> p_key ` set (t_permissions (w_db w))"
    and "distinct (map p_id (t_permissions (w_db w)))"
    and "roles_setPermissions E rid sel actorId w = (Inr res, w')"
  shows "(\<forall>k. k \<in> set (rolePermissionKeys (w_db w') rid) \<longleftrightarrow> (k \<in> set keys) \<noteq> odd (count_list ks k)) \<and>
    (\<forall>r. r \<noteq> rid \<longrightarrow> rolePermissionKeys (w_db w') r = rolePermissionKeys (w_db w) r)"
proof -
  have sel: "sel = rc_selected (toggleAll ks (roleCardOf keys))"
    using assms(1) by (auto split: if_splits)
  have "set sel \<subseteq> p_key ` set (t_permissions (w_db w))"
    using toggleAll_subset [of ks "roleCardOf keys"] assms(2) by (auto simp: sel roleCardOf_def)
  then have "set (rolePermissionKeys (w_db w') rid) = set sel"
    and "\<forall>r. r \<noteq> rid \<longrightarrow> rolePermissionKeys (w_db w') r = rolePermissionKeys (w_db w) r"
    using set_permissions_exact [OF assms(4,3)] by blast+
  then show ?thesis by (simp add: sel toggleAll_selected roleCardOf_def)
qed

theorem role_card_saves_ticked_boxes_witness:
  "\<exists>res w'. roles_setPermissions sampleEnv ''r-client'' [''servers.create''] ''root'' sampleWorld = (Inr res, w') \<and>
     set (rolePermissionKeys (w_db w') ''r-client'') = {''servers.create''}"
proof -
  let ?ks = "[''servers.read'', ''servers.create'']"
  have save: "roleCardStep ''r-client'' ''client'' SaveRole (toggleAll ?ks (roleCardOf [''servers.read''])) =
      ((toggleAll ?ks (roleCardOf [''servers.read'']))\<lparr>rc_saving := True\<rparr>,
       Some (SavePermissions ''r-client'' ''client'' [''servers.create'']))" by code_simp
  obtain res w' where run: "roles_setPermissions sampleEnv ''r-client'' [''servers.create''] ''root'' sampleWorld = (Inr res, w')"
  proof -
    have "case fst (roles_setPermissions sampleEnv ''r-client'' [''servers.create''] ''root'' sampleWorld) of
        Inr r \<Rightarrow> True | Inl e \<Rightarrow> False" by code_simp
    then show ?thesis using that by (auto simp: prod_eq_iff split: sum.splits)
  qed
  have all: "\<forall>k. k \<in> set (rolePermissionKeys (w_db w') ''r-client'') \<longleftrightarrow>
      (k \<in> set [''servers.read'']) \<noteq> odd (count_list ?ks k)"
  proof -
    have "set [''servers.read''] \<union> set ?ks \<subseteq> p_key ` set (t_permissions (w_db sampleWorld))"
      and "distinct (map p_id (t_permissions (w_db sampleWorld)))" by (simp_all add: sample_defs)
    then show ?thesis using role_card_saves_ticked_boxes [OF save _ _ run] by blast
  qed
  have two: "a \<noteq> b \<Longrightarrow> ((k \<in> set [a]) \<noteq> odd (count_list [a, b] k)) = (k = b)" for a b k :: string by auto
  have "''servers.read'' \<noteq> ''servers.create''" by simp
  from two [OF this] have "\<forall>k. k \<in> set (rolePermissionKeys (w_db w') ''r-client'') \<longleftrightarrow> k = ''servers.create''"
    using all by (simp only: simp_thms)
  then have "set (rolePermissionKeys (w_db w') ''r-client'') = {''servers.create''}" by blast
  with run show ?thesis by (metis (no_types))
qed

text \<open>A box clicked while a save is pending is not saved, and the button that would save it is
  disabled when the answer arrives.\<close>

lemma toggle_during_save_is_lost:
  "let s = fst (roleCardStep i n (SavedRole True) (fst (roleCardStep i n (ToggleKey ''b'')
       (fst (roleCardStep i n SaveRole (fst (roleCardStep i n (ToggleKey ''a'') (roleCardOf []))))))))
   in rc_selected s = [''a'', ''b''] \<and> roleCardStep i n SaveRole s = (s, None)"
  by (simp add: roleCardOf_def toggle_def)

subsection \<open>The file manager\<close>

text \<open>What the clicks mean: a stack of folders.\<close>

fun navigate :: "fileEvent \<Rightarrow> string list \<Rightarrow> string list" where
  "navigate GoRoot stack = []"
| "navigate (GoCrumb i) stack = take (Suc i) stack"
| "navigate (OpenFolder name) stack = stack @ [name]"
| "navigate _ stack = stack"

fun folderName :: "fileEvent \<Rightarrow> bool" where
  "folderName (OpenFolder name) \<longleftrightarrow> name \<noteq> [] \<and> CHR ''/'' \<notin> set name"
| "folderName _ \<longleftrightarrow> True"

definition stackOk :: "string list \<Rightarrow> bool" where
  "stackOk stack \<longleftrightarrow> (\<forall>n\<in>set stack. n \<noteq> [] \<and> CHR ''/'' \<notin> set n)"

lemma joinWith_snoc: "ws \<noteq> [] \<Longrightarrow> joinWith sep (ws @ [w]) = joinWith sep ws @ sep @ w"
  by (induction sep ws rule: joinWith.induct) auto

lemma joinWith_empty: "stackOk stack \<Longrightarrow> joinWith ''/'' stack = [] \<longleftrightarrow> stack = []"
  by (cases stack; cases "tl stack") (auto simp: stackOk_def)

lemma breadcrumbs_join: "stackOk stack \<Longrightarrow> breadcrumbs (joinWith ''/'' stack) = stack"
  unfolding breadcrumbs_def using joinWith_empty [of stack]
  by (auto simp: stackOk_def intro!: splitOn_joinWith)

lemma file_step_path:
  assumes "fl_path s = joinWith ''/'' stack" and "stackOk stack" and "folderName e"
  shows "fl_path (fst (fileStep e s)) = joinWith ''/'' (navigate e stack) \<and> stackOk (navigate e stack)"
proof (cases e)
  case (GoCrumb i)
  have "stackOk (take (Suc i) stack)" using assms(2) by (auto simp: stackOk_def dest: in_set_takeD)
  then show ?thesis using assms by (simp add: GoCrumb breadcrumbPath_def breadcrumbs_join)
next
  case (OpenFolder name)
  then show ?thesis using assms joinWith_empty [OF assms(2)]
    by (auto simp: joinPath_def joinWith_snoc stackOk_def)
qed (use assms in \<open>auto simp: stackOk_def split: option.splits\<close>)

text \<open>C39: the file manager is a walk in the tree of folders: after any clicks and requests its path is
  that of the stack of folders one gets by pushing the folders opened, popping to the breadcrumb
  clicked and emptying the stack at the root; so its breadcrumbs are exactly the folders opened, and
  a new folder is made in the folder shown.\<close>

theorem navigation_refines_stack:
  assumes "list_all folderName es"
  defines "s \<equiv> fold (\<lambda>e s. fst (fileStep e s)) es fileStart" and "stack \<equiv> fold navigate es []"
  shows "fl_path s = joinWith ''/'' stack \<and> breadcrumbs (fl_path s) = stack \<and>
    (\<forall>name. name \<noteq> [] \<longrightarrow> joinPath (fl_path s) name = joinWith ''/'' (stack @ [name]))"
proof -
  have "fl_path (fold (\<lambda>e s. fst (fileStep e s)) es t) = joinWith ''/'' (fold navigate es st) \<and>
      stackOk (fold navigate es st)"
    if "fl_path t = joinWith ''/'' st" and "stackOk st" for t st
    using that assms(1)
  proof (induction es arbitrary: t st)
    case (Cons e es)
    have "fl_path (fst (fileStep e t)) = joinWith ''/'' (navigate e st) \<and> stackOk (navigate e st)"
      using Cons.prems by (intro file_step_path) auto
    then show ?case using Cons.IH [of "fst (fileStep e t)" "navigate e st"] Cons.prems by simp
  qed simp
  from this [of fileStart "[]"] have path: "fl_path s = joinWith ''/'' stack" and ok: "stackOk stack"
    by (auto simp: s_def stack_def fileStart_def stackOk_def)
  have "joinPath (fl_path s) name = joinWith ''/'' (stack @ [name])" for name
    unfolding path joinPath_def using joinWith_empty [OF ok] by (auto simp: joinWith_snoc)
  then show ?thesis using path breadcrumbs_join [OF ok] by simp
qed

theorem navigation_refines_stack_witness:
  "fl_path (fold (\<lambda>e s. fst (fileStep e s)) [OpenFolder ''plugins'', OpenFolder ''world'', GoCrumb 0, OpenFolder ''lib'']
     fileStart) = ''plugins/lib''"
  using navigation_refines_stack [of "[OpenFolder ''plugins'', OpenFolder ''world'', GoCrumb 0, OpenFolder ''lib'']"]
  by simp

text \<open>A save whose answer arrives when another file is being edited closes the editor of that file and
  drops its changes.\<close>

lemma save_closes_other_editor:
  "let opened = (\<lambda>p. OpenedFile \<lparr>ed_path = p, ed_content = [], ed_isNew = False\<rparr>);
     es = [opened ''a.yml'', SaveFile, CloseEditor, opened ''b.yml'', EditContent ''x: 1'', FileWritten True] in
   fl_editing (fst (runSteps fileStep es fileStart)) = None \<and>
   snd (runSteps fileStep es fileStart) = [WriteFile ''a.yml'' []]"
  by code_simp

subsection \<open>The form of an API key\<close>

text \<open>A run of the card in which each event is offered by the page of its moment.\<close>

fun keysRun :: "string list \<Rightarrow> keysEvent list \<Rightarrow> keysCard \<Rightarrow> bool" where
  "keysRun available [] s \<longleftrightarrow> True"
| "keysRun available (e # es) s \<longleftrightarrow> keysOffered available s e \<and> keysRun available es (fst (keysStep e s))"

definition scopesOk :: "string list \<Rightarrow> keysCard \<Rightarrow> bool" where
  "scopesOk available s \<longleftrightarrow> set (kf_scopes (fm_fields s)) \<subseteq> set available \<and> distinct (kf_scopes (fm_fields s))"

lemma distinct_toggle: "distinct ks \<Longrightarrow> distinct (toggle k ks)"
  by (auto simp: toggle_def)

lemma keysStep_scopes: "scopesOk available s \<Longrightarrow> keysOffered available s e \<Longrightarrow> scopesOk available (fst (keysStep e s))"
  by (cases e) (auto simp: scopesOk_def formStep_def key_after_def toggle_set distinct_toggle split: if_splits)

lemma keysRun_scopes:
  "scopesOk available s \<Longrightarrow> keysRun available es s \<Longrightarrow> scopesOk available (fst (runSteps keysStep es s))"
proof (induction es arbitrary: s)
  case (Cons e es)
  obtain s1 sent where s1: "keysStep e s = (s1, sent)" by (cases "keysStep e s")
  have "scopesOk available s1" using keysStep_scopes [of available s e] Cons.prems s1 by simp
  then have "scopesOk available (fst (runSteps keysStep es s1))" using Cons s1 by simp
  then show ?case by (simp add: s1 split: prod.splits option.splits) (metis fst_conv)
qed simp

text \<open>Whatever is clicked on the card of the API keys, the scopes the form sends are some of those it
  offers, each once and at least one, and the backend, asked by the user with the permissions of the
  session, does with them what it does for an administrator: it never refuses a scope the page
  offered, neither to a client nor to an administrator who chose from the catalogue.\<close>

theorem key_form_scopes_are_accepted:
  assumes "keysRun (availableScopes user catalog) es keysStart"
    and "keysStep SubmitKey (fst (runSteps keysStep es keysStart)) = (s', Some (CreateKey name scopes))"
    and "au_permissions actor = sessionPermissions user" and "truthyJson user"
  shows "set scopes \<subseteq> set (availableScopes user catalog) \<and> distinct scopes \<and> scopes \<noteq> [] \<and>
    apiKeys_create E actor name scopes expiresAt w =
      apiKeys_create E (actor\<lparr>au_permissions := [''*'']\<rparr>) name scopes expiresAt w"
proof -
  let ?s = "fst (runSteps keysStep es keysStart)"
  have "scopesOk (availableScopes user catalog) ?s"
    using assms(1) by (intro keysRun_scopes) (auto simp: scopesOk_def keysStart_def)
  moreover have sent: "scopes = kf_scopes (fm_fields ?s)" "scopes \<noteq> []"
    using assms(2) by (auto simp: formStep_def key_valid_def split: if_splits)
  ultimately have offered: "set scopes \<subseteq> set (availableScopes user catalog)" "distinct scopes"
    by (auto simp: scopesOk_def)
  have "has_perm actor ''*'' \<or> filter (\<lambda>s. \<not> has_perm actor s) scopes = []"
    using offered(1) assms(3,4) by (auto simp: has_perm_def availableScopes_def isAdmin_def filter_empty_conv split: if_splits)
  then have no: "(\<not> has_perm actor ''*'' \<and> filter (\<lambda>s. \<not> has_perm actor s) scopes \<noteq> []) \<longleftrightarrow> False" by blast
  have admin: "has_perm (actor\<lparr>au_permissions := [''*'']\<rparr>) ''*'' \<longleftrightarrow> True" by (simp add: has_perm_def)
  have "apiKeys_create E actor name scopes expiresAt w =
      apiKeys_create E (actor\<lparr>au_permissions := [''*'']\<rparr>) name scopes expiresAt w"
    unfolding apiKeys_create_def Let_def no admin by (simp add: andThen_apply throwIf_apply)
  then show ?thesis using offered sent(2) by blast
qed

definition sampleSession :: "json option" where
  "sampleSession = Some (JObj [(''permissions'', JArr [JStr ''servers.read'', JStr ''servers.create''])])"

theorem key_form_scopes_are_accepted_witness:
  "apiKeys_create sampleEnv (sampleAuth ''alice'' [''servers.read'', ''servers.create'']) ''ci'' [''servers.create''] None sampleWorld =
   apiKeys_create sampleEnv ((sampleAuth ''alice'' [''servers.read'', ''servers.create''])\<lparr>au_permissions := [''*'']\<rparr>)
     ''ci'' [''servers.create''] None sampleWorld"
proof -
  let ?es = "[OpenKeyForm, TypeKeyName ''ci'', ToggleScope ''servers.read'', ToggleScope ''servers.create'',
     ToggleScope ''servers.read'']"
  have run: "keysRun (availableScopes sampleSession None) ?es keysStart" by code_simp
  define s' where "s' = fst (keysStep SubmitKey (fst (runSteps keysStep ?es keysStart)))"
  have "snd (keysStep SubmitKey (fst (runSteps keysStep ?es keysStart))) = Some (CreateKey ''ci'' [''servers.create''])"
    by code_simp
  then have sent: "keysStep SubmitKey (fst (runSteps keysStep ?es keysStart)) =
      (s', Some (CreateKey ''ci'' [''servers.create'']))" by (simp only: s'_def prod_eq_iff fst_conv snd_conv)
  have "au_permissions (sampleAuth ''alice'' [''servers.read'', ''servers.create'']) = sessionPermissions sampleSession"
    and "truthyJson sampleSession" by code_simp+
  from key_form_scopes_are_accepted [OF run sent this, where E = sampleEnv and expiresAt = None and w = sampleWorld]
  show ?thesis by (elim conjE)
qed

end
