(* ===== verification/Enrolment.thy ===== *)
theory Enrolment
  imports Forms Dashboard_Calls Identity_Properties Sample_Services
begin

text \<open>
  The second factor from the card of the account page to the database: the card of \<open>Forms\<close> with the
  handlers of the backend behind its requests, and what the user may rely on: the secret and the
  codes on the page are those of the account, and an enrolment that is carried through succeeds.
\<close>

subsection \<open>The card and the backend\<close>

text \<open>The page: its card, the field \<open>twoFactorEnabled\<close> of the user of the session, and the backend.\<close>

record enrolPage =
  en_card :: twoFactorCard
  en_enabled :: bool
  en_world :: world

text \<open>What arrives for a request of the card: its route, handled for the user of the session.\<close>

fun twoFactorFailed :: "accountMutation \<Rightarrow> apiError \<Rightarrow> twoFactorEvent" where
  "twoFactorFailed GenerateTwoFactor e = GenerateFailed e"
| "twoFactorFailed (EnableTwoFactor _) e = EnableFailed e"
| "twoFactorFailed _ e = DisableFailed e"

definition twoFactorAnswer ::
  "env \<Rightarrow> apiEnv \<Rightarrow> authUser \<Rightarrow> accountMutation \<Rightarrow> world \<Rightarrow> twoFactorEvent option \<times> world"
where
  "twoFactorAnswer E A user m w = (case account_call_route m of
     AuthR r \<Rightarrow> (case auth_handle E A None None r (Some user) w of
         (Inr (RSecret (secret, url)), w') \<Rightarrow> (Some (Generated secret url), w')
       | (Inr (RRecoveryCodes codes), w') \<Rightarrow> (Some (EnableDone codes), w')
       | (Inr RSuccess, w') \<Rightarrow> (Some DisableDone, w')
       | (Inr _, w') \<Rightarrow> (None, w')
       | (Inl e, w') \<Rightarrow> (Some (twoFactorFailed m
           (ApiError (int (httpStatus e)) (JObj [strField ''message'' (exn_message e)]))), w'))
   | _ \<Rightarrow> (None, w))"

text \<open>A success of an activation or a deactivation reads the user again.\<close>

fun refreshesUser :: "twoFactorEvent \<Rightarrow> bool" where
  "refreshesUser (EnableDone _) \<longleftrightarrow> True"
| "refreshesUser DisableDone \<longleftrightarrow> True"
| "refreshesUser _ \<longleftrightarrow> False"

definition accountFlag :: "id \<Rightarrow> world \<Rightarrow> bool" where
  "accountFlag i w \<longleftrightarrow> (case List.find (\<lambda>x. u_id x = i) (t_users (w_db w)) of
     None \<Rightarrow> False | Some v \<Rightarrow> u_twoFactorEnabled v)"

text \<open>A step of the user: a click or a letter the page does not offer does nothing; the answer to a
  request arrives before the next step.\<close>

definition enrolStep :: "env \<Rightarrow> apiEnv \<Rightarrow> authUser \<Rightarrow> twoFactorEvent \<Rightarrow> enrolPage \<Rightarrow> enrolPage" where
  "enrolStep E A user e s =
     (if \<not> twoFactorOffered (en_enabled s) (en_card s) e then s
      else case twoFactorStep e (en_card s) of
          (c, None) \<Rightarrow> s\<lparr>en_card := c\<rparr>
        | (c, Some m) \<Rightarrow> (case twoFactorAnswer E A user m (en_world s) of
            (None, w') \<Rightarrow> s\<lparr>en_card := c, en_world := w'\<rparr>
          | (Some answer, w') \<Rightarrow> s\<lparr>en_card := fst (twoFactorStep answer c), en_world := w',
              en_enabled := (if refreshesUser answer then accountFlag (au_id user) w' else en_enabled s)\<rparr>))"

definition enrolPages :: "env \<Rightarrow> apiEnv \<Rightarrow> authUser \<Rightarrow> twoFactorEvent list \<Rightarrow> world \<Rightarrow> enrolPage" where
  "enrolPages E A user es w = fold (enrolStep E A user) es
     \<lparr>en_card = twoFactorStart, en_enabled = accountFlag (au_id user) w, en_world = w\<rparr>"

subsection \<open>The operations of the backend\<close>

lemma find_update_user:
  assumes "List.find (\<lambda>x. u_id x = i) (t_users d) = Some u" and "\<And>x. u_id (f x) = u_id x"
  shows "List.find (\<lambda>x. u_id x = i) (map (\<lambda>x. if u_id x = i then f x else x) (t_users d)) = Some (f u)"
  using find_map_key [of u_id f i "\<lambda>x. u_id x = i" "t_users d"] assms by (auto dest: find_SomeD)

lemma generate_Inr:
  assumes "auth_generateTwoFactorSecret E i w = (Inr (secret, url), w')"
    and "List.find (\<lambda>x. u_id x = i) (t_users (w_db w)) = Some u"
  shows "List.find (\<lambda>x. u_id x = i) (t_users (w_db w')) = Some (u\<lparr>u_twoFactorSecret := Some secret\<rparr>)"
proof -
  have "t_users (w_db w') = map (\<lambda>x. if u_id x = i then x\<lparr>u_twoFactorSecret := Some secret\<rparr> else x) (t_users (w_db w))"
    using assms(1) by (auto simp: auth_generateTwoFactorSecret_def run_Inr)
  then show ?thesis using find_update_user [OF assms(2), of "\<lambda>x. x\<lparr>u_twoFactorSecret := Some secret\<rparr>"] by simp
qed

lemma randomCodes_db: "randomCodes E k w = (Inr cs, w') \<Longrightarrow> w_db w' = w_db w \<and> length cs = k"
proof (induction k arbitrary: w cs)
  case (Suc k)
  then show ?case by (fastforce simp: run_Inr)
qed (simp add: run_Inr)

lemma randomCodes_runs: "\<exists>cs w'. randomCodes E k w = (Inr cs, w') \<and> w_db w' = w_db w"
proof (induction k arbitrary: w)
  case (Suc k)
  obtain w1 c where c: "external (\<lambda>n. randomHex E n 5) w = (Inr c, w1)" and db: "w_db w1 = w_db w"
    by (auto simp: prog_simps)
  from Suc.IH [of w1] obtain cs w2 where "randomCodes E k w1 = (Inr cs, w2)" "w_db w2 = w_db w1" by blast
  then show ?case using c db by (simp add: bnd_apply ret_apply)
qed (simp add: prog_simps)

lemma enable_Inr:
  assumes "auth_enableTwoFactor E i code w = (Inr codes, w')"
    and "List.find (\<lambda>x. u_id x = i) (t_users (w_db w)) = Some u"
  shows "List.find (\<lambda>x. u_id x = i) (t_users (w_db w')) =
      Some (u\<lparr>u_twoFactorEnabled := True, u_twoFactorRecoveryCodes := codes\<rparr>) \<and> length codes = 10"
proof -
  let ?f = "\<lambda>x. x\<lparr>u_twoFactorEnabled := True, u_twoFactorRecoveryCodes := codes\<rparr>"
  obtain w1 w2 where codes: "randomCodes E 10 w1 = (Inr codes, w2)" and db: "w_db w1 = w_db w"
    and users: "t_users (w_db w') = map (\<lambda>x. if u_id x = i then ?f x else x) (t_users (w_db w2))"
    using assms(1) by (auto simp: auth_enableTwoFactor_def auth_verifyTotp_def run_Inr)
  show ?thesis using find_update_user [OF assms(2), of ?f] randomCodes_db [OF codes] users db by simp
qed

lemma enable_runs:
  assumes "List.find (\<lambda>x. u_id x = i) (t_users (w_db w)) = Some u" and "u_twoFactorSecret u = Some secret"
    and "secret \<noteq> []" and "totpVerify E (w_tick w) secret code"
  shows "\<exists>codes w'. auth_enableTwoFactor E i code w = (Inr codes, w')"
proof -
  define w1 where "w1 = snd (auth_verifyTotp E secret code w)"
  have verify: "auth_verifyTotp E secret code w = (Inr True, w1)" and db: "w_db w1 = w_db w"
    using assms(4) by (auto simp: w1_def auth_verifyTotp_def prog_simps)
  obtain cs w2 where codes: "randomCodes E 10 w1 = (Inr cs, w2)" "w_db w2 = w_db w1"
    using randomCodes_runs by blast
  show ?thesis using assms(1-3) codes db
    by (simp add: auth_enableTwoFactor_def prog_simps verify)
qed

lemma randomCodes_Inr: "randomCodes E k w \<noteq> (Inl e, w')"
  using randomCodes_runs [of E k w] by auto

lemma failed_keeps_db:
  "auth_generateTwoFactorSecret E i w = (Inl e, w') \<Longrightarrow> w_db w' = w_db w"
  "auth_enableTwoFactor E i code w = (Inl e, w') \<Longrightarrow> w_db w' = w_db w"
  "auth_disableTwoFactor E i code w = (Inl e, w') \<Longrightarrow> w_db w' = w_db w"
  by (auto simp: auth_generateTwoFactorSecret_def auth_enableTwoFactor_def auth_disableTwoFactor_def auth_verifyTotp_def
      prog_simps split: option.splits if_splits prod.splits sum.splits simp: randomCodes_Inr dest: randomCodes_db)

lemma disable_Inr:
  assumes "auth_disableTwoFactor E i code w = (Inr x, w')"
    and "List.find (\<lambda>x. u_id x = i) (t_users (w_db w)) = Some u"
  shows "List.find (\<lambda>x. u_id x = i) (t_users (w_db w')) =
    Some (u\<lparr>u_twoFactorEnabled := False, u_twoFactorSecret := None, u_twoFactorRecoveryCodes := []\<rparr>)"
proof -
  let ?f = "\<lambda>x. x\<lparr>u_twoFactorEnabled := False, u_twoFactorSecret := None, u_twoFactorRecoveryCodes := []\<rparr>"
  have "t_users (w_db w') = map (\<lambda>x. if u_id x = i then ?f x else x) (t_users (w_db w))"
    using assms(1) by (auto simp: auth_disableTwoFactor_def auth_verifyTotp_def run_Inr split: if_splits)
  then show ?thesis using find_update_user [OF assms(2), of ?f] by simp
qed

lemma codes_accepted:
  assumes "List.find (\<lambda>x. u_id x = i) (t_users (w_db w)) = Some v" and "c \<in> set (u_twoFactorRecoveryCodes v)"
  shows "\<exists>w'. auth_secondFactor E v c w = (Inr (), w')"
proof -
  have "u_id v = i" using find_SomeD [OF assms(1)] by simp
  then show ?thesis using assms
    by (auto simp: auth_secondFactor_def auth_verifyTotp_def prog_simps Let_def)
qed

lemma answer_generate:
  "twoFactorAnswer E A user GenerateTwoFactor w = (case auth_generateTwoFactorSecret E (au_id user) w of
     (Inr (secret, url), w') \<Rightarrow> (Some (Generated secret url), w')
   | (Inl e, w') \<Rightarrow> (Some (GenerateFailed
       (ApiError (int (httpStatus e)) (JObj [strField ''message'' (exn_message e)]))), w'))"
  by (simp add: twoFactorAnswer_def withUser_def respond_def bnd_apply ret_apply split: prod.split sum.split)

lemma answer_enable:
  "twoFactorAnswer E A user (EnableTwoFactor code) w = (case auth_enableTwoFactor E (au_id user) code w of
     (Inr codes, w') \<Rightarrow> (Some (EnableDone codes), w')
   | (Inl e, w') \<Rightarrow> (Some (EnableFailed
       (ApiError (int (httpStatus e)) (JObj [strField ''message'' (exn_message e)]))), w'))"
  by (simp add: twoFactorAnswer_def withUser_def respond_def bnd_apply ret_apply split: prod.split sum.split)

lemma answer_disable:
  "twoFactorAnswer E A user (DisableTwoFactor code) w = (case auth_disableTwoFactor E (au_id user) code w of
     (Inr x, w') \<Rightarrow> (Some DisableDone, w')
   | (Inl e, w') \<Rightarrow> (Some (DisableFailed
       (ApiError (int (httpStatus e)) (JObj [strField ''message'' (exn_message e)]))), w'))"
  by (simp add: twoFactorAnswer_def withUser_def respond_def bnd_apply ret_apply split: prod.split sum.split)

subsection \<open>What the page shows\<close>

definition enrolOk :: "id \<Rightarrow> enrolPage \<Rightarrow> bool" where
  "enrolOk i s \<longleftrightarrow> \<not> tc_generating (en_card s) \<and> \<not> tc_enabling (en_card s) \<and> \<not> tc_disablingPending (en_card s) \<and>
     (\<exists>v. List.find (\<lambda>x. u_id x = i) (t_users (w_db (en_world s))) = Some v \<and>
        en_enabled s = u_twoFactorEnabled v \<and> (tc_disabling (en_card s) \<longrightarrow> u_twoFactorEnabled v) \<and>
        (\<forall>secret url. tc_setup (en_card s) = Some (secret, url) \<longrightarrow>
           u_twoFactorSecret v = Some secret \<and> \<not> u_twoFactorEnabled v) \<and>
        (\<forall>codes. tc_recoveryCodes (en_card s) = Some codes \<and> u_twoFactorEnabled v \<longrightarrow>
           u_twoFactorRecoveryCodes v = codes \<and> length codes = 10))"

lemma enrolStep_ok:
  assumes "enrolOk (au_id user) s" shows "enrolOk (au_id user) (enrolStep E A user e s)"
proof (cases "twoFactorOffered (en_enabled s) (en_card s) e")
  case True
  let ?i = "au_id user" and ?w = "en_world s"
  obtain v where v: "List.find (\<lambda>x. u_id x = ?i) (t_users (w_db ?w)) = Some v"
    using assms by (auto simp: enrolOk_def)
  show ?thesis
  proof (cases e)
    case ClickGenerate
    obtain r w' where g: "auth_generateTwoFactorSecret E ?i ?w = (r, w')" by fastforce
    show ?thesis
    proof (cases r)
      case (Inl x)
      then show ?thesis using True assms ClickGenerate g failed_keeps_db(1) [of E ?i ?w x w']
        by (simp add: enrolStep_def answer_generate enrolOk_def)
    next
      case (Inr y)
      then show ?thesis using True assms ClickGenerate g v generate_Inr [of E ?i ?w _ _ w' v]
        by (cases y) (auto simp: enrolStep_def answer_generate enrolOk_def activateShown_def)
    qed
  next
    case SubmitEnable
    obtain r w' where g: "auth_enableTwoFactor E ?i (tc_enableCode (en_card s)) ?w = (r, w')" by fastforce
    show ?thesis
    proof (cases r)
      case (Inl x)
      then show ?thesis using True assms SubmitEnable g failed_keeps_db(2) [of E ?i _ ?w x w']
        by (simp add: enrolStep_def answer_enable enrolOk_def)
    next
      case (Inr y)
      then show ?thesis using True assms SubmitEnable g v enable_Inr [of E ?i _ ?w y w' v]
        by (auto simp: enrolStep_def answer_enable enrolOk_def accountFlag_def)
    qed
  next
    case SubmitDisable
    obtain r w' where g: "auth_disableTwoFactor E ?i (tc_disableCode (en_card s)) ?w = (r, w')" by fastforce
    show ?thesis
    proof (cases r)
      case (Inl x)
      then show ?thesis using True assms SubmitDisable g failed_keeps_db(3) [of E ?i _ ?w x w']
        by (simp add: enrolStep_def answer_disable enrolOk_def)
    next
      case (Inr y)
      then show ?thesis using True assms SubmitDisable g v disable_Inr [of E ?i _ ?w y w' v]
        by (auto simp: enrolStep_def answer_disable enrolOk_def accountFlag_def)
    qed
  qed (use True assms in \<open>auto simp: enrolStep_def enrolOk_def deactivateShown_def\<close>)
qed (use assms in \<open>simp add: enrolStep_def\<close>)

lemma enrolPages_ok:
  assumes "List.find (\<lambda>x. u_id x = au_id user) (t_users (w_db w)) = Some u"
  shows "enrolOk (au_id user) (enrolPages E A user es w)"
proof -
  have "enrolOk (au_id user) s \<Longrightarrow> enrolOk (au_id user) (fold (enrolStep E A user) es s)" for s
    by (induction es arbitrary: s) (simp_all add: enrolStep_ok)
  then show ?thesis using assms by (simp add: enrolPages_def enrolOk_def twoFactorStart_def accountFlag_def)
qed

text \<open>C14: the card of the second factor over the backend, whatever the user clicks and types, where
  each answer arrives before the next click. A secret the page shows is the secret of the account,
  which waits for its confirmation; codes it shows while the second factor is on are the ten
  codes of the account, and each is accepted as a second factor. The button to activate shows the
  secret the backend generates, and typing a valid code of it and confirming turns the second
  factor on and shows its codes.\<close>

theorem enrolment_shows_valid_codes:
  fixes E :: env and A :: apiEnv and es :: "twoFactorEvent list"
  assumes "List.find (\<lambda>x. u_id x = au_id user) (t_users (w_db w)) = Some u"
  defines "s \<equiv> enrolPages E A user es w"
  shows "(\<exists>v. List.find (\<lambda>x. u_id x = au_id user) (t_users (w_db (en_world s))) = Some v \<and>
      en_enabled s = u_twoFactorEnabled v \<and>
      (\<forall>secret url. tc_setup (en_card s) = Some (secret, url) \<longrightarrow>
         u_twoFactorSecret v = Some secret \<and> \<not> u_twoFactorEnabled v) \<and>
      (\<forall>codes. tc_recoveryCodes (en_card s) = Some codes \<and> u_twoFactorEnabled v \<longrightarrow>
         u_twoFactorRecoveryCodes v = codes \<and> length codes = 10 \<and>
         (\<forall>c \<in> set codes. \<exists>w'. auth_secondFactor E v c (en_world s) = (Inr (), w')))) \<and>
    (\<forall>secret url w'. activateShown (en_enabled s) (en_card s) \<and>
       auth_generateTwoFactorSecret E (au_id user) (en_world s) = (Inr (secret, url), w') \<longrightarrow>
       tc_setup (en_card (enrolStep E A user ClickGenerate s)) = Some (secret, url)) \<and>
    (\<forall>secret url code. tc_setup (en_card s) = Some (secret, url) \<and> secret \<noteq> [] \<and> code \<noteq> [] \<and>
       length code \<le> 6 \<and> totpVerify E (w_tick (en_world s)) secret code \<longrightarrow>
       (let t = enrolStep E A user SubmitEnable (enrolStep E A user (TypeEnableCode code) s) in
        en_enabled t \<and> tc_setup (en_card t) = None \<and> tc_recoveryCodes (en_card t) \<noteq> None))"
proof (intro conjI allI impI)
  have ok: "enrolOk (au_id user) s" unfolding s_def by (rule enrolPages_ok [OF assms(1)])
  then obtain v where v: "List.find (\<lambda>x. u_id x = au_id user) (t_users (w_db (en_world s))) = Some v"
    and secretOf: "\<And>secret url. tc_setup (en_card s) = Some (secret, url) \<Longrightarrow> u_twoFactorSecret v = Some secret"
    by (auto simp: enrolOk_def)
  show "\<exists>v. List.find (\<lambda>x. u_id x = au_id user) (t_users (w_db (en_world s))) = Some v \<and>
      en_enabled s = u_twoFactorEnabled v \<and>
      (\<forall>secret url. tc_setup (en_card s) = Some (secret, url) \<longrightarrow>
         u_twoFactorSecret v = Some secret \<and> \<not> u_twoFactorEnabled v) \<and>
      (\<forall>codes. tc_recoveryCodes (en_card s) = Some codes \<and> u_twoFactorEnabled v \<longrightarrow>
         u_twoFactorRecoveryCodes v = codes \<and> length codes = 10 \<and>
         (\<forall>c \<in> set codes. \<exists>w'. auth_secondFactor E v c (en_world s) = (Inr (), w')))"
    using ok v codes_accepted [OF v] by (auto simp: enrolOk_def)
  show "tc_setup (en_card (enrolStep E A user ClickGenerate s)) = Some (secret, url)"
    if "activateShown (en_enabled s) (en_card s) \<and>
       auth_generateTwoFactorSecret E (au_id user) (en_world s) = (Inr (secret, url), w')" for secret url w'
    using that ok by (simp add: enrolStep_def answer_generate enrolOk_def)
  show "let t = enrolStep E A user SubmitEnable (enrolStep E A user (TypeEnableCode code) s) in
        en_enabled t \<and> tc_setup (en_card t) = None \<and> tc_recoveryCodes (en_card t) \<noteq> None"
    if given: "tc_setup (en_card s) = Some (secret, url) \<and> secret \<noteq> [] \<and> code \<noteq> [] \<and>
       length code \<le> 6 \<and> totpVerify E (w_tick (en_world s)) secret code" for secret url code
  proof -
    have "u_twoFactorSecret v = Some secret" using secretOf that by blast
    then obtain codes w' where en: "auth_enableTwoFactor E (au_id user) code (en_world s) = (Inr codes, w')"
      using enable_runs [OF v, of secret E code] given by blast
    note enabled = enable_Inr [OF en v]
    let ?s1 = "s\<lparr>en_card := (en_card s)\<lparr>tc_enableCode := code\<rparr>\<rparr>"
    have typed: "enrolStep E A user (TypeEnableCode code) s = ?s1"
      using that by (simp add: enrolStep_def)
    have "enrolStep E A user SubmitEnable ?s1 = ?s1\<lparr>en_card := fst (twoFactorStep (EnableDone codes)
        (fst (twoFactorStep SubmitEnable (en_card ?s1)))), en_world := w', en_enabled := True\<rparr>"
      using that ok en enabled by (simp add: enrolStep_def answer_enable enrolOk_def accountFlag_def)
    then show ?thesis by (simp add: typed)
  qed
qed

theorem enrolment_shows_valid_codes_witness:
  "let s = enrolPages sampleEnv sampleApi (sampleAuth ''alice'' []) [ClickGenerate] sampleWorld;
     t = enrolPages sampleEnv sampleApi (sampleAuth ''alice'' []) [ClickGenerate, TypeEnableCode ''totp'', SubmitEnable] sampleWorld in
   (\<exists>url. tc_setup (en_card s) = Some (''totp'', url)) \<and> en_enabled t \<and>
   (\<exists>codes. tc_recoveryCodes (en_card t) = Some codes \<and> length codes = 10)"
proof -
  let ?user = "sampleAuth ''alice'' []"
  define s where "s = enrolPages sampleEnv sampleApi ?user [ClickGenerate] sampleWorld"
  define t where "t = enrolPages sampleEnv sampleApi ?user [ClickGenerate, TypeEnableCode ''totp'', SubmitEnable] sampleWorld"
  have u: "\<exists>u. List.find (\<lambda>x. u_id x = au_id ?user) (t_users (w_db sampleWorld)) = Some u"
    by (simp add: sample_defs)
  have "map_option fst (tc_setup (en_card s)) = Some ''totp''" unfolding s_def by code_simp
  then obtain url where shown: "tc_setup (en_card s) = Some (''totp'', url)" by auto
  have totp: "totpVerify sampleEnv n ''totp'' ''totp''" for n by (simp add: sampleEnv_def)
  have t: "t = enrolStep sampleEnv sampleApi ?user SubmitEnable (enrolStep sampleEnv sampleApi ?user (TypeEnableCode ''totp'') s)"
    by (simp add: s_def t_def enrolPages_def)
  obtain u where u: "List.find (\<lambda>x. u_id x = au_id ?user) (t_users (w_db sampleWorld)) = Some u" using u by blast
  note page = enrolment_shows_valid_codes [OF u, of sampleEnv sampleApi]
  have on: "en_enabled t" and codes: "tc_recoveryCodes (en_card t) \<noteq> None"
    using page [of "[ClickGenerate]", folded s_def, THEN conjunct2, THEN conjunct2, rule_format,
        of "''totp''" url "''totp''"] shown totp by (simp_all add: t Let_def)
  obtain cs where cs: "tc_recoveryCodes (en_card t) = Some cs" using codes by blast
  then have "length cs = 10"
    using page [of "[ClickGenerate, TypeEnableCode ''totp'', SubmitEnable]", folded t_def, THEN conjunct1] on by auto
  then show ?thesis using shown on cs unfolding s_def [symmetric] t_def [symmetric] Let_def by blast
qed

text \<open>Cancelling while a confirmation is pending, and generating again: the page ends with recovery
  codes and a secret at once, and the account has a secret the user has not confirmed.\<close>

lemma cancelled_confirmation_overlaps:
  "let es = [ClickGenerate, Generated ''A'' ''a'', TypeEnableCode ''123456'', SubmitEnable, CancelSetup, ClickGenerate,
        EnableDone [''r''], Generated ''B'' ''b''];
       s = fst (runSteps twoFactorStep es twoFactorStart) in
   (\<forall>k<length es. twoFactorOffered False (fst (runSteps twoFactorStep (take k es) twoFactorStart)) (es ! k)) \<and>
   tc_setup s = Some (''B'', ''b'') \<and> tc_recoveryCodes s = Some [''r'']"
  by (simp add: twoFactorStart_def activateShown_def All_less_Suc)


end
