(* ===== verification/Strategies.thy ===== *)
theory Strategies
  imports Identity_Properties Live
begin

text \<open>
  \<^verbatim>\<open>auth/strategies\<close>: what the strategies of GitHub, Google and Discord make of the profile the
  provider returns, before \<open>validateOAuthLogin\<close> finds or creates the account. The exchange with the
  provider is that of the library passport.
\<close>

text \<open>The fields of a profile: \<open>id\<close>, \<open>username\<close>, \<open>displayName\<close>, the values of \<open>emails\<close>, and for Discord
  \<open>email\<close> and whether the address is verified.\<close>

record providerProfile =
  pp_id :: string
  pp_username :: string
  pp_displayName :: "string option"
  pp_emails :: "string list"
  pp_email :: "string option"
  pp_verified :: bool

text \<open>\<open>s.replace(/\s+/g, "_")\<close>.\<close>

function blanksToUnderscore :: "string \<Rightarrow> string" where
  "blanksToUnderscore [] = []"
| "blanksToUnderscore (c # s) = (if isBlank c then CHR ''_'' # blanksToUnderscore (dropWhile isBlank s)
     else c # blanksToUnderscore s)"
  by pat_completeness auto

termination by (relation "measure length") (auto simp: length_dropWhile_le le_imp_less_Suc)

fun strategyEmail :: "OAuthProvider \<Rightarrow> providerProfile \<Rightarrow> string option" where
  "strategyEmail Github p = (case pp_emails p of e # _ \<Rightarrow> Some e
     | [] \<Rightarrow> Some (pp_username p @ ''@users.noreply.github.com''))"
| "strategyEmail Google p = (case pp_emails p of e # _ \<Rightarrow> Some e | [] \<Rightarrow> None)"
| "strategyEmail Discord p = pp_email p"

fun strategyUsername :: "OAuthProvider \<Rightarrow> providerProfile \<Rightarrow> string" where
  "strategyUsername Github p = pp_username p"
| "strategyUsername Google p = (case pp_displayName p of Some n \<Rightarrow> blanksToUnderscore n | None \<Rightarrow> pp_id p)"
| "strategyUsername Discord p = pp_username p"

text \<open>\<open>validate\<close>. Without an address an account is found by the identifier of the provider; else the
  upsert has no key to look for, and Prisma rejects it with a message \<open>noKey\<close>.\<close>

definition strategy_validate :: "env \<Rightarrow> string \<Rightarrow> OAuthProvider \<Rightarrow> providerProfile \<Rightarrow> user io" where
  "strategy_validate E noKey p prof = (case strategyEmail p prof of
     Some e \<Rightarrow> auth_validateOAuthLogin E \<lparr>op_provider = p, op_providerId = pp_id prof, op_email = e,
       op_username = strategyUsername p prof\<rparr>
   | None \<Rightarrow> bnd (dbFind t_users (\<lambda>u. providerId p u = Some (pp_id prof))) (\<lambda>r. case r of
       Some u \<Rightarrow> ret u
     | None \<Rightarrow> bnd (dbFind t_roles (\<lambda>r. r_name r = ''client'')) (\<lambda>_. throw (JsError noKey))))"

text \<open>C23: where a login through a provider ends. The account linked to the identifier of the provider is
  entered; if there is none, the address the strategy reads decides: the account that has it is
  linked and entered, without its password or its consent, whether or not the provider has verified
  the address; without such an account a new one is made, with no password and a name of at most 32
  characters. A profile of GitHub without address stands for one of \<^verbatim>\<open>users.noreply.github.com\<close>.\<close>

theorem provider_login_account:
  assumes "strategy_validate E noKey p prof w = (Inr u, w')"
  defines "linked \<equiv> List.find (\<lambda>u. providerId p u = Some (pp_id prof)) (t_users (w_db w))"
  shows "providerId p u = Some (pp_id prof) \<and> u \<in> set (t_users (w_db w')) \<and>
    strategy_validate E noKey p (prof\<lparr>pp_verified := b\<rparr>) w = (Inr u, w') \<and>
    (case linked of Some v \<Rightarrow> u = v \<and> w' = w
     | None \<Rightarrow> \<exists>e. strategyEmail p prof = Some e \<and>
        (case List.find (\<lambda>v. u_email v = e) (t_users (w_db w)) of
          Some v \<Rightarrow> u = setProviderId p (pp_id prof) v
        | None \<Rightarrow> u_email u = e \<and> t_users (w_db w') = t_users (w_db w) @ [u] \<and> length (u_username u) \<le> 32 \<and>
            u_passwordHash u = None))"
proof -
  have "strategyEmail p (prof\<lparr>pp_verified := b\<rparr>) = strategyEmail p prof \<and>
    strategyUsername p (prof\<lparr>pp_verified := b\<rparr>) = strategyUsername p prof"
    by (cases p) (simp_all split: list.split option.split)
  then have same: "strategy_validate E noKey p (prof\<lparr>pp_verified := b\<rparr>) w = (Inr u, w')"
    using assms(1) by (cases "strategyEmail p prof") (simp_all add: strategy_validate_def)
  show ?thesis
  proof (cases "strategyEmail p prof")
    case None
    then have "linked = Some u \<and> w' = w"
      using assms(1) by (auto simp: strategy_validate_def linked_def run_Inr)
    then show ?thesis using same by (auto simp: linked_def dest: find_SomeD)
  next
    case (Some e)
    let ?prof = "\<lparr>op_provider = p, op_providerId = pp_id prof, op_email = e, op_username = strategyUsername p prof\<rparr>"
    have run: "auth_validateOAuthLogin E ?prof w = (Inr u, w')"
      using assms(1) Some by (simp add: strategy_validate_def)
    note end' = oauth_account [OF run, simplified]
    show ?thesis
    proof (cases linked)
      case None
      then show ?thesis using end' same Some
        by (cases "List.find (\<lambda>v. u_email v = e) (t_users (w_db w))") (auto simp add: linked_def)
    next
      case linked: (Some v)
      then show ?thesis using end' same by (auto simp add: linked_def)
    qed
  qed
qed

definition unverifiedProfile :: providerProfile where
  "unverifiedProfile = \<lparr>pp_id = ''42'', pp_username = ''mallory'', pp_displayName = None, pp_emails = [],
     pp_email = Some ''root@x'', pp_verified = False\<rparr>"

lemma unverifiedProfile_runs:
  "case strategy_validate sampleEnv [] Discord unverifiedProfile sampleWorld of (Inr u, w) \<Rightarrow> True | _ \<Rightarrow> False"
  by code_simp

theorem provider_login_account_witness:
  "\<exists>u w'. strategy_validate sampleEnv [] Discord unverifiedProfile sampleWorld = (Inr u, w') \<and> u_id u = ''root''"
proof -
  obtain u w' where run: "strategy_validate sampleEnv [] Discord unverifiedProfile sampleWorld = (Inr u, w')"
    using unverifiedProfile_runs by (auto split: prod.splits sum.splits)
  then show ?thesis using provider_login_account [OF run]
    by (auto simp: sample_defs unverifiedProfile_def)
qed

text \<open>A Google account without address has no account to enter unless one is linked to it.\<close>

lemma google_without_address_is_refused:
  "pp_emails prof = [] \<Longrightarrow> List.find (\<lambda>u. providerId Google u = Some (pp_id prof)) (t_users (w_db w)) = None \<Longrightarrow>
   strategy_validate E noKey Google prof w = (Inl (JsError noKey), w)"
  by (simp add: strategy_validate_def prog_simps)

lemma google_name: "strategyUsername Google (unverifiedProfile\<lparr>pp_displayName := Some ''Ada  B C''\<rparr>) = ''Ada_B_C''"
  by code_simp

end
