(* ===== verification/Spec2Isabelle.thy ===== *)
theory Spec2Isabelle
  imports Server_Properties Identity_Properties Operations_Properties System_Properties
    Mods_Properties Billing_Properties Gateway_Properties Config Seed_Properties Routes
    Client_Properties Session_Properties Dashboard_Properties Panel_Properties Panel_Backend
    Display_Properties Forms_Properties Enrolment Strategies
begin

text \<open>
  Verification development of Elysia Panel, a panel that manages game servers: the backend
  (\<^verbatim>\<open>backend/src\<close>), a NestJS application over a PostgreSQL database, which drives one daemon per
  node through gRPC; and its clients, the dashboard (\<^verbatim>\<open>dashboard/src\<close>), the TypeScript SDK
  (\<^verbatim>\<open>sdk/typescript\<close>) and the command line (\<^verbatim>\<open>cli\<close>).

  \<^bold>\<open>The program.\<close> A request passes the authentication guard (a JWT or an API key), the guard of
  the permissions its route declares, and the handler of a controller, which calls a service.
  The services share the database, the clients of the daemons and the audit log; two of them
  leave jobs behind that run later (the provisioning of a server, the making of a backup), a
  loop runs the scheduled tasks that are due, and a gateway keeps streams of the daemons open
  for the sockets of the dashboard. The dashboard keeps two tokens in the storage of the browser,
  which all its requests share, refreshes them when a request is refused, and caches what its
  pages read; its panels follow the console and the statistics of a server on one socket.

  \<^bold>\<open>State and effects.\<close> \<open>World.world\<close> is the state all handlers run in: the database (one list
  of rows per table of \<^verbatim>\<open>prisma/schema.prisma\<close>), the clients of the daemons, the trace of the
  calls made to daemons and of the URLs fetched, the jobs started and not yet run, and a
  counter that advances with every answer of the outside. A handler is a function of the type
  \<open>'a io\<close>, from a world to an exception or a value and the world it leaves: an exception keeps
  the writes made before it, as an awaited sequence of queries does, and \<open>transaction\<close> undoes
  those of the database. What is not code of the repository is an argument: \<open>env\<close> has the
  configuration, the clock, random values, hashes, signatures, TOTP codes, cron dates and the
  answers of the daemons, each a function of the counter and of what it is asked;
  \<open>modsEnv\<close> the catalogues, zip archives and parsed JSON; \<open>stripeEnv\<close> the Stripe library;
  \<open>apiEnv\<close> these and the profile of an OAuth callback.

  \<^bold>\<open>Theories and the code they model.\<close>
  \<^item> \<open>Elysia_Prelude\<close>: exceptions, the state and exception monad with its rules (\<open>run_Inr\<close>
    inverts a successful run, \<open>prog_simps\<close> runs a program forward), strings and numbers of
    JavaScript. \<open>Doubles\<close>: rounding to 53 bits, for the divisions and products of the choice of
    a node.
  \<^item> \<open>Schema\<close>, \<open>World\<close>, \<open>Tables\<close>: the rows, the queries of Prisma, the unique constraints, the
    foreign keys and the ON DELETE actions of \<^verbatim>\<open>prisma/schema.prisma\<close>. The locale \<open>table\<close> of
    \<open>Tables\<close> states what a query promises about one table, and is interpreted for each table
    the proofs need.
  \<^item> \<open>NodeClient\<close>: \<^verbatim>\<open>grpc-client/node-client.service.ts\<close>. \<open>AuditLog\<close>: \<^verbatim>\<open>audit\<close>. \<open>Access\<close>: the
    permissions guard, the node secret guard, \<^verbatim>\<open>common/url-safety.ts\<close>, the exception filter.
  \<^item> \<open>Nodes\<close>, \<open>Servers\<close>: \<^verbatim>\<open>nodes/nodes.service.ts\<close> and \<^verbatim>\<open>servers/servers.service.ts\<close>, with
    \<open>Server_Facts\<close> for the lemmas about them.
  \<^item> \<open>Auth\<close>, \<open>ApiKeys\<close>, \<open>Users\<close>: accounts, tokens, the second factor, OAuth, API keys, the
    authentication guard, roles (\<^verbatim>\<open>auth\<close>, \<^verbatim>\<open>api-keys\<close>, \<^verbatim>\<open>users\<close>, \<^verbatim>\<open>roles\<close>). \<open>Strategies\<close>:
    \<^verbatim>\<open>auth/strategies\<close>, what a profile of GitHub, Google or Discord becomes and the account its
    login ends in.
  \<^item> \<open>Backups\<close>, \<open>Files\<close>: \<^verbatim>\<open>backups\<close>, \<^verbatim>\<open>scheduled-tasks\<close>, \<^verbatim>\<open>files\<close> with the SFTP
    authentication.
  \<^item> \<open>Marketplace\<close>, \<open>Mods\<close>, \<open>Billing\<close>, \<open>Support\<close>: \<^verbatim>\<open>marketplace\<close>, \<^verbatim>\<open>templates\<close>, \<^verbatim>\<open>mods\<close>,
    \<^verbatim>\<open>billing\<close>, \<^verbatim>\<open>support\<close>, \<^verbatim>\<open>monitoring\<close>.
  \<^item> \<open>Gateway\<close>: \<^verbatim>\<open>websocket/console.gateway.ts\<close> as a step relation on a world and a socket.
  \<^item> \<open>Config\<close>: \<^verbatim>\<open>config/configuration.ts\<close> and the check of the secrets of \<^verbatim>\<open>main.ts\<close>.
  \<^item> \<open>Controllers\<close>, \<open>CommerceControllers\<close>, \<open>Api\<close>: every route of every controller, with the
    permissions it declares; the order of the guards; and \<open>systemStep\<close>, the step relation of the
    whole backend, whose steps are requests, the two halves of a creation of a server, jobs
    and runs of the scheduler.
  \<^item> \<open>Routes\<close>: what the decorators of the controllers declare, and the handler a request leads
    to. \<open>Seed\<close>: \<^verbatim>\<open>prisma/seed.ts\<close>, with \<open>Seed_Properties\<close> for its effect on a new database.
  \<^item> \<open>Route_Paths\<close>, \<open>Requests\<close>: the method, the target and the body of the request of each route,
    from the decorators and the parameters of its handler: what a client has to send.
  \<^item> \<open>Client\<close>: \<^verbatim>\<open>sdk/typescript/src/index.ts\<close> and \<^verbatim>\<open>cli/src/index.ts\<close>, over a network that is an
    argument.
  \<^item> \<open>Session\<close>: \<^verbatim>\<open>dashboard/src/lib/api-client.ts\<close> and \<^verbatim>\<open>auth-context.tsx\<close>: \<open>panel_request\<close> is a
    request that runs alone, \<open>clientStep\<close> the step relation of any number of them.
    \<open>Dashboard\<close>, \<open>Panels\<close>: the queries and the mutations of the pages (\<^verbatim>\<open>dashboard/src/app\<close>) and of
    the panels (\<^verbatim>\<open>dashboard/src/components/panel\<close>), one \<open>_init\<close> (the request), \<open>_success\<close> and
    \<open>_error\<close> (the callbacks) per page. \<open>Live\<close>: \<^verbatim>\<open>dashboard/src/lib/socket.ts\<close>, the console, the
    statistics, the navigation. \<open>Dashboard_Calls\<close>: all calls of the dashboard and their routes.
    \<open>Panel_Backend\<close>: the dashboard with the application of \<open>Api\<close> as its network.
  \<^item> \<open>Forms\<close>: the state of the pages between the requests. \<open>formStep\<close> and \<open>dialogStep\<close> are the machine
    of every form (what is typed, the pending mutation, the dialog), and each form is its
    condition to be submitted, \<open>_valid\<close>, and what its success leaves in the fields, \<open>_after\<close>; the
    cards of a role, of the second factor and of the API keys, the dialogs for a new password and
    for an installation, and the file manager have machines of their own. The button of a mutation
    outside a form is a form whose fields are the argument of the mutation.
    \<open>Display\<close>: what the pages compute from their data, in doubles: prices, sizes, badges, the meters
    and bars of the monitoring page, the curves of the statistics, the account of the SFTP panel.
  \<^item> \<open>System\<close>: what every operation of the backend leaves alone or keeps.
  \<^item> \<open>Sample\<close>, \<open>Sample_Services\<close>: a concrete environment and database, at which every theorem
    with hypotheses is instantiated.

  A definition has the name of the function it translates, with the module in front where
  several have it (\<open>servers_create\<close> is \<open>ServersService.create\<close>); a pair of \<open>_required\<close> and
  \<open>_handle\<close> is a controller. French messages are kept without accents.

  \<^bold>\<open>What the theorems show.\<close> \<open>System_Properties\<close> has the properties that span the components:
  the invariant of the infrastructure over all reachable states, who reaches a handler, what an
  error response reveals. \<open>Server_Properties\<close>: the contract of a creation, its atomicity and
  capacity, ports, power actions, provisioning, deletion. \<open>Identity_Properties\<close>: who passes the
  guards, rotation and revocation of tokens, second factor, OAuth, keys, roles.
  \<open>Operations_Properties\<close>: backups, restorations, the scheduler, files, SFTP.
  \<open>Mods_Properties\<close>: the URLs that are fetched, the files that are written.
  \<open>Billing_Properties\<close>: coupons, invoice numbers, the webhook, tickets. \<open>Gateway_Properties\<close>:
  the streams of a socket. \<open>Config\<close>: the secrets of production. \<open>Client_Properties\<close> and
  \<open>Dashboard_Properties\<close>: each call of the SDK and of the dashboard is the request of one route
  and reaches its handler, and what a page offers passes the guard of the backend.
  \<open>Session_Properties\<close>: the tokens under overlapping requests. \<open>Panel_Properties\<close>: the form of
  the settings, the audit log, the console and the socket, with what the backend does.
  \<open>Panel_Backend\<close>: a login from the page to the database and back. \<open>Forms_Properties\<close>: the locale
  \<open>cleared_form\<close>, of a form whose success empties it below what may be submitted, with an
  interpretation for each of the fourteen forms that are so; the card of a role and the enrolment
  in the second factor, from the clicks to the database; the file manager as a stack of folders.
  \<open>Display_Properties\<close>: amounts and curves in spite of the rounding, the monitoring page, the SFTP
  account with the authentication of the daemon. \<open>Strategies\<close>: the account of a login through a
  provider. Several theorems record a
  behaviour that the code has and probably should not have; the text above each says so.

  \<^bold>\<open>Bounds.\<close> All definitions are total and no fuel is used (\<open>loadMore\<close> counts the clicks of the
  user): the loops of the code are recursions
  on lists, but for the search of a port, whose measure is the distance to the end of the
  range. Columns of the type Int are refused outside 32 bits where the code writes a value it
  does not control. Numbers are exact integers where a double holds them exactly, and rounded
  (\<open>Doubles\<close>) where the code divides or multiplies by a fraction.

  \<^bold>\<open>Interleaving.\<close> The handlers run one after the other, except where the order of their parts
  decides a property: a creation of a server is split at its transaction, a subscription of
  the gateway at its access check, and the overlapping of two deliveries of the webhook and of
  two creations is shown on concrete runs.

  \<^bold>\<open>Not modelled.\<close> The rate limiter, CORS, Swagger, the parsing of HTTP requests and the
  validator's rule for an email address belong to the framework; the redirections an HTTP
  client follows; log lines; columns no code reads or writes; the modules, which only declare
  what is injected where; the exchange of passport with a provider. Of the dashboard the markup,
  dates and numbers in the language of the browser, the intervals at which queries are read again,
  and the component library (\<^verbatim>\<open>dashboard/src/components/ui\<close>): generated wrappers that add classes, whose
  one file with state, \<^verbatim>\<open>ui/sidebar.tsx\<close>, no page imports. The SDKs for other languages and the
  daemon, which is written in Go; the installer, a shell script.
\<close>

end
